(* ===== verification/Prelude.thy ===== *)
theory Prelude
  imports Main "HOL-Library.Word"
begin

text \<open>
  Shared vocabulary of the development: outcomes of fallible code, programs over an
  explicit state, the SQL statements the persistence crate issues (as functions on a
  table, a list of rows in insertion order), and time.

  A Rust function that returns a \<open>Result\<close> and acts on the database is a program
  \<open>'s \<Rightarrow> ('e, 'a) outcome \<times> 's\<close>. There is no transaction around a handler, so the
  effects of the statements before an early return stay: the state is returned beside
  the error. A panic (a failed \<open>unwrap\<close>) is an outcome of its own, which no
  \<open>Result\<close> combinator catches.
\<close>

named_theorems prog_simps "evaluation of program combinators"
named_theorems keeps_intros "rules that build up preservation of an invariant"
named_theorems sql_simps "facts on tables"

section \<open>Basic types\<close>

type_synonym uuid = nat
type_synonym byte = "8 word"
type_synonym bytes = "byte list"

text \<open>
  \<open>DateTime<Utc>\<close> and \<open>TIMESTAMPTZ\<close> are microseconds since the epoch (the precision
  Postgres stores).
\<close>

type_synonym instant = int

definition seconds :: "int \<Rightarrow> int" where
  "seconds n = n * 1000000"

definition minutes :: "int \<Rightarrow> int" where
  "minutes n = seconds (n * 60)"

definition hours :: "int \<Rightarrow> int" where
  "hours n = seconds (n * 3600)"

definition days :: "int \<Rightarrow> int" where
  "days n = seconds (n * 86400)"

text \<open>\<open>TimeDelta::num_seconds\<close>: whole seconds, truncated towards zero.\<close>

definition num_seconds :: "int \<Rightarrow> int" where
  "num_seconds d = sgn d * (\<bar>d\<bar> div 1000000)"

lemmas time_defs = seconds_def minutes_def hours_def days_def

lemma seconds_mono: "a \<le> b \<Longrightarrow> seconds a \<le> seconds b"
  by (simp add: seconds_def)

lemma seconds_pos: "0 < n \<Longrightarrow> 0 < seconds n"
  by (simp add: seconds_def)

lemma num_seconds_seconds [simp]: "num_seconds (seconds n) = n"
  by (auto simp: num_seconds_def seconds_def abs_mult sgn_mult sgn_if)

text \<open>Rust's rendering of integers.\<close>

fun dec_digits :: "nat \<Rightarrow> string" where
  "dec_digits n = (if n < 10 then [char_of (48 + n)] else dec_digits (n div 10) @ [char_of (48 + n mod 10)])"

declare dec_digits.simps [simp del]

definition dec :: "int \<Rightarrow> string" where
  "dec i = (if i < 0 then CHR ''-'' # dec_digits (nat (- i)) else dec_digits (nat i))"

section \<open>Outcomes and programs\<close>

datatype ('e, 'a) outcome = Ok 'a | Err 'e | Panic string

type_synonym ('s, 'e, 'a) prog = "'s \<Rightarrow> ('e, 'a) outcome \<times> 's"

definition ret :: "'a \<Rightarrow> ('s, 'e, 'a) prog" where
  "ret x = (\<lambda>s. (Ok x, s))"

definition throw :: "'e \<Rightarrow> ('s, 'e, 'a) prog" where
  "throw e = (\<lambda>s. (Err e, s))"

definition panic :: "string \<Rightarrow> ('s, 'e, 'a) prog" where
  "panic msg = (\<lambda>s. (Panic msg, s))"

definition bind :: "('s, 'e, 'a) prog \<Rightarrow> ('a \<Rightarrow> ('s, 'e, 'b) prog) \<Rightarrow> ('s, 'e, 'b) prog" where
  "bind m f = (\<lambda>s. case m s of
      (Ok x, s') \<Rightarrow> f x s'
    | (Err e, s') \<Rightarrow> (Err e, s')
    | (Panic p, s') \<Rightarrow> (Panic p, s'))"

definition andthen :: "('s, 'e, 'a) prog \<Rightarrow> ('s, 'e, 'b) prog \<Rightarrow> ('s, 'e, 'b) prog" where
  "andthen m n = bind m (\<lambda>_. n)"

definition gets :: "('s \<Rightarrow> 'a) \<Rightarrow> ('s, 'e, 'a) prog" where
  "gets f = (\<lambda>s. (Ok (f s), s))"

definition modify :: "('s \<Rightarrow> 's) \<Rightarrow> ('s, 'e, unit) prog" where
  "modify f = (\<lambda>s. (Ok (), f s))"

text \<open>\<open>ok_or\<close>, an early return under a condition, and the error conversion of \<open>?\<close>.\<close>

definition ok_or :: "'e \<Rightarrow> 'a option \<Rightarrow> ('s, 'e, 'a) prog" where
  "ok_or e x = (case x of None \<Rightarrow> throw e | Some y \<Rightarrow> ret y)"

definition reject_if :: "bool \<Rightarrow> 'e \<Rightarrow> ('s, 'e, unit) prog" where
  "reject_if b e = (if b then throw e else ret ())"

definition of_sum :: "('e + 'a) \<Rightarrow> ('s, 'e, 'a) prog" where
  "of_sum x = (case x of Inl e \<Rightarrow> throw e | Inr y \<Rightarrow> ret y)"

definition map_err :: "('e \<Rightarrow> 'f) \<Rightarrow> ('s, 'e, 'a) prog \<Rightarrow> ('s, 'f, 'a) prog" where
  "map_err g m = (\<lambda>s. case m s of
      (Ok x, s') \<Rightarrow> (Ok x, s')
    | (Err e, s') \<Rightarrow> (Err (g e), s')
    | (Panic p, s') \<Rightarrow> (Panic p, s'))"

text \<open>\<open>match\<close> on a \<open>Result\<close> (the error becomes a value) and \<open>let _ = ...\<close>.\<close>

definition attempt :: "('s, 'e, 'a) prog \<Rightarrow> ('s, 'f, 'e + 'a) prog" where
  "attempt m = (\<lambda>s. case m s of
      (Ok x, s') \<Rightarrow> (Ok (Inr x), s')
    | (Err e, s') \<Rightarrow> (Ok (Inl e), s')
    | (Panic p, s') \<Rightarrow> (Panic p, s'))"

definition ignore :: "('s, 'e, 'a) prog \<Rightarrow> ('s, 'f, unit) prog" where
  "ignore m = bind (attempt m) (\<lambda>_. ret ())"

fun for_each :: "('a \<Rightarrow> ('s, 'e, unit) prog) \<Rightarrow> 'a list \<Rightarrow> ('s, 'e, unit) prog" where
  "for_each f [] = ret ()"
| "for_each f (x # xs) = andthen (f x) (for_each f xs)"

fun collect :: "('a \<Rightarrow> ('s, 'e, 'b) prog) \<Rightarrow> 'a list \<Rightarrow> ('s, 'e, 'b list) prog" where
  "collect f [] = ret []"
| "collect f (x # xs) = bind (f x) (\<lambda>y. bind (collect f xs) (\<lambda>ys. ret (y # ys)))"

lemma ret_app [simp, prog_simps]: "ret x s = (Ok x, s)"
  by (simp add: ret_def)

lemma throw_app [simp, prog_simps]: "throw e s = (Err e, s)"
  by (simp add: throw_def)

lemma panic_app [simp, prog_simps]: "panic p s = (Panic p, s)"
  by (simp add: panic_def)

lemma gets_app [simp, prog_simps]: "gets f s = (Ok (f s), s)"
  by (simp add: gets_def)

lemma modify_app [simp, prog_simps]: "modify f s = (Ok (), f s)"
  by (simp add: modify_def)

lemma bind_ret [simp]: "bind (ret x) f = f x"
  by (simp add: bind_def fun_eq_iff)

lemma bind_throw [simp]: "bind (throw e) f = throw e"
  by (simp add: bind_def fun_eq_iff)

lemma bind_gets [simp, prog_simps]: "bind (gets g) f s = f (g s) s"
  by (simp add: bind_def)

lemma bind_assoc: "bind (bind m f) g = bind m (\<lambda>x. bind (f x) g)"
  by (auto simp: bind_def fun_eq_iff split: prod.splits outcome.splits)

lemma bind_Ok: "m s = (Ok x, s') \<Longrightarrow> bind m f s = f x s'"
  by (simp add: bind_def)

lemma bind_Err: "m s = (Err e, s') \<Longrightarrow> bind m f s = (Err e, s')"
  by (simp add: bind_def)

lemma bind_Panic: "m s = (Panic p, s') \<Longrightarrow> bind m f s = (Panic p, s')"
  by (simp add: bind_def)

lemmas bind_steps = bind_Ok bind_Err bind_Panic

lemma bind_eq_Ok:
  "bind m f s = (Ok y, t) \<longleftrightarrow> (\<exists>x u. m s = (Ok x, u) \<and> f x u = (Ok y, t))"
  by (auto simp: bind_def split: prod.splits outcome.splits)

lemma andthen_eq_Ok:
  "andthen m n s = (Ok y, t) \<longleftrightarrow> (\<exists>x u. m s = (Ok x, u) \<and> n u = (Ok y, t))"
  by (simp add: andthen_def bind_eq_Ok)

lemma andthen_Ok: "m s = (Ok x, s') \<Longrightarrow> andthen m n s = n s'"
  by (simp add: andthen_def bind_Ok)

lemma andthen_Err: "m s = (Err e, s') \<Longrightarrow> andthen m n s = (Err e, s')"
  by (simp add: andthen_def bind_Err)

lemma andthen_ret [simp]: "andthen (ret x) n = n"
  by (simp add: andthen_def)

lemma andthen_throw [simp]: "andthen (throw e) n = throw e"
  by (simp add: andthen_def)

lemma ok_or_simps [simp]: "ok_or e None = throw e" "ok_or e (Some x) = ret x"
  by (simp_all add: ok_or_def)

lemma reject_if_simps [simp]: "reject_if True e = throw e" "reject_if False e = ret ()"
  by (simp_all add: reject_if_def)

lemma of_sum_simps [simp]: "of_sum (Inl e) = throw e" "of_sum (Inr x) = ret x"
  by (simp_all add: of_sum_def)

lemma map_err_Ok_iff: "map_err g m s = (Ok x, t) \<longleftrightarrow> m s = (Ok x, t)"
  by (auto simp: map_err_def split: prod.splits outcome.splits)

lemma map_err_Ok: "m s = (Ok x, t) \<Longrightarrow> map_err g m s = (Ok x, t)"
  by (simp add: map_err_def)

lemma map_err_Err: "m s = (Err e, t) \<Longrightarrow> map_err g m s = (Err (g e), t)"
  by (simp add: map_err_def)

lemma snd_map_err [simp]: "snd (map_err g m s) = snd (m s)"
  by (auto simp: map_err_def split: prod.splits outcome.splits)

lemma attempt_Ok: "m s = (Ok x, t) \<Longrightarrow> attempt m s = (Ok (Inr x), t)"
  by (simp add: attempt_def)

lemma attempt_Err: "m s = (Err e, t) \<Longrightarrow> attempt m s = (Ok (Inl e), t)"
  by (simp add: attempt_def)

lemma ignore_Ok: "m s = (Ok x, t) \<Longrightarrow> ignore m s = (Ok (), t)"
  by (simp add: ignore_def bind_def attempt_def)

lemma ignore_Err: "m s = (Err e, t) \<Longrightarrow> ignore m s = (Ok (), t)"
  by (simp add: ignore_def bind_def attempt_def)

lemma snd_ignore: "snd (ignore m s) = snd (m s)"
  by (simp add: ignore_def bind_def attempt_def split: prod.split outcome.split)

lemma bind_cong [fundef_cong]:
  assumes "m1 s = m2 s" and "\<And>x t. m2 s = (Ok x, t) \<Longrightarrow> f1 x t = f2 x t" and "s = s'"
  shows "bind m1 f1 s = bind m2 f2 s'"
  using assms by (auto simp: bind_def split: prod.splits outcome.splits)

section \<open>Preservation of an invariant by a program\<close>

definition keeps :: "('s \<Rightarrow> bool) \<Rightarrow> ('s, 'e, 'a) prog \<Rightarrow> bool" where
  "keeps I m \<longleftrightarrow> (\<forall>s. I s \<longrightarrow> I (snd (m s)))"

lemma keepsI: "(\<And>s. I s \<Longrightarrow> I (snd (m s))) \<Longrightarrow> keeps I m"
  by (simp add: keeps_def)

lemma keepsD: "keeps I m \<Longrightarrow> I s \<Longrightarrow> I (snd (m s))"
  by (simp add: keeps_def)

lemma keepsD': "keeps I m \<Longrightarrow> m s = (r, t) \<Longrightarrow> I s \<Longrightarrow> I t"
  using keepsD by fastforce

lemma keeps_ret [keeps_intros, simp]: "keeps I (ret x)"
  by (simp add: keeps_def)

lemma keeps_throw [keeps_intros, simp]: "keeps I (throw e)"
  by (simp add: keeps_def)

lemma keeps_panic [keeps_intros, simp]: "keeps I (panic e)"
  by (simp add: keeps_def)

lemma keeps_gets [keeps_intros, simp]: "keeps I (gets f)"
  by (simp add: keeps_def)

lemma keeps_bind [keeps_intros]: "keeps I m \<Longrightarrow> (\<And>x. keeps I (f x)) \<Longrightarrow> keeps I (bind m f)"
  by (fastforce simp: keeps_def bind_def split: prod.splits outcome.splits)

lemma keeps_andthen [keeps_intros]: "keeps I m \<Longrightarrow> keeps I n \<Longrightarrow> keeps I (andthen m n)"
  by (simp add: andthen_def keeps_bind)

lemma keeps_ok_or [keeps_intros, simp]: "keeps I (ok_or e x)"
  by (cases x) auto

lemma keeps_reject_if [keeps_intros, simp]: "keeps I (reject_if b e)"
  by (cases b) auto

lemma keeps_of_sum [keeps_intros, simp]: "keeps I (of_sum x)"
  by (cases x) auto

lemma keeps_map_err [keeps_intros]: "keeps I m \<Longrightarrow> keeps I (map_err g m)"
  by (simp add: keeps_def)

lemma keeps_attempt [keeps_intros]: "keeps I m \<Longrightarrow> keeps I (attempt m)"
  by (fastforce simp: keeps_def attempt_def split: prod.splits outcome.splits)

lemma keeps_ignore [keeps_intros]: "keeps I m \<Longrightarrow> keeps I (ignore m)"
  by (simp add: ignore_def keeps_bind keeps_attempt)

lemma keeps_if [keeps_intros]: "(b \<Longrightarrow> keeps I m) \<Longrightarrow> (\<not> b \<Longrightarrow> keeps I n) \<Longrightarrow> keeps I (if b then m else n)"
  by simp

lemma keeps_case_option [keeps_intros]:
  "keeps I m \<Longrightarrow> (\<And>x. keeps I (f x)) \<Longrightarrow> keeps I (case opt of None \<Rightarrow> m | Some x \<Rightarrow> f x)"
  by (cases opt) auto

lemma keeps_case_prod [keeps_intros]:
  "(\<And>x y. keeps I (f x y)) \<Longrightarrow> keeps I (case p of (x, y) \<Rightarrow> f x y)"
  by (cases p) auto

lemma keeps_case_sum [keeps_intros]:
  "(\<And>x. keeps I (f x)) \<Longrightarrow> (\<And>x. keeps I (g x)) \<Longrightarrow> keeps I (case p of Inl x \<Rightarrow> f x | Inr x \<Rightarrow> g x)"
  by (cases p) auto

lemma keeps_Let [keeps_intros]: "(\<And>x. keeps I (f x)) \<Longrightarrow> keeps I (let x = v in f x)"
  by simp

lemma keeps_for_each [keeps_intros]: "(\<And>x. keeps I (f x)) \<Longrightarrow> keeps I (for_each f xs)"
  by (induction xs) (auto intro: keeps_intros)

lemma keeps_collect [keeps_intros]: "(\<And>x. keeps I (f x)) \<Longrightarrow> keeps I (collect f xs)"
  by (induction xs) (auto intro!: keeps_bind)

lemma keeps_modify: "(\<And>s. I s \<Longrightarrow> I (f s)) \<Longrightarrow> keeps I (modify f)"
  by (simp add: keeps_def)

text \<open>A reader of the state alone: it keeps everything.\<close>

definition pure_read :: "('s, 'e, 'a) prog \<Rightarrow> bool" where
  "pure_read m \<longleftrightarrow> (\<forall>s. snd (m s) = s)"

lemma pure_readD: "pure_read m \<Longrightarrow> snd (m s) = s"
  by (simp add: pure_read_def)

lemma pure_read_keeps: "pure_read m \<Longrightarrow> keeps I m"
  by (simp add: pure_read_def keeps_def)

lemma pure_read_iff_keeps: "pure_read m \<longleftrightarrow> (\<forall>c. keeps (\<lambda>s. s = c) m)"
  by (auto simp: pure_read_def keeps_def)

section \<open>SQL statements on tables\<close>

definition sql_select :: "('r \<Rightarrow> bool) \<Rightarrow> 'r list \<Rightarrow> 'r list" where
  "sql_select P t = filter P t"

definition sql_first :: "('r \<Rightarrow> bool) \<Rightarrow> 'r list \<Rightarrow> 'r option" where
  "sql_first P t = List.find P t"

definition sql_update :: "('r \<Rightarrow> bool) \<Rightarrow> ('r \<Rightarrow> 'r) \<Rightarrow> 'r list \<Rightarrow> 'r list" where
  "sql_update P f t = map (\<lambda>r. if P r then f r else r) t"

definition sql_delete :: "('r \<Rightarrow> bool) \<Rightarrow> 'r list \<Rightarrow> 'r list" where
  "sql_delete P t = filter (\<lambda>r. \<not> P r) t"

definition sql_count :: "('r \<Rightarrow> bool) \<Rightarrow> 'r list \<Rightarrow> int" where
  "sql_count P t = int (length (filter P t))"

text \<open>\<open>ORDER BY\<close>: a stable sort; rows with equal keys keep their insertion order.\<close>

definition order_by :: "('r \<Rightarrow> int) \<Rightarrow> 'r list \<Rightarrow> 'r list" where
  "order_by k t = sort_key k t"

definition order_by_desc :: "('r \<Rightarrow> int) \<Rightarrow> 'r list \<Rightarrow> 'r list" where
  "order_by_desc k t = sort_key (\<lambda>r. - k r) t"

definition coalesce :: "'a option \<Rightarrow> 'a option \<Rightarrow> 'a option" where
  "coalesce a b = (case a of None \<Rightarrow> b | Some x \<Rightarrow> Some x)"

lemma coalesce_simps [simp]: "coalesce None b = b" "coalesce (Some x) b = Some x"
  by (simp_all add: coalesce_def)

lemma set_sql_select [simp, sql_simps]: "set (sql_select P t) = {r \<in> set t. P r}"
  by (simp add: sql_select_def)

lemma set_sql_delete [simp, sql_simps]: "set (sql_delete P t) = {r \<in> set t. \<not> P r}"
  by (simp add: sql_delete_def)

lemma set_sql_update [simp, sql_simps]:
  "set (sql_update P f t) = (\<lambda>r. if P r then f r else r) ` set t"
  by (simp add: sql_update_def)

lemma set_order_by [simp, sql_simps]: "set (order_by k t) = set t" "set (order_by_desc k t) = set t"
  by (simp_all add: order_by_def order_by_desc_def)

lemma sql_first_Some: "sql_first P t = Some r \<Longrightarrow> r \<in> set t \<and> P r"
  by (auto simp: sql_first_def find_Some_iff)

lemma sql_first_None: "sql_first P t = None \<longleftrightarrow> (\<forall>r \<in> set t. \<not> P r)"
  by (auto simp: sql_first_def find_None_iff)

lemma sql_delete_twice: "sql_delete Q (sql_delete P t) = sql_delete (\<lambda>r. P r \<or> Q r) t"
  by (simp add: sql_delete_def)

lemma sql_delete_False: "(\<And>r. r \<in> set t \<Longrightarrow> \<not> P r) \<Longrightarrow> sql_delete P t = t"
  by (simp add: sql_delete_def)

lemma distinct_order_by: "distinct (order_by k t) = distinct t"
  by (simp add: order_by_def)

lemma sql_first_append:
  "sql_first P (t @ u) = (case sql_first P t of None \<Rightarrow> sql_first P u | Some r \<Rightarrow> Some r)"
  by (induction t) (auto simp: sql_first_def)

lemma sql_first_simps [simp, sql_simps]:
  "sql_first P [] = None"
  "sql_first P (r # t) = (if P r then Some r else sql_first P t)"
  by (simp_all add: sql_first_def)

lemma sql_update_simps [simp, sql_simps]:
  "sql_update P f [] = []"
  "sql_update P f (r # t) = (if P r then f r else r) # sql_update P f t"
  by (simp_all add: sql_update_def)

lemma sql_update_append: "sql_update P f (t @ u) = sql_update P f t @ sql_update P f u"
  by (simp add: sql_update_def)

lemma length_sql_update [simp, sql_simps]: "length (sql_update P f t) = length t"
  by (simp add: sql_update_def)

lemma sql_update_none: "(\<And>r. r \<in> set t \<Longrightarrow> \<not> P r) \<Longrightarrow> sql_update P f t = t"
  by (induction t) auto

text \<open>A statement that does not touch the columns a condition reads keeps its rows.\<close>

lemma sql_first_update:
  assumes "\<And>r. P (f r) = P r"
  shows "sql_first P (sql_update Q f t) = map_option (\<lambda>r. if Q r then f r else r) (sql_first P t)"
  using assms by (induction t) auto

lemma sql_count_update:
  assumes "\<And>r. P (f r) = P r"
  shows "sql_count P (sql_update Q f t) = sql_count P t"
proof -
  have "filter P (sql_update Q f t) = map (\<lambda>r. if Q r then f r else r) (filter P t)"
    using assms by (induction t) auto
  then show ?thesis by (simp add: sql_count_def)
qed

lemma map_sql_update:
  assumes "\<And>r. g (f r) = g r"
  shows "map g (sql_update Q f t) = map g t"
  using assms by (induction t) auto

text \<open>Tables with a key.\<close>

definition keyed :: "('r \<Rightarrow> 'k) \<Rightarrow> 'r list \<Rightarrow> bool" where
  "keyed k t \<longleftrightarrow> distinct (map k t)"

lemma keyed_append: "keyed k (t @ [r]) \<longleftrightarrow> keyed k t \<and> k r \<notin> k ` set t"
  by (auto simp: keyed_def)

lemma keyed_update: "(\<And>r. k (f r) = k r) \<Longrightarrow> keyed k (sql_update P f t) = keyed k t"
  by (simp add: keyed_def map_sql_update)

lemma keyed_delete: "keyed k t \<Longrightarrow> keyed k (sql_delete P t)"
  by (simp add: keyed_def sql_delete_def distinct_map_filter)

lemma keyed_distinct: "keyed k t \<Longrightarrow> distinct t"
  by (auto simp: keyed_def distinct_map)

lemma keyed_unique: "keyed k t \<Longrightarrow> r \<in> set t \<Longrightarrow> r' \<in> set t \<Longrightarrow> k r = k r' \<Longrightarrow> r = r'"
  by (auto simp: keyed_def distinct_map dest: inj_onD)

lemma keyed_first: "keyed k t \<Longrightarrow> r \<in> set t \<Longrightarrow> sql_first (\<lambda>x. k x = k r) t = Some r"
  by (induction t) (auto simp: keyed_def)

text \<open>\<open>rows_affected() == 1\<close> for a condition on a key column.\<close>

lemma sql_count_keyed:
  assumes "keyed k t"
  shows "sql_count (\<lambda>r. k r = x \<and> P r) t = (if \<exists>r \<in> set t. k r = x \<and> P r then 1 else 0)"
  using assms
proof (induction t)
  case Nil
  then show ?case by (simp add: sql_count_def)
next
  case (Cons a t)
  have t: "keyed k t" and a: "k a \<notin> k ` set t"
    using Cons.prems by (auto simp: keyed_def)
  show ?case
  proof (cases "x = k a")
    case True
    have ne: "k r \<noteq> x" if "r \<in> set t" for r
      using a True that by (metis imageI)
    have "filter (\<lambda>r. k r = x \<and> P r) t = []"
      using ne by (auto simp: filter_empty_conv)
    moreover have "\<not> (\<exists>r \<in> set t. k r = x \<and> P r)"
      using ne by auto
    ultimately show ?thesis
      using True by (simp add: sql_count_def)
  next
    case False
    then show ?thesis
      using Cons.IH [OF t] by (auto simp: sql_count_def)
  qed
qed

end
