(* ===== verification/Core.thy ===== *)
theory Core
  imports Prelude
begin

text \<open>
  The domain crate \<open>beacon-core\<close> (src/crates/beacon-core/src/lib.rs): typed identifiers,
  the enums stored as text columns with their two conversions, the entities, the plan
  registry and the vault transition table. Trigger scoring is in the theory Scoring.
\<close>

section \<open>Identifiers\<close>

datatype principal_id = PrincipalId (principal_uuid: uuid)
datatype vault_id = VaultId (vault_uuid: uuid)
datatype letter_id = LetterId (letter_uuid: uuid)
datatype subscription_id = SubscriptionId (subscription_uuid: uuid)
datatype release_event_id = ReleaseEventId (release_event_uuid: uuid)
datatype buddy_id = BuddyId (buddy_uuid: uuid)
datatype attachment_id = AttachmentId (attachment_uuid: uuid)
datatype co_steward_id = CoStewardId (co_steward_uuid: uuid)

section \<open>Enums\<close>

datatype tier = HonestOperator | ZeroKnowledge

datatype vault_state =
  Active | Suspicious | Alert | CoolingOff | Releasing | Released | Archived

datatype subscription_state = Trialing | SubActive | PastDue | Canceled | Expired | Deleted

datatype plan_id = SelfHosted

datatype release_reason =
  SignalTrigger | ReasonGuardianAttestation | Drill | ManualPrincipalRelease | Scheduled

datatype release_mode = SignalOrScheduled | ScheduledOnly | SignalOnly | EventOnDemand

datatype signal_source =
  Heartbeat | AppleIcloudShortcut | MicrosoftAccount | GoogleLogin | BuddyAttestation
| GuardianAttestation | Cdr | Calendar | Email | DeathRegistry | SentinelOffline

datatype buddy_response = Well | Worried | UnableToReach

datatype storage_region = ApSoutheast2 | EuCentral1 | UsEast1

datatype domain_error =
  InvalidTransition vault_state vault_state
| SubscriptionForbids subscription_state
| UnknownEnumValue string string

fun tier_as_db_str :: "tier \<Rightarrow> string" where
  "tier_as_db_str HonestOperator = ''HONEST_OPERATOR''"
| "tier_as_db_str ZeroKnowledge = ''ZERO_KNOWLEDGE''"

definition tier_from_db_str :: "string \<Rightarrow> domain_error + tier" where
  "tier_from_db_str s =
    (if s = ''HONEST_OPERATOR'' then Inr HonestOperator
     else if s = ''ZERO_KNOWLEDGE'' then Inr ZeroKnowledge
     else Inl (UnknownEnumValue ''Tier'' s))"

fun vault_state_as_db_str :: "vault_state \<Rightarrow> string" where
  "vault_state_as_db_str Active = ''ACTIVE''"
| "vault_state_as_db_str Suspicious = ''SUSPICIOUS''"
| "vault_state_as_db_str Alert = ''ALERT''"
| "vault_state_as_db_str CoolingOff = ''COOLING_OFF''"
| "vault_state_as_db_str Releasing = ''RELEASING''"
| "vault_state_as_db_str Released = ''RELEASED''"
| "vault_state_as_db_str Archived = ''ARCHIVED''"

definition vault_state_from_db_str :: "string \<Rightarrow> domain_error + vault_state" where
  "vault_state_from_db_str s =
    (if s = ''ACTIVE'' then Inr Active
     else if s = ''SUSPICIOUS'' then Inr Suspicious
     else if s = ''ALERT'' then Inr Alert
     else if s = ''COOLING_OFF'' then Inr CoolingOff
     else if s = ''RELEASING'' then Inr Releasing
     else if s = ''RELEASED'' then Inr Released
     else if s = ''ARCHIVED'' then Inr Archived
     else Inl (UnknownEnumValue ''VaultState'' s))"

fun subscription_state_as_db_str :: "subscription_state \<Rightarrow> string" where
  "subscription_state_as_db_str Trialing = ''TRIALING''"
| "subscription_state_as_db_str SubActive = ''ACTIVE''"
| "subscription_state_as_db_str PastDue = ''PAST_DUE''"
| "subscription_state_as_db_str Canceled = ''CANCELED''"
| "subscription_state_as_db_str Expired = ''EXPIRED''"
| "subscription_state_as_db_str Deleted = ''DELETED''"

definition subscription_state_from_db_str :: "string \<Rightarrow> domain_error + subscription_state" where
  "subscription_state_from_db_str s =
    (if s = ''TRIALING'' then Inr Trialing
     else if s = ''ACTIVE'' then Inr SubActive
     else if s = ''PAST_DUE'' then Inr PastDue
     else if s = ''CANCELED'' then Inr Canceled
     else if s = ''EXPIRED'' then Inr Expired
     else if s = ''DELETED'' then Inr Deleted
     else Inl (UnknownEnumValue ''SubscriptionState'' s))"

fun allows_authoring :: "subscription_state \<Rightarrow> bool" where
  "allows_authoring Trialing = True"
| "allows_authoring SubActive = True"
| "allows_authoring PastDue = True"
| "allows_authoring _ = False"

fun allows_release :: "subscription_state \<Rightarrow> bool" where
  "allows_release Trialing = True"
| "allows_release SubActive = True"
| "allows_release PastDue = True"
| "allows_release Canceled = True"
| "allows_release _ = False"

fun plan_id_as_db_str :: "plan_id \<Rightarrow> string" where
  "plan_id_as_db_str SelfHosted = ''self_hosted''"

text \<open>Lenient: every legacy plan string maps to the single plan.\<close>

definition plan_id_from_db_str :: "string \<Rightarrow> domain_error + plan_id" where
  "plan_id_from_db_str _ = Inr SelfHosted"

fun release_mode_as_db_str :: "release_mode \<Rightarrow> string" where
  "release_mode_as_db_str SignalOrScheduled = ''SIGNAL_OR_SCHEDULED''"
| "release_mode_as_db_str ScheduledOnly = ''SCHEDULED_ONLY''"
| "release_mode_as_db_str SignalOnly = ''SIGNAL_ONLY''"
| "release_mode_as_db_str EventOnDemand = ''EVENT_ON_DEMAND''"

definition release_mode_from_db_str :: "string \<Rightarrow> domain_error + release_mode" where
  "release_mode_from_db_str s =
    (if s = ''SIGNAL_OR_SCHEDULED'' then Inr SignalOrScheduled
     else if s = ''SCHEDULED_ONLY'' then Inr ScheduledOnly
     else if s = ''SIGNAL_ONLY'' then Inr SignalOnly
     else if s = ''EVENT_ON_DEMAND'' then Inr EventOnDemand
     else Inl (UnknownEnumValue ''ReleaseMode'' s))"

fun fires_on_signal :: "release_mode \<Rightarrow> bool" where
  "fires_on_signal SignalOrScheduled = True"
| "fires_on_signal SignalOnly = True"
| "fires_on_signal _ = False"

fun fires_on_schedule :: "release_mode \<Rightarrow> bool" where
  "fires_on_schedule SignalOrScheduled = True"
| "fires_on_schedule ScheduledOnly = True"
| "fires_on_schedule _ = False"

fun is_event_on_demand :: "release_mode \<Rightarrow> bool" where
  "is_event_on_demand EventOnDemand = True"
| "is_event_on_demand _ = False"

fun signal_source_as_db_str :: "signal_source \<Rightarrow> string" where
  "signal_source_as_db_str Heartbeat = ''HEARTBEAT''"
| "signal_source_as_db_str AppleIcloudShortcut = ''APPLE_ICLOUD_SHORTCUT''"
| "signal_source_as_db_str MicrosoftAccount = ''MICROSOFT_ACCOUNT''"
| "signal_source_as_db_str GoogleLogin = ''GOOGLE_LOGIN''"
| "signal_source_as_db_str BuddyAttestation = ''BUDDY_ATTESTATION''"
| "signal_source_as_db_str GuardianAttestation = ''GUARDIAN_ATTESTATION''"
| "signal_source_as_db_str Cdr = ''CDR_BANK_DORMANCY''"
| "signal_source_as_db_str Calendar = ''CALENDAR_INACTIVITY''"
| "signal_source_as_db_str Email = ''EMAIL_INACTIVITY''"
| "signal_source_as_db_str DeathRegistry = ''DEATH_REGISTRY''"
| "signal_source_as_db_str SentinelOffline = ''SENTINEL_OFFLINE''"

definition signal_source_from_db_str :: "string \<Rightarrow> domain_error + signal_source" where
  "signal_source_from_db_str s =
    (if s = ''HEARTBEAT'' then Inr Heartbeat
     else if s = ''APPLE_ICLOUD_SHORTCUT'' then Inr AppleIcloudShortcut
     else if s = ''MICROSOFT_ACCOUNT'' then Inr MicrosoftAccount
     else if s = ''GOOGLE_LOGIN'' then Inr GoogleLogin
     else if s = ''BUDDY_ATTESTATION'' then Inr BuddyAttestation
     else if s = ''GUARDIAN_ATTESTATION'' then Inr GuardianAttestation
     else if s = ''CDR_BANK_DORMANCY'' then Inr Cdr
     else if s = ''CALENDAR_INACTIVITY'' then Inr Calendar
     else if s = ''EMAIL_INACTIVITY'' then Inr Email
     else if s = ''DEATH_REGISTRY'' then Inr DeathRegistry
     else if s = ''SENTINEL_OFFLINE'' then Inr SentinelOffline
     else Inl (UnknownEnumValue ''SignalSource'' s))"

fun independence_class :: "signal_source \<Rightarrow> string" where
  "independence_class Heartbeat = ''personal_attestation''"
| "independence_class Cdr = ''financial''"
| "independence_class GoogleLogin = ''social_google''"
| "independence_class MicrosoftAccount = ''social_microsoft''"
| "independence_class AppleIcloudShortcut = ''social_apple''"
| "independence_class Calendar = ''social_meta''"
| "independence_class Email = ''social_meta''"
| "independence_class BuddyAttestation = ''human_attestation''"
| "independence_class GuardianAttestation = ''human_attestation''"
| "independence_class DeathRegistry = ''official_record''"
| "independence_class SentinelOffline = ''infrastructure''"

fun buddy_response_as_db_str :: "buddy_response \<Rightarrow> string" where
  "buddy_response_as_db_str Well = ''WELL''"
| "buddy_response_as_db_str Worried = ''WORRIED''"
| "buddy_response_as_db_str UnableToReach = ''UNABLE_TO_REACH''"

definition buddy_response_from_db_str :: "string \<Rightarrow> domain_error + buddy_response" where
  "buddy_response_from_db_str s =
    (if s = ''WELL'' then Inr Well
     else if s = ''WORRIED'' then Inr Worried
     else if s = ''UNABLE_TO_REACH'' then Inr UnableToReach
     else Inl (UnknownEnumValue ''BuddyResponse'' s))"

fun release_reason_as_db_str :: "release_reason \<Rightarrow> string" where
  "release_reason_as_db_str SignalTrigger = ''SIGNAL_TRIGGER''"
| "release_reason_as_db_str ReasonGuardianAttestation = ''GUARDIAN_ATTESTATION''"
| "release_reason_as_db_str Drill = ''DRILL''"
| "release_reason_as_db_str ManualPrincipalRelease = ''MANUAL_PRINCIPAL_RELEASE''"
| "release_reason_as_db_str Scheduled = ''SCHEDULED''"

fun region_as_aws_str :: "storage_region \<Rightarrow> string" where
  "region_as_aws_str ApSoutheast2 = ''ap-southeast-2''"
| "region_as_aws_str EuCentral1 = ''eu-central-1''"
| "region_as_aws_str UsEast1 = ''us-east-1''"

definition region_from_aws_str :: "string \<Rightarrow> domain_error + storage_region" where
  "region_from_aws_str s =
    (if s = ''ap-southeast-2'' then Inr ApSoutheast2
     else if s = ''eu-central-1'' then Inr EuCentral1
     else if s = ''us-east-1'' then Inr UsEast1
     else Inl (UnknownEnumValue ''StorageRegion'' s))"

fun region_display_name :: "storage_region \<Rightarrow> string" where
  "region_display_name ApSoutheast2 = ''Sydney, Australia''"
| "region_display_name EuCentral1 = ''Frankfurt, Germany''"
| "region_display_name UsEast1 = ''N. Virginia, United States''"

definition region_default :: storage_region where
  "region_default = ApSoutheast2"

definition region_all :: "storage_region list" where
  "region_all = [ApSoutheast2, EuCentral1, UsEast1]"

section \<open>The enum interface\<close>

text \<open>
  What every enum stored as a text column promises: parsing undoes printing, and only
  the printed strings parse.
\<close>

locale db_enum =
  fixes to_str :: "'a \<Rightarrow> string"
    and of_str :: "string \<Rightarrow> domain_error + 'a"
  assumes parse_print: "of_str (to_str x) = Inr x"
    and print_parse: "of_str s = Inr x \<Longrightarrow> s = to_str x"
begin

lemma to_str_eq_iff: "to_str x = to_str y \<longleftrightarrow> x = y"
  by (metis parse_print sum.inject(2))

lemma parses_iff: "(\<exists>x. of_str s = Inr x) \<longleftrightarrow> s \<in> range to_str"
  using parse_print print_parse by blast

lemma of_str_iff: "of_str s = Inr x \<longleftrightarrow> s = to_str x"
  using parse_print print_parse by blast

lemma rejects_iff: "(\<exists>e. of_str s = Inl e) \<longleftrightarrow> s \<notin> range to_str"
  by (metis parses_iff sum.exhaust sum.distinct(1))

end

interpretation tier_enum: db_enum tier_as_db_str tier_from_db_str
proof
  fix x :: tier and s
  show "tier_from_db_str (tier_as_db_str x) = Inr x"
    by (cases x) (simp_all add: tier_from_db_str_def)
  show "tier_from_db_str s = Inr x \<Longrightarrow> s = tier_as_db_str x"
    by (cases x) (simp_all add: tier_from_db_str_def split: if_splits)
qed

interpretation vault_state_enum: db_enum vault_state_as_db_str vault_state_from_db_str
proof
  fix x :: vault_state and s
  show "vault_state_from_db_str (vault_state_as_db_str x) = Inr x"
    by (cases x) (simp_all add: vault_state_from_db_str_def)
  show "vault_state_from_db_str s = Inr x \<Longrightarrow> s = vault_state_as_db_str x"
    by (cases x) (simp_all add: vault_state_from_db_str_def split: if_splits)
qed

interpretation subscription_state_enum:
  db_enum subscription_state_as_db_str subscription_state_from_db_str
proof
  fix x :: subscription_state and s
  show "subscription_state_from_db_str (subscription_state_as_db_str x) = Inr x"
    by (cases x) (simp_all add: subscription_state_from_db_str_def)
  show "subscription_state_from_db_str s = Inr x \<Longrightarrow> s = subscription_state_as_db_str x"
    by (cases x) (simp_all add: subscription_state_from_db_str_def split: if_splits)
qed

interpretation release_mode_enum: db_enum release_mode_as_db_str release_mode_from_db_str
proof
  fix x :: release_mode and s
  show "release_mode_from_db_str (release_mode_as_db_str x) = Inr x"
    by (cases x) (simp_all add: release_mode_from_db_str_def)
  show "release_mode_from_db_str s = Inr x \<Longrightarrow> s = release_mode_as_db_str x"
    by (cases x) (simp_all add: release_mode_from_db_str_def split: if_splits)
qed

interpretation signal_source_enum: db_enum signal_source_as_db_str signal_source_from_db_str
proof
  fix x :: signal_source and s
  show "signal_source_from_db_str (signal_source_as_db_str x) = Inr x"
    by (cases x) (simp_all add: signal_source_from_db_str_def)
  show "signal_source_from_db_str s = Inr x \<Longrightarrow> s = signal_source_as_db_str x"
    by (cases x) (simp_all add: signal_source_from_db_str_def split: if_splits)
qed

interpretation buddy_response_enum: db_enum buddy_response_as_db_str buddy_response_from_db_str
proof
  fix x :: buddy_response and s
  show "buddy_response_from_db_str (buddy_response_as_db_str x) = Inr x"
    by (cases x) (simp_all add: buddy_response_from_db_str_def)
  show "buddy_response_from_db_str s = Inr x \<Longrightarrow> s = buddy_response_as_db_str x"
    by (cases x) (simp_all add: buddy_response_from_db_str_def split: if_splits)
qed

interpretation region_enum: db_enum region_as_aws_str region_from_aws_str
proof
  fix x :: storage_region and s
  show "region_from_aws_str (region_as_aws_str x) = Inr x"
    by (cases x) (simp_all add: region_from_aws_str_def)
  show "region_from_aws_str s = Inr x \<Longrightarrow> s = region_as_aws_str x"
    by (cases x) (simp_all add: region_from_aws_str_def split: if_splits)
qed

lemmas enum_parse [simp] =
  tier_enum.parse_print vault_state_enum.parse_print subscription_state_enum.parse_print
  release_mode_enum.parse_print signal_source_enum.parse_print
  buddy_response_enum.parse_print region_enum.parse_print

lemmas enum_eq_iff [simp] =
  tier_enum.to_str_eq_iff vault_state_enum.to_str_eq_iff subscription_state_enum.to_str_eq_iff
  release_mode_enum.to_str_eq_iff signal_source_enum.to_str_eq_iff
  buddy_response_enum.to_str_eq_iff region_enum.to_str_eq_iff

text \<open>The states are finite: quantifiers over them evaluate.\<close>

instantiation vault_state :: enum
begin

definition "enum_class.enum =
  [Active, Suspicious, Alert, CoolingOff, Releasing, Released, Archived]"

definition "enum_class.enum_all P \<longleftrightarrow>
  P Active \<and> P Suspicious \<and> P Alert \<and> P CoolingOff \<and> P Releasing \<and> P Released \<and> P Archived"

definition "enum_class.enum_ex P \<longleftrightarrow>
  P Active \<or> P Suspicious \<or> P Alert \<or> P CoolingOff \<or> P Releasing \<or> P Released \<or> P Archived"

instance
proof
  show "UNIV = set (enum_class.enum :: vault_state list)"
    unfolding enum_vault_state_def using vault_state.exhaust by auto
  show "distinct (enum_class.enum :: vault_state list)"
    by (simp add: enum_vault_state_def)
  show "enum_class.enum_all P \<longleftrightarrow> Ball UNIV P" for P :: "vault_state \<Rightarrow> bool"
    unfolding enum_all_vault_state_def by (metis UNIV_I vault_state.exhaust)
  show "enum_class.enum_ex P \<longleftrightarrow> Bex UNIV P" for P :: "vault_state \<Rightarrow> bool"
    unfolding enum_ex_vault_state_def by (metis UNIV_I vault_state.exhaust)
qed

end

section \<open>Plan registry\<close>

text \<open>\<open>u64\<close> and \<open>u32\<close> are words, so that the quota arithmetic keeps its width.\<close>

type_synonym u64 = "64 word"
type_synonym u32 = "32 word"

definition KB :: u64 where "KB = 1024"
definition MB :: u64 where "MB = 1024 * KB"
definition GB :: u64 where "GB = 1024 * MB"
definition TB :: u64 where "TB = 1024 * GB"

definition u32_max :: u32 where "u32_max = - 1"

definition ALL_SIGNALS :: "signal_source list" where
  "ALL_SIGNALS =
    [Heartbeat, Cdr, AppleIcloudShortcut, MicrosoftAccount, GoogleLogin, Calendar, Email,
     BuddyAttestation, GuardianAttestation, DeathRegistry, SentinelOffline]"

record plan_features =
  pf_plan_id :: plan_id
  pf_storage_bytes :: u64
  pf_retention_days :: int
  pf_scheduled_horizon_days :: int
  pf_max_vaults :: u32
  pf_max_letters_per_vault :: u32
  pf_max_trustees :: u32
  pf_max_co_stewards :: u32
  pf_allowed_signals :: "signal_source list"
  pf_multi_region :: bool

definition plan_features :: "plan_id \<Rightarrow> plan_features" where
  "plan_features plan = (case plan of SelfHosted \<Rightarrow>
    \<lparr>pf_plan_id = plan,
     pf_storage_bytes = 1024 * TB,
     pf_retention_days = 36500,
     pf_scheduled_horizon_days = 36500,
     pf_max_vaults = u32_max,
     pf_max_letters_per_vault = u32_max,
     pf_max_trustees = u32_max,
     pf_max_co_stewards = u32_max,
     pf_allowed_signals = ALL_SIGNALS,
     pf_multi_region = True\<rparr>)"

definition public_catalog :: "plan_features list" where
  "public_catalog = [plan_features SelfHosted]"

section \<open>Entities\<close>

record principal =
  p_id :: principal_id
  p_display_name :: "string option"
  p_primary_email :: string
  p_created_at :: instant

record subscription =
  sub_id :: subscription_id
  sub_principal_id :: principal_id
  sub_plan_id :: plan_id
  sub_state :: subscription_state
  sub_started_at :: instant
  sub_trial_end_at :: "instant option"
  sub_current_period_end :: "instant option"
  sub_canceled_at :: "instant option"
  sub_retention_until :: "instant option"
  sub_extra_storage_bytes :: "64 word"

text \<open>
  \<open>extra_storage_bytes\<close> is an \<open>i64\<close>: \<open>max(0) as u64\<close> reads the word as signed first.
  The \<open>+\<close> is on \<open>u64\<close>.
\<close>

definition effective_storage_bytes :: "subscription \<Rightarrow> u64" where
  "effective_storage_bytes sub =
     pf_storage_bytes (plan_features (sub_plan_id sub))
     + word_of_int (max (sint (sub_extra_storage_bytes sub)) 0)"

record vault =
  v_id :: vault_id
  v_principal_id :: principal_id
  v_name :: string
  v_tier :: tier
  v_state :: vault_state
  v_cooling_off_seconds :: int
  v_storage_region :: storage_region
  v_last_attestation_at :: instant
  v_cooling_off_started_at :: "instant option"
  v_released_at :: "instant option"
  v_created_at :: instant

record letter_meta =
  lm_id :: letter_id
  lm_vault_id :: vault_id
  lm_title :: string
  lm_recipient_email :: string
  lm_sealed_at :: instant

record release_event =
  re_id :: release_event_id
  re_vault_id :: vault_id
  re_reason :: release_reason
  re_triggered_at :: instant
  re_released_at :: "instant option"
  re_cancelled_at :: "instant option"
  re_is_drill :: bool

record buddy =
  b_id :: buddy_id
  b_principal_id :: principal_id
  b_display_name :: "string option"
  b_email :: string
  b_phone :: "string option"
  b_prompt_cadence_days :: int
  b_last_prompt_at :: "instant option"
  b_last_response_at :: "instant option"
  b_last_response :: "buddy_response option"
  b_confirmed_at :: "instant option"
  b_revoked_at :: "instant option"

definition buddy_is_active :: "buddy \<Rightarrow> bool" where
  "buddy_is_active b \<longleftrightarrow> b_confirmed_at b \<noteq> None \<and> b_revoked_at b = None"

record co_steward =
  cs_id :: co_steward_id
  cs_principal_id :: principal_id
  cs_display_name :: "string option"
  cs_email :: string
  cs_confirmed_at :: "instant option"
  cs_revoked_at :: "instant option"
  cs_last_viewed_at :: "instant option"
  cs_created_at :: instant

definition co_steward_is_active :: "co_steward \<Rightarrow> bool" where
  "co_steward_is_active c \<longleftrightarrow> cs_confirmed_at c \<noteq> None \<and> cs_revoked_at c = None"

record attachment =
  at_id :: attachment_id
  at_letter_id :: letter_id
  at_original_filename :: string
  at_original_mime :: string
  at_original_size :: int
  at_transformed_mime :: string
  at_transformed_size :: int
  at_sha256_hex :: string
  at_storage_key :: string
  at_sealed_at :: instant

section \<open>Vault transitions\<close>

fun can_transition :: "vault_state \<Rightarrow> vault_state \<Rightarrow> bool" where
  "can_transition Active Suspicious = True"
| "can_transition Active CoolingOff = True"
| "can_transition Suspicious Active = True"
| "can_transition Suspicious Alert = True"
| "can_transition Alert Suspicious = True"
| "can_transition Alert CoolingOff = True"
| "can_transition CoolingOff Active = True"
| "can_transition CoolingOff Releasing = True"
| "can_transition Releasing Released = True"
| "can_transition Released Archived = True"
| "can_transition _ _ = False"

definition transition :: "vault_state \<Rightarrow> vault_state \<Rightarrow> domain_error + vault_state" where
  "transition frm to = (if can_transition frm to then Inr to else Inl (InvalidTransition frm to))"

text \<open>The states a vault passes through when every step is an accepted transition.\<close>

inductive transitions :: "vault_state \<Rightarrow> vault_state list \<Rightarrow> vault_state \<Rightarrow> bool" where
  stay: "transitions s [] s"
| step: "transition s t = Inr t \<Longrightarrow> transitions t path u \<Longrightarrow> transitions s (t # path) u"

inductive_cases transitions_NilE: "transitions s [] u"
inductive_cases transitions_ConsE: "transitions s (t # path) u"

inductive_simps transitions_simps [simp]: "transitions s [] u" "transitions s (t # path) u"

lemma transition_eq_Inr [simp]: "transition s t = Inr u \<longleftrightarrow> can_transition s t \<and> u = t"
  by (auto simp: transition_def)

text \<open>\<open>RELEASED\<close> is reached through \<open>COOLING_OFF\<close> and \<open>RELEASING\<close> only.\<close>

definition before_cooling :: "vault_state set" where
  "before_cooling = {Active, Suspicious, Alert}"

lemma before_cooling_step:
  "can_transition s t \<Longrightarrow> s \<in> before_cooling \<Longrightarrow> t \<in> before_cooling \<or> t = CoolingOff"
  by (cases s; cases t) (simp_all add: before_cooling_def)

lemma releasing_only_from_cooling: "can_transition s Releasing \<Longrightarrow> s = CoolingOff"
  by (cases s) simp_all

lemma released_only_from_releasing: "can_transition s Released \<Longrightarrow> s = Releasing"
  by (cases s) simp_all

lemma transitions_append:
  "transitions s p u \<Longrightarrow> transitions u q w \<Longrightarrow> transitions s (p @ q) w"
  by (induction rule: transitions.induct) auto

lemma path_cools_off:
  assumes "transitions s path u" and "s \<in> before_cooling" and "u \<notin> before_cooling"
  shows "CoolingOff \<in> set path"
  using assms
proof (induction rule: transitions.induct)
  case (stay s)
  then show ?case by simp
next
  case (step s t path u)
  then show ?case using before_cooling_step by fastforce
qed

lemma path_to_released:
  assumes "transitions s path Released" and "s \<noteq> Released" and "s \<noteq> Releasing"
  shows "Releasing \<in> set path"
  using assms
proof (induction path arbitrary: s)
  case Nil
  then show ?case by simp
next
  case (Cons t path)
  then show ?case
    using released_only_from_releasing by (cases "t = Releasing") auto
qed

end
