(* ===== verification/Schema.thy ===== *)
theory Schema
  imports Core
begin

text \<open>
  The state the program acts on: the Postgres tables (migrations/*.sql) as lists of rows
  in insertion order, and beside them the clock, the supplies of random identifiers and
  tokens, the outgoing mail and the metrics. A row keeps the column types of the schema:
  enum columns are text, as the SQL of src/crates/beacon-db/src/lib.rs compares them.
  Columns no modelled statement reads (\<open>updated_at\<close>, JSON evidence and payloads) are
  left out.
\<close>

section \<open>Database errors\<close>

datatype db_error = Sqlx string | Domain domain_error | DbNotFound | MigrationPending string

section \<open>Rows\<close>

record principal_row =
  pr_id :: principal_id
  pr_display_name :: "string option"
  pr_primary_email :: string
  pr_created_at :: instant
  pr_deletion_requested_at :: "instant option"
  pr_deletion_scheduled_for :: "instant option"
  pr_tos_accepted_at :: "instant option"

record magic_link_row =
  ml_token_hash :: bytes
  ml_principal_id :: principal_id
  ml_expires_at :: instant
  ml_consumed_at :: "instant option"

record session_row =
  se_token_hash :: bytes
  se_principal_id :: principal_id
  se_co_steward_id :: "co_steward_id option"
  se_auth_role :: string
  se_expires_at :: instant
  se_revoked_at :: "instant option"

record subscription_row =
  su_id :: subscription_id
  su_principal_id :: principal_id
  su_plan_id :: string
  su_state :: string
  su_started_at :: instant
  su_trial_end_at :: "instant option"
  su_current_period_end :: "instant option"
  su_canceled_at :: "instant option"
  su_retention_until :: "instant option"
  su_extra_storage_bytes :: "64 word"

record vault_row =
  va_id :: vault_id
  va_principal_id :: principal_id
  va_name :: string
  va_tier :: string
  va_state :: string
  va_cooling_off_seconds :: int
  va_storage_region :: string
  va_last_attestation_at :: instant
  va_cooling_off_started_at :: "instant option"
  va_released_at :: "instant option"
  va_created_at :: instant

record letter_row =
  le_id :: letter_id
  le_vault_id :: vault_id
  le_kind :: string
  le_title :: string
  le_recipient_email :: string
  le_ciphertext :: bytes
  le_nonce :: bytes
  le_drill_ciphertext :: "bytes option"
  le_drill_nonce :: "bytes option"
  le_scheduled_release_at :: "instant option"
  le_category :: "string option"
  le_release_mode :: string
  le_event_released_at :: "instant option"
  le_sealed_at :: instant

record recipient_change_row =
  rc_id :: uuid
  rc_letter_id :: letter_id
  rc_co_steward_id :: co_steward_id
  rc_old_email :: string
  rc_new_email :: string
  rc_requested_at :: instant
  rc_effective_at :: instant
  rc_applied_at :: "instant option"
  rc_cancelled_at :: "instant option"

record heartbeat_row =
  hb_principal_id :: principal_id
  hb_received_at :: instant
  hb_via :: string

record release_event_row =
  ev_id :: release_event_id
  ev_vault_id :: vault_id
  ev_reason :: string
  ev_triggered_at :: instant
  ev_released_at :: "instant option"
  ev_cancelled_at :: "instant option"
  ev_is_drill :: bool
  ev_cooling_off_ends_at :: "instant option"

record release_claim_row =
  cl_token_hash :: bytes
  cl_release_event_id :: release_event_id
  cl_letter_id :: letter_id
  cl_recipient_email :: string
  cl_expires_at :: instant
  cl_claimed_at :: "instant option"

record attachment_row =
  ar_id :: attachment_id
  ar_letter_id :: letter_id
  ar_original_filename :: string
  ar_original_mime :: string
  ar_original_size :: int
  ar_transformed_mime :: string
  ar_transformed_size :: int
  ar_sha256 :: bytes
  ar_storage_key :: string
  ar_nonce :: bytes
  ar_sealed_at :: instant

record attachment_claim_row =
  ac_token_hash :: bytes
  ac_release_event_id :: release_event_id
  ac_attachment_id :: attachment_id
  ac_recipient_email :: string
  ac_expires_at :: instant
  ac_claimed_at :: "instant option"

record transparency_row =
  te_kind :: string
  te_ts :: instant
  te_principal_id :: "principal_id option"
  te_vault_id :: "vault_id option"

record buddy_row =
  bu_id :: buddy_id
  bu_principal_id :: principal_id
  bu_display_name :: "string option"
  bu_email :: string
  bu_phone :: "string option"
  bu_prompt_cadence_days :: int
  bu_last_prompt_at :: "instant option"
  bu_last_response_at :: "instant option"
  bu_last_response :: "string option"
  bu_confirmation_token_hash :: "bytes option"
  bu_confirmed_at :: "instant option"
  bu_revoked_at :: "instant option"
  bu_created_at :: instant

record co_steward_row =
  co_id :: co_steward_id
  co_principal_id :: principal_id
  co_display_name :: "string option"
  co_email :: string
  co_passphrase_hash :: "string option"
  co_passphrase_salt :: "bytes option"
  co_confirmation_token_hash :: "bytes option"
  co_confirmed_at :: "instant option"
  co_revoked_at :: "instant option"
  co_last_viewed_at :: "instant option"
  co_created_at :: instant

text \<open>
  \<open>weight\<close> and \<open>contribution\<close> are \<open>REAL\<close> columns: the type variable \<open>'f\<close> stands
  for \<open>f32\<close>, fixed by the theory F32 where they are computed with.
\<close>

record 'f signal_sub_row =
  ss_vault_id :: vault_id
  ss_source :: string
  ss_weight :: 'f
  ss_enabled :: bool

record 'f signal_row =
  sg_vault_id :: vault_id
  sg_source :: string
  sg_observed_at :: instant
  sg_contribution :: 'f

record bank_row =
  bk_principal_id :: principal_id
  bk_webhook_id :: uuid
  bk_secret_hmac_key :: bytes
  bk_last_webhook_at :: "instant option"
  bk_created_at :: instant

record apple_row =
  ap_principal_id :: principal_id
  ap_installation_id :: string
  ap_secret_hmac_key :: bytes
  ap_last_ping_at :: "instant option"

record duress_row =
  du_principal_id :: principal_id
  du_webhook_id :: uuid
  du_alert_email :: "string option"
  du_armed_at :: instant
  du_triggered_at :: "instant option"
  du_last_alert_at :: "instant option"
  du_panic_mode :: string

text \<open>Contacts, passkeys and the envelopes of Private Vaults (migrations 0014 and 0018 to 0021).\<close>

record contact_row =
  ct_id :: uuid
  ct_vault_id :: vault_id
  ct_display_name :: string
  ct_email :: string
  ct_birthday :: "string option"
  ct_release_note :: "string option"
  ct_created_at :: instant

record passkey_row =
  pk_id :: uuid
  pk_principal_id :: principal_id
  pk_credential_id :: bytes
  pk_passkey_json :: string
  pk_backed_up :: bool
  pk_transports :: "string list"
  pk_name :: string
  pk_created_at :: instant
  pk_last_used_at :: "instant option"

record challenge_row =
  wc_id :: uuid
  wc_principal_id :: "principal_id option"
  wc_state_json :: string
  wc_ceremony :: string
  wc_expires_at :: instant

record zk_envelope_row =
  ze_id :: uuid
  ze_vault_id :: vault_id
  ze_passkey_id :: uuid
  ze_ciphertext :: bytes
  ze_nonce :: bytes
  ze_created_at :: instant

record zk_recovery_row =
  zr_id :: uuid
  zr_vault_id :: vault_id
  zr_principal_id :: principal_id
  zr_code_salt :: bytes
  zr_ciphertext :: bytes
  zr_nonce :: bytes
  zr_created_at :: instant

record recovery_row =
  rv_principal_id :: principal_id
  rv_code_salt :: bytes
  rv_code_verifier :: bytes
  rv_created_at :: instant

record recovery_key_row =
  rk_principal_id :: principal_id
  rk_code_salt :: bytes
  rk_prk_code_ct :: bytes
  rk_prk_code_nonce :: bytes
  rk_prk_prf_ct :: bytes
  rk_prk_prf_nonce :: bytes

record prk_envelope_row =
  pe_vault_id :: vault_id
  pe_principal_id :: principal_id
  pe_ciphertext :: bytes
  pe_nonce :: bytes

record heir_envelope_row =
  he_letter_id :: letter_id
  he_ciphertext :: bytes
  he_nonce :: bytes
  he_mode :: string
  he_salt :: "bytes option"
  he_release_secret :: "bytes option"

record aux_tables =
  contacts :: "contact_row list"
  passkeys :: "passkey_row list"
  challenges :: "challenge_row list"
  zk_envelopes :: "zk_envelope_row list"
  zk_recoveries :: "zk_recovery_row list"
  recoveries :: "recovery_row list"
  recovery_keys :: "recovery_key_row list"
  prk_envelopes :: "prk_envelope_row list"
  heir_envelopes :: "heir_envelope_row list"

end
