(* ===== verification/F32.thy ===== *)
theory F32
  imports Complex_Main Prelude
begin

text \<open>
  The \<open>f32\<close> arithmetic the program uses, as its values: a finite binary32 number is the
  rational it denotes, and every operation computes exactly and rounds once, to nearest
  with ties to even (24 significant bits, exponents down to \<open>-149\<close>, overflow to an
  infinity). The sign of a zero and the payload of a NaN are not represented: nothing in
  the program observes them. All definitions evaluate.
\<close>

section \<open>Rounding\<close>

definition pow2 :: "int \<Rightarrow> rat" where
  "pow2 q = (if 0 \<le> q then 2 ^ nat q else 1 / 2 ^ nat (- q))"

fun floor_log2 :: "nat \<Rightarrow> nat" where
  "floor_log2 n = (if n < 2 then 0 else Suc (floor_log2 (n div 2)))"

declare floor_log2.simps [simp del]

text \<open>The exponent of a positive rational: \<open>2 ^ e \<le> x < 2 ^ (e + 1)\<close>.\<close>

definition ilog2 :: "rat \<Rightarrow> int" where
  "ilog2 x = (case quotient_of x of (a, b) \<Rightarrow>
     let e = int (floor_log2 (nat a)) - int (floor_log2 (nat b))
     in if pow2 e \<le> x then e else e - 1)"

definition round_half_even :: "rat \<Rightarrow> int" where
  "round_half_even r =
     (let f = \<lfloor>r\<rfloor>; d = r - of_int f
      in if d < 1 / 2 then f else if 1 / 2 < d then f + 1 else if even f then f else f + 1)"

definition ulp_exp :: "rat \<Rightarrow> int" where
  "ulp_exp x = max (ilog2 x - 23) (- 149)"

text \<open>The nearest binary32 value of a positive rational, before the overflow check.\<close>

definition round_pos :: "rat \<Rightarrow> rat" where
  "round_pos x = of_int (round_half_even (x / pow2 (ulp_exp x))) * pow2 (ulp_exp x)"

datatype f32 = NaN | PInf | NInf | Fin rat

definition f32_round :: "rat \<Rightarrow> f32" where
  "f32_round x =
     (if x = 0 then Fin 0
      else if 0 < x then (if pow2 128 \<le> round_pos x then PInf else Fin (round_pos x))
      else (if pow2 128 \<le> round_pos (- x) then NInf else Fin (- round_pos (- x))))"

text \<open>Literals and \<open>as f32\<close> from an integer round like the operations.\<close>

definition f32_lit :: "rat \<Rightarrow> f32" where
  "f32_lit x = f32_round x"

definition f32_of_int :: "int \<Rightarrow> f32" where
  "f32_of_int n = f32_round (of_int n)"

section \<open>Operations\<close>

fun f32_neg :: "f32 \<Rightarrow> f32" where
  "f32_neg NaN = NaN"
| "f32_neg PInf = NInf"
| "f32_neg NInf = PInf"
| "f32_neg (Fin x) = Fin (- x)"

fun f32_add :: "f32 \<Rightarrow> f32 \<Rightarrow> f32" where
  "f32_add (Fin x) (Fin y) = f32_round (x + y)"
| "f32_add NaN _ = NaN"
| "f32_add _ NaN = NaN"
| "f32_add PInf NInf = NaN"
| "f32_add NInf PInf = NaN"
| "f32_add PInf _ = PInf"
| "f32_add _ PInf = PInf"
| "f32_add NInf _ = NInf"
| "f32_add _ NInf = NInf"

text \<open>An infinity with the sign of a product; \<open>0 \<cdot> \<infinity>\<close> is NaN.\<close>

definition f32_inf_sgn :: "rat \<Rightarrow> f32" where
  "f32_inf_sgn s = (if s = 0 then NaN else if 0 < s then PInf else NInf)"

fun f32_mul :: "f32 \<Rightarrow> f32 \<Rightarrow> f32" where
  "f32_mul (Fin x) (Fin y) = f32_round (x * y)"
| "f32_mul NaN _ = NaN"
| "f32_mul _ NaN = NaN"
| "f32_mul PInf (Fin y) = f32_inf_sgn y"
| "f32_mul NInf (Fin y) = f32_inf_sgn (- y)"
| "f32_mul (Fin x) PInf = f32_inf_sgn x"
| "f32_mul (Fin x) NInf = f32_inf_sgn (- x)"
| "f32_mul PInf PInf = PInf"
| "f32_mul NInf NInf = PInf"
| "f32_mul PInf NInf = NInf"
| "f32_mul NInf PInf = NInf"

text \<open>
  Division. A zero divisor is a positive zero here: the program divides by integers
  converted to \<open>f32\<close> and by positive constants.
\<close>

fun f32_div :: "f32 \<Rightarrow> f32 \<Rightarrow> f32" where
  "f32_div (Fin x) (Fin y) = (if y = 0 then f32_inf_sgn x else f32_round (x / y))"
| "f32_div NaN _ = NaN"
| "f32_div _ NaN = NaN"
| "f32_div PInf (Fin y) = (if y < 0 then NInf else PInf)"
| "f32_div NInf (Fin y) = (if y < 0 then PInf else NInf)"
| "f32_div (Fin x) _ = Fin 0"
| "f32_div _ _ = NaN"

text \<open>Integer square root, one bit at a time; exact for arguments below \<open>4 ^ k\<close>.\<close>

fun isqrt :: "nat \<Rightarrow> nat \<Rightarrow> nat \<Rightarrow> nat" where
  "isqrt 0 s n = s"
| "isqrt (Suc k) s n = (if (s + 2 ^ k) * (s + 2 ^ k) \<le> n then isqrt k (s + 2 ^ k) n else isqrt k s n)"

text \<open>The integer nearest to \<open>\<surd>r\<close>, for \<open>0 \<le> r < 4 ^ 25\<close>.\<close>

definition nearest_sqrt :: "rat \<Rightarrow> int" where
  "nearest_sqrt r =
     (let s = int (isqrt 25 0 (nat \<lfloor>r\<rfloor>)); h = (of_int s + 1 / 2) * (of_int s + 1 / 2)
      in if r < h then s else if h < r then s + 1 else if even s then s else s + 1)"

definition sqrt_pos :: "rat \<Rightarrow> rat" where
  "sqrt_pos x = (let q = ilog2 x div 2 - 23 in of_int (nearest_sqrt (x / pow2 (2 * q))) * pow2 q)"

fun f32_sqrt :: "f32 \<Rightarrow> f32" where
  "f32_sqrt (Fin x) = (if x < 0 then NaN else if x = 0 then Fin 0 else Fin (sqrt_pos x))"
| "f32_sqrt PInf = PInf"
| "f32_sqrt _ = NaN"

fun f32_lt :: "f32 \<Rightarrow> f32 \<Rightarrow> bool" where
  "f32_lt (Fin x) (Fin y) = (x < y)"
| "f32_lt NInf (Fin y) = True"
| "f32_lt NInf PInf = True"
| "f32_lt (Fin x) PInf = True"
| "f32_lt _ _ = False"

definition f32_le :: "f32 \<Rightarrow> f32 \<Rightarrow> bool" where
  "f32_le x y \<longleftrightarrow> f32_lt x y \<or> (x = y \<and> x \<noteq> NaN)"

abbreviation "f32_ge x y \<equiv> f32_le y x"
abbreviation "f32_gt x y \<equiv> f32_lt y x"

text \<open>\<open>f32::clamp\<close> keeps a NaN; \<open>f32::max\<close> drops one.\<close>

definition f32_clamp :: "f32 \<Rightarrow> f32 \<Rightarrow> f32 \<Rightarrow> f32" where
  "f32_clamp lo hi x =
     (let y = (if f32_lt x lo then lo else x) in if f32_lt hi y then hi else y)"

definition f32_max :: "f32 \<Rightarrow> f32 \<Rightarrow> f32" where
  "f32_max x y = (if x = NaN then y else if y = NaN then x else if f32_lt x y then y else x)"

section \<open>Rounding is monotone\<close>

lemma pow2_pos [simp]: "0 < pow2 q"
  by (simp add: pow2_def)

lemma pow2_nonneg [simp]: "0 \<le> pow2 q"
  using pow2_pos [of q] by linarith

lemma pow2_neq_0 [simp]: "pow2 q \<noteq> 0"
  using pow2_pos [of q] by linarith

lemma pow2_powi: "pow2 q = 2 powi q"
  by (simp add: pow2_def power_int_def field_simps)

lemma pow2_add: "pow2 (a + b) = pow2 a * pow2 b"
  by (simp add: pow2_powi power_int_add)

lemma pow2_diff: "pow2 (a - b) = pow2 a / pow2 b"
  by (simp add: pow2_powi power_int_diff)

lemma pow2_le: "a \<le> b \<Longrightarrow> pow2 a \<le> pow2 b"
  by (simp add: pow2_powi power_int_increasing)

lemma pow2_less_iff: "pow2 a < pow2 b \<longleftrightarrow> a < b"
proof
  show "a < b" if "pow2 a < pow2 b"
    using that pow2_le [of b a] by linarith
next
  show "pow2 a < pow2 b" if "a < b"
  proof -
    have "pow2 b = pow2 a * pow2 (b - a)"
      by (simp flip: pow2_add)
    moreover have "1 < pow2 (b - a)"
      using that by (simp add: pow2_def)
    ultimately show ?thesis by simp
  qed
qed

lemma pow2_nat: "0 \<le> q \<Longrightarrow> pow2 q = of_int (2 ^ nat q)"
  by (simp add: pow2_def)

lemma pow2_simps [simp]: "pow2 0 = 1" "pow2 1 = 2"
  by (simp_all add: pow2_def)

lemma pow2_of_nat: "pow2 (int n) = 2 ^ n"
  by (simp add: pow2_def)

lemma pow2_lits: "pow2 2 = 4" "pow2 23 = 2 ^ 23" "pow2 24 = 2 ^ 24" "pow2 46 = 2 ^ 46" "pow2 48 = 2 ^ 48"
  by (simp_all add: pow2_def)

lemma floor_log2_bounds: "0 < n \<Longrightarrow> 2 ^ floor_log2 n \<le> n \<and> n < 2 ^ Suc (floor_log2 n)"
proof (induction n rule: floor_log2.induct)
  case (1 n)
  show ?case
  proof (cases "n < 2")
    case True
    then show ?thesis using "1.prems" by (simp add: floor_log2.simps [of n])
  next
    case False
    then have "2 ^ floor_log2 (n div 2) \<le> n div 2 \<and> n div 2 < 2 ^ Suc (floor_log2 (n div 2))"
      using "1.IH" by simp
    moreover have "floor_log2 n = Suc (floor_log2 (n div 2))"
      using False by (simp add: floor_log2.simps [of n])
    ultimately show ?thesis by auto
  qed
qed

lemma ilog2_bounds:
  assumes "0 < x"
  shows "pow2 (ilog2 x) \<le> x \<and> x < pow2 (ilog2 x + 1)"
proof -
  obtain a b where q: "quotient_of x = (a, b)" by force
  have x: "x = of_int a / of_int b" and b: "0 < b"
    using quotient_of_div [OF q] quotient_of_denom_pos [OF q] by auto
  have a: "0 < a" using assms x b by (simp add: zero_less_divide_iff)
  let ?m = "floor_log2 (nat a)" and ?n = "floor_log2 (nat b)"
  have na: "2 ^ ?m \<le> nat a" "nat a < 2 ^ Suc ?m" and nb: "2 ^ ?n \<le> nat b" "nat b < 2 ^ Suc ?n"
    using floor_log2_bounds [of "nat a"] floor_log2_bounds [of "nat b"] a b by auto
  have cast: "of_nat (nat a) = (of_int a :: rat)" "of_nat (nat b) = (of_int b :: rat)"
    using a b by simp_all
  have ra: "(2::rat) ^ ?m \<le> of_int a" "of_int a < (2::rat) ^ Suc ?m"
    using na(1) na(2) cast(1)
    by (metis of_nat_le_iff of_nat_numeral of_nat_power, metis of_nat_less_iff of_nat_numeral of_nat_power)
  have rb: "(2::rat) ^ ?n \<le> of_int b" "of_int b < (2::rat) ^ Suc ?n"
    using nb(1) nb(2) cast(2)
    by (metis of_nat_le_iff of_nat_numeral of_nat_power, metis of_nat_less_iff of_nat_numeral of_nat_power)
  let ?e = "int ?m - int ?n"
  have bp: "(0::rat) < of_int b" using b by simp
  have e: "pow2 ?e = 2 ^ ?m / 2 ^ ?n"
    by (simp add: pow2_diff pow2_of_nat)
  have up: "x < pow2 (?e + 1)"
  proof -
    have "of_int a * 2 ^ ?n < 2 ^ Suc ?m * (of_int b :: rat)"
      using mult_less_le_imp_less [OF ra(2) rb(1)] a by simp
    then show ?thesis
      unfolding pow2_add [of ?e 1] e x using bp by (simp add: field_simps)
  qed
  have lo: "pow2 (?e - 1) \<le> x"
  proof -
    have "2 ^ ?m * (of_int b :: rat) \<le> of_int a * 2 ^ Suc ?n"
      using mult_mono [OF ra(1) less_imp_le [OF rb(2)]] a b by simp
    then show ?thesis
      unfolding pow2_diff [of ?e 1] e x using bp by (simp add: field_simps)
  qed
  show ?thesis
    using up lo by (simp add: ilog2_def q Let_def)
qed

lemma ilog2_mono:
  assumes "0 < x" and "x \<le> y"
  shows "ilog2 x \<le> ilog2 y"
proof -
  have "pow2 (ilog2 x) < pow2 (ilog2 y + 1)"
    using ilog2_bounds [of x] ilog2_bounds [of y] assms by linarith
  then show ?thesis by (simp add: pow2_less_iff)
qed

lemma round_half_even_bounds: "\<lfloor>r\<rfloor> \<le> round_half_even r" "round_half_even r \<le> \<lfloor>r\<rfloor> + 1"
  by (simp_all add: round_half_even_def Let_def)

lemma round_half_even_mono:
  assumes "r \<le> s"
  shows "round_half_even r \<le> round_half_even s"
proof (cases "\<lfloor>r\<rfloor> = \<lfloor>s\<rfloor>")
  case True
  then show ?thesis using assms by (auto simp: round_half_even_def Let_def)
next
  case False
  then have "\<lfloor>r\<rfloor> + 1 \<le> \<lfloor>s\<rfloor>" using floor_mono [OF assms] by linarith
  then show ?thesis using round_half_even_bounds [of r] round_half_even_bounds [of s] by linarith
qed

lemma round_half_even_of_int [simp]: "round_half_even (of_int k) = k"
  by (simp add: round_half_even_def Let_def)

lemma round_half_even_ge: "of_int k \<le> r \<Longrightarrow> k \<le> round_half_even r"
  using round_half_even_mono [of "of_int k" r] by simp

lemma round_half_even_le: "r \<le> of_int k \<Longrightarrow> round_half_even r \<le> k"
  using round_half_even_mono [of r "of_int k"] by simp

text \<open>Powers of two at or above the unit in the last place are exact, hence bounds.\<close>

lemma round_pos_le_pow2:
  assumes "0 < x" "x \<le> pow2 e" "ulp_exp x \<le> e"
  shows "round_pos x \<le> pow2 e"
proof -
  have "x / pow2 (ulp_exp x) \<le> pow2 (e - ulp_exp x)"
    using assms by (simp add: pow2_diff divide_right_mono)
  also have "\<dots> = of_int (2 ^ nat (e - ulp_exp x))"
    using assms(3) by (simp add: pow2_nat)
  finally have "of_int (round_half_even (x / pow2 (ulp_exp x))) \<le> (of_int (2 ^ nat (e - ulp_exp x)) :: rat)"
    by (simp only: of_int_le_iff round_half_even_le)
  also have "\<dots> = pow2 (e - ulp_exp x)"
    using assms(3) by (simp add: pow2_nat)
  finally have "round_pos x \<le> pow2 (e - ulp_exp x) * pow2 (ulp_exp x)"
    by (simp add: round_pos_def)
  then show ?thesis by (simp flip: pow2_add)
qed

lemma round_pos_ge_pow2:
  assumes "pow2 e \<le> x" "ulp_exp x \<le> e"
  shows "pow2 e \<le> round_pos x"
proof -
  have "pow2 (e - ulp_exp x) \<le> x / pow2 (ulp_exp x)"
    using assms by (simp add: pow2_diff divide_right_mono)
  then have "of_int (2 ^ nat (e - ulp_exp x)) \<le> x / pow2 (ulp_exp x)"
    using assms(2) by (simp add: pow2_nat)
  then have "(of_int (2 ^ nat (e - ulp_exp x)) :: rat)
      \<le> of_int (round_half_even (x / pow2 (ulp_exp x)))"
    by (simp only: of_int_le_iff round_half_even_ge)
  then have "pow2 (e - ulp_exp x) * pow2 (ulp_exp x) \<le> round_pos x"
    using assms(2) by (simp add: round_pos_def pow2_nat)
  then show ?thesis by (simp flip: pow2_add)
qed

lemma round_pos_nonneg: "0 \<le> x \<Longrightarrow> 0 \<le> round_pos x"
  unfolding round_pos_def
  using round_half_even_ge [of 0 "x / pow2 (ulp_exp x)"] by (simp add: divide_nonneg_pos)

lemma round_pos_mono:
  assumes "0 < x" and "x \<le> y"
  shows "round_pos x \<le> round_pos y"
proof -
  have y: "0 < y" using assms by linarith
  have le: "ulp_exp x \<le> ulp_exp y"
    using ilog2_mono [OF assms] by (simp add: ulp_exp_def)
  show ?thesis
  proof (cases "ulp_exp x = ulp_exp y")
    case True
    have "x / pow2 (ulp_exp y) \<le> y / pow2 (ulp_exp y)"
      by (rule divide_right_mono [OF assms(2)]) simp
    then show ?thesis
      unfolding round_pos_def True by (simp add: round_half_even_mono)
  next
    case False
    then have lt: "ulp_exp x < ulp_exp y" using le by simp
    then have uy: "ulp_exp y = ilog2 y - 23" and ex: "ilog2 x < ilog2 y"
      by (auto simp: ulp_exp_def max_def split: if_splits)
    have "x \<le> pow2 (ilog2 x + 1)" using ilog2_bounds [OF assms(1)] by simp
    also have "\<dots> \<le> pow2 (ilog2 y)" using ex by (simp add: pow2_le)
    finally have "round_pos x \<le> pow2 (ilog2 y)"
      using lt uy by (intro round_pos_le_pow2 [OF assms(1)]) auto
    also have "\<dots> \<le> round_pos y"
      using ilog2_bounds [OF y] uy by (intro round_pos_ge_pow2) auto
    finally show ?thesis .
  qed
qed

text \<open>Rounding a non-negative number: monotone, non-negative, finite below a finite bound.\<close>

lemma f32_round_nonneg_mono:
  assumes "0 \<le> x" "x \<le> y" "f32_round y = Fin b"
  shows "\<exists>a. f32_round x = Fin a \<and> 0 \<le> a \<and> a \<le> b"
proof (cases "x = 0")
  case True
  then show ?thesis
    using assms round_pos_nonneg [of y] by (auto simp: f32_round_def split: if_splits)
next
  case False
  then have x: "0 < x" and y: "0 < y" using assms by auto
  have b: "b = round_pos y" and lt: "round_pos y < pow2 128"
    using assms(3) y by (auto simp: f32_round_def split: if_splits)
  have "round_pos x \<le> round_pos y" using round_pos_mono [OF x assms(2)] .
  then show ?thesis
    using x b lt round_pos_nonneg [of x] by (auto simp: f32_round_def)
qed

lemma f32_round_nonneg: "0 \<le> x \<Longrightarrow> f32_round x = PInf \<or> (\<exists>a \<ge> 0. f32_round x = Fin a)"
  using round_pos_nonneg [of x] by (auto simp: f32_round_def)

section \<open>Square root is monotone\<close>

lemma isqrt_bounds:
  "s * s \<le> n \<Longrightarrow> n < (s + 2 ^ k) * (s + 2 ^ k) \<Longrightarrow>
   isqrt k s n * isqrt k s n \<le> n \<and> n < Suc (isqrt k s n) * Suc (isqrt k s n)"
proof (induction k s n rule: isqrt.induct)
  case (1 s n)
  then show ?case by simp
next
  case (2 k s n)
  show ?case
  proof (cases "(s + 2 ^ k) * (s + 2 ^ k) \<le> n")
    case True
    have "s + 2 ^ Suc k = s + 2 ^ k + 2 ^ k" by simp
    then have "n < (s + 2 ^ k + 2 ^ k) * (s + 2 ^ k + 2 ^ k)" using "2.prems"(2) by (simp only:)
    then show ?thesis using "2.IH"(1) [OF True True] True by simp
  next
    case False
    then show ?thesis using "2.IH"(2) [OF False] "2.prems" by simp
  qed
qed

definition in_sqrt_range :: "rat \<Rightarrow> bool" where
  "in_sqrt_range r \<longleftrightarrow> 0 \<le> r \<and> r < of_int (2 ^ 50)"

lemma nearest_sqrt_floor:
  assumes "in_sqrt_range r"
  defines "s \<equiv> int (isqrt 25 0 (nat \<lfloor>r\<rfloor>))"
  shows "0 \<le> s" "of_int (s * s) \<le> r" "r < of_int ((s + 1) * (s + 1))"
proof -
  let ?n = "nat \<lfloor>r\<rfloor>" and ?t = "isqrt 25 0 (nat \<lfloor>r\<rfloor>)"
  have f0: "0 \<le> \<lfloor>r\<rfloor>" and f1: "\<lfloor>r\<rfloor> < 2 ^ 50"
    using assms(1) by (auto simp: in_sqrt_range_def floor_less_iff)
  have "?n < (0 + 2 ^ 25) * (0 + 2 ^ 25)"
    using f0 f1 by (simp add: nat_less_iff)
  then have "?t * ?t \<le> ?n \<and> ?n < Suc ?t * Suc ?t"
    by (intro isqrt_bounds) simp_all
  then have "int (?t * ?t) \<le> int ?n" "int ?n < int (Suc ?t * Suc ?t)"
    by (simp_all only: of_nat_le_iff of_nat_less_iff)
  then have "s * s \<le> \<lfloor>r\<rfloor>" "\<lfloor>r\<rfloor> < (s + 1) * (s + 1)"
    using f0 unfolding s_def by (simp_all add: algebra_simps)
  then show "of_int (s * s) \<le> r" "r < of_int ((s + 1) * (s + 1))"
    by (simp_all only: le_floor_iff floor_less_iff)
  show "0 \<le> s" by (simp add: s_def)
qed

lemma nearest_sqrt_between:
  "int (isqrt 25 0 (nat \<lfloor>r\<rfloor>)) \<le> nearest_sqrt r"
  "nearest_sqrt r \<le> int (isqrt 25 0 (nat \<lfloor>r\<rfloor>)) + 1"
  by (simp_all add: nearest_sqrt_def Let_def)

lemma nearest_sqrt_mono:
  assumes "in_sqrt_range r" "in_sqrt_range r'" "r \<le> r'"
  shows "nearest_sqrt r \<le> nearest_sqrt r'"
proof -
  let ?s = "int (isqrt 25 0 (nat \<lfloor>r\<rfloor>))" and ?s' = "int (isqrt 25 0 (nat \<lfloor>r'\<rfloor>))"
  have "(of_int (?s * ?s) :: rat) < of_int ((?s' + 1) * (?s' + 1))"
    using nearest_sqrt_floor [OF assms(1)] nearest_sqrt_floor [OF assms(2)] assms(3) by linarith
  then have "?s * ?s < (?s' + 1) * (?s' + 1)" by (simp only: of_int_less_iff)
  then have le: "?s \<le> ?s'"
    using mult_mono [of "?s' + 1" ?s "?s' + 1" ?s] by linarith
  show ?thesis
  proof (cases "?s = ?s'")
    case True
    then show ?thesis using assms(3) by (auto simp: nearest_sqrt_def Let_def)
  next
    case False
    then show ?thesis
      using le nearest_sqrt_between [of r] nearest_sqrt_between [of r'] by linarith
  qed
qed

lemma nearest_sqrt_square:
  assumes "0 \<le> k" "in_sqrt_range (of_int (k * k))"
  shows "nearest_sqrt (of_int (k * k)) = k"
proof -
  let ?s = "int (isqrt 25 0 (nat \<lfloor>of_int (k * k) :: rat\<rfloor>))"
  have "?s * ?s \<le> k * k" "k * k < (?s + 1) * (?s + 1)" and s0: "0 \<le> ?s"
    using nearest_sqrt_floor [OF assms(2)] by (simp_all only: of_int_less_iff of_int_le_iff)
  then have "?s = k"
    using assms(1) mult_mono [of "k + 1" ?s "k + 1" ?s] mult_mono [of "?s + 1" k "?s + 1" k]
    by (smt (verit) mult_strict_mono)
  moreover have "(of_int (k * k) :: rat) < (of_int k + 1 / 2) * (of_int k + 1 / 2)"
    using assms(1) by (simp add: algebra_simps)
  ultimately show ?thesis
    by (simp add: nearest_sqrt_def Let_def)
qed

lemma sqrt_scale:
  assumes "0 < x"
  shows "of_int (2 ^ 46) \<le> x / pow2 (2 * (ilog2 x div 2 - 23))"
    and "x / pow2 (2 * (ilog2 x div 2 - 23)) < of_int (2 ^ 48)"
proof -
  let ?e = "ilog2 x div 2"
  have e: "2 * ?e \<le> ilog2 x" "ilog2 x + 1 \<le> 2 * ?e + 2" by presburger+
  have lo: "pow2 (2 * ?e) \<le> x" and hi: "x < pow2 (2 * ?e + 2)"
    using ilog2_bounds [OF assms] pow2_le [OF e(1)] pow2_le [OF e(2)] by linarith+
  have split: "pow2 (2 * ?e) = of_int (2 ^ 46) * pow2 (2 * (?e - 23))"
    "pow2 (2 * ?e + 2) = of_int (2 ^ 48) * pow2 (2 * (?e - 23))"
    using pow2_add [of 46 "2 * (?e - 23)"] pow2_add [of 48 "2 * (?e - 23)"]
    by (simp_all add: pow2_lits algebra_simps)
  show "of_int (2 ^ 46) \<le> x / pow2 (2 * (?e - 23))" "x / pow2 (2 * (?e - 23)) < of_int (2 ^ 48)"
    using lo hi unfolding split by (simp_all add: pos_le_divide_eq pos_divide_less_eq)
qed

lemma sqrt_scale_range: "0 < x \<Longrightarrow> in_sqrt_range (x / pow2 (2 * (ilog2 x div 2 - 23)))"
  using sqrt_scale [of x] by (simp add: in_sqrt_range_def)

lemma sqrt_pos_bounds:
  assumes "0 < x"
  shows "pow2 (ilog2 x div 2) \<le> sqrt_pos x" "sqrt_pos x \<le> pow2 (ilog2 x div 2 + 1)"
proof -
  let ?q = "ilog2 x div 2 - 23" and ?r = "x / pow2 (2 * (ilog2 x div 2 - 23))"
  have sq: "nearest_sqrt (of_int (2 ^ 23 * 2 ^ 23)) = 2 ^ 23"
    "nearest_sqrt (of_int (2 ^ 24 * 2 ^ 24)) = 2 ^ 24"
    by (rule nearest_sqrt_square; simp add: in_sqrt_range_def)+
  have "2 ^ 23 \<le> nearest_sqrt ?r"
    using nearest_sqrt_mono [of "of_int (2 ^ 23 * 2 ^ 23)" ?r] sqrt_scale [OF assms]
      sqrt_scale_range [OF assms] sq(1) by (simp add: in_sqrt_range_def)
  moreover have "nearest_sqrt ?r \<le> 2 ^ 24"
    using nearest_sqrt_mono [of ?r "of_int (2 ^ 24 * 2 ^ 24)"] sqrt_scale [OF assms]
      sqrt_scale_range [OF assms] sq(2) by (simp add: in_sqrt_range_def)
  ultimately have n: "(2 :: rat) ^ 23 \<le> of_int (nearest_sqrt ?r)" "of_int (nearest_sqrt ?r) \<le> (2 :: rat) ^ 24"
    by simp_all
  have split: "pow2 (ilog2 x div 2) = 2 ^ 23 * pow2 ?q" "pow2 (ilog2 x div 2 + 1) = 2 ^ 24 * pow2 ?q"
    using pow2_add [of 23 ?q] pow2_add [of 24 ?q] by (simp_all add: pow2_lits add.commute)
  show "pow2 (ilog2 x div 2) \<le> sqrt_pos x" "sqrt_pos x \<le> pow2 (ilog2 x div 2 + 1)"
    unfolding split sqrt_pos_def Let_def using n by (simp_all add: mult_right_mono)
qed

lemma sqrt_pos_mono:
  assumes "0 < x" "x \<le> y"
  shows "sqrt_pos x \<le> sqrt_pos y"
proof -
  have y: "0 < y" using assms by linarith
  have le: "ilog2 x div 2 \<le> ilog2 y div 2"
    using ilog2_mono [OF assms] by (rule zdiv_mono1) simp
  show ?thesis
  proof (cases "ilog2 x div 2 = ilog2 y div 2")
    case True
    have "x / pow2 (2 * (ilog2 y div 2 - 23)) \<le> y / pow2 (2 * (ilog2 y div 2 - 23))"
      by (rule divide_right_mono [OF assms(2)]) simp
    then have "nearest_sqrt (x / pow2 (2 * (ilog2 y div 2 - 23)))
        \<le> nearest_sqrt (y / pow2 (2 * (ilog2 y div 2 - 23)))"
      using nearest_sqrt_mono sqrt_scale_range [OF assms(1)] sqrt_scale_range [OF y] True by simp
    then show ?thesis
      unfolding sqrt_pos_def Let_def True by (simp add: mult_right_mono)
  next
    case False
    then have "pow2 (ilog2 x div 2 + 1) \<le> pow2 (ilog2 y div 2)"
      using le by (intro pow2_le) simp
    then show ?thesis
      using sqrt_pos_bounds [OF assms(1)] sqrt_pos_bounds [OF y] by linarith
  qed
qed

lemma f32_sqrt_mono:
  assumes "0 \<le> x" "x \<le> y"
  shows "\<exists>a b. f32_sqrt (Fin x) = Fin a \<and> f32_sqrt (Fin y) = Fin b \<and> 0 \<le> a \<and> a \<le> b"
proof -
  have nonneg: "0 \<le> sqrt_pos z" if "0 < z" for z
    using sqrt_pos_bounds(1) [OF that] pow2_nonneg [of "ilog2 z div 2"] by linarith
  show ?thesis
    using assms nonneg sqrt_pos_mono [of x y] by (cases "x = 0"; cases "y = 0") auto
qed

section \<open>Comparison\<close>

lemma f32_le_Fin [simp]: "f32_le (Fin x) (Fin y) \<longleftrightarrow> x \<le> y"
  by (auto simp: f32_le_def)

lemma f32_clamp_range:
  assumes "lo \<le> hi"
  shows "f32_clamp (Fin lo) (Fin hi) x = NaN \<or>
    (\<exists>y. f32_clamp (Fin lo) (Fin hi) x = Fin y \<and> lo \<le> y \<and> y \<le> hi)"
  using assms by (cases x) (auto simp: f32_clamp_def Let_def)

lemma f32_clamp_Fin: "lo \<le> x \<Longrightarrow> x \<le> hi \<Longrightarrow> f32_clamp (Fin lo) (Fin hi) (Fin x) = Fin x"
  by (simp add: f32_clamp_def Let_def)

lemma f32_clamp_Fin_le: "lo \<le> hi \<Longrightarrow> x \<le> b \<Longrightarrow> lo \<le> b \<Longrightarrow>
  \<exists>y. f32_clamp (Fin lo) (Fin hi) (Fin x) = Fin y \<and> lo \<le> y \<and> y \<le> b"
  by (auto simp: f32_clamp_def Let_def)

lemma f32_add_mono:
  assumes "0 \<le> x" "x \<le> x'" "0 \<le> y" "y \<le> y'" "f32_add (Fin x') (Fin y') = Fin b"
  shows "\<exists>a. f32_add (Fin x) (Fin y) = Fin a \<and> 0 \<le> a \<and> a \<le> b"
  using f32_round_nonneg_mono [of "x + y" "x' + y'" b] assms by simp

lemma f32_mul_mono:
  assumes "0 \<le> x" "x \<le> x'" "0 \<le> y" "y \<le> y'" "f32_mul (Fin x') (Fin y') = Fin b"
  shows "\<exists>a. f32_mul (Fin x) (Fin y) = Fin a \<and> 0 \<le> a \<and> a \<le> b"
  using f32_round_nonneg_mono [of "x * y" "x' * y'" b] assms by (simp add: mult_mono)

section \<open>Non-negative values, infinity included\<close>

definition f32_nonneg :: "f32 \<Rightarrow> bool" where
  "f32_nonneg x \<longleftrightarrow> x = PInf \<or> (\<exists>a \<ge> 0. x = Fin a)"

lemma f32_nonneg_simps [simp]:
  "f32_nonneg (Fin a) \<longleftrightarrow> 0 \<le> a" "f32_nonneg PInf" "\<not> f32_nonneg NInf" "\<not> f32_nonneg NaN"
  by (auto simp: f32_nonneg_def)

lemma f32_nonneg_cases:
  assumes "f32_nonneg x"
  obtains (Inf) "x = PInf" | (Fin) a where "x = Fin a" "0 \<le> a"
  using assms by (auto simp: f32_nonneg_def)

lemma f32_le_simps [simp]:
  "\<not> f32_le PInf NInf" "\<not> f32_le (Fin b) NInf" "f32_le x PInf \<longleftrightarrow> x \<noteq> NaN" "\<not> f32_le PInf (Fin b)" "f32_le NInf (Fin b)"
  "\<not> f32_le NaN x" "\<not> f32_le x NaN"
  by (cases x; auto simp: f32_le_def)+

lemma f32_le_trans: "f32_le x y \<Longrightarrow> f32_le y z \<Longrightarrow> f32_le x z"
  by (cases x; cases y; cases z) (auto simp: f32_le_def)

lemma f32_le_refl: "f32_nonneg x \<Longrightarrow> f32_le x x"
  by (auto simp: f32_le_def)

lemma f32_round_not_NaN [simp]: "f32_round x \<noteq> NaN"
  by (simp add: f32_round_def)

lemma f32_round_mono:
  assumes "0 \<le> x" "x \<le> y"
  shows "f32_le (f32_round x) (f32_round y)"
  using f32_round_nonneg [of y] assms f32_round_nonneg_mono [OF assms]
  by (cases "f32_round y") auto

lemma f32_nonneg_round [simp]: "0 \<le> x \<Longrightarrow> f32_nonneg (f32_round x)"
  using f32_round_nonneg by (auto simp: f32_nonneg_def)

lemma f32_nonneg_add: "f32_nonneg x \<Longrightarrow> f32_nonneg y \<Longrightarrow> f32_nonneg (f32_add x y)"
  by (elim f32_nonneg_cases) auto

lemma f32_nonneg_square: "x \<noteq> NaN \<Longrightarrow> f32_nonneg (f32_mul x x)"
  by (cases x) auto

lemma f32_mul_Fin_not_NaN: "f32_mul (Fin x) (Fin y) \<noteq> NaN"
  by simp

lemma f32_add_le:
  assumes "f32_nonneg x" "f32_nonneg y" "f32_le x x'" "f32_le y y'"
  shows "f32_le (f32_add x y) (f32_add x' y')"
proof -
  have n': "f32_nonneg x'" "f32_nonneg y'"
    using assms by (cases x'; cases y'; auto elim!: f32_nonneg_cases simp: f32_le_def)+
  show ?thesis
    using assms n' by (elim f32_nonneg_cases) (auto intro: f32_round_mono)
qed

lemma f32_square_le:
  assumes "f32_nonneg x" "f32_le x x'"
  shows "f32_le (f32_mul x x) (f32_mul x' x')"
proof -
  have n': "f32_nonneg x'"
    using assms by (cases x') (auto elim!: f32_nonneg_cases simp: f32_le_def)
  have sq: "a * a \<le> b * b" if "0 \<le> a" "a \<le> b" for a b :: rat
    using that by (intro mult_mono) auto
  show ?thesis
    using assms n' by (elim f32_nonneg_cases) (auto intro: f32_round_mono sq)
qed

lemma f32_nonneg_sqrt: "f32_nonneg x \<Longrightarrow> f32_nonneg (f32_sqrt x)"
  using f32_sqrt_mono [of 0] by (elim f32_nonneg_cases) fastforce+

lemma f32_sqrt_le: "f32_nonneg x \<Longrightarrow> f32_le x y \<Longrightarrow> f32_le (f32_sqrt x) (f32_sqrt y)"
proof -
  assume a: "f32_nonneg x" "f32_le x y"
  have y: "f32_nonneg y"
    using a by (cases y) (auto elim!: f32_nonneg_cases simp: f32_le_def)
  show "f32_le (f32_sqrt x) (f32_sqrt y)"
  proof (cases y)
    case PInf
    have "f32_sqrt x \<noteq> NaN" using f32_nonneg_sqrt [OF a(1)] by auto
    then show ?thesis using PInf by simp
  next
    case (Fin b)
    then obtain c where c: "x = Fin c" "0 \<le> c" "c \<le> b"
      using a by (auto elim!: f32_nonneg_cases)
    show ?thesis using f32_sqrt_mono [OF c(2,3)] Fin c(1) by auto
  qed (use y in auto)
qed

text \<open>A clamp of a non-negative value to \<open>[0, 1]\<close>.\<close>

lemma f32_clamp01_nonneg:
  "f32_nonneg x \<Longrightarrow> \<exists>y. f32_clamp (Fin 0) (Fin 1) x = Fin y \<and> 0 \<le> y \<and> y \<le> 1"
  by (elim f32_nonneg_cases) (auto simp: f32_clamp_def Let_def)

lemma f32_clamp_le:
  "f32_nonneg x \<Longrightarrow> f32_le x y \<Longrightarrow> f32_le (f32_clamp (Fin 0) (Fin 1) x) (f32_clamp (Fin 0) (Fin 1) y)"
  by (cases y; elim f32_nonneg_cases) (auto simp: f32_clamp_def Let_def)

section \<open>Evaluation\<close>

text \<open>A binade and a mantissa determine the rounded value.\<close>

lemma ilog2_eqI: "pow2 e \<le> x \<Longrightarrow> x < pow2 (e + 1) \<Longrightarrow> ilog2 x = e"
proof -
  assume a: "pow2 e \<le> x" "x < pow2 (e + 1)"
  then have x: "0 < x" using pow2_pos [of e] by linarith
  have "pow2 (ilog2 x) < pow2 (e + 1)" "pow2 e < pow2 (ilog2 x + 1)"
    using ilog2_bounds [OF x] a by linarith+
  then show "ilog2 x = e" by (simp add: pow2_less_iff)
qed

lemma round_half_even_eqI: "\<bar>r - of_int m\<bar> < 1 / 2 \<Longrightarrow> round_half_even r = m"
proof -
  assume a: "\<bar>r - of_int m\<bar> < 1 / 2"
  show "round_half_even r = m"
  proof (cases "of_int m \<le> r")
    case True
    then have "\<lfloor>r\<rfloor> = m" using a by (intro floor_unique) auto
    then show ?thesis using a True by (simp add: round_half_even_def Let_def)
  next
    case False
    then have "\<lfloor>r\<rfloor> = m - 1" using a by (intro floor_unique) auto
    then show ?thesis using a False by (simp add: round_half_even_def Let_def)
  qed
qed

lemma f32_round_eqI:
  assumes "pow2 e \<le> x" "x < pow2 (e + 1)" "- 126 \<le> e" "e \<le> 126"
    and "\<bar>x / pow2 (e - 23) - of_int m\<bar> < 1 / 2"
  shows "f32_round x = Fin (of_int m * pow2 (e - 23))"
proof -
  have x: "0 < x" using assms(1) pow2_pos [of e] by linarith
  have u: "ulp_exp x = e - 23"
    using ilog2_eqI [OF assms(1,2)] assms(3) by (simp add: ulp_exp_def)
  have r: "round_pos x = of_int m * pow2 (e - 23)"
    using round_half_even_eqI [OF assms(5)] by (simp add: round_pos_def u)
  have "round_pos x \<le> pow2 (e + 1)"
    using assms(2) u by (intro round_pos_le_pow2 [OF x]) auto
  then have "round_pos x < pow2 128"
    using assms(4) pow2_less_iff [of "e + 1" 128] by linarith
  then show ?thesis using x r by (simp add: f32_round_def)
qed

lemma pow2_neg_numeral [simp]: "pow2 (- numeral n) = 1 / 2 ^ numeral n"
  by (simp add: pow2_def)

lemma pow2_neg_one [simp]: "pow2 (- 1) = 1 / 2"
  by (simp add: pow2_def)

lemma f32_round_0 [simp]: "f32_round 0 = Fin 0"
  by (simp add: f32_round_def)

lemma f32_round_1 [simp]: "f32_round 1 = Fin 1"
proof -
  have "f32_round 1 = Fin (of_int 8388608 * pow2 (0 - 23))"
    by (rule f32_round_eqI) simp_all
  then show ?thesis by simp
qed

end
