(* ===== verification/Scoring.thy ===== *)
theory Scoring
  imports Core F32
begin

text \<open>
  Trigger scoring: the part of \<open>beacon-core\<close> that computes with \<open>f32\<close> (the weights of
  the sources and responses, \<open>score\<close>, \<open>should_alert\<close>, \<open>time_decayed_contribution\<close>) and the
  decision the signal aggregator takes on a score (\<open>evaluate\<close> of
  src/crates/beacon-api/src/scheduler.rs).
\<close>

section \<open>Weights\<close>

fun default_weight :: "signal_source \<Rightarrow> f32" where
  "default_weight Heartbeat = f32_lit (30 / 100)"
| "default_weight Cdr = f32_lit (25 / 100)"
| "default_weight AppleIcloudShortcut = f32_lit (18 / 100)"
| "default_weight GoogleLogin = f32_lit (15 / 100)"
| "default_weight MicrosoftAccount = f32_lit (15 / 100)"
| "default_weight Calendar = f32_lit (10 / 100)"
| "default_weight Email = f32_lit (10 / 100)"
| "default_weight BuddyAttestation = f32_lit (20 / 100)"
| "default_weight GuardianAttestation = f32_lit (40 / 100)"
| "default_weight DeathRegistry = f32_lit (60 / 100)"
| "default_weight SentinelOffline = f32_lit (5 / 100)"

fun release_contribution :: "buddy_response \<Rightarrow> f32" where
  "release_contribution Well = f32_lit 0"
| "release_contribution Worried = f32_lit (20 / 100)"
| "release_contribution UnableToReach = f32_lit (35 / 100)"

section \<open>The score\<close>

record scored_observation =
  so_source :: signal_source
  so_contribution :: f32
  so_weight :: f32

record trigger_score =
  ts_score :: f32
  ts_contributing :: "scored_observation list"
  ts_independent_classes :: nat

definition should_alert :: "trigger_score \<Rightarrow> f32 \<Rightarrow> nat \<Rightarrow> bool" where
  "should_alert s threshold min_independent_signals \<longleftrightarrow>
     f32_ge (ts_score s) threshold \<and> min_independent_signals \<le> ts_independent_classes s"

text \<open>One iteration of the loop: the running sum of squares and the set of classes.\<close>

definition score_step :: "f32 \<times> string list \<Rightarrow> scored_observation \<Rightarrow> f32 \<times> string list" where
  "score_step acc obs = (case acc of (sum_sq, classes) \<Rightarrow>
     let v = f32_mul (so_weight obs) (so_contribution obs)
     in (f32_add sum_sq (f32_mul v v),
         if f32_ge (so_contribution obs) (f32_lit (2 / 10))
         then List.insert (independence_class (so_source obs)) classes else classes))"

definition score :: "scored_observation list \<Rightarrow> trigger_score" where
  "score observations = (case foldl score_step (f32_lit 0, []) observations of (sum_sq, classes) \<Rightarrow>
     \<lparr>ts_score = f32_clamp (Fin 0) (Fin 1) (f32_sqrt sum_sq),
      ts_contributing = observations,
      ts_independent_classes = length classes\<rparr>)"

text \<open>
  \<open>f32::exp\<close> is a parameter: its rounding is left to the platform by the standard library.
  \<open>as f32\<close> on the two \<open>i64\<close> arguments rounds.
\<close>

definition time_decayed_contribution ::
  "(f32 \<Rightarrow> f32) \<Rightarrow> f32 \<Rightarrow> int \<Rightarrow> int \<Rightarrow> int \<Rightarrow> f32" where
  "time_decayed_contribution exp32 raw seconds_since_observation half_life_seconds window_seconds =
     (if window_seconds < seconds_since_observation then f32_lit 0
      else let ratio = f32_div (f32_of_int seconds_since_observation)
                               (f32_of_int (max half_life_seconds 1))
           in f32_clamp (Fin 0) (Fin 1) (f32_mul raw (exp32 (f32_neg ratio))))"

section \<open>The aggregator's decision\<close>

definition evaluate :: "vault_state \<Rightarrow> trigger_score \<Rightarrow> f32 \<Rightarrow> nat \<Rightarrow> vault_state" where
  "evaluate current s threshold min_classes =
     (let crossed_threshold = should_alert s threshold min_classes;
          soft_threshold = f32_ge (ts_score s) (f32_mul threshold (f32_lit (5 / 10)))
                           \<and> 1 \<le> ts_independent_classes s
      in case current of
           Active \<Rightarrow> if crossed_threshold then Alert else if soft_threshold then Suspicious else Active
         | Suspicious \<Rightarrow> if crossed_threshold then Alert
                         else if f32_lt (ts_score s) (f32_lit (1 / 10)) then Active else Suspicious
         | Alert \<Rightarrow> if \<not> soft_threshold then Suspicious else CoolingOff
         | other \<Rightarrow> other)"

section \<open>Lemmas\<close>

subsection \<open>Classes\<close>

text \<open>The set the loop collects, as a specification.\<close>

definition alarming_classes :: "scored_observation list \<Rightarrow> string set" where
  "alarming_classes obs =
     (\<lambda>ob. independence_class (so_source ob)) `
       {ob \<in> set obs. f32_ge (so_contribution ob) (f32_lit (2 / 10))}"

definition weighted :: "scored_observation \<Rightarrow> f32" where
  "weighted ob = f32_mul (so_weight ob) (so_contribution ob)"

fun score_sum :: "scored_observation list \<Rightarrow> f32 \<Rightarrow> f32" where
  "score_sum [] a = a"
| "score_sum (ob # obs) a = score_sum obs (f32_add a (f32_mul (weighted ob) (weighted ob)))"

lemma score_fold_fst: "fst (foldl score_step acc obs) = score_sum obs (fst acc)"
  by (induction obs arbitrary: acc) (auto simp: score_step_def Let_def weighted_def split: prod.split)

lemma alarming_classes_simps [simp]:
  "alarming_classes [] = {}"
  "alarming_classes (ob # obs) =
    (if f32_ge (so_contribution ob) (f32_lit (2 / 10))
     then insert (independence_class (so_source ob)) (alarming_classes obs) else alarming_classes obs)"
  by (auto simp: alarming_classes_def)

lemma score_fold_snd:
  "set (snd (foldl score_step acc obs)) = set (snd acc) \<union> alarming_classes obs \<and>
   (distinct (snd acc) \<longrightarrow> distinct (snd (foldl score_step acc obs)))"
proof (induction obs arbitrary: acc)
  case Nil
  then show ?case by simp
next
  case (Cons ob obs)
  obtain a cs where acc: "acc = (a, cs)" by force
  show ?case
    using Cons.IH [of "score_step acc ob"]
    by (auto simp: acc score_step_def Let_def)
qed

lemma score_eq:
  "score obs = \<lparr>ts_score = f32_clamp (Fin 0) (Fin 1) (f32_sqrt (score_sum obs (f32_lit 0))),
     ts_contributing = obs, ts_independent_classes = card (alarming_classes obs)\<rparr>"
proof -
  obtain x cs where f: "foldl score_step (f32_lit 0, []) obs = (x, cs)" by force
  have "x = score_sum obs (f32_lit 0)"
    using score_fold_fst [of "(f32_lit 0, [])" obs] by (simp add: f)
  moreover have "length cs = card (alarming_classes obs)"
    using score_fold_snd [of "(f32_lit 0, [])" obs] distinct_card [of cs] by (simp add: f)
  ultimately show ?thesis by (simp add: score_def f)
qed

lemma score_classes: "ts_independent_classes (score obs) = card (alarming_classes obs)"
  by (simp add: score_eq)

lemma score_value: "ts_score (score obs) = f32_clamp (Fin 0) (Fin 1) (f32_sqrt (score_sum obs (f32_lit 0)))"
  by (simp add: score_eq)

lemma finite_alarming_classes [simp]: "finite (alarming_classes obs)"
  by (simp add: alarming_classes_def)

subsection \<open>Observations the aggregator can build\<close>

definition finite_obs :: "scored_observation \<Rightarrow> bool" where
  "finite_obs ob \<longleftrightarrow> (\<exists>w c. so_weight ob = Fin w \<and> so_contribution ob = Fin c)"

lemma weighted_not_NaN: "finite_obs ob \<Longrightarrow> weighted ob \<noteq> NaN"
  by (auto simp: finite_obs_def weighted_def)

lemma score_sum_nonneg:
  "f32_nonneg a \<Longrightarrow> \<forall>ob \<in> set obs. finite_obs ob \<Longrightarrow> f32_nonneg (score_sum obs a)"
proof (induction obs arbitrary: a)
  case (Cons ob obs)
  have "f32_nonneg (f32_add a (f32_mul (weighted ob) (weighted ob)))"
    using Cons.prems by (intro f32_nonneg_add f32_nonneg_square weighted_not_NaN) auto
  then show ?case using Cons by simp
qed simp

lemma f32_lit_0 [simp]: "f32_lit 0 = Fin 0"
  by (simp add: f32_lit_def)

text \<open>Pointwise larger observations of the same sources.\<close>

definition obs_le :: "scored_observation \<Rightarrow> scored_observation \<Rightarrow> bool" where
  "obs_le p q \<longleftrightarrow> so_source p = so_source q \<and>
     (\<exists>w c w' c'. so_weight p = Fin w \<and> so_contribution p = Fin c \<and>
        so_weight q = Fin w' \<and> so_contribution q = Fin c' \<and> 0 \<le> w \<and> w \<le> w' \<and> 0 \<le> c \<and> c \<le> c')"

lemma obs_le_product:
  assumes "obs_le p q"
  shows "f32_nonneg (weighted p)" and "f32_le (weighted p) (weighted q)"
  using assms by (auto simp: obs_le_def weighted_def intro!: f32_round_mono mult_mono)

lemma score_sum_mono:
  assumes "list_all2 obs_le ps qs" and "f32_nonneg a" and "f32_le a b"
  shows "f32_nonneg (score_sum ps a) \<and> f32_le (score_sum ps a) (score_sum qs b)"
  using assms
proof (induction arbitrary: a b rule: list_all2_induct)
  case Nil
  then show ?case by simp
next
  case (Cons p ps q qs)
  have v: "f32_nonneg (weighted p)" "f32_le (weighted p) (weighted q)"
    using obs_le_product [OF Cons.hyps(1)] by auto
  then have n: "f32_nonneg (f32_mul (weighted p) (weighted p))"
    by (intro f32_nonneg_square) auto
  show ?case
    using Cons.IH [OF f32_nonneg_add [OF Cons.prems(1) n]
        f32_add_le [OF Cons.prems(1) n Cons.prems(2) f32_square_le [OF v]]]
    by simp
qed

lemma alarming_classes_mono:
  "list_all2 obs_le ps qs \<Longrightarrow> alarming_classes ps \<subseteq> alarming_classes qs"
proof (induction rule: list_all2_induct)
  case Nil
  then show ?case by simp
next
  case (Cons p ps q qs)
  have "f32_ge (so_contribution q) (f32_lit (2 / 10))"
    if "f32_ge (so_contribution p) (f32_lit (2 / 10))"
    using that Cons.hyps(1) by (auto simp: obs_le_def intro: f32_le_trans)
  then show ?case
    using Cons.IH Cons.hyps(1) by (auto simp: obs_le_def)
qed

lemma score_mono_lemma:
  assumes "list_all2 obs_le ps qs"
  shows "f32_le (ts_score (score ps)) (ts_score (score qs))"
    and "ts_independent_classes (score ps) \<le> ts_independent_classes (score qs)"
proof -
  have s: "f32_nonneg (score_sum ps (Fin 0))" "f32_le (score_sum ps (Fin 0)) (score_sum qs (Fin 0))"
    using score_sum_mono [OF assms, of "Fin 0" "Fin 0"] by auto
  then show "f32_le (ts_score (score ps)) (ts_score (score qs))"
    by (auto simp: score_value intro!: f32_clamp_le f32_nonneg_sqrt f32_sqrt_le)
  show "ts_independent_classes (score ps) \<le> ts_independent_classes (score qs)"
    using alarming_classes_mono [OF assms] by (simp add: score_classes card_mono)
qed

subsection \<open>Bounds for readings at the default weights\<close>

definition exact :: "rat \<Rightarrow> bool" where
  "exact x \<longleftrightarrow> f32_round x = Fin x"

lemma round_le_exact:
  assumes "0 \<le> x" "x \<le> b" "exact b"
  shows "\<exists>y. f32_round x = Fin y \<and> 0 \<le> y \<and> y \<le> b"
  using f32_round_nonneg_mono [OF assms(1,2)] assms(3) by (simp add: exact_def)

lemma exactI:
  "x = of_int m * pow2 (e - 23) \<Longrightarrow> pow2 e \<le> x \<Longrightarrow> x < pow2 (e + 1) \<Longrightarrow>
   - 126 \<le> e \<Longrightarrow> e \<le> 126 \<Longrightarrow> exact x"
  unfolding exact_def by (subst f32_round_eqI [of e x m]) auto

lemma exact_consts:
  "exact (25 / 256)"
  "exact (25 / 4096)"
  "exact (425 / 4096)"
  "exact (1 / 16)"
  "exact (681 / 4096)"
  "exact (5 / 16)"
  "exact (5 / 64)"
  "exact (1 / 4)"
proof -
  show "exact (25 / 256)" by (rule exactI [of _ "25 * 2 ^ 19" "- 4"]) simp_all
  show "exact (25 / 4096)" by (rule exactI [of _ "25 * 2 ^ 19" "- 8"]) simp_all
  show "exact (425 / 4096)" by (rule exactI [of _ "425 * 2 ^ 15" "- 4"]) simp_all
  show "exact (1 / 16)" by (rule exactI [of _ "2 ^ 23" "- 4"]) simp_all
  show "exact (681 / 4096)" by (rule exactI [of _ "681 * 2 ^ 14" "- 3"]) simp_all
  show "exact (5 / 16)" by (rule exactI [of _ "5 * 2 ^ 21" "- 2"]) simp_all
  show "exact (5 / 64)" by (rule exactI [of _ "5 * 2 ^ 21" "- 4"]) simp_all
  show "exact (1 / 4)" by (rule exactI [of _ "2 ^ 23" "- 2"]) simp_all
qed

text \<open>At most one reading whose weighted value is at most \<open>w\<close>, added to a sum of at most \<open>b\<close>.\<close>

definition reading :: "rat \<Rightarrow> scored_observation list \<Rightarrow> bool" where
  "reading w obs \<longleftrightarrow> obs = [] \<or> (\<exists>ob v. obs = [ob] \<and> weighted ob = Fin v \<and> 0 \<le> v \<and> v \<le> w)"

lemma score_sum_reading:
  assumes "reading w obs" "0 \<le> a" "a \<le> b" "exact (w * w)" "exact b'" "b + w * w \<le> b'"
  shows "\<exists>a'. score_sum obs (Fin a) = Fin a' \<and> 0 \<le> a' \<and> a' \<le> b'"
proof (cases "obs = []")
  case True
  have "a \<le> b'"
    using assms(3,6) zero_le_square [of w] by linarith
  then show ?thesis using True assms(2) by simp
next
  case False
  then obtain ob v where ob: "obs = [ob]" "weighted ob = Fin v" and v: "0 \<le> v" "v \<le> w"
    using assms(1) by (auto simp: reading_def)
  obtain q where q: "f32_round (v * v) = Fin q" "0 \<le> q" "q \<le> w * w"
    using round_le_exact [of "v * v" "w * w"] mult_mono [OF v(2) v(2)] v assms(4) by auto
  obtain a' where "f32_round (a + q) = Fin a'" "0 \<le> a'" "a' \<le> b'"
    using round_le_exact [of "a + q" b'] q assms by auto
  then show ?thesis using ob q by simp
qed

lemma score_sum_append: "score_sum (xs @ ys) a = score_sum ys (score_sum xs a)"
  by (induction xs arbitrary: a) auto

lemma lit_eqs:
  "f32_lit (30 / 100) = Fin (10066330 / 2 ^ 25)"
  "f32_lit (20 / 100) = Fin (13421773 / 2 ^ 26)"
  "f32_lit (25 / 100) = Fin (1 / 4)"
  "f32_lit (35 / 100) = Fin (11744051 / 2 ^ 25)"
  "f32_lit (5 / 10) = Fin (1 / 2)"
  "f32_lit (7 / 10) = Fin (11744051 / 2 ^ 24)"
  "f32_lit (1 / 10) = Fin (13421773 / 2 ^ 27)"
  "f32_lit (2 / 10) = Fin (13421773 / 2 ^ 26)"
proof -
  show "f32_lit (30 / 100) = Fin (10066330 / 2 ^ 25)"
    unfolding f32_lit_def by (subst f32_round_eqI [of "- 2" _ 10066330]) simp_all
  show "f32_lit (20 / 100) = Fin (13421773 / 2 ^ 26)"
    unfolding f32_lit_def by (subst f32_round_eqI [of "- 3" _ 13421773]) simp_all
  show "f32_lit (25 / 100) = Fin (1 / 4)"
    unfolding f32_lit_def by (subst f32_round_eqI [of "- 2" _ 8388608]) simp_all
  show "f32_lit (35 / 100) = Fin (11744051 / 2 ^ 25)"
    unfolding f32_lit_def by (subst f32_round_eqI [of "- 2" _ 11744051]) simp_all
  show "f32_lit (5 / 10) = Fin (1 / 2)"
    unfolding f32_lit_def by (subst f32_round_eqI [of "- 1" _ 8388608]) simp_all
  show "f32_lit (7 / 10) = Fin (11744051 / 2 ^ 24)"
    unfolding f32_lit_def by (subst f32_round_eqI [of "- 1" _ 11744051]) simp_all
  show "f32_lit (1 / 10) = Fin (13421773 / 2 ^ 27)"
    unfolding f32_lit_def by (subst f32_round_eqI [of "- 4" _ 13421773]) simp_all
  show "f32_lit (2 / 10) = Fin (13421773 / 2 ^ 26)"
    unfolding f32_lit_def by (subst f32_round_eqI [of "- 3" _ 13421773]) simp_all
qed

lemma sqrt_consts:
  "f32_sqrt (Fin (1 / 4)) = Fin (1 / 2)"
  "f32_sqrt (Fin (121 / 1024)) = Fin (11 / 32)"
proof -
  have l: "ilog2 (1 / 4) = - 2" "ilog2 (121 / 1024) = - 4"
    by (rule ilog2_eqI; simp)+
  have n: "nearest_sqrt (of_int (2 ^ 23 * 2 ^ 23)) = 2 ^ 23"
    "nearest_sqrt (of_int (11 * 2 ^ 20 * (11 * 2 ^ 20))) = 11 * 2 ^ 20"
    by (rule nearest_sqrt_square; simp add: in_sqrt_range_def)+
  show "f32_sqrt (Fin (1 / 4)) = Fin (1 / 2)" "f32_sqrt (Fin (121 / 1024)) = Fin (11 / 32)"
    using n by (simp_all add: sqrt_pos_def l Let_def)
qed

lemma readingI:
  assumes "so_weight ob = Fin w" "so_contribution ob = Fin c" "0 \<le> w" "0 \<le> c" "c \<le> m"
    and "w * m \<le> b" "exact b"
  shows "reading b [ob]"
proof -
  have "w * c \<le> b" using mult_left_mono [OF assms(5,3)] assms(6) by linarith
  then show ?thesis
    using round_le_exact [of "w * c" b] assms by (auto simp: reading_def weighted_def)
qed

lemma reading_Nil [simp]: "reading b []"
  by (simp add: reading_def)

lemma default_score_bounds:
  assumes "reading (5 / 16) heart" "reading (5 / 64) buddy"
  shows "\<exists>y. ts_score (score (heart @ buddy)) = Fin y \<and> 0 \<le> y \<and> y \<le> 11 / 32"
    and "reading (1 / 4) bank \<Longrightarrow>
      \<exists>y. ts_score (score (heart @ buddy @ bank)) = Fin y \<and> 0 \<le> y \<and> y \<le> 1 / 2"
proof -
  obtain a where a: "score_sum heart (Fin 0) = Fin a" "0 \<le> a" "a \<le> 25 / 256"
    using score_sum_reading [OF assms(1), of 0 0 "25 / 256"] exact_consts by auto
  obtain b where b: "score_sum buddy (Fin a) = Fin b" "0 \<le> b" "b \<le> 425 / 4096"
    using score_sum_reading [OF assms(2) a(2,3), of "425 / 4096"] exact_consts by auto
  obtain r where r: "f32_sqrt (Fin b) = Fin r" "0 \<le> r" "r \<le> 11 / 32"
    using f32_sqrt_mono [of b "121 / 1024"] b sqrt_consts by auto
  show "\<exists>y. ts_score (score (heart @ buddy)) = Fin y \<and> 0 \<le> y \<and> y \<le> 11 / 32"
    using r by (simp add: score_value score_sum_append a b f32_clamp_Fin)
  assume bank: "reading (1 / 4) bank"
  obtain c where c: "score_sum bank (Fin b) = Fin c" "0 \<le> c" "c \<le> 681 / 4096"
    using score_sum_reading [OF bank b(2,3), of "681 / 4096"] exact_consts by auto
  obtain q where q: "f32_sqrt (Fin c) = Fin q" "0 \<le> q" "q \<le> 1 / 2"
    using f32_sqrt_mono [of c "1 / 4"] c sqrt_consts by auto
  show "\<exists>y. ts_score (score (heart @ buddy @ bank)) = Fin y \<and> 0 \<le> y \<and> y \<le> 1 / 2"
    using q by (simp add: score_value score_sum_append a b c f32_clamp_Fin)
qed

subsection \<open>Decisions\<close>

lemma evaluate_cases:
  assumes "evaluate c s t m = n" "n \<noteq> c"
  shows "can_transition c n \<or> (c = Active \<and> n = Alert \<and> should_alert s t m)"
  using assms by (cases c) (auto simp: evaluate_def Let_def split: if_splits)

lemma evaluate_unwatched:
  "c \<notin> {Active, Suspicious, Alert} \<Longrightarrow> evaluate c s t m = c"
  by (cases c) (simp_all add: evaluate_def)

section \<open>Properties\<close>

text \<open>The score of finite observations is a number of the unit interval: the sum of
squares may overflow to infinity, never to NaN, and the clamp brings it back.\<close>

theorem score_in_unit_interval:
  assumes "\<forall>ob \<in> set obs. finite_obs ob"
  shows "\<exists>y. ts_score (score obs) = Fin y \<and> 0 \<le> y \<and> y \<le> 1"
  using score_sum_nonneg [of "Fin 0" obs] assms
  by (auto simp: score_value intro!: f32_clamp01_nonneg f32_nonneg_sqrt)

theorem score_in_unit_interval_witness:
  "\<exists>y. ts_score (score [\<lparr>so_source = Cdr, so_contribution = Fin 1, so_weight = Fin (2 ^ 127)\<rparr>]) = Fin y
     \<and> 0 \<le> y \<and> y \<le> 1"
  by (rule score_in_unit_interval) (simp add: finite_obs_def)

text \<open>The decision is monotone: when every observation keeps its source and its
non-negative weight and contribution only grow, an alert stays an alert.\<close>

theorem alert_monotone:
  assumes "list_all2 obs_le ps qs" and "should_alert (score ps) threshold min_classes"
  shows "should_alert (score qs) threshold min_classes"
  using score_mono_lemma [OF assms(1)] assms(2)
  by (auto simp: should_alert_def intro: f32_le_trans)

theorem alert_monotone_witness:
  "should_alert (score [\<lparr>so_source = Cdr, so_contribution = Fin 1, so_weight = Fin 1\<rparr>]) (Fin 0) 0"
proof (rule alert_monotone)
  let ?p = "\<lparr>so_source = Cdr, so_contribution = Fin 0, so_weight = Fin 0\<rparr>"
  show "list_all2 obs_le [?p] [\<lparr>so_source = Cdr, so_contribution = Fin 1, so_weight = Fin 1\<rparr>]"
    by (simp add: obs_le_def)
  show "should_alert (score [?p]) (Fin 0) 0"
    by (simp add: should_alert_def score_value weighted_def f32_clamp_def)
qed

text \<open>Independence of the signals: the count is the number of distinct independence
classes with an observation of at least 0.2, so repeated observations of one class, and
weaker ones, never help to reach the minimum.\<close>

theorem independent_classes_counts_classes:
  "ts_independent_classes (score obs) =
     card {c. \<exists>ob \<in> set obs. f32_ge (so_contribution ob) (f32_lit (2 / 10))
                \<and> c = independence_class (so_source ob)}"
  unfolding score_classes alarming_classes_def by (rule arg_cong [where f = card]) auto

text \<open>Every change of state the aggregator decides is an arrow of the transition table,
except one: an ACTIVE vault whose score crosses the threshold goes straight to ALERT.\<close>

theorem evaluate_follows_table:
  assumes "evaluate current s threshold min_classes = next_state" and "next_state \<noteq> current"
  shows "transition current next_state = Inr next_state
    \<or> (current = Active \<and> next_state = Alert \<and> should_alert s threshold min_classes
       \<and> transition current next_state = Inl (InvalidTransition Active Alert))"
  using evaluate_cases [OF assms] by (auto simp: transition_def)

theorem evaluate_follows_table_witness:
  "transition Alert CoolingOff = Inr CoolingOff
    \<or> (Alert = Active \<and> CoolingOff = Alert
       \<and> should_alert \<lparr>ts_score = Fin 1, ts_contributing = [], ts_independent_classes = 3\<rparr> (Fin 0) 3
       \<and> transition Alert CoolingOff = Inl (InvalidTransition Active Alert))"
  using lit_eqs(5) by (intro evaluate_follows_table) (simp_all add: evaluate_def Let_def)

end
