(* ===== verification/World.thy ===== *)
theory World
  imports Schema Scoring
begin

text \<open>
  The state every operation acts on, and the elementary effects: the tables of the
  database, the clock (\<open>now()\<close> of Postgres and \<open>Utc::now()\<close> read the same one, which
  stands still during one handler), the supply of \<open>gen_random_uuid()\<close> (identifiers are
  never repeated), the position in the \<open>OsRng\<close> stream, the messages handed to the
  notification sink, the metrics counters and the objects of the blob store.

  \<open>app\<close> is \<open>AppState\<close>: the configuration of src/crates/beacon-api/src/state.rs and the
  functions of third-party crates (SHA-256, base64, AES-256-GCM, the random stream) the
  code calls, as parameters.
\<close>

section \<open>The world\<close>

datatype notice =
  Welcome string instant
| MagicLink string string
| CoolingOffStarted string string instant
| CoolingOffCancelled string
| ReleaseNotice string string string bool "(string \<times> string) list"
| BuddyInvite string string string
| RecipientChangeRequested string string instant
| CoStewardInvite string string string
| HeirShare string string
| AccountDeletionRequested string instant
| DuressAlert string

datatype metric =
  SignupsTotal | VaultsCreatedTotal | LettersSealedTotal | AttachmentsSealedTotal
| AttachmentsBytesTotal | HeartbeatsTotal | ReleasesStartedTotal | ReleasesCompletedTotal
| DrillsCompletedTotal | BuddyResponsesTotal | ApplePingsTotal | SubscriptionCanceledTotal
| SubscriptionReactivatedTotal

type_synonym sub_row = "f32 signal_sub_row"
type_synonym obs_row = "f32 signal_row"

text \<open>A started per-request release timer (\<open>spawn_release_elapse\<close>).\<close>

record timer =
  tm_vault :: vault_id
  tm_event :: release_event_id
  tm_fires_at :: instant
  tm_is_drill :: bool

record world =
  clock :: instant
  next_uuid :: uuid
  rng_pos :: nat
  principals :: "principal_row list"
  magic_links :: "magic_link_row list"
  sessions :: "session_row list"
  subscriptions :: "subscription_row list"
  vaults :: "vault_row list"
  letters :: "letter_row list"
  recipient_changes :: "recipient_change_row list"
  heartbeats :: "heartbeat_row list"
  release_events :: "release_event_row list"
  release_claims :: "release_claim_row list"
  attachments :: "attachment_row list"
  attachment_claims :: "attachment_claim_row list"
  transparency :: "transparency_row list"
  buddies :: "buddy_row list"
  co_stewards :: "co_steward_row list"
  signal_subs :: "sub_row list"
  signals :: "obs_row list"
  apple_subs :: "apple_row list"
  bank_subs :: "bank_row list"
  duress_signals :: "duress_row list"
  blobs :: "string \<times> string \<rightharpoonup> bytes"
  kms_file :: "bytes option"
  aux :: aux_tables
  timers :: "timer list"
  outbox :: "notice list"
  metrics :: "metric \<Rightarrow> 64 word"

type_synonym 'a db_prog = "(world, db_error, 'a) prog"

text \<open>
  The blob store the process was started with: the local file system, one S3 bucket, or a
  router over one bucket per region with the region of bare keys.
\<close>

datatype blob_backend =
  LocalFilesystemStore | S3Store string | RegionRouter "(string \<times> string) list" string

record app =
  sha256 :: "bytes \<Rightarrow> bytes"
  b64url :: "bytes \<Rightarrow> string"
  os_rng :: "nat \<Rightarrow> byte"
  b64std :: "bytes \<Rightarrow> string"
  b64std_decode :: "string \<Rightarrow> bytes option"
  b64url_decode :: "string \<Rightarrow> bytes option"
  decode_image :: "bytes \<Rightarrow> string + bytes"
  encode_jpeg :: "bytes \<Rightarrow> string + bytes"
  to_rfc3339 :: "instant \<Rightarrow> string"
  parse_rfc3339 :: "string \<Rightarrow> string + instant"
  aead_encrypt :: "bytes \<Rightarrow> bytes \<Rightarrow> bytes \<Rightarrow> bytes option"
  aead_decrypt :: "bytes \<Rightarrow> bytes \<Rightarrow> bytes \<Rightarrow> bytes option"
  blob_backend :: blob_backend
  naive_date :: "string \<Rightarrow> string option"
  debug_assertions :: bool
  public_base_url :: string
  max_upload_bytes :: nat
  trial_days :: int
  retention_days :: int
  default_cooling_off_seconds :: int
  recipient_change_hold_seconds :: int
  trigger_threshold :: f32
  min_independent_signals :: nat
  heartbeat_max_gap_seconds :: int

definition empty_aux :: aux_tables where
  "empty_aux = \<lparr>contacts = [], passkeys = [], challenges = [], zk_envelopes = [],
     zk_recoveries = [], recoveries = [], recovery_keys = [], prk_envelopes = [],
     heir_envelopes = []\<rparr>"

definition empty_world :: world where
  "empty_world = \<lparr>clock = 0, next_uuid = 0, rng_pos = 0, principals = [], magic_links = [],
     sessions = [], subscriptions = [], vaults = [], letters = [], recipient_changes = [],
     heartbeats = [], release_events = [], release_claims = [], attachments = [],
     attachment_claims = [], transparency = [], buddies = [], co_stewards = [],
     signal_subs = [], signals = [], apple_subs = [], bank_subs = [], duress_signals = [],
     blobs = Map.empty, kms_file = None, aux = empty_aux, timers = [], outbox = [], metrics = (\<lambda>_. 0)\<rparr>"

text \<open>A nullable deadline column compared with a time: \<open>NULL\<close> is neither elapsed nor ahead.\<close>

definition elapsed :: "instant option \<Rightarrow> instant \<Rightarrow> bool" where
  "elapsed d t = (case d of None \<Rightarrow> False | Some s \<Rightarrow> s \<le> t)"

definition upcoming :: "instant option \<Rightarrow> instant \<Rightarrow> bool" where
  "upcoming d t = (case d of None \<Rightarrow> False | Some s \<Rightarrow> t < s)"

lemma deadline_simps [simp]:
  "\<not> elapsed None t" "elapsed (Some s) t \<longleftrightarrow> s \<le> t" "\<not> upcoming None t" "upcoming (Some s) t \<longleftrightarrow> t < s"
  by (simp_all add: elapsed_def upcoming_def)

section \<open>Elementary effects\<close>

definition now :: "(world, 'e, instant) prog" where
  "now = gets clock"

definition gen_random_uuid :: "(world, 'e, uuid) prog" where
  "gen_random_uuid = bind (gets next_uuid) (\<lambda>u.
     andthen (modify (\<lambda>w. w\<lparr>next_uuid := Suc (next_uuid w)\<rparr>)) (ret u))"

definition draw_bytes :: "app \<Rightarrow> nat \<Rightarrow> (world, 'e, bytes) prog" where
  "draw_bytes A n = bind (gets rng_pos) (\<lambda>p.
     andthen (modify (\<lambda>w. w\<lparr>rng_pos := rng_pos w + n\<rparr>)) (ret (map (os_rng A) [p ..< p + n])))"

definition notify :: "notice \<Rightarrow> (world, 'e, unit) prog" where
  "notify n = modify (\<lambda>w. w\<lparr>outbox := outbox w @ [n]\<rparr>)"

definition metrics_add :: "metric \<Rightarrow> 64 word \<Rightarrow> (world, 'e, unit) prog" where
  "metrics_add c by_n = modify (\<lambda>w. w\<lparr>metrics := (metrics w)(c := metrics w c + by_n)\<rparr>)"

definition metrics_inc :: "metric \<Rightarrow> (world, 'e, unit) prog" where
  "metrics_inc c = metrics_add c 1"

text \<open>A statement that inserts: the foreign keys, uniqueness and checks of the table first.\<close>

definition insert_row ::
  "string \<Rightarrow> (world \<Rightarrow> bool) \<Rightarrow> (world \<Rightarrow> 'r list) \<Rightarrow>
   (('r list \<Rightarrow> 'r list) \<Rightarrow> world \<Rightarrow> world) \<Rightarrow> 'r \<Rightarrow> unit db_prog" where
  "insert_row what constraints tbl upd r =
     (\<lambda>w. if constraints w then (Ok (), upd (\<lambda>_. tbl w @ [r]) w) else (Err (Sqlx what), w))"

text \<open>
  \<open>UPDATE ... WHERE ...\<close>: the number of affected rows, and \<open>... RETURNING\<close> with
  \<open>fetch_optional\<close>: the first affected row after the update.
\<close>

definition update_rows ::
  "(world \<Rightarrow> 'r list) \<Rightarrow> (('r list \<Rightarrow> 'r list) \<Rightarrow> world \<Rightarrow> world) \<Rightarrow>
   (world \<Rightarrow> 'r \<Rightarrow> bool) \<Rightarrow> (world \<Rightarrow> 'r \<Rightarrow> 'r) \<Rightarrow> (world, 'e, int) prog" where
  "update_rows tbl upd P f =
     (\<lambda>w. (Ok (sql_count (P w) (tbl w)), upd (\<lambda>_. sql_update (P w) (f w) (tbl w)) w))"

definition update_returning ::
  "(world \<Rightarrow> 'r list) \<Rightarrow> (('r list \<Rightarrow> 'r list) \<Rightarrow> world \<Rightarrow> world) \<Rightarrow>
   (world \<Rightarrow> 'r \<Rightarrow> bool) \<Rightarrow> (world \<Rightarrow> 'r \<Rightarrow> 'r) \<Rightarrow> (world, 'e, 'r option) prog" where
  "update_returning tbl upd P f =
     (\<lambda>w. (Ok (map_option (f w) (sql_first (P w) (tbl w))),
           upd (\<lambda>_. sql_update (P w) (f w) (tbl w)) w))"

text \<open>\<open>row.get(column)\<close> panics when the statement did not select the column.\<close>

definition row_get :: "'c list \<Rightarrow> 'c \<Rightarrow> 'a \<Rightarrow> (world, 'e, 'a) prog" where
  "row_get columns column v =
     (if column \<in> set columns then ret v else panic ''ColumnNotFound'')"

section \<open>Tokens\<close>

definition as_bytes :: "string \<Rightarrow> bytes" where
  "as_bytes s = map of_char s"

definition random_token :: "app \<Rightarrow> (world, 'e, string) prog" where
  "random_token A = bind (draw_bytes A 32) (\<lambda>bs. ret (b64url A bs))"

definition hash_token :: "app \<Rightarrow> string \<Rightarrow> bytes" where
  "hash_token A token = sha256 A (as_bytes token)"

definition hash_bytes :: "app \<Rightarrow> bytes \<Rightarrow> bytes" where
  "hash_bytes A bs = sha256 A bs"

section \<open>Evaluation and preservation\<close>

lemma now_app [simp, prog_simps]: "now w = (Ok (clock w), w)"
  by (simp add: now_def)

lemma uuid_app [simp, prog_simps]: "gen_random_uuid w = (Ok (next_uuid w), w\<lparr>next_uuid := Suc (next_uuid w)\<rparr>)"
  by (simp add: gen_random_uuid_def andthen_def bind_def)

lemma draw_app [simp, prog_simps]: "draw_bytes A n w =
    (Ok (map (os_rng A) [rng_pos w ..< rng_pos w + n]), w\<lparr>rng_pos := rng_pos w + n\<rparr>)"
  by (simp add: draw_bytes_def andthen_def bind_def)

lemma token_app [simp, prog_simps]: "random_token A w =
    (Ok (b64url A (map (os_rng A) [rng_pos w ..< rng_pos w + 32])), w\<lparr>rng_pos := rng_pos w + 32\<rparr>)"
  by (simp add: random_token_def bind_def)

lemma notify_app [simp, prog_simps]: "notify n w = (Ok (), w\<lparr>outbox := outbox w @ [n]\<rparr>)"
  by (simp add: notify_def)

lemma metrics_app [simp, prog_simps]:
  "metrics_add c k w = (Ok (), w\<lparr>metrics := (metrics w)(c := metrics w c + k)\<rparr>)"
  "metrics_inc c w = (Ok (), w\<lparr>metrics := (metrics w)(c := metrics w c + 1)\<rparr>)"
  by (simp_all add: metrics_inc_def metrics_add_def)

lemma insert_row_app [simp, prog_simps]:
  "insert_row what C tbl upd r w =
    (if C w then (Ok (), upd (\<lambda>_. tbl w @ [r]) w) else (Err (Sqlx what), w))"
  by (simp add: insert_row_def)

lemma update_rows_app [simp, prog_simps]:
  "update_rows tbl upd P f w = (Ok (sql_count (P w) (tbl w)), upd (\<lambda>_. sql_update (P w) (f w) (tbl w)) w)"
  by (simp add: update_rows_def)

lemma update_returning_app [simp, prog_simps]:
  "update_returning tbl upd P f w =
    (Ok (map_option (f w) (sql_first (P w) (tbl w))), upd (\<lambda>_. sql_update (P w) (f w) (tbl w)) w)"
  by (simp add: update_returning_def)

lemma row_get_app [simp, prog_simps]:
  "row_get cols c v w = (if c \<in> set cols then (Ok v, w) else (Panic ''ColumnNotFound'', w))"
  by (simp add: row_get_def)

lemma keeps_now [keeps_intros, simp]: "keeps I now"
  by (simp add: now_def)

lemma keeps_row_get [keeps_intros, simp]: "keeps I (row_get cols c v)"
  by (simp add: row_get_def)

text \<open>Steps of a sequence whose next statement is known to succeed or fail.\<close>

lemma bind_step:
  "bind m f s = (case m s of (Ok x, s') \<Rightarrow> f x s' | (Err e, s') \<Rightarrow> (Err e, s') | (Panic p, s') \<Rightarrow> (Panic p, s'))"
  by (simp add: bind_def)

lemma andthen_step:
  "andthen m n s = (case m s of (Ok x, s') \<Rightarrow> n s' | (Err e, s') \<Rightarrow> (Err e, s') | (Panic p, s') \<Rightarrow> (Panic p, s'))"
  by (simp add: andthen_def bind_def)

lemma map_err_step:
  "map_err g m s = (case m s of (Ok x, s') \<Rightarrow> (Ok x, s') | (Err e, s') \<Rightarrow> (Err (g e), s') | (Panic p, s') \<Rightarrow> (Panic p, s'))"
  by (simp add: map_err_def)

lemma attempt_step:
  "attempt m s = (case m s of (Ok x, s') \<Rightarrow> (Ok (Inr x), s') | (Err e, s') \<Rightarrow> (Ok (Inl e), s') | (Panic p, s') \<Rightarrow> (Panic p, s'))"
  by (simp add: attempt_def)

lemma ignore_step:
  "ignore m s = (case m s of (Ok x, s') \<Rightarrow> (Ok (), s') | (Err e, s') \<Rightarrow> (Ok (), s') | (Panic p, s') \<Rightarrow> (Panic p, s'))"
  by (auto simp: ignore_def bind_def attempt_def split: prod.splits outcome.splits)

lemmas run = bind_step andthen_step map_err_step attempt_step ignore_step

end
