(* ===== verification/Blob.thy ===== *)
theory Blob
  imports World
begin

text \<open>
  The blob store of src/crates/blob-store: storage keys, the local file system store
  (lib.rs), and the S3 store with its router over regions (s3.rs). An object is found at a
  location, a bucket (one per region for the router, the data directory locally) and a name
  in it; \<open>blobs\<close> maps locations to contents. I/O errors other than a missing object or a
  region without a store are left out: a call to the file system or to S3 succeeds.
\<close>

section \<open>Keys\<close>

datatype blob_error = BlobNotFound string | Backend string

text \<open>\<open>Uuid::to_string\<close>: 32 hexadecimal digits in five groups.\<close>

definition hex_digit :: "nat \<Rightarrow> char" where
  "hex_digit n = ''0123456789abcdef'' ! (n mod 16)"

definition hex_digits :: "nat \<Rightarrow> nat \<Rightarrow> string" where
  "hex_digits k u = map (\<lambda>i. hex_digit (u div 16 ^ (k - Suc i))) [0 ..< k]"

definition uuid_string :: "uuid \<Rightarrow> string" where
  "uuid_string u = (let d = hex_digits 32 u in
     take 8 d @ ''-'' @ take 4 (drop 8 d) @ ''-'' @ take 4 (drop 12 d) @ ''-'' @
     take 4 (drop 16 d) @ ''-'' @ drop 20 d)"

text \<open>\<open>split_once(':')\<close>.\<close>

fun split_once :: "char \<Rightarrow> string \<Rightarrow> (string \<times> string) option" where
  "split_once c [] = None"
| "split_once c (x # xs) =
     (if x = c then Some ([], xs)
      else map_option (\<lambda>(a, b). (x # a, b)) (split_once c xs))"

definition parse_key :: "string \<Rightarrow> string option \<times> string" where
  "parse_key key = (case split_once CHR '':'' key of
       Some (region, kid) \<Rightarrow> (Some region, kid)
     | None \<Rightarrow> (None, key))"

definition is_ascii_alphanumeric :: "char \<Rightarrow> bool" where
  "is_ascii_alphanumeric c \<longleftrightarrow> (let n = (of_char c :: nat) in
     (48 \<le> n \<and> n \<le> 57) \<or> (65 \<le> n \<and> n \<le> 90) \<or> (97 \<le> n \<and> n \<le> 122))"

text \<open>\<open>safe.get(a..b)\<close> is \<open>None\<close> when the string is shorter than \<open>b\<close>.\<close>

definition str_get :: "nat \<Rightarrow> nat \<Rightarrow> string \<Rightarrow> string option" where
  "str_get a b s = (if b \<le> length s then Some (take (b - a) (drop a s)) else None)"

definition unwrap_or :: "'a \<Rightarrow> 'a option \<Rightarrow> 'a" where
  "unwrap_or d x = (case x of None \<Rightarrow> d | Some y \<Rightarrow> y)"

definition path_for :: "string \<Rightarrow> string" where
  "path_for key = (let safe = filter (\<lambda>c. is_ascii_alphanumeric c \<or> c = CHR ''-'') key;
       d1 = unwrap_or ''xx'' (str_get 0 2 safe);
       d2 = unwrap_or ''xx'' (str_get 2 4 safe)
     in d1 @ ''/'' @ d2 @ ''/'' @ safe @ ''.blob'')"

section \<open>The local file system store\<close>

definition local_location :: "string \<Rightarrow> string \<times> string" where
  "local_location key = ([], path_for (snd (parse_key key)))"

definition local_put :: "string \<Rightarrow> bytes \<Rightarrow> (world, blob_error, string) prog" where
  "local_put region bs =
     bind gen_random_uuid (\<lambda>u.
     let key = uuid_string u in
     andthen (modify (\<lambda>w. w\<lparr>blobs := (blobs w)(([], path_for key) \<mapsto> bs)\<rparr>)) (ret key))"

definition local_get :: "string \<Rightarrow> (world, blob_error, bytes) prog" where
  "local_get key =
     bind (gets (\<lambda>w. blobs w (local_location key))) (\<lambda>found.
     ok_or (BlobNotFound key) found)"

definition local_delete :: "string \<Rightarrow> (world, blob_error, unit) prog" where
  "local_delete key = modify (\<lambda>w. w\<lparr>blobs := (blobs w)(local_location key := None)\<rparr>)"

section \<open>S3\<close>

definition trim_end_slashes :: "string \<Rightarrow> string" where
  "trim_end_slashes s = rev (dropWhile (\<lambda>c. c = CHR ''/'') (rev s))"

definition object_key :: "string \<Rightarrow> string \<Rightarrow> string" where
  "object_key prefix key = (if prefix = [] then key else trim_end_slashes prefix @ ''/'' @ key)"

text \<open>The operations of one bucket, on bare identifiers.\<close>

definition put_id :: "string \<Rightarrow> string \<Rightarrow> bytes \<Rightarrow> (world, blob_error, string) prog" where
  "put_id bucket prefix bs =
     bind gen_random_uuid (\<lambda>u.
     let kid = uuid_string u in
     andthen (modify (\<lambda>w. w\<lparr>blobs := (blobs w)((bucket, object_key prefix kid) \<mapsto> bs)\<rparr>)) (ret kid))"

definition get_id :: "string \<Rightarrow> string \<Rightarrow> string \<Rightarrow> (world, blob_error, bytes) prog" where
  "get_id bucket prefix kid =
     bind (gets (\<lambda>w. blobs w (bucket, object_key prefix kid))) (\<lambda>found.
     ok_or (BlobNotFound ''NoSuchKey'') found)"

definition delete_id :: "string \<Rightarrow> string \<Rightarrow> string \<Rightarrow> (world, blob_error, unit) prog" where
  "delete_id bucket prefix kid =
     modify (\<lambda>w. w\<lparr>blobs := (blobs w)((bucket, object_key prefix kid) := None)\<rparr>)"

definition s3_put :: "string \<Rightarrow> string \<Rightarrow> bytes \<Rightarrow> (world, blob_error, string) prog" where
  "s3_put prefix region bs = put_id [] prefix bs"

definition s3_get :: "string \<Rightarrow> string \<Rightarrow> (world, blob_error, bytes) prog" where
  "s3_get prefix key = get_id [] prefix (snd (parse_key key))"

definition s3_delete :: "string \<Rightarrow> string \<Rightarrow> (world, blob_error, unit) prog" where
  "s3_delete prefix key = delete_id [] prefix (snd (parse_key key))"

text \<open>The debug rendering of a text without characters to escape, as region codes are.\<close>

definition debug_text :: "string \<Rightarrow> string" where
  "debug_text s = [CHR 0x22] @ s @ [CHR 0x22]"

text \<open>\<open>RegionRouter::new\<close> and the routing of a region.\<close>

definition region_router ::
  "(string \<times> string) list \<Rightarrow> string \<Rightarrow> blob_error + ((string \<times> string) list \<times> string)" where
  "region_router stores default_region =
     (if map_of stores default_region = None
      then Inl (Backend (''default region '' @ debug_text default_region @ '' has no configured store''))
      else Inr (stores, default_region))"

definition store_for :: "(string \<times> string) list \<Rightarrow> string \<Rightarrow> (world, blob_error, string) prog" where
  "store_for stores region =
     ok_or (Backend (''no store configured for region '' @ debug_text region)) (map_of stores region)"

definition router_put ::
  "(string \<times> string) list \<Rightarrow> string \<Rightarrow> bytes \<Rightarrow> (world, blob_error, string) prog" where
  "router_put stores region bs =
     bind (store_for stores region) (\<lambda>prefix.
     bind (put_id region prefix bs) (\<lambda>kid. ret (region @ '':'' @ kid)))"

definition router_get ::
  "(string \<times> string) list \<Rightarrow> string \<Rightarrow> string \<Rightarrow> (world, blob_error, bytes) prog" where
  "router_get stores default_region key = (case parse_key key of (r, kid) \<Rightarrow>
     let region = unwrap_or default_region r in
     bind (store_for stores region) (\<lambda>prefix. get_id region prefix kid))"

definition router_delete ::
  "(string \<times> string) list \<Rightarrow> string \<Rightarrow> string \<Rightarrow> (world, blob_error, unit) prog" where
  "router_delete stores default_region key = (case parse_key key of (r, kid) \<Rightarrow>
     let region = unwrap_or default_region r in
     bind (store_for stores region) (\<lambda>prefix. delete_id region prefix kid))"

section \<open>The store of the running process\<close>

definition blob_put :: "app \<Rightarrow> string \<Rightarrow> bytes \<Rightarrow> (world, blob_error, string) prog" where
  "blob_put A region bs = (case blob_backend A of
       LocalFilesystemStore \<Rightarrow> local_put region bs
     | S3Store prefix \<Rightarrow> s3_put prefix region bs
     | RegionRouter stores d \<Rightarrow> router_put stores region bs)"

definition blob_get :: "app \<Rightarrow> string \<Rightarrow> (world, blob_error, bytes) prog" where
  "blob_get A key = (case blob_backend A of
       LocalFilesystemStore \<Rightarrow> local_get key
     | S3Store prefix \<Rightarrow> s3_get prefix key
     | RegionRouter stores d \<Rightarrow> router_get stores d key)"

definition blob_delete :: "app \<Rightarrow> string \<Rightarrow> (world, blob_error, unit) prog" where
  "blob_delete A key = (case blob_backend A of
       LocalFilesystemStore \<Rightarrow> local_delete key
     | S3Store prefix \<Rightarrow> s3_delete prefix key
     | RegionRouter stores d \<Rightarrow> router_delete stores d key)"

end
