(* ===== verification/Crypto.thy ===== *)
theory Crypto
  imports Blob
begin

text \<open>
  The sealing crate src/crates/crypto-stub: the file-backed key management service, sealing
  under its key, sealing under a passphrase, and the passphrase hash of Co-Stewards.
  AES-256-GCM and SHA-256 are parameters (\<open>aead_encrypt\<close>, \<open>aead_decrypt\<close>, \<open>sha256\<close>);
  what the code relies on is that decryption inverts encryption (\<open>aead_inverts\<close>). File
  errors other than a missing key file are left out.
\<close>

section \<open>The key\<close>

datatype crypto_error = Aead string | KmsKeyLength nat | InvalidCiphertext

text \<open>\<open>LocalFileKms::data_key\<close>: the key file is generated on first use.\<close>

definition data_key :: "app \<Rightarrow> (world, crypto_error, bytes) prog" where
  "data_key A =
     bind (gets kms_file) (\<lambda>file.
     case file of
       Some buf \<Rightarrow> if length buf \<noteq> 32 then throw (KmsKeyLength (length buf)) else ret buf
     | None \<Rightarrow>
         bind (draw_bytes A 32) (\<lambda>key.
         andthen (modify (\<lambda>w. w\<lparr>kms_file := Some key\<rparr>)) (ret key)))"

section \<open>Sealing under the key\<close>

record sealed =
  sd_nonce :: bytes
  sd_ciphertext :: bytes

definition seal :: "app \<Rightarrow> bytes \<Rightarrow> (world, crypto_error, sealed) prog" where
  "seal A plaintext =
     bind (data_key A) (\<lambda>key.
     bind (draw_bytes A 12) (\<lambda>nonce.
     bind (ok_or (Aead ''aead::Error'') (aead_encrypt A key nonce plaintext)) (\<lambda>ciphertext.
     ret \<lparr>sd_nonce = nonce, sd_ciphertext = ciphertext\<rparr>)))"

definition unseal :: "app \<Rightarrow> sealed \<Rightarrow> (world, crypto_error, bytes) prog" where
  "unseal A s =
     bind (data_key A) (\<lambda>key.
     ok_or (Aead ''aead::Error'') (aead_decrypt A key (sd_nonce s) (sd_ciphertext s)))"

section \<open>Sealing under a passphrase\<close>

record passphrase_sealed =
  ps_salt :: bytes
  ps_nonce :: bytes
  ps_ciphertext :: bytes

definition derive_kek :: "app \<Rightarrow> string \<Rightarrow> bytes \<Rightarrow> bytes" where
  "derive_kek A passphrase salt =
     sha256 A (as_bytes ''paschal/passphrase-kek/v1'' @ salt @ as_bytes passphrase)"

definition seal_with_passphrase ::
  "app \<Rightarrow> bytes \<Rightarrow> string \<Rightarrow> (world, crypto_error, passphrase_sealed) prog" where
  "seal_with_passphrase A plaintext passphrase =
     bind (draw_bytes A 16) (\<lambda>salt.
     let kek = derive_kek A passphrase salt in
     bind (draw_bytes A 12) (\<lambda>nonce.
     bind (ok_or (Aead ''aead::Error'') (aead_encrypt A kek nonce plaintext)) (\<lambda>ciphertext.
     ret \<lparr>ps_salt = salt, ps_nonce = nonce, ps_ciphertext = ciphertext\<rparr>)))"

definition open_with_passphrase ::
  "app \<Rightarrow> passphrase_sealed \<Rightarrow> string \<Rightarrow> (world, crypto_error, bytes) prog" where
  "open_with_passphrase A s passphrase =
     (let kek = derive_kek A passphrase (ps_salt s) in
      ok_or (Aead ''aead::Error'') (aead_decrypt A kek (ps_nonce s) (ps_ciphertext s)))"

definition random_salt :: "app \<Rightarrow> (world, 'e, bytes) prog" where
  "random_salt A = draw_bytes A 16"

definition hex_encode :: "bytes \<Rightarrow> string" where
  "hex_encode bs = concat (map (\<lambda>b. [hex_digit (unat b div 16), hex_digit (unat b mod 16)]) bs)"

definition hash_passphrase :: "app \<Rightarrow> string \<Rightarrow> bytes \<Rightarrow> string" where
  "hash_passphrase A passphrase salt = hex_encode (sha256 A (salt @ as_bytes passphrase))"

section \<open>What is sealed opens\<close>

definition aead_inverts :: "app \<Rightarrow> bool" where
  "aead_inverts A \<longleftrightarrow> (\<forall>k n p c. aead_encrypt A k n p = Some c \<longrightarrow> aead_decrypt A k n c = Some p)"

lemma aead_invertsD: "aead_inverts A \<Longrightarrow> aead_encrypt A k n p = Some c \<Longrightarrow> aead_decrypt A k n c = Some p"
  by (simp add: aead_inverts_def)

lemma data_key_eq:
  "data_key A w = (case kms_file w of
      Some buf \<Rightarrow> (if length buf \<noteq> 32 then Err (KmsKeyLength (length buf)) else Ok buf, w)
    | None \<Rightarrow> let key = map (os_rng A) [rng_pos w ..< rng_pos w + 32] in
        (Ok key, w\<lparr>rng_pos := rng_pos w + 32, kms_file := Some key\<rparr>))"
  by (simp add: data_key_def run Let_def split: option.split)

text \<open>Once a key is there it does not change, and it is the key that was used.\<close>

lemma data_key_stable:
  assumes "data_key A w = (Ok k, w')"
  shows "kms_file w' = Some k" and "length k = 32"
  using assms by (auto simp: data_key_eq Let_def split: option.splits if_splits)

lemma data_key_again: "kms_file w = Some k \<Longrightarrow> length k = 32 \<Longrightarrow> data_key A w = (Ok k, w)"
  by (simp add: data_key_eq)

lemma sealE:
  assumes "seal A p w = (Ok s, w')"
  obtains k where "data_key A w = (Ok k, w\<lparr>rng_pos := rng_pos w' - 12, kms_file := kms_file w'\<rparr>)"
    "kms_file w' = Some k" "length k = 32"
    "aead_encrypt A k (sd_nonce s) p = Some (sd_ciphertext s)"
    "w' = w\<lparr>rng_pos := rng_pos w', kms_file := kms_file w'\<rparr>"
  using assms by (auto simp: seal_def run data_key_eq Let_def ok_or_def split: option.splits if_splits)

lemma unseal_eq:
  assumes "kms_file w = Some k" and "length k = 32" and "aead_inverts A"
    and "aead_encrypt A k (sd_nonce s) p = Some (sd_ciphertext s)"
  shows "unseal A s w = (Ok p, w)"
  using assms by (simp add: unseal_def run data_key_again aead_invertsD)

end
