(* ===== verification/DbAuth.thy ===== *)
theory DbAuth
  imports Crypto
begin

text \<open>
  Principals, account deletion, magic links, sessions and subscriptions of
  src/crates/beacon-db/src/lib.rs. Every function is one program over the world; a
  statement's constraints (migrations/*.sql) are checked where it inserts or renames.
\<close>

definition try_domain :: "(domain_error + 'a) \<Rightarrow> 'a db_prog" where
  "try_domain x = map_err Domain (of_sum x)"

lemma try_domain_simps [simp, prog_simps]:
  "try_domain (Inr x) w = (Ok x, w)" "try_domain (Inl e) w = (Err (Domain e), w)"
  by (simp_all add: try_domain_def map_err_def)

lemma keeps_try_domain [keeps_intros, simp]: "keeps I (try_domain x)"
  by (simp add: try_domain_def keeps_map_err)

section \<open>Principals\<close>

definition row_to_principal :: "principal_row \<Rightarrow> principal" where
  "row_to_principal r =
     \<lparr>p_id = pr_id r, p_display_name = pr_display_name r,
      p_primary_email = pr_primary_email r, p_created_at = pr_created_at r\<rparr>"

definition db_upsert_principal_by_email :: "string \<Rightarrow> (principal \<times> bool) db_prog" where
  "db_upsert_principal_by_email email =
     bind (gets (\<lambda>w. sql_first (\<lambda>r. pr_primary_email r = email) (principals w))) (\<lambda>existing.
     case existing of
       Some row \<Rightarrow> ret (row_to_principal row, False)
     | None \<Rightarrow>
         bind gen_random_uuid (\<lambda>u.
         bind now (\<lambda>t.
         let row = \<lparr>pr_id = PrincipalId u, pr_display_name = None, pr_primary_email = email,
                    pr_created_at = t, pr_deletion_requested_at = None,
                    pr_deletion_scheduled_for = None, pr_tos_accepted_at = None\<rparr>
         in andthen (insert_row ''principal_primary_email_key''
                       (\<lambda>w. email \<notin> pr_primary_email ` set (principals w)) principals principals_update row)
              (ret (row_to_principal row, True)))))"

definition db_fetch_principal :: "principal_id \<Rightarrow> principal db_prog" where
  "db_fetch_principal i =
     bind (gets (\<lambda>w. sql_first (\<lambda>r. pr_id r = i) (principals w))) (\<lambda>row.
     bind (ok_or DbNotFound row) (\<lambda>r. ret (row_to_principal r)))"

definition db_set_tos_accepted :: "principal_id \<Rightarrow> unit db_prog" where
  "db_set_tos_accepted i =
     bind (update_rows principals principals_update (\<lambda>w r. pr_id r = i)
             (\<lambda>w r. r\<lparr>pr_tos_accepted_at := coalesce (pr_tos_accepted_at r) (Some (clock w))\<rparr>)) (\<lambda>_. ret ())"

section \<open>Account deletion\<close>

definition db_request_account_deletion :: "principal_id \<Rightarrow> int \<Rightarrow> instant db_prog" where
  "db_request_account_deletion i cool_off_days =
     bind now (\<lambda>t.
     bind (update_returning principals principals_update (\<lambda>w r. pr_id r = i)
             (\<lambda>w r. r\<lparr>pr_deletion_requested_at := coalesce (pr_deletion_requested_at r) (Some (clock w)),
                      pr_deletion_scheduled_for :=
                        coalesce (pr_deletion_scheduled_for r) (Some (t + days cool_off_days))\<rparr>)) (\<lambda>row.
     bind (ok_or DbNotFound row) (\<lambda>r.
     case pr_deletion_scheduled_for r of
       Some s \<Rightarrow> ret s
     | None \<Rightarrow> panic ''unexpected null'')))"

definition db_cancel_account_deletion :: "principal_id \<Rightarrow> unit db_prog" where
  "db_cancel_account_deletion i =
     bind (update_rows principals principals_update
             (\<lambda>w r. pr_id r = i \<and> upcoming (pr_deletion_scheduled_for r) (clock w))
             (\<lambda>w r. r\<lparr>pr_deletion_requested_at := None, pr_deletion_scheduled_for := None\<rparr>)) (\<lambda>affected.
     if affected = 0 then throw DbNotFound else ret ())"

definition db_list_due_account_deletions :: "principal_id list db_prog" where
  "db_list_due_account_deletions =
     gets (\<lambda>w. map pr_id (sql_select
       (\<lambda>r. elapsed (pr_deletion_scheduled_for r) (clock w)) (principals w)))"

text \<open>\<open>id.to_string()[..8]\<close>: the first eight of the 32 hexadecimal digits.\<close>

definition uuid_hex8 :: "uuid \<Rightarrow> string" where
  "uuid_hex8 u = map (\<lambda>i. hex_digit (u div 16 ^ (31 - i))) [0 ..< 8]"

definition deleted_email :: "principal_id \<Rightarrow> string" where
  "deleted_email i = ''deleted-'' @ uuid_hex8 (principal_uuid i) @ ''@paschal.invalid''"

definition db_anonymise_principal :: "principal_id \<Rightarrow> unit db_prog" where
  "db_anonymise_principal i = (\<lambda>w.
     let hashed = deleted_email i in
     if \<exists>r \<in> set (principals w). pr_id r = i \<and>
          (\<exists>q \<in> set (principals w). pr_id q \<noteq> i \<and> pr_primary_email q = hashed)
     then (Err (Sqlx ''principal_primary_email_key''), w)
     else (Ok (), w\<lparr>principals := sql_update (\<lambda>r. pr_id r = i)
            (\<lambda>r. r\<lparr>pr_primary_email := hashed, pr_display_name := None,
                   pr_deletion_requested_at := None, pr_deletion_scheduled_for := None\<rparr>)
            (principals w)\<rparr>))"

definition db_principal_deletion_state :: "principal_id \<Rightarrow> (instant \<times> instant) option db_prog" where
  "db_principal_deletion_state i =
     gets (\<lambda>w. case sql_first (\<lambda>r. pr_id r = i) (principals w) of
       None \<Rightarrow> None
     | Some r \<Rightarrow> (case (pr_deletion_requested_at r, pr_deletion_scheduled_for r) of
         (Some a, Some b) \<Rightarrow> Some (a, b)
       | _ \<Rightarrow> None))"

section \<open>Magic links\<close>

definition db_create_magic_link :: "principal_id \<Rightarrow> bytes \<Rightarrow> int \<Rightarrow> unit db_prog" where
  "db_create_magic_link i token_hash ttl_minutes =
     bind now (\<lambda>t.
     insert_row ''magic_link''
       (\<lambda>w. i \<in> pr_id ` set (principals w) \<and> token_hash \<notin> ml_token_hash ` set (magic_links w))
       magic_links magic_links_update
       \<lparr>ml_token_hash = token_hash, ml_principal_id = i,
        ml_expires_at = t + minutes ttl_minutes, ml_consumed_at = None\<rparr>)"

definition db_consume_magic_link :: "bytes \<Rightarrow> principal_id option db_prog" where
  "db_consume_magic_link token_hash =
     bind (update_returning magic_links magic_links_update
             (\<lambda>w r. ml_token_hash r = token_hash \<and> ml_consumed_at r = None \<and> clock w < ml_expires_at r)
             (\<lambda>w r. r\<lparr>ml_consumed_at := Some (clock w)\<rparr>)) (\<lambda>row.
     ret (map_option ml_principal_id row))"

section \<open>Sessions\<close>

definition db_create_session :: "principal_id \<Rightarrow> bytes \<Rightarrow> int \<Rightarrow> unit db_prog" where
  "db_create_session i token_hash ttl_hours =
     bind now (\<lambda>t.
     insert_row ''session''
       (\<lambda>w. i \<in> pr_id ` set (principals w) \<and> token_hash \<notin> se_token_hash ` set (sessions w))
       sessions sessions_update
       \<lparr>se_token_hash = token_hash, se_principal_id = i, se_co_steward_id = None,
        se_auth_role = ''PRINCIPAL'', se_expires_at = t + hours ttl_hours, se_revoked_at = None\<rparr>)"

definition db_principal_for_session :: "bytes \<Rightarrow> principal_id option db_prog" where
  "db_principal_for_session token_hash =
     gets (\<lambda>w. map_option se_principal_id (sql_first
       (\<lambda>r. se_token_hash r = token_hash \<and> se_revoked_at r = None \<and> clock w < se_expires_at r)
       (sessions w)))"

definition db_revoke_session :: "bytes \<Rightarrow> unit db_prog" where
  "db_revoke_session token_hash =
     bind (update_rows sessions sessions_update
             (\<lambda>w r. se_token_hash r = token_hash \<and> se_revoked_at r = None)
             (\<lambda>w r. r\<lparr>se_revoked_at := Some (clock w)\<rparr>)) (\<lambda>_. ret ())"

section \<open>Subscriptions\<close>

definition row_to_subscription :: "subscription_row \<Rightarrow> subscription db_prog" where
  "row_to_subscription r =
     bind (try_domain (plan_id_from_db_str (su_plan_id r))) (\<lambda>plan.
     bind (try_domain (subscription_state_from_db_str (su_state r))) (\<lambda>st.
     ret \<lparr>sub_id = su_id r, sub_principal_id = su_principal_id r, sub_plan_id = plan,
          sub_state = st, sub_started_at = su_started_at r, sub_trial_end_at = su_trial_end_at r,
          sub_current_period_end = su_current_period_end r, sub_canceled_at = su_canceled_at r,
          sub_retention_until = su_retention_until r,
          sub_extra_storage_bytes = su_extra_storage_bytes r\<rparr>))"

text \<open>\<open>subscription_plan_id_check\<close> (migrations/0005_pricing_tiers.sql).\<close>

definition plan_id_check :: "string \<Rightarrow> bool" where
  "plan_id_check s \<longleftrightarrow> s \<in> set
     [''draft_v1'', ''estate_monthly_v1'', ''estate_annual_v1'', ''estate_monthly_v2'',
      ''estate_annual_v2'', ''estate_plus_monthly_v1'', ''estate_plus_annual_v1'',
      ''legacy_monthly_v1'', ''legacy_annual_v1'']"

definition db_create_subscription :: "principal_id \<Rightarrow> plan_id \<Rightarrow> int \<Rightarrow> subscription db_prog" where
  "db_create_subscription i plan trial_days' =
     bind now (\<lambda>t.
     bind gen_random_uuid (\<lambda>u.
     let row = \<lparr>su_id = SubscriptionId u, su_principal_id = i, su_plan_id = plan_id_as_db_str plan,
                su_state = ''TRIALING'', su_started_at = t,
                su_trial_end_at = Some (t + days trial_days'), su_current_period_end = None,
                su_canceled_at = None, su_retention_until = None, su_extra_storage_bytes = 0\<rparr>
     in andthen (insert_row ''subscription''
                   (\<lambda>w. i \<in> pr_id ` set (principals w)
                      \<and> i \<notin> su_principal_id ` set (subscriptions w)
                      \<and> plan_id_check (su_plan_id row)) subscriptions subscriptions_update row)
          (row_to_subscription row)))"

definition db_fetch_subscription :: "principal_id \<Rightarrow> subscription db_prog" where
  "db_fetch_subscription i =
     bind (gets (\<lambda>w. sql_first (\<lambda>r. su_principal_id r = i) (subscriptions w))) (\<lambda>row.
     bind (ok_or DbNotFound row) row_to_subscription)"

definition db_cancel_subscription :: "principal_id \<Rightarrow> int \<Rightarrow> subscription db_prog" where
  "db_cancel_subscription i retention_days' =
     bind now (\<lambda>t.
     bind (update_returning subscriptions subscriptions_update (\<lambda>w r. su_principal_id r = i)
             (\<lambda>w r. r\<lparr>su_state := ''CANCELED'', su_canceled_at := Some t,
                      su_retention_until := Some (t + days retention_days')\<rparr>)) (\<lambda>row.
     bind (ok_or DbNotFound row) row_to_subscription))"

definition db_reactivate_subscription :: "principal_id \<Rightarrow> subscription db_prog" where
  "db_reactivate_subscription i =
     bind (update_returning subscriptions subscriptions_update
             (\<lambda>w r. su_principal_id r = i \<and> su_state r = ''CANCELED'')
             (\<lambda>w r. r\<lparr>su_state := ''ACTIVE'', su_canceled_at := None, su_retention_until := None\<rparr>)) (\<lambda>row.
     bind (ok_or DbNotFound row) row_to_subscription)"

definition db_list_canceled_past_retention :: "principal_id list db_prog" where
  "db_list_canceled_past_retention =
     gets (\<lambda>w. map su_principal_id (sql_select
       (\<lambda>r. su_state r = ''CANCELED'' \<and> elapsed (su_retention_until r) (clock w))
       (subscriptions w)))"

definition db_expire_subscription :: "principal_id \<Rightarrow> unit db_prog" where
  "db_expire_subscription i =
     bind (update_rows subscriptions subscriptions_update
             (\<lambda>w r. su_principal_id r = i \<and> su_state r = ''CANCELED'')
             (\<lambda>w r. r\<lparr>su_state := ''EXPIRED''\<rparr>)) (\<lambda>_. ret ())"

definition db_delete_subscription :: "principal_id \<Rightarrow> unit db_prog" where
  "db_delete_subscription i =
     bind (update_rows subscriptions subscriptions_update
             (\<lambda>w r. su_principal_id r = i \<and> su_state r = ''EXPIRED'')
             (\<lambda>w r. r\<lparr>su_state := ''DELETED''\<rparr>)) (\<lambda>_. ret ())"

end
