(* ===== verification/DbVault.thy ===== *)
theory DbVault
  imports DbAuth
begin

text \<open>
  Vaults, letters, recipient changes and heartbeats of src/crates/beacon-db/src/lib.rs.
\<close>

section \<open>Vaults\<close>

text \<open>
  \<open>row_to_vault\<close> reads every column of the row with \<open>row.get\<close>, which panics on a column
  the statement did not select; the nullable ones with \<open>try_get(..).ok()\<close>, which does not.
\<close>

datatype vault_column =
  ColId | ColPrincipalId | ColName | ColTier | ColState | ColCoolingOffSeconds
| ColStorageRegion | ColLastAttestationAt | ColCoolingOffStartedAt | ColReleasedAt | ColCreatedAt

definition vault_columns :: "vault_column list" where
  "vault_columns =
     [ColId, ColPrincipalId, ColName, ColTier, ColState, ColCoolingOffSeconds,
      ColStorageRegion, ColLastAttestationAt, ColCoolingOffStartedAt, ColReleasedAt,
      ColCreatedAt]"

definition row_to_vault :: "vault_column list \<Rightarrow> vault_row \<Rightarrow> vault db_prog" where
  "row_to_vault cols r =
     bind (row_get cols ColId (va_id r)) (\<lambda>i.
     bind (row_get cols ColPrincipalId (va_principal_id r)) (\<lambda>p.
     bind (row_get cols ColName (va_name r)) (\<lambda>n.
     bind (row_get cols ColTier (va_tier r)) (\<lambda>ts. bind (try_domain (tier_from_db_str ts)) (\<lambda>t.
     bind (row_get cols ColState (va_state r)) (\<lambda>ss. bind (try_domain (vault_state_from_db_str ss)) (\<lambda>s.
     bind (row_get cols ColCoolingOffSeconds (va_cooling_off_seconds r)) (\<lambda>c.
     bind (row_get cols ColStorageRegion (va_storage_region r)) (\<lambda>gs. bind (try_domain (region_from_aws_str gs)) (\<lambda>g.
     bind (row_get cols ColLastAttestationAt (va_last_attestation_at r)) (\<lambda>a.
     bind (row_get cols ColCreatedAt (va_created_at r)) (\<lambda>ct.
     ret \<lparr>v_id = i, v_principal_id = p, v_name = n, v_tier = t, v_state = s,
          v_cooling_off_seconds = c, v_storage_region = g, v_last_attestation_at = a,
          v_cooling_off_started_at =
            (if ColCoolingOffStartedAt \<in> set cols then va_cooling_off_started_at r else None),
          v_released_at = (if ColReleasedAt \<in> set cols then va_released_at r else None),
          v_created_at = ct\<rparr>))))))))))))"

definition db_create_vault ::
  "principal_id \<Rightarrow> string \<Rightarrow> tier \<Rightarrow> int \<Rightarrow> storage_region \<Rightarrow> vault db_prog" where
  "db_create_vault i name tr cooling_off_seconds region =
     bind gen_random_uuid (\<lambda>u.
     bind now (\<lambda>t.
     let row = \<lparr>va_id = VaultId u, va_principal_id = i, va_name = name,
                va_tier = tier_as_db_str tr, va_state = ''ACTIVE'',
                va_cooling_off_seconds = cooling_off_seconds,
                va_storage_region = region_as_aws_str region, va_last_attestation_at = t,
                va_cooling_off_started_at = None, va_released_at = None, va_created_at = t\<rparr>
     in andthen (insert_row ''vault'' (\<lambda>w. i \<in> pr_id ` set (principals w)) vaults vaults_update row)
          (row_to_vault vault_columns row)))"

definition db_fetch_vault :: "vault_id \<Rightarrow> vault db_prog" where
  "db_fetch_vault v =
     bind (gets (\<lambda>w. sql_first (\<lambda>r. va_id r = v) (vaults w))) (\<lambda>row.
     bind (ok_or DbNotFound row) (row_to_vault vault_columns))"

definition db_list_vaults :: "principal_id \<Rightarrow> vault list db_prog" where
  "db_list_vaults i =
     bind (gets (\<lambda>w. order_by va_created_at (sql_select (\<lambda>r. va_principal_id r = i) (vaults w))))
       (collect (row_to_vault vault_columns))"

text \<open>\<open>fetch_one\<close> on an update of no row is \<open>RowNotFound\<close>, an \<open>sqlx\<close> error.\<close>

definition row_not_found :: db_error where
  "row_not_found = Sqlx ''no rows returned by a query that expected to return at least one row''"

definition db_set_vault_state ::
  "vault_id \<Rightarrow> vault_state \<Rightarrow> instant option \<Rightarrow> instant option \<Rightarrow> vault db_prog" where
  "db_set_vault_state v st cooling_off_started_at released_at =
     bind (update_returning vaults vaults_update (\<lambda>w r. va_id r = v)
             (\<lambda>w r. r\<lparr>va_state := vault_state_as_db_str st,
                      va_cooling_off_started_at :=
                        coalesce cooling_off_started_at (va_cooling_off_started_at r),
                      va_released_at := coalesce released_at (va_released_at r)\<rparr>)) (\<lambda>row.
     bind (ok_or row_not_found row) (row_to_vault vault_columns))"

definition db_set_vault_storage_region :: "vault_id \<Rightarrow> storage_region \<Rightarrow> vault db_prog" where
  "db_set_vault_storage_region v region =
     bind (update_returning vaults vaults_update (\<lambda>w r. va_id r = v)
             (\<lambda>w r. r\<lparr>va_storage_region := region_as_aws_str region\<rparr>)) (\<lambda>row.
     bind (ok_or row_not_found row) (row_to_vault vault_columns))"

definition db_update_vault :: "vault_id \<Rightarrow> string \<Rightarrow> int \<Rightarrow> vault db_prog" where
  "db_update_vault v name cooling_off_seconds =
     bind (update_returning vaults vaults_update (\<lambda>w r. va_id r = v)
             (\<lambda>w r. r\<lparr>va_name := name, va_cooling_off_seconds := cooling_off_seconds\<rparr>)) (\<lambda>row.
     bind (ok_or row_not_found row) (row_to_vault vault_columns))"

definition db_vault_count :: "principal_id \<Rightarrow> int db_prog" where
  "db_vault_count i = gets (\<lambda>w. sql_count (\<lambda>r. va_principal_id r = i) (vaults w))"

text \<open>The signal aggregator's query. Its column list has no \<open>storage_region\<close>.\<close>

definition watch_columns :: "vault_column list" where
  "watch_columns =
     [ColId, ColPrincipalId, ColName, ColTier, ColState, ColCoolingOffSeconds,
      ColLastAttestationAt, ColCoolingOffStartedAt, ColReleasedAt, ColCreatedAt]"

definition db_list_vaults_in_states :: "vault_state list \<Rightarrow> vault list db_prog" where
  "db_list_vaults_in_states states =
     bind (gets (\<lambda>w. sql_select (\<lambda>r. va_state r \<in> set (map vault_state_as_db_str states)) (vaults w)))
       (collect (row_to_vault watch_columns))"

text \<open>The two conditional updates that serialise a release.\<close>

definition db_claim_vault_cooling_off :: "vault_id \<Rightarrow> vault_state \<Rightarrow> bool db_prog" where
  "db_claim_vault_cooling_off v frm =
     bind (update_rows vaults vaults_update
             (\<lambda>w r. va_id r = v \<and> va_state r = vault_state_as_db_str frm)
             (\<lambda>w r. r\<lparr>va_state := ''COOLING_OFF'', va_cooling_off_started_at := Some (clock w)\<rparr>)) (\<lambda>n.
     ret (n = 1))"

definition db_claim_vault_for_release :: "vault_id \<Rightarrow> bool db_prog" where
  "db_claim_vault_for_release v =
     bind (update_rows vaults vaults_update
             (\<lambda>w r. va_id r = v \<and> va_state r = ''COOLING_OFF'')
             (\<lambda>w r. r\<lparr>va_state := ''RELEASING''\<rparr>)) (\<lambda>n.
     ret (n = 1))"

section \<open>Letters\<close>

record letter_seal_input =
  li_vault_id :: vault_id
  li_title :: string
  li_recipient_email :: string
  li_ciphertext :: bytes
  li_nonce :: bytes
  li_drill_ciphertext :: "bytes option"
  li_drill_nonce :: "bytes option"
  li_scheduled_release_at :: "instant option"
  li_kind :: "string option"
  li_category :: "string option"
  li_release_mode :: "string option"

text \<open>\<open>letter_kind_check\<close> (migration 0015) and \<open>letter_release_mode_check\<close> (0012).\<close>

definition letter_kind_check :: "string \<Rightarrow> bool" where
  "letter_kind_check k \<longleftrightarrow> k \<in> set
     [''MESSAGE'', ''CREDENTIAL_BUNDLE'', ''FILE_ARCHIVE'', ''ACTION'', ''WILL_LOCATOR'',
      ''VIDEO_MESSAGE'', ''AUDIO_MESSAGE'', ''MEDIA_PLAYLIST'']"

definition release_mode_check :: "string \<Rightarrow> bool" where
  "release_mode_check m \<longleftrightarrow> m \<in> set
     [''SIGNAL_OR_SCHEDULED'', ''SCHEDULED_ONLY'', ''SIGNAL_ONLY'', ''EVENT_ON_DEMAND'']"

definition row_to_letter_meta :: "letter_row \<Rightarrow> letter_meta" where
  "row_to_letter_meta r =
     \<lparr>lm_id = le_id r, lm_vault_id = le_vault_id r, lm_title = le_title r,
      lm_recipient_email = le_recipient_email r, lm_sealed_at = le_sealed_at r\<rparr>"

definition db_seal_letter :: "letter_seal_input \<Rightarrow> letter_meta db_prog" where
  "db_seal_letter input =
     bind gen_random_uuid (\<lambda>u.
     bind now (\<lambda>t.
     let row = \<lparr>le_id = LetterId u, le_vault_id = li_vault_id input,
                le_kind = unwrap_or ''MESSAGE'' (li_kind input), le_title = li_title input,
                le_recipient_email = li_recipient_email input,
                le_ciphertext = li_ciphertext input, le_nonce = li_nonce input,
                le_drill_ciphertext = li_drill_ciphertext input,
                le_drill_nonce = li_drill_nonce input,
                le_scheduled_release_at = li_scheduled_release_at input,
                le_category = li_category input,
                le_release_mode = unwrap_or ''SIGNAL_OR_SCHEDULED'' (li_release_mode input),
                le_event_released_at = None, le_sealed_at = t\<rparr>
     in andthen (insert_row ''letter''
                   (\<lambda>w. li_vault_id input \<in> va_id ` set (vaults w)
                      \<and> letter_kind_check (le_kind row) \<and> release_mode_check (le_release_mode row))
                   letters letters_update row)
          (ret (row_to_letter_meta row))))"

definition db_list_letters :: "vault_id \<Rightarrow> letter_meta list db_prog" where
  "db_list_letters v =
     gets (\<lambda>w. map row_to_letter_meta
       (order_by le_sealed_at (sql_select (\<lambda>r. le_vault_id r = v) (letters w))))"

definition db_letter_count :: "vault_id \<Rightarrow> int db_prog" where
  "db_letter_count v = gets (\<lambda>w. sql_count (\<lambda>r. le_vault_id r = v) (letters w))"

definition db_fetch_letter_ciphertext ::
  "letter_id \<Rightarrow> bool \<Rightarrow> (string \<times> string \<times> bytes \<times> bytes) db_prog" where
  "db_fetch_letter_ciphertext l for_drill =
     bind (gets (\<lambda>w. sql_first (\<lambda>r. le_id r = l) (letters w))) (\<lambda>row.
     bind (ok_or DbNotFound row) (\<lambda>r.
     case (if for_drill then (le_drill_ciphertext r, le_drill_nonce r) else (None, None)) of
       (Some ct, Some nc) \<Rightarrow> ret (le_title r, le_recipient_email r, ct, nc)
     | _ \<Rightarrow> ret (le_title r, le_recipient_email r, le_ciphertext r, le_nonce r)))"

record letter_full =
  lf_id :: letter_id
  lf_vault_id :: vault_id
  lf_title :: string
  lf_recipient_email :: string
  lf_sealed_at :: instant
  lf_scheduled_release_at :: "instant option"
  lf_kind :: string
  lf_category :: "string option"
  lf_release_mode :: string
  lf_ciphertext :: bytes
  lf_nonce :: bytes

definition db_fetch_letter_full :: "letter_id \<Rightarrow> letter_full db_prog" where
  "db_fetch_letter_full l =
     bind (gets (\<lambda>w. sql_first (\<lambda>r. le_id r = l) (letters w))) (\<lambda>row.
     bind (ok_or DbNotFound row) (\<lambda>r.
     ret \<lparr>lf_id = le_id r, lf_vault_id = le_vault_id r, lf_title = le_title r,
          lf_recipient_email = le_recipient_email r, lf_sealed_at = le_sealed_at r,
          lf_scheduled_release_at = le_scheduled_release_at r, lf_kind = le_kind r,
          lf_category = le_category r, lf_release_mode = le_release_mode r,
          lf_ciphertext = le_ciphertext r, lf_nonce = le_nonce r\<rparr>))"

definition db_list_scheduled_letters_due :: "instant \<Rightarrow> (vault_id \<times> letter_id) list db_prog" where
  "db_list_scheduled_letters_due t =
     gets (\<lambda>w. map (\<lambda>r. (le_vault_id r, le_id r)) (sql_select
       (\<lambda>r. elapsed (le_scheduled_release_at r) t
          \<and> le_release_mode r \<in> set [''SIGNAL_OR_SCHEDULED'', ''SCHEDULED_ONLY'']) (letters w)))"

definition db_list_letters_for_signal_release :: "vault_id \<Rightarrow> letter_meta list db_prog" where
  "db_list_letters_for_signal_release v =
     gets (\<lambda>w. map row_to_letter_meta (order_by le_sealed_at (sql_select
       (\<lambda>r. le_vault_id r = v
          \<and> le_release_mode r \<in> set [''SIGNAL_OR_SCHEDULED'', ''SIGNAL_ONLY'']) (letters w))))"

record letter_admin =
  la_id :: letter_id
  la_vault_id :: vault_id
  la_title :: string
  la_recipient_email :: string
  la_release_mode :: string
  la_event_released_at :: "instant option"
  la_scheduled_release_at :: "instant option"

definition row_to_letter_admin :: "letter_row \<Rightarrow> letter_admin" where
  "row_to_letter_admin r =
     \<lparr>la_id = le_id r, la_vault_id = le_vault_id r, la_title = le_title r,
      la_recipient_email = le_recipient_email r, la_release_mode = le_release_mode r,
      la_event_released_at = le_event_released_at r,
      la_scheduled_release_at = le_scheduled_release_at r\<rparr>"

definition db_list_letters_admin :: "vault_id \<Rightarrow> letter_admin list db_prog" where
  "db_list_letters_admin v =
     gets (\<lambda>w. map row_to_letter_admin
       (order_by le_sealed_at (sql_select (\<lambda>r. le_vault_id r = v) (letters w))))"

definition db_fetch_letter_admin :: "letter_id \<Rightarrow> letter_admin db_prog" where
  "db_fetch_letter_admin l =
     bind (gets (\<lambda>w. sql_first (\<lambda>r. le_id r = l) (letters w))) (\<lambda>row.
     bind (ok_or DbNotFound row) (\<lambda>r. ret (row_to_letter_admin r)))"

definition db_fetch_letter_meta :: "letter_id \<Rightarrow> letter_meta db_prog" where
  "db_fetch_letter_meta l =
     bind (gets (\<lambda>w. sql_first (\<lambda>r. le_id r = l) (letters w))) (\<lambda>row.
     bind (ok_or DbNotFound row) (\<lambda>r. ret (row_to_letter_meta r)))"

text \<open>The checks of the table hold for the updated row, or the statement fails.\<close>

definition db_update_letter_meta ::
  "letter_id \<Rightarrow> string \<Rightarrow> string \<Rightarrow> instant option \<Rightarrow> string \<Rightarrow> string \<Rightarrow> letter_meta db_prog" where
  "db_update_letter_meta l title recipient_email scheduled_release_at release_mode kind =
     bind (gets (\<lambda>w. sql_first (\<lambda>r. le_id r = l) (letters w))) (\<lambda>hit.
     andthen (reject_if (hit \<noteq> None \<and> \<not> (release_mode_check release_mode \<and> letter_kind_check kind))
                (Sqlx ''letter_check''))
       (bind (update_returning letters letters_update (\<lambda>w r. le_id r = l)
                (\<lambda>w r. r\<lparr>le_title := title, le_recipient_email := recipient_email,
                         le_scheduled_release_at := scheduled_release_at,
                         le_release_mode := release_mode, le_kind := kind\<rparr>)) (\<lambda>row.
        bind (ok_or DbNotFound row) (\<lambda>r. ret (row_to_letter_meta r)))))"

text \<open>
  \<open>DELETE FROM letter\<close> with the cascades of the schema: claims, attachments (and their
  claims), recipient changes and the heir envelope of the letter go with it.
\<close>

definition db_delete_letter :: "letter_id \<Rightarrow> unit db_prog" where
  "db_delete_letter l =
     modify (\<lambda>w. w\<lparr>letters := sql_delete (\<lambda>r. le_id r = l) (letters w),
       release_claims := sql_delete (\<lambda>r. cl_letter_id r = l) (release_claims w),
       attachment_claims := sql_delete
         (\<lambda>r. \<exists>a \<in> set (attachments w). ar_letter_id a = l \<and> ar_id a = ac_attachment_id r)
         (attachment_claims w),
       attachments := sql_delete (\<lambda>r. ar_letter_id r = l) (attachments w),
       recipient_changes := sql_delete (\<lambda>r. rc_letter_id r = l) (recipient_changes w),
       aux := (aux w)\<lparr>heir_envelopes :=
         sql_delete (\<lambda>r. he_letter_id r = l) (heir_envelopes (aux w))\<rparr>\<rparr>)"

definition db_mark_letter_event_released :: "letter_id \<Rightarrow> bool db_prog" where
  "db_mark_letter_event_released l =
     bind (update_rows letters letters_update
             (\<lambda>w r. le_id r = l \<and> le_release_mode r = ''EVENT_ON_DEMAND'' \<and> le_event_released_at r = None)
             (\<lambda>w r. r\<lparr>le_event_released_at := Some (clock w)\<rparr>)) (\<lambda>n.
     ret (n = 1))"

text \<open>The statement \<open>scheduled_release_tick\<close> issues itself.\<close>

definition db_clear_letter_schedule :: "letter_id \<Rightarrow> unit db_prog" where
  "db_clear_letter_schedule l =
     bind (update_rows letters letters_update (\<lambda>w r. le_id r = l)
             (\<lambda>w r. r\<lparr>le_scheduled_release_at := None\<rparr>)) (\<lambda>_. ret ())"

definition db_purge_letter_ciphertext :: "letter_id \<Rightarrow> unit db_prog" where
  "db_purge_letter_ciphertext l =
     bind (update_rows letters letters_update (\<lambda>w r. le_id r = l)
             (\<lambda>w r. r\<lparr>le_ciphertext := [], le_drill_ciphertext := Some [],
                      le_nonce := [], le_drill_nonce := Some []\<rparr>)) (\<lambda>_. ret ())"

section \<open>Recipient changes\<close>

definition change_pending :: "recipient_change_row \<Rightarrow> bool" where
  "change_pending r \<longleftrightarrow> rc_applied_at r = None \<and> rc_cancelled_at r = None"

definition db_request_recipient_change ::
  "letter_id \<Rightarrow> co_steward_id \<Rightarrow> string \<Rightarrow> string \<Rightarrow> instant \<Rightarrow> recipient_change_row db_prog" where
  "db_request_recipient_change l c old_email new_email effective_at =
     bind gen_random_uuid (\<lambda>u.
     bind now (\<lambda>t.
     let row = \<lparr>rc_id = u, rc_letter_id = l, rc_co_steward_id = c, rc_old_email = old_email,
                rc_new_email = new_email, rc_requested_at = t, rc_effective_at = effective_at,
                rc_applied_at = None, rc_cancelled_at = None\<rparr>
     in andthen (insert_row ''letter_recipient_change''
                   (\<lambda>w. l \<in> le_id ` set (letters w) \<and> c \<in> co_id ` set (co_stewards w))
                   recipient_changes recipient_changes_update row)
          (ret row)))"

definition db_fetch_recipient_change :: "uuid \<Rightarrow> recipient_change_row option db_prog" where
  "db_fetch_recipient_change c = gets (\<lambda>w. sql_first (\<lambda>r. rc_id r = c) (recipient_changes w))"

text \<open>\<open>ORDER BY requested_at DESC LIMIT 1\<close>.\<close>

definition db_fetch_pending_recipient_change :: "letter_id \<Rightarrow> recipient_change_row option db_prog" where
  "db_fetch_pending_recipient_change l =
     gets (\<lambda>w. sql_first (\<lambda>_. True) (order_by_desc rc_requested_at
       (sql_select (\<lambda>r. rc_letter_id r = l \<and> change_pending r) (recipient_changes w))))"

definition db_cancel_recipient_change :: "uuid \<Rightarrow> bool db_prog" where
  "db_cancel_recipient_change c =
     bind (update_rows recipient_changes recipient_changes_update
             (\<lambda>w r. rc_id r = c \<and> change_pending r)
             (\<lambda>w r. r\<lparr>rc_cancelled_at := Some (clock w)\<rparr>)) (\<lambda>n.
     ret (n = 1))"

definition db_list_due_recipient_changes :: "instant \<Rightarrow> uuid list db_prog" where
  "db_list_due_recipient_changes t =
     gets (\<lambda>w. map rc_id (sql_select (\<lambda>r. change_pending r \<and> rc_effective_at r \<le> t) (recipient_changes w)))"

text \<open>
  One statement: the change is marked applied in the \<open>WITH\<close> clause and the letter it
  names takes the new address. It returns the letter's row.
\<close>

definition db_apply_recipient_change :: "uuid \<Rightarrow> (letter_id \<times> string) option db_prog" where
  "db_apply_recipient_change c =
     bind (update_returning recipient_changes recipient_changes_update
             (\<lambda>w r. rc_id r = c \<and> change_pending r)
             (\<lambda>w r. r\<lparr>rc_applied_at := Some (clock w)\<rparr>)) (\<lambda>chg.
     case chg of
       None \<Rightarrow> ret None
     | Some h \<Rightarrow>
         bind (update_returning letters letters_update (\<lambda>w r. le_id r = rc_letter_id h)
                 (\<lambda>w r. r\<lparr>le_recipient_email := rc_new_email h\<rparr>)) (\<lambda>row.
         ret (map_option (\<lambda>r. (le_id r, le_recipient_email r)) row)))"

section \<open>Heartbeats\<close>

definition db_record_heartbeat :: "principal_id \<Rightarrow> string \<Rightarrow> instant db_prog" where
  "db_record_heartbeat i via =
     bind now (\<lambda>t.
     andthen (insert_row ''heartbeat''
                (\<lambda>w. i \<in> pr_id ` set (principals w)
                   \<and> via \<in> set [''CLI'', ''WEB'', ''EMAIL'', ''SMS'', ''PUSH''])
                heartbeats heartbeats_update \<lparr>hb_principal_id = i, hb_received_at = t, hb_via = via\<rparr>)
       (bind (update_rows vaults vaults_update (\<lambda>w r. va_principal_id r = i)
                (\<lambda>w r. r\<lparr>va_last_attestation_at := clock w\<rparr>)) (\<lambda>_.
        ret t)))"

definition db_last_heartbeat :: "principal_id \<Rightarrow> instant option db_prog" where
  "db_last_heartbeat i =
     gets (\<lambda>w. map_option hb_received_at (sql_first (\<lambda>_. True)
       (order_by_desc hb_received_at (sql_select (\<lambda>r. hb_principal_id r = i) (heartbeats w)))))"

end
