(* ===== verification/DbRelease.thy ===== *)
theory DbRelease
  imports DbVault
begin

text \<open>
  Release events, release claims, attachments with their claims, and the transparency log
  of src/crates/beacon-db/src/lib.rs.
\<close>

section \<open>Release events\<close>

definition row_to_release_event :: "release_reason \<Rightarrow> release_event_row \<Rightarrow> release_event" where
  "row_to_release_event reason r =
     \<lparr>re_id = ev_id r, re_vault_id = ev_vault_id r, re_reason = reason,
      re_triggered_at = ev_triggered_at r, re_released_at = ev_released_at r,
      re_cancelled_at = ev_cancelled_at r, re_is_drill = ev_is_drill r\<rparr>"

definition insert_release_event ::
  "vault_id \<Rightarrow> release_reason \<Rightarrow> bool \<Rightarrow> instant option \<Rightarrow> release_event db_prog" where
  "insert_release_event v reason is_drill ends_at =
     bind gen_random_uuid (\<lambda>u.
     bind now (\<lambda>t.
     let row = \<lparr>ev_id = ReleaseEventId u, ev_vault_id = v, ev_reason = release_reason_as_db_str reason,
                ev_triggered_at = t, ev_released_at = None, ev_cancelled_at = None,
                ev_is_drill = is_drill, ev_cooling_off_ends_at = ends_at\<rparr>
     in andthen (insert_row ''release_event'' (\<lambda>w. v \<in> va_id ` set (vaults w))
                   release_events release_events_update row)
          (ret (row_to_release_event reason row))))"

definition db_create_release_event :: "vault_id \<Rightarrow> release_reason \<Rightarrow> bool \<Rightarrow> release_event db_prog" where
  "db_create_release_event v reason is_drill = insert_release_event v reason is_drill None"

definition db_create_release_event_with_deadline ::
  "vault_id \<Rightarrow> release_reason \<Rightarrow> bool \<Rightarrow> instant \<Rightarrow> release_event db_prog" where
  "db_create_release_event_with_deadline v reason is_drill cooling_off_ends_at =
     insert_release_event v reason is_drill (Some cooling_off_ends_at)"

definition open_event :: "release_event_row \<Rightarrow> bool" where
  "open_event r \<longleftrightarrow> ev_released_at r = None \<and> ev_cancelled_at r = None"

definition db_list_due_releases :: "instant \<Rightarrow> (vault_id \<times> release_event_id \<times> bool) list db_prog" where
  "db_list_due_releases t =
     gets (\<lambda>w. map (\<lambda>r. (ev_vault_id r, ev_id r, ev_is_drill r)) (sql_select
       (\<lambda>r. open_event r \<and> elapsed (ev_cooling_off_ends_at r) t
          \<and> (\<exists>v \<in> set (vaults w). va_id v = ev_vault_id r \<and> va_state v = ''COOLING_OFF''))
       (release_events w)))"

definition db_mark_release_released :: "release_event_id \<Rightarrow> unit db_prog" where
  "db_mark_release_released e =
     bind (update_rows release_events release_events_update (\<lambda>w r. ev_id r = e)
             (\<lambda>w r. r\<lparr>ev_released_at := Some (clock w)\<rparr>)) (\<lambda>_. ret ())"

definition db_mark_release_cancelled :: "release_event_id \<Rightarrow> unit db_prog" where
  "db_mark_release_cancelled e =
     bind (update_rows release_events release_events_update (\<lambda>w r. ev_id r = e \<and> open_event r)
             (\<lambda>w r. r\<lparr>ev_cancelled_at := Some (clock w)\<rparr>)) (\<lambda>_. ret ())"

text \<open>\<open>ORDER BY triggered_at DESC LIMIT 1\<close>; the reason is not read back.\<close>

definition db_fetch_open_release :: "vault_id \<Rightarrow> release_event option db_prog" where
  "db_fetch_open_release v =
     gets (\<lambda>w. map_option (row_to_release_event SignalTrigger) (sql_first (\<lambda>_. True)
       (order_by_desc ev_triggered_at
         (sql_select (\<lambda>r. ev_vault_id r = v \<and> open_event r) (release_events w)))))"

section \<open>Release claims\<close>

definition db_issue_release_claim ::
  "release_event_id \<Rightarrow> letter_id \<Rightarrow> string \<Rightarrow> bytes \<Rightarrow> int \<Rightarrow> unit db_prog" where
  "db_issue_release_claim e l recipient_email token_hash ttl_days =
     bind now (\<lambda>t.
     insert_row ''release_claim''
       (\<lambda>w. token_hash \<notin> cl_token_hash ` set (release_claims w)
          \<and> e \<in> ev_id ` set (release_events w) \<and> l \<in> le_id ` set (letters w))
       release_claims release_claims_update
       \<lparr>cl_token_hash = token_hash, cl_release_event_id = e, cl_letter_id = l,
        cl_recipient_email = recipient_email, cl_expires_at = t + days ttl_days,
        cl_claimed_at = None\<rparr>)"

text \<open>
  \<open>WITH consumed AS (UPDATE ..) SELECT .. JOIN release_event\<close>: the update happens whether or
  not the join finds the event.
\<close>

definition db_consume_release_claim :: "bytes \<Rightarrow> (letter_id \<times> string \<times> bool) option db_prog" where
  "db_consume_release_claim token_hash =
     bind (update_returning release_claims release_claims_update
             (\<lambda>w r. cl_token_hash r = token_hash \<and> cl_claimed_at r = None \<and> clock w < cl_expires_at r)
             (\<lambda>w r. r\<lparr>cl_claimed_at := Some (clock w)\<rparr>)) (\<lambda>consumed.
     case consumed of
       None \<Rightarrow> ret None
     | Some c \<Rightarrow> gets (\<lambda>w. map_option
         (\<lambda>e. (cl_letter_id c, cl_recipient_email c, ev_is_drill e))
         (sql_first (\<lambda>e. ev_id e = cl_release_event_id c) (release_events w))))"

section \<open>Attachments\<close>

definition row_to_attachment :: "attachment_row \<Rightarrow> attachment" where
  "row_to_attachment r =
     \<lparr>at_id = ar_id r, at_letter_id = ar_letter_id r, at_original_filename = ar_original_filename r,
      at_original_mime = ar_original_mime r, at_original_size = ar_original_size r,
      at_transformed_mime = ar_transformed_mime r, at_transformed_size = ar_transformed_size r,
      at_sha256_hex = hex_encode (ar_sha256 r), at_storage_key = ar_storage_key r,
      at_sealed_at = ar_sealed_at r\<rparr>"

record attachment_input =
  ai_letter_id :: letter_id
  ai_original_filename :: string
  ai_original_mime :: string
  ai_original_size :: int
  ai_transformed_mime :: string
  ai_transformed_size :: int
  ai_sha256 :: bytes
  ai_storage_key :: string
  ai_nonce :: bytes

definition db_create_attachment :: "attachment_input \<Rightarrow> attachment db_prog" where
  "db_create_attachment input =
     bind gen_random_uuid (\<lambda>u.
     bind now (\<lambda>t.
     let row = \<lparr>ar_id = AttachmentId u, ar_letter_id = ai_letter_id input,
                ar_original_filename = ai_original_filename input,
                ar_original_mime = ai_original_mime input,
                ar_original_size = ai_original_size input,
                ar_transformed_mime = ai_transformed_mime input,
                ar_transformed_size = ai_transformed_size input, ar_sha256 = ai_sha256 input,
                ar_storage_key = ai_storage_key input, ar_nonce = ai_nonce input,
                ar_sealed_at = t\<rparr>
     in andthen (insert_row ''attachment'' (\<lambda>w. ai_letter_id input \<in> le_id ` set (letters w))
                   attachments attachments_update row)
          (ret (row_to_attachment row))))"

definition db_list_attachments :: "letter_id \<Rightarrow> attachment list db_prog" where
  "db_list_attachments l =
     gets (\<lambda>w. map row_to_attachment
       (order_by ar_sealed_at (sql_select (\<lambda>r. ar_letter_id r = l) (attachments w))))"

definition db_fetch_attachment :: "attachment_id \<Rightarrow> (attachment \<times> bytes) db_prog" where
  "db_fetch_attachment a =
     bind (gets (\<lambda>w. sql_first (\<lambda>r. ar_id r = a) (attachments w))) (\<lambda>row.
     bind (ok_or DbNotFound row) (\<lambda>r. ret (row_to_attachment r, ar_nonce r)))"

definition db_purge_attachment :: "attachment_id \<Rightarrow> string option db_prog" where
  "db_purge_attachment a =
     bind (gets (\<lambda>w. sql_first (\<lambda>r. ar_id r = a) (attachments w))) (\<lambda>row.
     andthen (modify (\<lambda>w. w\<lparr>attachments := sql_delete (\<lambda>r. ar_id r = a) (attachments w),
                attachment_claims := sql_delete (\<lambda>r. ac_attachment_id r = a) (attachment_claims w)\<rparr>))
       (ret (map_option ar_storage_key row)))"

definition db_list_attachments_for_vault :: "vault_id \<Rightarrow> attachment list db_prog" where
  "db_list_attachments_for_vault v =
     gets (\<lambda>w. map row_to_attachment (order_by ar_sealed_at (sql_select
       (\<lambda>r. \<exists>l \<in> set (letters w). le_id l = ar_letter_id r \<and> le_vault_id l = v) (attachments w))))"

definition db_update_attachment_storage_key :: "attachment_id \<Rightarrow> string \<Rightarrow> unit db_prog" where
  "db_update_attachment_storage_key a new_storage_key =
     bind (update_rows attachments attachments_update (\<lambda>w r. ar_id r = a)
             (\<lambda>w r. r\<lparr>ar_storage_key := new_storage_key\<rparr>)) (\<lambda>_. ret ())"

text \<open>\<open>COALESCE(SUM(a.transformed_size), 0)\<close> over the two joins.\<close>

definition db_storage_used :: "principal_id \<Rightarrow> int db_prog" where
  "db_storage_used i =
     gets (\<lambda>w. sum_list (map ar_transformed_size (sql_select
       (\<lambda>r. \<exists>l \<in> set (letters w). le_id l = ar_letter_id r
          \<and> (\<exists>v \<in> set (vaults w). va_id v = le_vault_id l \<and> va_principal_id v = i))
       (attachments w))))"

definition db_issue_attachment_claim ::
  "release_event_id \<Rightarrow> attachment_id \<Rightarrow> string \<Rightarrow> bytes \<Rightarrow> int \<Rightarrow> unit db_prog" where
  "db_issue_attachment_claim e a recipient_email token_hash ttl_days =
     bind now (\<lambda>t.
     insert_row ''release_attachment_claim''
       (\<lambda>w. token_hash \<notin> ac_token_hash ` set (attachment_claims w)
          \<and> e \<in> ev_id ` set (release_events w) \<and> a \<in> ar_id ` set (attachments w))
       attachment_claims attachment_claims_update
       \<lparr>ac_token_hash = token_hash, ac_release_event_id = e, ac_attachment_id = a,
        ac_recipient_email = recipient_email, ac_expires_at = t + days ttl_days,
        ac_claimed_at = None\<rparr>)"

definition db_consume_attachment_claim :: "bytes \<Rightarrow> (attachment_id \<times> string \<times> bool) option db_prog" where
  "db_consume_attachment_claim token_hash =
     bind (update_returning attachment_claims attachment_claims_update
             (\<lambda>w r. ac_token_hash r = token_hash \<and> ac_claimed_at r = None \<and> clock w < ac_expires_at r)
             (\<lambda>w r. r\<lparr>ac_claimed_at := Some (clock w)\<rparr>)) (\<lambda>consumed.
     case consumed of
       None \<Rightarrow> ret None
     | Some c \<Rightarrow> gets (\<lambda>w. map_option
         (\<lambda>e. (ac_attachment_id c, ac_recipient_email c, ev_is_drill e))
         (sql_first (\<lambda>e. ev_id e = ac_release_event_id c) (release_events w))))"

section \<open>Transparency log\<close>

text \<open>The payload and its hash are not kept. The log refers to principals and vaults.\<close>

definition db_append_transparency_entry ::
  "string \<Rightarrow> principal_id option \<Rightarrow> vault_id option \<Rightarrow> unit db_prog" where
  "db_append_transparency_entry kind i v =
     bind now (\<lambda>t.
     insert_row ''transparency_entry''
       (\<lambda>w. (case i of None \<Rightarrow> True | Some x \<Rightarrow> x \<in> pr_id ` set (principals w))
          \<and> (case v of None \<Rightarrow> True | Some x \<Rightarrow> x \<in> va_id ` set (vaults w)))
       transparency transparency_update
       \<lparr>te_kind = kind, te_ts = t, te_principal_id = i, te_vault_id = v\<rparr>)"

definition db_list_transparency_entries :: "nat \<Rightarrow> transparency_row list db_prog" where
  "db_list_transparency_entries limit =
     gets (\<lambda>w. take limit (order_by_desc te_ts (transparency w)))"

end
