(* ===== verification/DbPeople.thy ===== *)
theory DbPeople
  imports DbRelease
begin

text \<open>
  Buddies and Co-Stewards of src/crates/beacon-db/src/lib.rs, with the sessions of the
  latter.
\<close>

section \<open>Buddies\<close>

definition row_to_buddy :: "buddy_row \<Rightarrow> buddy db_prog" where
  "row_to_buddy r =
     bind (case bu_last_response r of
             None \<Rightarrow> ret None
           | Some s \<Rightarrow> bind (try_domain (buddy_response_from_db_str s)) (\<lambda>x. ret (Some x))) (\<lambda>resp.
     ret \<lparr>b_id = bu_id r, b_principal_id = bu_principal_id r, b_display_name = bu_display_name r,
          b_email = bu_email r, b_phone = bu_phone r,
          b_prompt_cadence_days = bu_prompt_cadence_days r,
          b_last_prompt_at = bu_last_prompt_at r, b_last_response_at = bu_last_response_at r,
          b_last_response = resp, b_confirmed_at = bu_confirmed_at r,
          b_revoked_at = bu_revoked_at r\<rparr>)"

record buddy_invite_input =
  bi_principal_id :: principal_id
  bi_display_name :: "string option"
  bi_email :: string
  bi_phone :: "string option"
  bi_confirmation_token_hash :: bytes
  bi_prompt_cadence_days :: int

definition db_invite_buddy :: "buddy_invite_input \<Rightarrow> buddy db_prog" where
  "db_invite_buddy input =
     bind gen_random_uuid (\<lambda>u.
     bind now (\<lambda>t.
     let row = \<lparr>bu_id = BuddyId u, bu_principal_id = bi_principal_id input,
                bu_display_name = bi_display_name input, bu_email = bi_email input,
                bu_phone = bi_phone input, bu_prompt_cadence_days = bi_prompt_cadence_days input,
                bu_last_prompt_at = None, bu_last_response_at = None, bu_last_response = None,
                bu_confirmation_token_hash = Some (bi_confirmation_token_hash input),
                bu_confirmed_at = None, bu_revoked_at = None, bu_created_at = t\<rparr>
     in andthen (insert_row ''buddy''
                   (\<lambda>w. bi_principal_id input \<in> pr_id ` set (principals w)
                      \<and> (bi_principal_id input, bi_email input)
                          \<notin> (\<lambda>b. (bu_principal_id b, bu_email b)) ` set (buddies w))
                   buddies buddies_update row)
          (row_to_buddy row)))"

definition db_confirm_buddy :: "bytes \<Rightarrow> buddy option db_prog" where
  "db_confirm_buddy token_hash =
     bind (update_returning buddies buddies_update
             (\<lambda>w r. bu_confirmation_token_hash r = Some token_hash
                  \<and> bu_confirmed_at r = None \<and> bu_revoked_at r = None)
             (\<lambda>w r. r\<lparr>bu_confirmed_at := Some (clock w), bu_confirmation_token_hash := None\<rparr>)) (\<lambda>row.
     case row of
       None \<Rightarrow> ret None
     | Some r \<Rightarrow> bind (row_to_buddy r) (\<lambda>b. ret (Some b)))"

definition db_record_buddy_response :: "buddy_id \<Rightarrow> buddy_response \<Rightarrow> buddy db_prog" where
  "db_record_buddy_response b response =
     bind (update_returning buddies buddies_update
             (\<lambda>w r. bu_id r = b \<and> bu_confirmed_at r \<noteq> None \<and> bu_revoked_at r = None)
             (\<lambda>w r. r\<lparr>bu_last_response := Some (buddy_response_as_db_str response),
                      bu_last_response_at := Some (clock w)\<rparr>)) (\<lambda>row.
     bind (ok_or DbNotFound row) row_to_buddy)"

definition db_list_buddies :: "principal_id \<Rightarrow> buddy list db_prog" where
  "db_list_buddies i =
     bind (gets (\<lambda>w. order_by bu_created_at (sql_select (\<lambda>r. bu_principal_id r = i) (buddies w))))
       (collect row_to_buddy)"

definition db_fetch_buddy :: "buddy_id \<Rightarrow> buddy db_prog" where
  "db_fetch_buddy b =
     bind (gets (\<lambda>w. sql_first (\<lambda>r. bu_id r = b) (buddies w))) (\<lambda>row.
     bind (ok_or DbNotFound row) row_to_buddy)"

definition db_revoke_buddy :: "buddy_id \<Rightarrow> unit db_prog" where
  "db_revoke_buddy b =
     bind (update_rows buddies buddies_update (\<lambda>w r. bu_id r = b)
             (\<lambda>w r. r\<lparr>bu_revoked_at := Some (clock w)\<rparr>)) (\<lambda>_. ret ())"

section \<open>Co-Stewards\<close>

definition row_to_co_steward :: "co_steward_row \<Rightarrow> co_steward" where
  "row_to_co_steward r =
     \<lparr>cs_id = co_id r, cs_principal_id = co_principal_id r, cs_display_name = co_display_name r,
      cs_email = co_email r, cs_confirmed_at = co_confirmed_at r, cs_revoked_at = co_revoked_at r,
      cs_last_viewed_at = co_last_viewed_at r, cs_created_at = co_created_at r\<rparr>"

text \<open>
  \<open>ON CONFLICT (principal_id, email) DO UPDATE\<close>: a second invitation of the same address
  renews the token and clears the confirmation and the revocation; the display name and
  the passphrase stay.
\<close>

definition db_invite_co_steward ::
  "principal_id \<Rightarrow> string option \<Rightarrow> string \<Rightarrow> bytes \<Rightarrow> co_steward db_prog" where
  "db_invite_co_steward i display_name email token_hash =
     bind (update_returning co_stewards co_stewards_update
             (\<lambda>w r. co_principal_id r = i \<and> co_email r = email)
             (\<lambda>w r. r\<lparr>co_confirmation_token_hash := Some token_hash, co_confirmed_at := None,
                      co_revoked_at := None\<rparr>)) (\<lambda>conflict.
     case conflict of
       Some r \<Rightarrow> ret (row_to_co_steward r)
     | None \<Rightarrow>
         bind gen_random_uuid (\<lambda>u.
         bind now (\<lambda>t.
         let row = \<lparr>co_id = CoStewardId u, co_principal_id = i, co_display_name = display_name,
                    co_email = email, co_passphrase_hash = None, co_passphrase_salt = None,
                    co_confirmation_token_hash = Some token_hash, co_confirmed_at = None,
                    co_revoked_at = None, co_last_viewed_at = None, co_created_at = t\<rparr>
         in andthen (insert_row ''co_steward'' (\<lambda>w. i \<in> pr_id ` set (principals w))
                       co_stewards co_stewards_update row)
              (ret (row_to_co_steward row)))))"

definition db_confirm_co_steward :: "bytes \<Rightarrow> string \<Rightarrow> bytes \<Rightarrow> co_steward option db_prog" where
  "db_confirm_co_steward token_hash passphrase_hash passphrase_salt =
     bind (update_returning co_stewards co_stewards_update
             (\<lambda>w r. co_confirmation_token_hash r = Some token_hash \<and> co_revoked_at r = None)
             (\<lambda>w r. r\<lparr>co_confirmed_at := coalesce (co_confirmed_at r) (Some (clock w)),
                      co_passphrase_hash := Some passphrase_hash,
                      co_passphrase_salt := Some passphrase_salt,
                      co_confirmation_token_hash := None\<rparr>)) (\<lambda>row.
     ret (map_option row_to_co_steward row))"

definition co_active_row :: "co_steward_row \<Rightarrow> bool" where
  "co_active_row r \<longleftrightarrow> co_confirmed_at r \<noteq> None \<and> co_revoked_at r = None"

definition db_sign_in_co_steward :: "string \<Rightarrow> string \<Rightarrow> co_steward option db_prog" where
  "db_sign_in_co_steward email passphrase_hash =
     gets (\<lambda>w. map_option row_to_co_steward (sql_first
       (\<lambda>r. co_email r = email \<and> co_active_row r \<and> co_passphrase_hash r = Some passphrase_hash)
       (co_stewards w)))"

definition db_lookup_co_steward_salt :: "string \<Rightarrow> bytes option db_prog" where
  "db_lookup_co_steward_salt email =
     gets (\<lambda>w. case sql_first (\<lambda>r. co_email r = email \<and> co_active_row r) (co_stewards w) of
       None \<Rightarrow> None
     | Some r \<Rightarrow> co_passphrase_salt r)"

definition db_list_co_stewards :: "principal_id \<Rightarrow> co_steward list db_prog" where
  "db_list_co_stewards i =
     gets (\<lambda>w. map row_to_co_steward (order_by_desc co_created_at
       (sql_select (\<lambda>r. co_principal_id r = i \<and> co_revoked_at r = None) (co_stewards w))))"

definition db_co_steward_count :: "principal_id \<Rightarrow> int db_prog" where
  "db_co_steward_count i =
     gets (\<lambda>w. sql_count (\<lambda>r. co_principal_id r = i \<and> co_revoked_at r = None) (co_stewards w))"

definition db_fetch_co_steward :: "co_steward_id \<Rightarrow> co_steward db_prog" where
  "db_fetch_co_steward c =
     bind (gets (\<lambda>w. sql_first (\<lambda>r. co_id r = c) (co_stewards w))) (\<lambda>row.
     bind (ok_or DbNotFound row) (\<lambda>r. ret (row_to_co_steward r)))"

definition db_revoke_co_steward :: "co_steward_id \<Rightarrow> unit db_prog" where
  "db_revoke_co_steward c =
     bind (update_rows co_stewards co_stewards_update (\<lambda>w r. co_id r = c)
             (\<lambda>w r. r\<lparr>co_revoked_at := Some (clock w)\<rparr>)) (\<lambda>_. ret ())"

definition db_touch_co_steward_view :: "co_steward_id \<Rightarrow> unit db_prog" where
  "db_touch_co_steward_view c =
     bind (update_rows co_stewards co_stewards_update (\<lambda>w r. co_id r = c)
             (\<lambda>w r. r\<lparr>co_last_viewed_at := Some (clock w)\<rparr>)) (\<lambda>_. ret ())"

definition db_create_co_steward_session ::
  "co_steward_id \<Rightarrow> principal_id \<Rightarrow> bytes \<Rightarrow> int \<Rightarrow> unit db_prog" where
  "db_create_co_steward_session c i token_hash ttl_hours =
     bind now (\<lambda>t.
     insert_row ''session''
       (\<lambda>w. i \<in> pr_id ` set (principals w) \<and> c \<in> co_id ` set (co_stewards w)
          \<and> token_hash \<notin> se_token_hash ` set (sessions w))
       sessions sessions_update
       \<lparr>se_token_hash = token_hash, se_principal_id = i, se_co_steward_id = Some c,
        se_auth_role = ''CO_STEWARD'', se_expires_at = t + hours ttl_hours, se_revoked_at = None\<rparr>)"

definition db_co_steward_for_session :: "bytes \<Rightarrow> (co_steward_id \<times> principal_id) option db_prog" where
  "db_co_steward_for_session token_hash =
     gets (\<lambda>w. case sql_first
         (\<lambda>r. se_token_hash r = token_hash \<and> se_auth_role r = ''CO_STEWARD''
            \<and> se_co_steward_id r \<noteq> None \<and> se_revoked_at r = None \<and> clock w < se_expires_at r)
         (sessions w) of
       None \<Rightarrow> None
     | Some r \<Rightarrow> (case se_co_steward_id r of None \<Rightarrow> None | Some c \<Rightarrow> Some (c, se_principal_id r)))"

end
