(* ===== verification/DbSignals.thy ===== *)
theory DbSignals
  imports DbPeople
begin

text \<open>
  Signal subscriptions and observations, the Apple Shortcut, bank dormancy and duress
  tables of src/crates/beacon-db/src/lib.rs. JSON configuration and evidence are left out.
\<close>

section \<open>Signal subscriptions and observations\<close>

record signal_subscription =
  sn_vault_id :: vault_id
  sn_source :: signal_source
  sn_weight :: f32
  sn_enabled :: bool

record signal =
  si_vault_id :: vault_id
  si_source :: signal_source
  si_observed_at :: instant
  si_contribution :: f32

definition row_to_signal_subscription :: "sub_row \<Rightarrow> signal_subscription db_prog" where
  "row_to_signal_subscription r =
     bind (try_domain (signal_source_from_db_str (ss_source r))) (\<lambda>src.
     ret \<lparr>sn_vault_id = ss_vault_id r, sn_source = src, sn_weight = ss_weight r,
          sn_enabled = ss_enabled r\<rparr>)"

definition db_upsert_signal_subscription ::
  "vault_id \<Rightarrow> signal_source \<Rightarrow> f32 \<Rightarrow> bool \<Rightarrow> signal_subscription db_prog" where
  "db_upsert_signal_subscription v src weight enabled =
     bind (update_returning signal_subs signal_subs_update
             (\<lambda>w r. ss_vault_id r = v \<and> ss_source r = signal_source_as_db_str src)
             (\<lambda>w r. r\<lparr>ss_weight := weight, ss_enabled := enabled\<rparr>)) (\<lambda>conflict.
     case conflict of
       Some r \<Rightarrow> row_to_signal_subscription r
     | None \<Rightarrow>
         let row = \<lparr>ss_vault_id = v, ss_source = signal_source_as_db_str src, ss_weight = weight,
                    ss_enabled = enabled\<rparr>
         in andthen (insert_row ''signal_subscription'' (\<lambda>w. v \<in> va_id ` set (vaults w))
                       signal_subs signal_subs_update row)
              (row_to_signal_subscription row))"

definition db_list_signal_subscriptions :: "vault_id \<Rightarrow> signal_subscription list db_prog" where
  "db_list_signal_subscriptions v =
     bind (gets (\<lambda>w. sql_select (\<lambda>r. ss_vault_id r = v) (signal_subs w)))
       (collect row_to_signal_subscription)"

definition row_to_signal :: "obs_row \<Rightarrow> signal db_prog" where
  "row_to_signal r =
     bind (try_domain (signal_source_from_db_str (sg_source r))) (\<lambda>src.
     ret \<lparr>si_vault_id = sg_vault_id r, si_source = src, si_observed_at = sg_observed_at r,
          si_contribution = sg_contribution r\<rparr>)"

definition db_record_signal :: "vault_id \<Rightarrow> signal_source \<Rightarrow> f32 \<Rightarrow> signal db_prog" where
  "db_record_signal v src contribution =
     bind now (\<lambda>t.
     andthen (insert_row ''signal'' (\<lambda>w. v \<in> va_id ` set (vaults w)) signals signals_update
                \<lparr>sg_vault_id = v, sg_source = signal_source_as_db_str src, sg_observed_at = t,
                 sg_contribution = contribution\<rparr>)
       (ret \<lparr>si_vault_id = v, si_source = src, si_observed_at = t, si_contribution = contribution\<rparr>))"

definition db_list_recent_signals :: "vault_id \<Rightarrow> instant \<Rightarrow> signal list db_prog" where
  "db_list_recent_signals v since =
     bind (gets (\<lambda>w. order_by_desc sg_observed_at
             (sql_select (\<lambda>r. sg_vault_id r = v \<and> since \<le> sg_observed_at r) (signals w))))
       (collect row_to_signal)"

text \<open>The most recent observations over the principal's vaults, with the vault's name.\<close>

definition db_list_principal_activity ::
  "principal_id \<Rightarrow> nat \<Rightarrow> (string \<times> instant \<times> string) list db_prog" where
  "db_list_principal_activity i limit =
     gets (\<lambda>w. map (\<lambda>(s, v). (sg_source s, sg_observed_at s, va_name v)) (take limit
       (order_by_desc (\<lambda>(s, v). sg_observed_at s)
         (concat (map (\<lambda>s. map (Pair s) (sql_select
            (\<lambda>v. va_id v = sg_vault_id s \<and> va_principal_id v = i) (vaults w))) (signals w))))))"

section \<open>Apple Shortcut\<close>

definition db_create_apple_shortcut_sub :: "principal_id \<Rightarrow> string \<Rightarrow> bytes \<Rightarrow> unit db_prog" where
  "db_create_apple_shortcut_sub i installation_id secret_key =
     insert_row ''apple_shortcut_subscription''
       (\<lambda>w. i \<in> pr_id ` set (principals w)
          \<and> installation_id \<notin> ap_installation_id ` set (apple_subs w))
       apple_subs apple_subs_update
       \<lparr>ap_principal_id = i, ap_installation_id = installation_id,
        ap_secret_hmac_key = secret_key, ap_last_ping_at = None\<rparr>"

definition db_fetch_apple_shortcut_sub :: "string \<Rightarrow> (principal_id \<times> bytes) option db_prog" where
  "db_fetch_apple_shortcut_sub installation_id =
     gets (\<lambda>w. map_option (\<lambda>r. (ap_principal_id r, ap_secret_hmac_key r))
       (sql_first (\<lambda>r. ap_installation_id r = installation_id) (apple_subs w)))"

definition db_touch_apple_shortcut_sub :: "string \<Rightarrow> unit db_prog" where
  "db_touch_apple_shortcut_sub installation_id =
     bind (update_rows apple_subs apple_subs_update (\<lambda>w r. ap_installation_id r = installation_id)
             (\<lambda>w r. r\<lparr>ap_last_ping_at := Some (clock w)\<rparr>)) (\<lambda>_. ret ())"

section \<open>Bank dormancy\<close>

text \<open>\<open>ON CONFLICT (principal_id) DO NOTHING\<close>; \<open>webhook_id\<close> is unique as well.\<close>

definition db_create_bank_dormancy_sub :: "principal_id \<Rightarrow> uuid \<Rightarrow> bytes \<Rightarrow> unit db_prog" where
  "db_create_bank_dormancy_sub i webhook_id secret_hmac_key =
     bind now (\<lambda>t.
     bind (gets (\<lambda>w. i \<in> bk_principal_id ` set (bank_subs w))) (\<lambda>conflict.
     if conflict then ret ()
     else insert_row ''bank_dormancy_subscription''
            (\<lambda>w. i \<in> pr_id ` set (principals w) \<and> webhook_id \<notin> bk_webhook_id ` set (bank_subs w))
            bank_subs bank_subs_update
            \<lparr>bk_principal_id = i, bk_webhook_id = webhook_id, bk_secret_hmac_key = secret_hmac_key,
             bk_last_webhook_at = None, bk_created_at = t\<rparr>))"

definition db_fetch_bank_dormancy_sub :: "principal_id \<Rightarrow> bank_row option db_prog" where
  "db_fetch_bank_dormancy_sub i = gets (\<lambda>w. sql_first (\<lambda>r. bk_principal_id r = i) (bank_subs w))"

definition db_fetch_bank_dormancy_sub_by_webhook :: "uuid \<Rightarrow> bank_row option db_prog" where
  "db_fetch_bank_dormancy_sub_by_webhook h = gets (\<lambda>w. sql_first (\<lambda>r. bk_webhook_id r = h) (bank_subs w))"

definition db_touch_bank_dormancy_sub :: "uuid \<Rightarrow> instant \<Rightarrow> unit db_prog" where
  "db_touch_bank_dormancy_sub h t =
     bind (update_rows bank_subs bank_subs_update (\<lambda>w r. bk_webhook_id r = h)
             (\<lambda>w r. r\<lparr>bk_last_webhook_at := Some t\<rparr>)) (\<lambda>_. ret ())"

definition db_delete_bank_dormancy_sub :: "principal_id \<Rightarrow> unit db_prog" where
  "db_delete_bank_dormancy_sub i =
     modify (\<lambda>w. w\<lparr>bank_subs := sql_delete (\<lambda>r. bk_principal_id r = i) (bank_subs w)\<rparr>)"

definition db_list_bank_dormancy_subs_with_recent_ping :: "principal_id \<Rightarrow> instant \<Rightarrow> uuid list db_prog" where
  "db_list_bank_dormancy_subs_with_recent_ping i since =
     gets (\<lambda>w. map bk_webhook_id (sql_select
       (\<lambda>r. bk_principal_id r = i \<and> upcoming (bk_last_webhook_at r) since) (bank_subs w)))"

section \<open>Duress\<close>

definition db_arm_duress :: "principal_id \<Rightarrow> uuid \<Rightarrow> string option \<Rightarrow> string \<Rightarrow> duress_row db_prog" where
  "db_arm_duress i webhook_id alert_email panic_mode =
     bind now (\<lambda>t.
     bind (gets (\<lambda>w. (i \<in> pr_id ` set (principals w),
             webhook_id \<notin> du_webhook_id ` {r \<in> set (duress_signals w). du_principal_id r \<noteq> i}))) (\<lambda>(known, free).
     andthen (reject_if (\<not> known \<or> \<not> free) (Sqlx ''duress_signal''))
       (bind (update_returning duress_signals duress_signals_update (\<lambda>w r. du_principal_id r = i)
                (\<lambda>w r. r\<lparr>du_webhook_id := webhook_id, du_alert_email := alert_email,
                         du_panic_mode := panic_mode, du_armed_at := clock w,
                         du_triggered_at := None, du_last_alert_at := None\<rparr>)) (\<lambda>conflict.
        case conflict of
          Some r \<Rightarrow> ret r
        | None \<Rightarrow>
            let row = \<lparr>du_principal_id = i, du_webhook_id = webhook_id, du_alert_email = alert_email,
                       du_armed_at = t, du_triggered_at = None, du_last_alert_at = None,
                       du_panic_mode = panic_mode\<rparr>
            in andthen (modify (\<lambda>w. w\<lparr>duress_signals := duress_signals w @ [row]\<rparr>)) (ret row)))))"

definition db_fetch_duress :: "principal_id \<Rightarrow> duress_row option db_prog" where
  "db_fetch_duress i = gets (\<lambda>w. sql_first (\<lambda>r. du_principal_id r = i) (duress_signals w))"

definition db_delete_duress :: "principal_id \<Rightarrow> unit db_prog" where
  "db_delete_duress i = modify (\<lambda>w. w\<lparr>duress_signals := sql_delete (\<lambda>r. du_principal_id r = i) (duress_signals w)\<rparr>)"

definition db_trigger_duress :: "uuid \<Rightarrow> instant \<Rightarrow> duress_row option db_prog" where
  "db_trigger_duress h t =
     update_returning duress_signals duress_signals_update (\<lambda>w r. du_webhook_id r = h)
       (\<lambda>w r. r\<lparr>du_triggered_at := coalesce (du_triggered_at r) (Some t), du_last_alert_at := Some t\<rparr>)"

definition db_principal_in_duress :: "principal_id \<Rightarrow> bool db_prog" where
  "db_principal_in_duress i =
     gets (\<lambda>w. sql_first (\<lambda>r. du_principal_id r = i \<and> du_triggered_at r \<noteq> None) (duress_signals w) \<noteq> None)"

end
