(* ===== verification/ApiErrors.thy ===== *)
theory ApiErrors
  imports DbSignals
begin

text \<open>
  The error type of the HTTP layer (src/crates/beacon-api/src/errors.rs), its conversion
  from database errors, its rendering, and the bearer-token authentication of
  src/crates/beacon-api/src/auth.rs. The cause inside \<open>Internal\<close> is only logged; it is not
  kept.
\<close>

section \<open>Errors\<close>

datatype api_error =
  BadRequest string | Unauthorised | NotFound | Conflict string | Forbidden string | Internal

type_synonym 'a api_prog = "(world, api_error, 'a) prog"

record problem =
  pb_status :: nat
  pb_type :: string
  pb_title :: string
  pb_detail :: string

definition into_response :: "api_error \<Rightarrow> problem" where
  "into_response e =
     (case (case e of
          BadRequest d \<Rightarrow> (400 :: nat, ''bad_request'', d)
        | Unauthorised \<Rightarrow> (401, ''unauthorised'', '''')
        | NotFound \<Rightarrow> (404, ''not_found'', '''')
        | Conflict d \<Rightarrow> (409, ''conflict'', d)
        | Forbidden d \<Rightarrow> (403, ''forbidden'', d)
        | Internal \<Rightarrow> (500, ''internal_error'', ''unexpected error''))
      of (status, title, detail) \<Rightarrow>
        \<lparr>pb_status = status, pb_type = ''https://paschal.com/errors/'' @ title, pb_title = title,
         pb_detail = detail\<rparr>)"

fun of_db_error :: "db_error \<Rightarrow> api_error" where
  "of_db_error DbNotFound = NotFound"
| "of_db_error _ = Internal"

definition api :: "'a db_prog \<Rightarrow> 'a api_prog" where
  "api m = map_err of_db_error m"

lemma keeps_api [keeps_intros]: "keeps I m \<Longrightarrow> keeps I (api m)"
  by (simp add: api_def keeps_map_err)

lemma api_step:
  "api m s = (case m s of (Ok x, s') \<Rightarrow> (Ok x, s') | (Err e, s') \<Rightarrow> (Err (of_db_error e), s') | (Panic p, s') \<Rightarrow> (Panic p, s'))"
  by (simp add: api_def map_err_def)

section \<open>Authentication\<close>

text \<open>The \<open>Authorization\<close> header, when it is present and readable as text.\<close>

type_synonym headers = "string option"

definition strip_prefix :: "string \<Rightarrow> string \<Rightarrow> string option" where
  "strip_prefix p s = (if take (length p) s = p then Some (drop (length p) s) else None)"

definition bearer :: "headers \<Rightarrow> string api_prog" where
  "bearer h =
     bind (ok_or Unauthorised h) (\<lambda>auth.
     ok_or Unauthorised (strip_prefix ''Bearer '' auth))"

definition current_principal :: "app \<Rightarrow> headers \<Rightarrow> principal_id api_prog" where
  "current_principal A h =
     bind (bearer h) (\<lambda>token.
     let hash = hash_token A token in
     bind (api (db_principal_for_session hash)) (\<lambda>pid.
     ok_or Unauthorised pid))"

definition current_co_steward :: "app \<Rightarrow> headers \<Rightarrow> (co_steward_id \<times> principal_id) api_prog" where
  "current_co_steward A h =
     bind (bearer h) (\<lambda>token.
     let hash = hash_token A token in
     bind (api (db_co_steward_for_session hash)) (\<lambda>pair.
     ok_or Unauthorised pair))"

section \<open>Lemmas\<close>

lemma strip_prefix_append [simp]: "strip_prefix p (p @ s) = Some s"
  by (simp add: strip_prefix_def)

lemma bearer_token: "bearer (Some (''Bearer '' @ token)) = ret token"
  unfolding bearer_def by (simp only: ok_or_simps bind_ret strip_prefix_append)

definition session_principal :: "app \<Rightarrow> headers \<Rightarrow> world \<Rightarrow> principal_id option" where
  "session_principal A h w = (case h of None \<Rightarrow> None
     | Some auth \<Rightarrow> (case strip_prefix ''Bearer '' auth of None \<Rightarrow> None
        | Some token \<Rightarrow> map_option se_principal_id (sql_first
            (\<lambda>r. se_token_hash r = hash_token A token \<and> se_revoked_at r = None
               \<and> clock w < se_expires_at r) (sessions w))))"

lemma current_principal_eq:
  "current_principal A h w = (case session_principal A h w of
      None \<Rightarrow> (Err Unauthorised, w) | Some i \<Rightarrow> (Ok i, w))"
  by (auto simp: current_principal_def bearer_def session_principal_def bind_def api_def map_err_def
      db_principal_for_session_def ok_or_def Let_def split: option.splits)

lemma current_principal_read [simp]: "snd (current_principal A h w) = w"
  by (simp add: current_principal_eq split: option.split)

definition session_co_steward :: "app \<Rightarrow> headers \<Rightarrow> world \<Rightarrow> (co_steward_id \<times> principal_id) option" where
  "session_co_steward A h w = (case h of None \<Rightarrow> None
     | Some auth \<Rightarrow> (case strip_prefix ''Bearer '' auth of None \<Rightarrow> None
        | Some token \<Rightarrow> (case sql_first
            (\<lambda>r. se_token_hash r = hash_token A token \<and> se_auth_role r = ''CO_STEWARD''
               \<and> se_co_steward_id r \<noteq> None \<and> se_revoked_at r = None \<and> clock w < se_expires_at r)
            (sessions w) of None \<Rightarrow> None
          | Some r \<Rightarrow> (case se_co_steward_id r of None \<Rightarrow> None | Some c \<Rightarrow> Some (c, se_principal_id r)))))"

lemma current_co_steward_eq:
  "current_co_steward A h w = (case session_co_steward A h w of
      None \<Rightarrow> (Err Unauthorised, w) | Some p \<Rightarrow> (Ok p, w))"
  by (auto simp: current_co_steward_def bearer_def session_co_steward_def bind_def api_def map_err_def
      db_co_steward_for_session_def ok_or_def Let_def split: option.splits)

lemma current_co_steward_read [simp]: "snd (current_co_steward A h w) = w"
  by (simp add: current_co_steward_eq split: option.split)

end
