(* ===== verification/Pipeline.thy ===== *)
theory Pipeline
  imports ApiErrors
begin

text \<open>
  The release pipeline of src/crates/beacon-api/src/scheduler.rs: entering cooling-off,
  the per-request timer, the poll loop, delivery of a letter, the Co-Steward's event
  release, recipient changes and scheduled releases. Log output is left out.
\<close>

section \<open>Delivering a letter\<close>

definition claim_url :: "app \<Rightarrow> string \<Rightarrow> string" where
  "claim_url A token = trim_end_slashes (public_base_url A) @ ''/claim?token='' @ token"

definition attachment_url :: "app \<Rightarrow> string \<Rightarrow> string" where
  "attachment_url A token =
     trim_end_slashes (public_base_url A) @ ''/v1/releases/claim/attachment?token='' @ token"

definition issue_for_attachment ::
  "app \<Rightarrow> release_event_id \<Rightarrow> string \<Rightarrow> attachment \<Rightarrow> (string \<times> string) db_prog" where
  "issue_for_attachment A e recipient a =
     bind (random_token A) (\<lambda>att_token.
     andthen (db_issue_attachment_claim e (at_id a) recipient (hash_token A att_token) 30)
       (ret (at_original_filename a, att_token)))"

definition deliver_letter :: "app \<Rightarrow> release_event_id \<Rightarrow> letter_meta \<Rightarrow> bool \<Rightarrow> unit db_prog" where
  "deliver_letter A e letter is_drill =
     bind (random_token A) (\<lambda>token.
     andthen (db_issue_release_claim e (lm_id letter) (lm_recipient_email letter) (hash_token A token) 30)
       (bind (db_list_attachments (lm_id letter)) (\<lambda>atts.
        bind (collect (issue_for_attachment A e (lm_recipient_email letter)) atts) (\<lambda>links.
        notify (ReleaseNotice (lm_recipient_email letter) (lm_title letter) (claim_url A token) is_drill
          (map (\<lambda>(filename, att_token). (filename, attachment_url A att_token)) links))))))"

section \<open>Performing a release\<close>

definition perform_release :: "app \<Rightarrow> vault_id \<Rightarrow> release_event_id \<Rightarrow> bool \<Rightarrow> unit db_prog" where
  "perform_release A v e is_drill =
     bind (db_list_letters_for_signal_release v) (\<lambda>ls.
     andthen (for_each (\<lambda>l. deliver_letter A e l is_drill) ls)
     (bind now (\<lambda>t.
      bind (db_set_vault_state v Released None (Some t)) (\<lambda>_.
      andthen (db_mark_release_released e)
      (andthen (ignore (db_append_transparency_entry
                 (if is_drill then ''DRILL_COMPLETED'' else ''RELEASED'') None (Some v)))
      (andthen (metrics_inc ReleasesCompletedTotal)
      (if is_drill
       then bind (db_set_vault_state v Active None None) (\<lambda>_. metrics_inc DrillsCompletedTotal)
       else ret ())))))))"

section \<open>Entering cooling-off\<close>

record force_release_resp =
  fr_release_event_id :: release_event_id
  fr_cooling_off_started_at :: instant
  fr_cooling_off_ends_at :: instant

definition spawn_release_elapse ::
  "vault_id \<Rightarrow> release_event_id \<Rightarrow> int \<Rightarrow> bool \<Rightarrow> (world, 'e, unit) prog" where
  "spawn_release_elapse v e cool is_drill =
     modify (\<lambda>w. w\<lparr>timers := timers w @ [\<lparr>tm_vault = v, tm_event = e,
        tm_fires_at = clock w + seconds (max cool 0), tm_is_drill = is_drill\<rparr>]\<rparr>)"

definition begin_release_with_cool ::
  "vault_id \<Rightarrow> release_reason \<Rightarrow> bool \<Rightarrow> int \<Rightarrow> force_release_resp api_prog" where
  "begin_release_with_cool v reason is_drill cool_seconds =
     bind now (\<lambda>t.
     let cool = max cool_seconds 1; ends_at = t + seconds cool in
     bind (api (db_claim_vault_cooling_off v Active)) (\<lambda>won.
     if \<not> won then throw (Conflict ''Vault is not ACTIVE; cannot begin release'')
     else bind (api (db_create_release_event_with_deadline v reason is_drill ends_at)) (\<lambda>release.
       andthen (metrics_inc ReleasesStartedTotal)
       (andthen (ignore (db_append_transparency_entry
                  (if is_drill then ''DRILL_STARTED'' else ''COOLING_OFF_STARTED'') None (Some v)))
       (andthen (spawn_release_elapse v (re_id release) cool is_drill)
       (ret \<lparr>fr_release_event_id = re_id release, fr_cooling_off_started_at = t,
             fr_cooling_off_ends_at = ends_at\<rparr>))))))"

definition begin_release :: "vault_id \<Rightarrow> release_reason \<Rightarrow> bool \<Rightarrow> force_release_resp api_prog" where
  "begin_release v reason is_drill =
     bind (api (db_fetch_vault v)) (\<lambda>vault.
     begin_release_with_cool v reason is_drill (v_cooling_off_seconds vault))"

section \<open>Firing\<close>

text \<open>What the per-request timer does when its sleep is over.\<close>

definition elapse_release :: "app \<Rightarrow> vault_id \<Rightarrow> release_event_id \<Rightarrow> bool \<Rightarrow> unit db_prog" where
  "elapse_release A v e is_drill =
     bind (db_claim_vault_for_release v) (\<lambda>won.
     if \<not> won then ret () else perform_release A v e is_drill)"

definition release_elapse_tick :: "app \<Rightarrow> unit db_prog" where
  "release_elapse_tick A =
     bind now (\<lambda>t.
     bind (db_list_due_releases t) (\<lambda>due.
     for_each (\<lambda>(v, e, is_drill).
       bind (db_claim_vault_for_release v) (\<lambda>won.
       if won then ignore (perform_release A v e is_drill) else ret ())) due))"

text \<open>A timer whose sleep is over runs its task once; a failure is logged only.\<close>

definition fire_timer :: "app \<Rightarrow> timer \<Rightarrow> (world, db_error, unit) prog" where
  "fire_timer A tm = (\<lambda>w.
     if tm \<in> set (timers w) \<and> tm_fires_at tm \<le> clock w
     then andthen (modify (\<lambda>w. w\<lparr>timers := remove1 tm (timers w)\<rparr>))
            (ignore (elapse_release A (tm_vault tm) (tm_event tm) (tm_is_drill tm))) w
     else (Ok (), w))"

section \<open>Held letters and recipient changes\<close>

definition trigger_event_release :: "app \<Rightarrow> vault_id \<Rightarrow> letter_id \<Rightarrow> unit api_prog" where
  "trigger_event_release A v l =
     bind now (\<lambda>t.
     bind (api (db_fetch_pending_recipient_change l)) (\<lambda>pending.
     andthen (case pending of
         None \<Rightarrow> ret ()
       | Some change \<Rightarrow> if rc_effective_at change \<le> t
           then bind (api (db_apply_recipient_change (rc_id change))) (\<lambda>_. ret ()) else ret ())
     (bind (api (db_mark_letter_event_released l)) (\<lambda>won.
      andthen (reject_if (\<not> won)
                (Conflict ''Letter is not a held event Letter, or has already been released''))
     (bind (api (db_fetch_letter_meta l)) (\<lambda>letter.
      bind (api (db_create_release_event v Scheduled False)) (\<lambda>release.
      andthen (api (deliver_letter A (re_id release) letter False))
     (andthen (api (db_mark_release_released (re_id release)))
     (andthen (ignore (db_append_transparency_entry ''CO_STEWARD_EVENT_RELEASE'' None (Some v)))
      (metrics_inc ReleasesCompletedTotal))))))))))"

definition recipient_change_tick :: "unit db_prog" where
  "recipient_change_tick =
     bind now (\<lambda>t.
     bind (db_list_due_recipient_changes t) (\<lambda>due.
     for_each (\<lambda>c. bind (db_apply_recipient_change c) (\<lambda>applied.
       case applied of
         None \<Rightarrow> ret ()
       | Some _ \<Rightarrow> ignore (db_append_transparency_entry ''RECIPIENT_CHANGE_APPLIED'' None None))) due))"

section \<open>Scheduled releases\<close>

definition scheduled_release_step :: "vault_id \<times> letter_id \<Rightarrow> unit db_prog" where
  "scheduled_release_step p = (case p of (v, l) \<Rightarrow>
     bind (attempt (db_fetch_vault v)) (\<lambda>fetched.
     case fetched of
       Inl _ \<Rightarrow> ret ()
     | Inr vault \<Rightarrow>
         if v_state vault \<noteq> Active then ret ()
         else bind (attempt (db_fetch_subscription (v_principal_id vault))) (\<lambda>sub.
           case sub of
             Inl _ \<Rightarrow> ret ()
           | Inr s \<Rightarrow>
               if \<not> allows_release (sub_state s) then ret ()
               else andthen (ignore (begin_release (v_id vault) Scheduled False))
                      (ignore (db_clear_letter_schedule l)))))"

definition scheduled_release_tick :: "unit db_prog" where
  "scheduled_release_tick =
     bind now (\<lambda>t.
     bind (db_list_scheduled_letters_due t) (\<lambda>due.
     for_each scheduled_release_step due))"

end
