(* ===== verification/Aggregator.thy ===== *)
theory Aggregator
  imports Pipeline
begin

text \<open>
  The signal aggregator of src/crates/beacon-api/src/scheduler.rs (\<open>aggregator_tick\<close>): the
  observations it builds for a vault, and the step it takes on the score.
\<close>

section \<open>Observations\<close>

definition weight_for :: "signal_subscription list \<Rightarrow> signal_source \<Rightarrow> f32 option" where
  "weight_for subs src =
     map_option sn_weight (List.find (\<lambda>s. sn_source s = src \<and> sn_enabled s) subs)"

text \<open>Staleness: the elapsed seconds over the allowed gap, clamped to the unit interval.\<close>

definition staleness :: "app \<Rightarrow> instant \<Rightarrow> instant \<Rightarrow> f32" where
  "staleness A t last_seen =
     f32_clamp (Fin 0) (Fin 1)
       (f32_div (f32_of_int (num_seconds (t - last_seen))) (f32_of_int (heartbeat_max_gap_seconds A)))"

definition observe_if_positive :: "signal_source \<Rightarrow> f32 \<Rightarrow> f32 \<Rightarrow> scored_observation list" where
  "observe_if_positive src c weight =
     (if f32_gt c (f32_lit 0)
      then [\<lparr>so_source = src, so_contribution = c, so_weight = weight\<rparr>] else [])"

definition observe_heartbeat ::
  "app \<Rightarrow> instant \<Rightarrow> vault \<Rightarrow> signal_subscription list \<Rightarrow> scored_observation list" where
  "observe_heartbeat A t vault subs = (case weight_for subs Heartbeat of
       None \<Rightarrow> []
     | Some weight \<Rightarrow> observe_if_positive Heartbeat (staleness A t (v_last_attestation_at vault)) weight)"

definition observe_buddy ::
  "instant \<Rightarrow> vault \<Rightarrow> signal_subscription list \<Rightarrow> scored_observation list db_prog" where
  "observe_buddy t vault subs = (case weight_for subs BuddyAttestation of
       None \<Rightarrow> ret []
     | Some weight \<Rightarrow>
         bind (db_list_recent_signals (v_id vault) (t - days 30)) (\<lambda>sigs.
         let strongest = foldl f32_max (f32_lit 0)
               (map si_contribution (filter (\<lambda>s. si_source s = BuddyAttestation) sigs))
         in ret (observe_if_positive BuddyAttestation strongest weight)))"

text \<open>\<open>unwrap_or_default\<close> on the two queries: an error counts as an empty list.\<close>

definition or_default :: "'a list db_prog \<Rightarrow> 'a list db_prog" where
  "or_default m = bind (attempt m) (\<lambda>r. case r of Inl _ \<Rightarrow> ret [] | Inr xs \<Rightarrow> ret xs)"

definition observe_bank ::
  "app \<Rightarrow> instant \<Rightarrow> vault \<Rightarrow> signal_subscription list \<Rightarrow> scored_observation list db_prog" where
  "observe_bank A t vault subs = (case weight_for subs Cdr of
       None \<Rightarrow> ret []
     | Some weight \<Rightarrow>
         let since = t - seconds (heartbeat_max_gap_seconds A * 5) in
         bind (or_default (db_list_bank_dormancy_subs_with_recent_ping (v_principal_id vault) since)) (\<lambda>pings.
         if pings \<noteq> [] then ret []
         else bind (or_default (db_list_recent_signals (v_id vault) since)) (\<lambda>sigs.
           if \<exists>s \<in> set sigs. si_source s = Cdr then ret []
           else ret (observe_if_positive Cdr (staleness A t (v_last_attestation_at vault)) weight))))"

definition observations ::
  "app \<Rightarrow> instant \<Rightarrow> vault \<Rightarrow> signal_subscription list \<Rightarrow> scored_observation list db_prog" where
  "observations A t vault subs =
     bind (observe_buddy t vault subs) (\<lambda>buddy.
     bind (observe_bank A t vault subs) (\<lambda>bank.
     ret (observe_heartbeat A t vault subs @ buddy @ bank)))"

section \<open>The tick\<close>

definition enter_cooling_off :: "vault \<Rightarrow> unit db_prog" where
  "enter_cooling_off vault =
     bind (db_principal_in_duress (v_principal_id vault)) (\<lambda>duress.
     if duress then ret ()
     else bind (db_claim_vault_cooling_off (v_id vault) (v_state vault)) (\<lambda>won.
       if \<not> won then ret ()
       else andthen (ignore (db_append_transparency_entry ''TRIGGER_COOLING_OFF''
                      (Some (v_principal_id vault)) (Some (v_id vault))))
         (bind (db_fetch_principal (v_principal_id vault)) (\<lambda>principal.
          bind now (\<lambda>t.
          let ends_at = t + seconds (v_cooling_off_seconds vault) in
          andthen (notify (CoolingOffStarted (p_primary_email principal) (v_name vault) ends_at))
            (bind (db_create_release_event_with_deadline (v_id vault) SignalTrigger False ends_at) (\<lambda>_.
             ret ())))))))"

definition apply_evaluation :: "vault \<Rightarrow> vault_state \<Rightarrow> unit db_prog" where
  "apply_evaluation vault new_state =
     (if new_state = v_state vault then ret ()
      else if new_state = CoolingOff then enter_cooling_off vault
      else bind (db_set_vault_state (v_id vault) new_state None None) (\<lambda>_.
        ignore (db_append_transparency_entry (''TRIGGER_'' @ vault_state_as_db_str new_state)
          (Some (v_principal_id vault)) (Some (v_id vault)))))"

definition aggregate_vault :: "app \<Rightarrow> instant \<Rightarrow> vault \<Rightarrow> unit db_prog" where
  "aggregate_vault A t vault =
     bind (db_list_signal_subscriptions (v_id vault)) (\<lambda>subs.
     if subs = [] then ret ()
     else bind (observations A t vault subs) (\<lambda>obs.
       apply_evaluation vault
         (evaluate (v_state vault) (score obs) (trigger_threshold A) (min_independent_signals A))))"

definition aggregator_tick :: "app \<Rightarrow> unit db_prog" where
  "aggregator_tick A =
     bind (db_list_vaults_in_states [Active, Suspicious, Alert]) (\<lambda>vs.
     bind now (\<lambda>t.
     for_each (aggregate_vault A t) vs))"

end
