(* ===== verification/Retention.thy ===== *)
theory Retention
  imports Pipeline
begin

text \<open>
  The retention worker of src/crates/beacon-api/src/scheduler.rs: expiry of cancelled
  subscriptions, erasure of the ciphertext of a principal's letters and attachments, and
  the account-deletion sweep.
\<close>

definition purge_one_attachment :: "app \<Rightarrow> attachment \<Rightarrow> unit api_prog" where
  "purge_one_attachment A a =
     bind (api (db_purge_attachment (at_id a))) (\<lambda>key.
     case key of None \<Rightarrow> ret () | Some k \<Rightarrow> ignore (blob_delete A k))"

definition purge_letter :: "app \<Rightarrow> letter_meta \<Rightarrow> unit api_prog" where
  "purge_letter A letter =
     bind (api (db_list_attachments (lm_id letter))) (\<lambda>atts.
     andthen (for_each (purge_one_attachment A) atts)
       (api (db_purge_letter_ciphertext (lm_id letter))))"

definition purge_principal_ciphertext :: "app \<Rightarrow> principal_id \<Rightarrow> unit api_prog" where
  "purge_principal_ciphertext A i =
     bind (api (db_list_vaults i)) (\<lambda>vs.
     for_each (\<lambda>vault.
       bind (api (db_list_letters (v_id vault))) (\<lambda>ls. for_each (purge_letter A) ls)) vs)"

definition expire_and_delete :: "app \<Rightarrow> principal_id \<Rightarrow> unit api_prog" where
  "expire_and_delete A i =
     andthen (api (db_expire_subscription i))
     (andthen (purge_principal_ciphertext A i)
     (andthen (api (db_delete_subscription i))
       (ignore (db_append_transparency_entry ''SUBSCRIPTION_EXPIRED_AND_DELETED'' (Some i) None))))"

definition delete_account_data :: "app \<Rightarrow> principal_id \<Rightarrow> unit api_prog" where
  "delete_account_data A i =
     andthen (purge_principal_ciphertext A i)
     (andthen (api (db_anonymise_principal i))
       (ignore (db_append_transparency_entry ''ACCOUNT_DELETED'' (Some i) None)))"

definition retention_tick :: "app \<Rightarrow> unit api_prog" where
  "retention_tick A =
     bind (api db_list_canceled_past_retention) (\<lambda>due.
     andthen (for_each (expire_and_delete A) due)
       (bind (api db_list_due_account_deletions) (\<lambda>deletions.
        for_each (delete_account_data A) deletions)))"

end
