(* ===== verification/DbKeys.thy ===== *)
theory DbKeys
  imports DbSignals
begin

text \<open>
  Vault contacts, passkeys with their ceremonies, and the key envelopes of Private Vaults:
  the rest of src/crates/beacon-db/src/lib.rs. The tables are those of migrations 0014 and
  0018 to 0021, in \<open>aux\<close>.
\<close>

definition upd_aux :: "(aux_tables \<Rightarrow> aux_tables) \<Rightarrow> world \<Rightarrow> world" where
  "upd_aux f w = w\<lparr>aux := f (aux w)\<rparr>"

section \<open>Contacts\<close>

text \<open>
  A birthday is kept when it parses as a date; \<open>naive_date\<close> (of \<open>app\<close>) is the parse by chrono
  followed by its rendering.
\<close>

definition db_list_vault_contacts :: "vault_id \<Rightarrow> contact_row list db_prog" where
  "db_list_vault_contacts v =
     gets (\<lambda>w. order_by ct_created_at (sql_select (\<lambda>r. ct_vault_id r = v) (contacts (aux w))))"

definition db_create_vault_contact ::
  "app \<Rightarrow> vault_id \<Rightarrow> string \<Rightarrow> string \<Rightarrow> string option \<Rightarrow> string option \<Rightarrow> contact_row db_prog" where
  "db_create_vault_contact A v display_name email birthday release_note =
     (let bd = Option.bind birthday (naive_date A) in
      bind (update_returning (\<lambda>w. contacts (aux w)) (\<lambda>f. upd_aux (contacts_update f))
              (\<lambda>w r. ct_vault_id r = v \<and> ct_email r = email)
              (\<lambda>w r. r\<lparr>ct_display_name := display_name, ct_birthday := bd,
                       ct_release_note := release_note\<rparr>)) (\<lambda>conflict.
      case conflict of
        Some r \<Rightarrow> ret r
      | None \<Rightarrow>
          bind gen_random_uuid (\<lambda>u.
          bind now (\<lambda>t.
          let row = \<lparr>ct_id = u, ct_vault_id = v, ct_display_name = display_name, ct_email = email,
                     ct_birthday = bd, ct_release_note = release_note, ct_created_at = t\<rparr>
          in andthen (insert_row ''vault_contact'' (\<lambda>w. v \<in> va_id ` set (vaults w))
                        (\<lambda>w. contacts (aux w)) (\<lambda>f. upd_aux (contacts_update f)) row)
               (ret row)))))"

definition db_update_vault_contact ::
  "app \<Rightarrow> uuid \<Rightarrow> vault_id \<Rightarrow> string \<Rightarrow> string \<Rightarrow> string option \<Rightarrow> string option \<Rightarrow> contact_row db_prog" where
  "db_update_vault_contact A c v display_name email birthday release_note =
     (let bd = Option.bind birthday (naive_date A) in
      bind (gets (\<lambda>w. (\<exists>r \<in> set (contacts (aux w)). ct_id r = c \<and> ct_vault_id r = v)
              \<and> (\<exists>r \<in> set (contacts (aux w)). ct_id r \<noteq> c \<and> ct_vault_id r = v \<and> ct_email r = email))) (\<lambda>duplicate.
      andthen (reject_if duplicate (Sqlx ''vault_contact_vault_id_email_key''))
      (bind (update_returning (\<lambda>w. contacts (aux w)) (\<lambda>f. upd_aux (contacts_update f))
              (\<lambda>w r. ct_id r = c \<and> ct_vault_id r = v)
              (\<lambda>w r. r\<lparr>ct_display_name := display_name, ct_email := email, ct_birthday := bd,
                       ct_release_note := release_note\<rparr>)) (\<lambda>row.
       ok_or DbNotFound row))))"

definition db_delete_vault_contact :: "uuid \<Rightarrow> vault_id \<Rightarrow> unit db_prog" where
  "db_delete_vault_contact c v =
     modify (upd_aux (contacts_update (sql_delete (\<lambda>r. ct_id r = c \<and> ct_vault_id r = v))))"

definition db_fetch_principal_by_email :: "string \<Rightarrow> principal option db_prog" where
  "db_fetch_principal_by_email email =
     gets (\<lambda>w. map_option row_to_principal (sql_first (\<lambda>r. pr_primary_email r = email) (principals w)))"

section \<open>Ceremonies\<close>

definition db_create_webauthn_challenge ::
  "principal_id option \<Rightarrow> string \<Rightarrow> string \<Rightarrow> uuid db_prog" where
  "db_create_webauthn_challenge i state_json ceremony =
     bind gen_random_uuid (\<lambda>u.
     bind now (\<lambda>t.
     andthen (insert_row ''webauthn_challenge''
                (\<lambda>w. (case i of None \<Rightarrow> True | Some x \<Rightarrow> x \<in> pr_id ` set (principals w))
                   \<and> ceremony \<in> set [''REGISTRATION'', ''AUTHENTICATION''])
                (\<lambda>w. challenges (aux w)) (\<lambda>f. upd_aux (challenges_update f))
                \<lparr>wc_id = u, wc_principal_id = i, wc_state_json = state_json,
                 wc_ceremony = ceremony, wc_expires_at = t + minutes 5\<rparr>)
       (ret u)))"

definition db_consume_webauthn_challenge ::
  "uuid \<Rightarrow> string \<Rightarrow> (string \<times> principal_id option) option db_prog" where
  "db_consume_webauthn_challenge c ceremony =
     bind (gets (\<lambda>w. \<lambda>r. wc_id r = c \<and> wc_ceremony r = ceremony \<and> clock w < wc_expires_at r)) (\<lambda>P.
     bind (gets (\<lambda>w. sql_first P (challenges (aux w)))) (\<lambda>row.
     andthen (modify (upd_aux (challenges_update (sql_delete P))))
       (ret (map_option (\<lambda>r. (wc_state_json r, wc_principal_id r)) row))))"

definition db_expire_webauthn_challenges :: "int db_prog" where
  "db_expire_webauthn_challenges =
     bind (gets (\<lambda>w. \<lambda>r. wc_expires_at r \<le> clock w)) (\<lambda>P.
     bind (gets (\<lambda>w. sql_count P (challenges (aux w)))) (\<lambda>n.
     andthen (modify (upd_aux (challenges_update (sql_delete P)))) (ret n)))"

section \<open>Passkeys\<close>

definition db_store_passkey ::
  "principal_id \<Rightarrow> bytes \<Rightarrow> string \<Rightarrow> bool \<Rightarrow> string list \<Rightarrow> string \<Rightarrow> uuid db_prog" where
  "db_store_passkey i credential_id passkey_json backed_up transports name =
     bind gen_random_uuid (\<lambda>u.
     bind now (\<lambda>t.
     andthen (insert_row ''principal_passkey''
                (\<lambda>w. i \<in> pr_id ` set (principals w)
                   \<and> credential_id \<notin> pk_credential_id ` set (passkeys (aux w)))
                (\<lambda>w. passkeys (aux w)) (\<lambda>f. upd_aux (passkeys_update f))
                \<lparr>pk_id = u, pk_principal_id = i, pk_credential_id = credential_id,
                 pk_passkey_json = passkey_json, pk_backed_up = backed_up,
                 pk_transports = transports, pk_name = name, pk_created_at = t,
                 pk_last_used_at = None\<rparr>)
       (ret u)))"

definition db_list_passkeys_for_principal :: "principal_id \<Rightarrow> passkey_row list db_prog" where
  "db_list_passkeys_for_principal i =
     gets (\<lambda>w. order_by pk_created_at (sql_select (\<lambda>r. pk_principal_id r = i) (passkeys (aux w))))"

definition db_get_passkey_by_credential_id :: "bytes \<Rightarrow> passkey_row option db_prog" where
  "db_get_passkey_by_credential_id c =
     gets (\<lambda>w. sql_first (\<lambda>r. pk_credential_id r = c) (passkeys (aux w)))"

definition db_get_passkeys_for_authentication :: "principal_id \<Rightarrow> passkey_row list db_prog" where
  "db_get_passkeys_for_authentication i =
     gets (\<lambda>w. order_by pk_created_at (sql_select (\<lambda>r. pk_principal_id r = i) (passkeys (aux w))))"

definition db_update_passkey_after_auth :: "uuid \<Rightarrow> string \<Rightarrow> instant \<Rightarrow> unit db_prog" where
  "db_update_passkey_after_auth p passkey_json last_used_at =
     bind (update_rows (\<lambda>w. passkeys (aux w)) (\<lambda>f. upd_aux (passkeys_update f)) (\<lambda>w r. pk_id r = p)
             (\<lambda>w r. r\<lparr>pk_passkey_json := passkey_json, pk_last_used_at := Some last_used_at\<rparr>)) (\<lambda>_. ret ())"

text \<open>The envelopes wrapped under the passkey go with it (\<open>ON DELETE CASCADE\<close>).\<close>

definition db_delete_passkey :: "uuid \<Rightarrow> principal_id \<Rightarrow> bool db_prog" where
  "db_delete_passkey p i =
     bind (gets (\<lambda>w. sql_count (\<lambda>r. pk_id r = p \<and> pk_principal_id r = i) (passkeys (aux w)))) (\<lambda>n.
     andthen (modify (upd_aux (\<lambda>x. x\<lparr>
                zk_envelopes := sql_delete (\<lambda>e. \<exists>r \<in> set (passkeys x).
                  pk_id r = p \<and> pk_principal_id r = i \<and> ze_passkey_id e = p) (zk_envelopes x),
                passkeys := sql_delete (\<lambda>r. pk_id r = p \<and> pk_principal_id r = i) (passkeys x)\<rparr>)))
       (ret (0 < n)))"

section \<open>Envelopes\<close>

definition db_upsert_zk_envelope :: "vault_id \<Rightarrow> uuid \<Rightarrow> bytes \<Rightarrow> bytes \<Rightarrow> unit db_prog" where
  "db_upsert_zk_envelope v p ciphertext nonce =
     bind (update_rows (\<lambda>w. zk_envelopes (aux w)) (\<lambda>f. upd_aux (zk_envelopes_update f))
             (\<lambda>w r. ze_vault_id r = v \<and> ze_passkey_id r = p)
             (\<lambda>w r. r\<lparr>ze_ciphertext := ciphertext, ze_nonce := nonce\<rparr>)) (\<lambda>n.
     if 0 < n then ret ()
     else bind gen_random_uuid (\<lambda>u.
       bind now (\<lambda>t.
       insert_row ''zk_key_envelope''
         (\<lambda>w. v \<in> va_id ` set (vaults w) \<and> p \<in> pk_id ` set (passkeys (aux w)))
         (\<lambda>w. zk_envelopes (aux w)) (\<lambda>f. upd_aux (zk_envelopes_update f))
         \<lparr>ze_id = u, ze_vault_id = v, ze_passkey_id = p, ze_ciphertext = ciphertext,
          ze_nonce = nonce, ze_created_at = t\<rparr>)))"

definition db_get_zk_envelopes_for_vault :: "vault_id \<Rightarrow> zk_envelope_row list db_prog" where
  "db_get_zk_envelopes_for_vault v =
     gets (\<lambda>w. sql_select (\<lambda>r. ze_vault_id r = v) (zk_envelopes (aux w)))"

definition db_upsert_zk_recovery_envelope ::
  "vault_id \<Rightarrow> principal_id \<Rightarrow> bytes \<Rightarrow> bytes \<Rightarrow> bytes \<Rightarrow> unit db_prog" where
  "db_upsert_zk_recovery_envelope v i code_salt ciphertext nonce =
     bind (update_rows (\<lambda>w. zk_recoveries (aux w)) (\<lambda>f. upd_aux (zk_recoveries_update f))
             (\<lambda>w r. zr_vault_id r = v \<and> zr_principal_id r = i)
             (\<lambda>w r. r\<lparr>zr_code_salt := code_salt, zr_ciphertext := ciphertext, zr_nonce := nonce\<rparr>)) (\<lambda>n.
     if 0 < n then ret ()
     else bind gen_random_uuid (\<lambda>u.
       bind now (\<lambda>t.
       insert_row ''zk_recovery_envelope''
         (\<lambda>w. v \<in> va_id ` set (vaults w) \<and> i \<in> pr_id ` set (principals w))
         (\<lambda>w. zk_recoveries (aux w)) (\<lambda>f. upd_aux (zk_recoveries_update f))
         \<lparr>zr_id = u, zr_vault_id = v, zr_principal_id = i, zr_code_salt = code_salt,
          zr_ciphertext = ciphertext, zr_nonce = nonce, zr_created_at = t\<rparr>)))"

definition db_get_zk_recovery_envelope :: "vault_id \<Rightarrow> zk_recovery_row option db_prog" where
  "db_get_zk_recovery_envelope v =
     gets (\<lambda>w. sql_first (\<lambda>r. zr_vault_id r = v) (zk_recoveries (aux w)))"

definition db_upsert_principal_recovery :: "principal_id \<Rightarrow> bytes \<Rightarrow> bytes \<Rightarrow> unit db_prog" where
  "db_upsert_principal_recovery i code_salt code_verifier =
     bind (update_rows (\<lambda>w. recoveries (aux w)) (\<lambda>f. upd_aux (recoveries_update f))
             (\<lambda>w r. rv_principal_id r = i)
             (\<lambda>w r. r\<lparr>rv_code_salt := code_salt, rv_code_verifier := code_verifier,
                      rv_created_at := clock w\<rparr>)) (\<lambda>n.
     if 0 < n then ret ()
     else bind now (\<lambda>t.
       insert_row ''principal_recovery'' (\<lambda>w. i \<in> pr_id ` set (principals w))
         (\<lambda>w. recoveries (aux w)) (\<lambda>f. upd_aux (recoveries_update f))
         \<lparr>rv_principal_id = i, rv_code_salt = code_salt, rv_code_verifier = code_verifier,
          rv_created_at = t\<rparr>))"

definition db_get_principal_recovery :: "principal_id \<Rightarrow> recovery_row option db_prog" where
  "db_get_principal_recovery i =
     gets (\<lambda>w. sql_first (\<lambda>r. rv_principal_id r = i) (recoveries (aux w)))"

text \<open>The join with \<open>principal\<close>, whose address is unique.\<close>

definition db_get_principal_recovery_by_email ::
  "string \<Rightarrow> (principal_id \<times> recovery_row) option db_prog" where
  "db_get_principal_recovery_by_email email =
     gets (\<lambda>w. map_option (\<lambda>r. (rv_principal_id r, r)) (sql_first
       (\<lambda>r. \<exists>p \<in> set (principals w). pr_id p = rv_principal_id r \<and> pr_primary_email p = email)
       (recoveries (aux w))))"

definition db_count_passkeys_for_principal :: "principal_id \<Rightarrow> int db_prog" where
  "db_count_passkeys_for_principal i =
     gets (\<lambda>w. sql_count (\<lambda>r. pk_principal_id r = i) (passkeys (aux w)))"

definition db_count_zk_vaults_for_principal :: "principal_id \<Rightarrow> int db_prog" where
  "db_count_zk_vaults_for_principal i =
     gets (\<lambda>w. sql_count (\<lambda>r. va_principal_id r = i \<and> va_tier r = ''ZERO_KNOWLEDGE'') (vaults w))"

text \<open>\<open>ON CONFLICT (principal_id) DO NOTHING\<close>: the key is written once.\<close>

definition db_upsert_principal_recovery_key ::
  "principal_id \<Rightarrow> bytes \<Rightarrow> bytes \<Rightarrow> bytes \<Rightarrow> bytes \<Rightarrow> bytes \<Rightarrow> unit db_prog" where
  "db_upsert_principal_recovery_key i code_salt prk_code_ct prk_code_nonce prk_prf_ct prk_prf_nonce =
     bind (gets (\<lambda>w. i \<in> rk_principal_id ` set (recovery_keys (aux w)))) (\<lambda>conflict.
     if conflict then ret ()
     else insert_row ''principal_recovery_key'' (\<lambda>w. i \<in> pr_id ` set (principals w))
            (\<lambda>w. recovery_keys (aux w)) (\<lambda>f. upd_aux (recovery_keys_update f))
            \<lparr>rk_principal_id = i, rk_code_salt = code_salt, rk_prk_code_ct = prk_code_ct,
             rk_prk_code_nonce = prk_code_nonce, rk_prk_prf_ct = prk_prf_ct,
             rk_prk_prf_nonce = prk_prf_nonce\<rparr>)"

definition db_get_principal_recovery_key :: "principal_id \<Rightarrow> recovery_key_row option db_prog" where
  "db_get_principal_recovery_key i =
     gets (\<lambda>w. sql_first (\<lambda>r. rk_principal_id r = i) (recovery_keys (aux w)))"

definition db_get_principal_recovery_key_by_email :: "string \<Rightarrow> recovery_key_row option db_prog" where
  "db_get_principal_recovery_key_by_email email =
     gets (\<lambda>w. sql_first
       (\<lambda>r. \<exists>p \<in> set (principals w). pr_id p = rk_principal_id r \<and> pr_primary_email p = email)
       (recovery_keys (aux w)))"

definition db_upsert_vault_prk_envelope ::
  "vault_id \<Rightarrow> principal_id \<Rightarrow> bytes \<Rightarrow> bytes \<Rightarrow> unit db_prog" where
  "db_upsert_vault_prk_envelope v i ciphertext nonce =
     bind (update_rows (\<lambda>w. prk_envelopes (aux w)) (\<lambda>f. upd_aux (prk_envelopes_update f))
             (\<lambda>w r. pe_vault_id r = v)
             (\<lambda>w r. r\<lparr>pe_ciphertext := ciphertext, pe_nonce := nonce\<rparr>)) (\<lambda>n.
     if 0 < n then ret ()
     else insert_row ''vault_prk_envelope''
            (\<lambda>w. v \<in> va_id ` set (vaults w) \<and> i \<in> pr_id ` set (principals w))
            (\<lambda>w. prk_envelopes (aux w)) (\<lambda>f. upd_aux (prk_envelopes_update f))
            \<lparr>pe_vault_id = v, pe_principal_id = i, pe_ciphertext = ciphertext, pe_nonce = nonce\<rparr>)"

definition db_get_vault_prk_envelope :: "vault_id \<Rightarrow> (bytes \<times> bytes) option db_prog" where
  "db_get_vault_prk_envelope v =
     gets (\<lambda>w. map_option (\<lambda>r. (pe_ciphertext r, pe_nonce r))
       (sql_first (\<lambda>r. pe_vault_id r = v) (prk_envelopes (aux w))))"

definition db_upsert_zk_letter_heir_envelope ::
  "letter_id \<Rightarrow> bytes \<Rightarrow> bytes \<Rightarrow> string \<Rightarrow> bytes option \<Rightarrow> bytes option \<Rightarrow> unit db_prog" where
  "db_upsert_zk_letter_heir_envelope l ciphertext nonce mode salt release_secret =
     bind (update_rows (\<lambda>w. heir_envelopes (aux w)) (\<lambda>f. upd_aux (heir_envelopes_update f))
             (\<lambda>w r. he_letter_id r = l)
             (\<lambda>w r. r\<lparr>he_ciphertext := ciphertext, he_nonce := nonce, he_mode := mode,
                      he_salt := salt, he_release_secret := release_secret\<rparr>)) (\<lambda>n.
     if 0 < n then ret ()
     else insert_row ''zk_letter_heir_envelope'' (\<lambda>w. l \<in> le_id ` set (letters w))
            (\<lambda>w. heir_envelopes (aux w)) (\<lambda>f. upd_aux (heir_envelopes_update f))
            \<lparr>he_letter_id = l, he_ciphertext = ciphertext, he_nonce = nonce, he_mode = mode,
             he_salt = salt, he_release_secret = release_secret\<rparr>)"

definition db_get_zk_letter_heir_envelope :: "letter_id \<Rightarrow> heir_envelope_row option db_prog" where
  "db_get_zk_letter_heir_envelope l =
     gets (\<lambda>w. sql_first (\<lambda>r. he_letter_id r = l) (heir_envelopes (aux w)))"

end
