(* ===== verification/Transform.thy ===== *)
theory Transform
  imports Crypto
begin

text \<open>
  The content-transformation pipeline of src/crates/paschal-transform/src/lib.rs. A
  transformer is a constructor; \<open>handles\<close> and \<open>transform\<close> are its methods. Decoding and
  re-encoding of images is the image crate: the parameters \<open>decode_image\<close> (to pixels) and
  \<open>encode_jpeg\<close> give the result or the error text. A text is its UTF-8 bytes; \<open>utf8_valid\<close> is the check of \<open>std::str::from_utf8\<close>.
\<close>

section \<open>UTF-8\<close>

definition cont :: "byte \<Rightarrow> bool" where
  "cont b \<longleftrightarrow> 0x80 \<le> b \<and> b \<le> 0xBF"

fun utf8_valid :: "bytes \<Rightarrow> bool" where
  "utf8_valid [] = True"
| "utf8_valid (a # xs) =
     (if a < 0x80 then utf8_valid xs
      else case xs of
        [] \<Rightarrow> False
      | b # ys \<Rightarrow>
          if 0xC2 \<le> a \<and> a \<le> 0xDF then cont b \<and> utf8_valid ys
          else (case ys of
            [] \<Rightarrow> False
          | c # zs \<Rightarrow>
              if a = 0xE0 then 0xA0 \<le> b \<and> b \<le> 0xBF \<and> cont c \<and> utf8_valid zs
              else if a = 0xED then 0x80 \<le> b \<and> b \<le> 0x9F \<and> cont c \<and> utf8_valid zs
              else if 0xE1 \<le> a \<and> a \<le> 0xEF then cont b \<and> cont c \<and> utf8_valid zs
              else (case zs of
                [] \<Rightarrow> False
              | d # us \<Rightarrow>
                  if a = 0xF0 then 0x90 \<le> b \<and> b \<le> 0xBF \<and> cont c \<and> cont d \<and> utf8_valid us
                  else if 0xF1 \<le> a \<and> a \<le> 0xF3 then cont b \<and> cont c \<and> cont d \<and> utf8_valid us
                  else if a = 0xF4 then 0x80 \<le> b \<and> b \<le> 0x8F \<and> cont c \<and> cont d \<and> utf8_valid us
                  else False)))"

section \<open>Results\<close>

datatype transform_error =
  Empty | TooLarge nat nat | ImageDecode string | ImageEncode string | InvalidUtf8 | BadPdfHeader
| NoMatch string

fun transform_error_display :: "transform_error \<Rightarrow> string" where
  "transform_error_display Empty = ''input was empty''"
| "transform_error_display (TooLarge n limit) =
     ''file is too large ('' @ dec_digits n @ '' bytes, limit '' @ dec_digits limit @ '')''"
| "transform_error_display (ImageDecode e) = ''image decode failed: '' @ e"
| "transform_error_display (ImageEncode e) = ''image encode failed: '' @ e"
| "transform_error_display InvalidUtf8 = ''text is not valid UTF-8''"
| "transform_error_display BadPdfHeader = ''pdf header is missing or malformed''"
| "transform_error_display (NoMatch mime) =
     ''no transformer matched mime type '' @ [CHR 39] @ mime @ [CHR 39]"

record transformed =
  tr_bytes :: bytes
  tr_mime :: string
  tr_notes :: "string list"
  tr_sha256_hex :: string

definition new_transformed :: "app \<Rightarrow> bytes \<Rightarrow> string \<Rightarrow> string list \<Rightarrow> transformed" where
  "new_transformed A bs mime notes =
     \<lparr>tr_bytes = bs, tr_mime = mime, tr_notes = notes, tr_sha256_hex = hex_encode (sha256 A bs)\<rparr>"

definition starts_with :: "'a list \<Rightarrow> 'a list \<Rightarrow> bool" where
  "starts_with p s \<longleftrightarrow> take (length p) s = p"

definition slice :: "nat \<Rightarrow> nat \<Rightarrow> 'a list \<Rightarrow> 'a list" where
  "slice a b s = take (b - a) (drop a s)"

section \<open>Text\<close>

definition bom :: bytes where
  "bom = [0xEF, 0xBB, 0xBF]"

definition strip_bom :: "bytes \<Rightarrow> bytes" where
  "strip_bom bs = (if starts_with bom bs then drop 3 bs else bs)"

text \<open>\<open>replace("\r\n", "\n")\<close> and \<open>replace('\r', "\n")\<close>.\<close>

fun replace_crlf :: "bytes \<Rightarrow> bytes" where
  "replace_crlf [] = []"
| "replace_crlf [x] = [x]"
| "replace_crlf (x # y # xs) =
     (if x = 13 \<and> y = 10 then 10 # replace_crlf xs else x # replace_crlf (y # xs))"

definition replace_cr :: "bytes \<Rightarrow> bytes" where
  "replace_cr bs = map (\<lambda>b. if b = 13 then 10 else b) bs"

definition transform_text :: "app \<Rightarrow> bytes \<Rightarrow> string \<Rightarrow> transform_error + transformed" where
  "transform_text A input original_mime =
     (if \<not> utf8_valid input then Inl InvalidUtf8
      else Inr (new_transformed A (replace_cr (replace_crlf (strip_bom input))) original_mime
             [''Stripped UTF-8 BOM if present'', ''Normalised line endings to LF'']))"

section \<open>Images and PDF\<close>

definition transform_image :: "app \<Rightarrow> bytes \<Rightarrow> transform_error + transformed" where
  "transform_image A input = (case decode_image A input of
       Inl e \<Rightarrow> Inl (ImageDecode e)
     | Inr img \<Rightarrow> (case encode_jpeg A img of
         Inl e \<Rightarrow> Inl (ImageEncode e)
       | Inr buf \<Rightarrow> Inr (new_transformed A buf ''image/jpeg''
           [''Decoded to pixels and re-encoded as JPEG (quality 90)'',
            ''Stripped EXIF / XMP / IPTC metadata (including GPS coordinates)''])))"

definition transform_pdf :: "app \<Rightarrow> bytes \<Rightarrow> transform_error + transformed" where
  "transform_pdf A input =
     (if \<not> starts_with (as_bytes ''%PDF-'') input then Inl BadPdfHeader
      else Inr (new_transformed A input ''application/pdf''
        [''Validated PDF header (%PDF-)'',
         ''Bytes preserved as-is. PDF/A conversion lands at v1 via Ghostscript.'']))"

section \<open>Video and audio\<close>

definition em_dash :: string where
  "em_dash = [CHR 0xE2, CHR 0x80, CHR 0x94]"

definition video_notes :: "bytes \<Rightarrow> string list" where
  "video_notes input =
     (if 12 \<le> length input \<and> slice 4 8 input = as_bytes ''ftyp''
      then [''ISO BMFF container detected (MP4 / 3GP / QuickTime family).'']
      else if starts_with [0x1A, 0x45, 0xDF, 0xA3] input
      then [''EBML container detected (WebM / Matroska family).'']
      else if starts_with (as_bytes ''RIFF'') input \<and> 12 \<le> length input
        \<and> slice 8 12 input = as_bytes ''AVI ''
      then [''RIFF AVI container detected.'']
      else [''Container magic not recognised '' @ em_dash @ '' we are preserving the bytes anyway, but '' @
            ''the recipient may need a current player to open it.''])"

definition transform_video :: "app \<Rightarrow> bytes \<Rightarrow> string \<Rightarrow> transform_error + transformed" where
  "transform_video A input original_mime =
     Inr (new_transformed A input original_mime
       ([''Bytes preserved as-is ('' @ original_mime @ ''). The principal is responsible '' @
         ''for choosing a long-term-readable format; we recommend WebM (VP9 + Opus) '' @
         ''or MP4 (H.264 + AAC).''] @ video_notes input @
        [''v1 plan: transcode to WebM (VP9 + Opus) for archival stability.'']))"

text \<open>The syncsafe size of an ID3v2 tag, and the input without the tag.\<close>

definition id3_header_len :: "bytes \<Rightarrow> nat" where
  "id3_header_len bs =
     10 + Bit_Operations.or (Bit_Operations.or (Bit_Operations.or
            (push_bit 21 (unat (bs ! 6))) (push_bit 14 (unat (bs ! 7))))
            (push_bit 7 (unat (bs ! 8)))) (unat (bs ! 9))"

definition strip_id3 :: "bytes \<Rightarrow> bytes" where
  "strip_id3 bs =
     (if 10 < length bs \<and> slice 0 3 bs = as_bytes ''ID3'' \<and> id3_header_len bs < length bs
      then drop (id3_header_len bs) bs else bs)"

definition audio_notes :: "bytes \<Rightarrow> string list" where
  "audio_notes output =
     (if starts_with (as_bytes ''OggS'') output then [''Ogg container detected (likely Opus or Vorbis).'']
      else if starts_with (as_bytes ''fLaC'') output then [''FLAC stream detected.'']
      else if starts_with (as_bytes ''RIFF'') output \<and> 12 \<le> length output
        \<and> slice 8 12 output = as_bytes ''WAVE'' then [''RIFF WAV detected.'']
      else if 12 \<le> length output \<and> slice 4 8 output = as_bytes ''ftyp''
      then [''ISO BMFF audio container detected (e.g. M4A / AAC).'']
      else [])"

definition transform_audio :: "app \<Rightarrow> bytes \<Rightarrow> string \<Rightarrow> transform_error + transformed" where
  "transform_audio A input original_mime =
     (let output = strip_id3 input in
      Inr (new_transformed A output original_mime
        ((if output \<noteq> input
          then [''Stripped ID3v2 metadata header ('' @ dec_digits (id3_header_len input) @ '' bytes).''] else []) @
         audio_notes output @
         [''Bytes '' @ (if length output = length input then ''preserved as-is''
            else ''preserved after metadata strip'') @ '' ('' @ original_mime @
          ''). v1 plan: transcode to Opus in Ogg for archival stability.''])))"

definition transform_binary :: "app \<Rightarrow> bytes \<Rightarrow> string \<Rightarrow> transform_error + transformed" where
  "transform_binary A input original_mime =
     Inr (new_transformed A input original_mime
       [''No dedicated transformer for '' @ [CHR 39] @ original_mime @ [CHR 39] @
        ''. Bytes preserved as-is. Consider attaching a flattened version (PDF, JPEG, plain text) for archival.''])"

section \<open>The pipeline\<close>

datatype transformer =
  TextPassThrough | ImageNormalizer | PdfPassThrough | VideoPassThrough | AudioPassThrough
| BinaryPassThrough

fun handles :: "transformer \<Rightarrow> string \<Rightarrow> bool" where
  "handles TextPassThrough mime \<longleftrightarrow>
     starts_with ''text/'' mime \<or> mime = ''application/json'' \<or> mime = ''application/xml''"
| "handles ImageNormalizer mime \<longleftrightarrow>
     mime \<in> set [''image/jpeg'', ''image/png'', ''image/gif'', ''image/webp'']"
| "handles PdfPassThrough mime \<longleftrightarrow> mime = ''application/pdf''"
| "handles VideoPassThrough mime \<longleftrightarrow> starts_with ''video/'' mime"
| "handles AudioPassThrough mime \<longleftrightarrow> starts_with ''audio/'' mime"
| "handles BinaryPassThrough mime \<longleftrightarrow> True"

fun transform :: "app \<Rightarrow> transformer \<Rightarrow> bytes \<Rightarrow> string \<Rightarrow> transform_error + transformed" where
  "transform A TextPassThrough input mime = transform_text A input mime"
| "transform A ImageNormalizer input mime = transform_image A input"
| "transform A PdfPassThrough input mime = transform_pdf A input"
| "transform A VideoPassThrough input mime = transform_video A input mime"
| "transform A AudioPassThrough input mime = transform_audio A input mime"
| "transform A BinaryPassThrough input mime = transform_binary A input mime"

definition default_pipeline :: "transformer list" where
  "default_pipeline =
     [TextPassThrough, ImageNormalizer, PdfPassThrough, VideoPassThrough, AudioPassThrough,
      BinaryPassThrough]"

definition apply_pipeline ::
  "app \<Rightarrow> transformer list \<Rightarrow> bytes \<Rightarrow> string \<Rightarrow> nat \<Rightarrow> transform_error + transformed" where
  "apply_pipeline A pipeline bs mime max_bytes =
     (if bs = [] then Inl Empty
      else if max_bytes < length bs then Inl (TooLarge (length bs) max_bytes)
      else case List.find (\<lambda>t. handles t mime) pipeline of
        None \<Rightarrow> Inl (NoMatch mime)
      | Some t \<Rightarrow> transform A t bs mime)"

section \<open>Lemmas\<close>

lemma crlf_length: "length (replace_crlf bs) \<le> length bs"
  by (induction bs rule: replace_crlf.induct) auto

lemma strip_bom_length: "length (strip_bom bs) \<le> length bs"
  by (simp add: strip_bom_def)

lemma crlf_head:
  "replace_crlf (x # xs) =
     (if x = 13 \<and> xs \<noteq> [] \<and> hd xs = 10 then 10 # replace_crlf (tl xs) else x # replace_crlf xs)"
  by (cases xs) auto

lemma crlf_id: "13 \<notin> set bs \<Longrightarrow> replace_crlf bs = bs"
  by (induction bs rule: replace_crlf.induct) auto

lemma cr_gone: "13 \<notin> set (replace_cr bs)"
  by (auto simp: replace_cr_def)

lemma cr_id: "13 \<notin> set bs \<Longrightarrow> replace_cr bs = bs"
  by (induction bs) (auto simp: replace_cr_def)

text \<open>
  A valid text is a sequence of ASCII bytes and of multi-byte characters: a lead byte and one
  to three continuation bytes, none of them ASCII.
\<close>

definition multibyte :: "byte \<Rightarrow> bytes \<Rightarrow> bool" where
  "multibyte a ts \<longleftrightarrow> \<not> a < 0x80 \<and> (\<forall>rest. utf8_valid rest \<longrightarrow> utf8_valid (a # ts @ rest)) \<and> list_all (\<lambda>t. \<not> t < 0x80) ts"

lemma cont_high: "cont b \<Longrightarrow> \<not> b < 0x80"
  by (simp add: cont_def not_less)

lemma low_high:
  "0x80 \<le> (b :: byte) \<Longrightarrow> \<not> b < 0x80" "0x90 \<le> b \<Longrightarrow> \<not> b < 0x80" "0xA0 \<le> b \<Longrightarrow> \<not> b < 0x80"
  by (simp_all add: not_less word_le_nat_alt)

definition three_ok :: "byte \<Rightarrow> byte \<Rightarrow> byte \<Rightarrow> bool" where
  "three_ok a b c \<longleftrightarrow>
     (if a = 0xE0 then 0xA0 \<le> b \<and> b \<le> 0xBF \<and> cont c
      else if a = 0xED then 0x80 \<le> b \<and> b \<le> 0x9F \<and> cont c else cont b \<and> cont c)"

definition four_ok :: "byte \<Rightarrow> byte \<Rightarrow> byte \<Rightarrow> byte \<Rightarrow> bool" where
  "four_ok a b c d \<longleftrightarrow>
     (if a = 0xF0 then 0x90 \<le> b \<and> b \<le> 0xBF \<and> cont c \<and> cont d
      else if 0xF1 \<le> a \<and> a \<le> 0xF3 then cont b \<and> cont c \<and> cont d
      else if a = 0xF4 then 0x80 \<le> b \<and> b \<le> 0x8F \<and> cont c \<and> cont d else False)"

lemma three_high: "three_ok a b c \<Longrightarrow> \<not> b < 0x80 \<and> \<not> c < 0x80"
  by (cases "a = 0xE0"; cases "a = 0xED") (simp_all add: three_ok_def cont_high low_high)

lemma four_high: "four_ok a b c d \<Longrightarrow> \<not> b < 0x80 \<and> \<not> c < 0x80 \<and> \<not> d < 0x80"
  unfolding four_ok_def by (simp split: if_split_asm add: cont_high low_high)

lemma utf8_three:
  assumes "\<not> a < 0x80" "\<not> (0xC2 \<le> a \<and> a \<le> 0xDF)" "a = 0xE0 \<or> a = 0xED \<or> (0xE1 \<le> a \<and> a \<le> 0xEF)"
  shows "utf8_valid (a # b # c # r) \<longleftrightarrow> three_ok a b c \<and> utf8_valid r"
  unfolding utf8_valid.simps(2) [of a] list.case
  using assms by (simp only: three_ok_def if_False if_True simp_thms split: if_split) blast

lemma utf8_four:
  assumes "\<not> a < 0x80" "\<not> (0xC2 \<le> a \<and> a \<le> 0xDF)" "\<not> (a = 0xE0 \<or> a = 0xED \<or> (0xE1 \<le> a \<and> a \<le> 0xEF))"
  shows "utf8_valid (a # b # c # d # r) \<longleftrightarrow> four_ok a b c d \<and> utf8_valid r"
  unfolding utf8_valid.simps(2) [of a] list.case
  using assms by (simp only: four_ok_def if_False if_True simp_thms de_Morgan_disj split: if_split) blast

lemma utf8_char_split:
  assumes v: "utf8_valid (a # xs)" and high: "\<not> a < 0x80"
  obtains ts rest where "xs = ts @ rest" "multibyte a ts" "utf8_valid rest"
proof -
  obtain b ys where xs: "xs = b # ys" using assms by (cases xs) auto
  show ?thesis
  proof (cases "0xC2 \<le> a \<and> a \<le> 0xDF")
    case True
    with assms xs have "cont b" "utf8_valid ys" by simp_all
    with True high show ?thesis
      by (intro that [of "[b]" ys]) (simp_all add: xs multibyte_def cont_high)
  next
    case two: False
    obtain c zs where ys: "ys = c # zs" using assms xs two by (cases ys) auto
    show ?thesis
    proof (cases "a = 0xE0 \<or> a = 0xED \<or> (0xE1 \<le> a \<and> a \<le> 0xEF)")
      case True
      note eq = utf8_three [OF high two True]
      from v have "three_ok a b c" "utf8_valid zs" by (simp_all only: xs ys eq)
      with high show ?thesis
        by (intro that [of "[b, c]" zs])
          (simp_all only: xs ys multibyte_def eq append.simps list.pred_inject three_high simp_thms)
    next
      case three: False
      obtain d us where zs: "zs = d # us" using assms xs ys two three by (cases zs) auto
      note eq = utf8_four [OF high two three]
      from v have "four_ok a b c d" "utf8_valid us" by (simp_all only: xs ys zs eq)
      with high show ?thesis
        by (intro that [of "[b, c, d]" us])
          (simp_all only: xs ys zs multibyte_def eq append.simps list.pred_inject four_high simp_thms)
    qed
  qed
qed

lemma utf8_induct [consumes 1, case_names nil ascii multi]:
  assumes "utf8_valid bs" and "P []"
    and "\<And>a xs. a < 0x80 \<Longrightarrow> utf8_valid xs \<Longrightarrow> P xs \<Longrightarrow> P (a # xs)"
    and "\<And>a ts rest. multibyte a ts \<Longrightarrow> utf8_valid rest \<Longrightarrow> P rest \<Longrightarrow> P (a # ts @ rest)"
  shows "P bs"
  using assms(1)
proof (induction bs rule: length_induct)
  case (1 bs)
  show ?case
  proof (cases bs)
    case Nil
    with assms(2) show ?thesis by simp
  next
    case (Cons a xs)
    show ?thesis
    proof (cases "a < 0x80")
      case True
      with 1 Cons show ?thesis using assms(3) [of a xs] by simp
    next
      case False
      with 1 Cons obtain ts rest where "xs = ts @ rest" "multibyte a ts" "utf8_valid rest"
        using utf8_char_split [of a xs] by blast
      with 1 Cons show ?thesis using assms(4) [of a ts rest] by simp
    qed
  qed
qed

lemma multibyteD:
  assumes "multibyte a ts"
  shows "a \<noteq> 13" "a \<noteq> 10" "list_all (\<lambda>t. t \<noteq> 13 \<and> t \<noteq> 10) ts" "utf8_valid rest \<Longrightarrow> utf8_valid (a # ts @ rest)"
  using assms by (auto simp: multibyte_def list_all_iff simp del: utf8_valid.simps)

lemma cr_app: "list_all (\<lambda>t. t \<noteq> 13 \<and> t \<noteq> 10) ts \<Longrightarrow> replace_cr (ts @ rest) = ts @ replace_cr rest"
  by (induction ts) (auto simp: replace_cr_def)

lemma crlf_app: "list_all (\<lambda>t. t \<noteq> 13 \<and> t \<noteq> 10) ts \<Longrightarrow> replace_crlf (ts @ rest) = ts @ replace_crlf rest"
  by (induction ts) (simp_all add: crlf_head)

lemma utf8_cr: "utf8_valid bs \<Longrightarrow> utf8_valid (replace_cr bs)"
proof (induction bs rule: utf8_induct)
  case (multi a ts rest)
  then have "replace_cr (a # ts @ rest) = a # ts @ replace_cr rest"
    using cr_app [of "a # ts" rest] multibyteD [OF multi(1)] by simp
  with multi multibyteD(4) [OF multi(1)] show ?case by simp
qed (simp_all add: replace_cr_def)

lemma utf8_crlf: "utf8_valid bs \<Longrightarrow> utf8_valid (replace_crlf bs)"
proof (induction "length bs" arbitrary: bs rule: less_induct)
  case less
  show ?case
  proof (cases bs)
    case (Cons a xs)
    show ?thesis
    proof (cases "a < 0x80")
      case True
      with less.prems Cons have v: "utf8_valid xs" by simp
      have "utf8_valid (replace_crlf (tl xs))" if "xs \<noteq> []" "hd xs = 10"
      proof -
        from that obtain ys where "xs = 10 # ys" by (cases xs) auto
        with v show ?thesis using less.hyps [of ys] Cons by simp
      qed
      moreover have "utf8_valid (replace_crlf xs)" using v less.hyps [of xs] Cons by simp
      ultimately show ?thesis using True by (simp add: Cons crlf_head)
    next
      case False
      with less.prems Cons obtain ts rest where xs: "xs = ts @ rest" "multibyte a ts" "utf8_valid rest"
        using utf8_char_split [of a xs] by blast
      have "replace_crlf bs = a # ts @ replace_crlf rest"
        using crlf_app [of "a # ts" rest] multibyteD [OF xs(2)] Cons xs(1) by simp
      moreover have "utf8_valid (replace_crlf rest)" using less.hyps [of rest] xs Cons by simp
      ultimately show ?thesis using multibyteD(4) [OF xs(2)] by simp
    qed
  qed simp
qed

lemma utf8_strip_bom: "utf8_valid bs \<Longrightarrow> utf8_valid (strip_bom bs)"
proof (cases "starts_with bom bs")
  case True
  assume "utf8_valid bs"
  moreover from True have "take 3 bs = [0xEF, 0xBB, 0xBF]"
    by (simp add: starts_with_def bom_def numeral_3_eq_3)
  then have "bs = [0xEF, 0xBB, 0xBF] @ drop 3 bs" by (metis append_take_drop_id)
  ultimately have "utf8_valid (0xEF # 0xBB # 0xBF # drop 3 bs)" by (metis append_Cons append_Nil)
  with True show ?thesis by (simp add: strip_bom_def)
qed (simp add: strip_bom_def)

end
