(* ===== verification/RouteBase.thy ===== *)
theory RouteBase
  imports Retention DbKeys Transform
begin

text \<open>
  What the handlers of src/crates/beacon-api/src/routes.rs share: the rendering of enums in
  error messages, the owner check of a vault, the validation of a letter's kind,
  mode and schedule, the views, HMAC-SHA256 and the comparison of signatures. A time that a
  view renders with \<open>to_rfc3339\<close> is kept as a time. Letter case and trimming follow Rust on
  ASCII text.
\<close>

section \<open>Text\<close>

definition ascii_upper :: "char \<Rightarrow> char" where
  "ascii_upper c = (let n = (of_char c :: nat) in if 97 \<le> n \<and> n \<le> 122 then char_of (n - 32) else c)"

definition to_uppercase :: "string \<Rightarrow> string" where
  "to_uppercase s = map ascii_upper s"

definition is_space :: "char \<Rightarrow> bool" where
  "is_space c \<longleftrightarrow> (let n = (of_char c :: nat) in n = 32 \<or> (9 \<le> n \<and> n \<le> 13))"

definition trim :: "string \<Rightarrow> string" where
  "trim s = rev (dropWhile is_space (rev (dropWhile is_space s)))"

fun join :: "string \<Rightarrow> string list \<Rightarrow> string" where
  "join sep [] = []"
| "join sep [s] = s"
| "join sep (s # t # ss) = s @ sep @ join sep (t # ss)"

fun vault_state_debug :: "vault_state \<Rightarrow> string" where
  "vault_state_debug Active = ''Active''"
| "vault_state_debug Suspicious = ''Suspicious''"
| "vault_state_debug Alert = ''Alert''"
| "vault_state_debug CoolingOff = ''CoolingOff''"
| "vault_state_debug Releasing = ''Releasing''"
| "vault_state_debug Released = ''Released''"
| "vault_state_debug Archived = ''Archived''"

fun subscription_state_debug :: "subscription_state \<Rightarrow> string" where
  "subscription_state_debug Trialing = ''Trialing''"
| "subscription_state_debug SubActive = ''Active''"
| "subscription_state_debug PastDue = ''PastDue''"
| "subscription_state_debug Canceled = ''Canceled''"
| "subscription_state_debug Expired = ''Expired''"
| "subscription_state_debug Deleted = ''Deleted''"

fun domain_error_display :: "domain_error \<Rightarrow> string" where
  "domain_error_display (InvalidTransition f t) =
     ''invalid state transition: '' @ vault_state_debug f @ '' -> '' @ vault_state_debug t"
| "domain_error_display (SubscriptionForbids s) =
     ''Subscription state '' @ [CHR 39] @ subscription_state_debug s @ [CHR 39] @
     '' does not permit this action''"
| "domain_error_display (UnknownEnumValue e v) =
     ''unknown '' @ e @ '' enum value '' @ [CHR 39] @ v @ [CHR 39] @ '' in DB''"

text \<open>\<open>from_db_str(..).map_err(|e| ApiError::BadRequest(..))\<close>.\<close>

definition parse_or_bad_request :: "string \<Rightarrow> (domain_error + 'a) \<Rightarrow> 'a api_prog" where
  "parse_or_bad_request prefix x = (case x of
       Inr y \<Rightarrow> ret y
     | Inl e \<Rightarrow> throw (BadRequest (prefix @ domain_error_display e)))"

definition as_u32 :: "int \<Rightarrow> u32" where
  "as_u32 n = word_of_int n"

definition of_crypto_error :: "crypto_error \<Rightarrow> api_error" where
  "of_crypto_error e = Internal"

definition crypt :: "(world, crypto_error, 'a) prog \<Rightarrow> 'a api_prog" where
  "crypt m = map_err of_crypto_error m"

definition blob :: "(world, blob_error, 'a) prog \<Rightarrow> 'a api_prog" where
  "blob m = map_err (\<lambda>_. Internal) m"

lemma keeps_crypt [keeps_intros]: "keeps I m \<Longrightarrow> keeps I (crypt m)"
  by (simp add: crypt_def keeps_map_err)

lemma keeps_blob [keeps_intros]: "keeps I m \<Longrightarrow> keeps I (blob m)"
  by (simp add: blob_def keeps_map_err)

section \<open>The owner of a vault\<close>

text \<open>The first statements of every handler of a vault: who asks, and is the vault theirs.\<close>

definition owned_vault :: "app \<Rightarrow> headers \<Rightarrow> vault_id \<Rightarrow> (principal_id \<times> vault) api_prog" where
  "owned_vault A h v =
     bind (current_principal A h) (\<lambda>pid.
     bind (api (db_fetch_vault v)) (\<lambda>vault.
     if v_principal_id vault \<noteq> pid then throw NotFound else ret (pid, vault)))"

definition owned_letter :: "app \<Rightarrow> headers \<Rightarrow> vault_id \<Rightarrow> letter_id \<Rightarrow> letter_meta api_prog" where
  "owned_letter A h v l =
     bind (owned_vault A h v) (\<lambda>_.
     bind (api (db_fetch_letter_meta l)) (\<lambda>existing.
     if lm_vault_id existing \<noteq> v then throw NotFound else ret existing))"

section \<open>Views\<close>

record vault_view =
  vv_id :: vault_id
  vv_name :: string
  vv_tier :: string
  vv_state :: string
  vv_cooling_off_seconds :: int
  vv_storage_region :: string
  vv_storage_region_label :: string
  vv_last_attestation_at :: instant
  vv_cooling_off_started_at :: "instant option"
  vv_released_at :: "instant option"

definition vault_view :: "vault \<Rightarrow> vault_view" where
  "vault_view v =
     \<lparr>vv_id = v_id v, vv_name = v_name v, vv_tier = tier_as_db_str (v_tier v),
      vv_state = vault_state_as_db_str (v_state v),
      vv_cooling_off_seconds = v_cooling_off_seconds v,
      vv_storage_region = region_as_aws_str (v_storage_region v),
      vv_storage_region_label = region_display_name (v_storage_region v),
      vv_last_attestation_at = v_last_attestation_at v,
      vv_cooling_off_started_at = v_cooling_off_started_at v, vv_released_at = v_released_at v\<rparr>"

record letter_meta_view =
  lv_id :: letter_id
  lv_title :: string
  lv_recipient_email :: string
  lv_sealed_at :: instant
  lv_scheduled_release_at :: "instant option"

definition letter_meta_view :: "letter_meta \<Rightarrow> instant option \<Rightarrow> letter_meta_view" where
  "letter_meta_view l scheduled =
     \<lparr>lv_id = lm_id l, lv_title = lm_title l, lv_recipient_email = lm_recipient_email l,
      lv_sealed_at = lm_sealed_at l, lv_scheduled_release_at = scheduled\<rparr>"

record subscription_view =
  sv_state :: string
  sv_plan_id :: string
  sv_started_at :: instant
  sv_trial_end_at :: "instant option"
  sv_current_period_end :: "instant option"
  sv_canceled_at :: "instant option"
  sv_retention_until :: "instant option"

definition subscription_view :: "subscription \<Rightarrow> subscription_view" where
  "subscription_view s =
     \<lparr>sv_state = subscription_state_as_db_str (sub_state s),
      sv_plan_id = plan_id_as_db_str (sub_plan_id s), sv_started_at = sub_started_at s,
      sv_trial_end_at = sub_trial_end_at s, sv_current_period_end = sub_current_period_end s,
      sv_canceled_at = sub_canceled_at s, sv_retention_until = sub_retention_until s\<rparr>"

record buddy_view =
  bv_id :: buddy_id
  bv_display_name :: "string option"
  bv_email :: string
  bv_phone :: "string option"
  bv_prompt_cadence_days :: int
  bv_last_response :: "string option"
  bv_last_response_at :: "instant option"
  bv_confirmed :: bool
  bv_revoked :: bool

definition buddy_view :: "buddy \<Rightarrow> buddy_view" where
  "buddy_view b =
     \<lparr>bv_id = b_id b, bv_display_name = b_display_name b, bv_email = b_email b,
      bv_phone = b_phone b, bv_prompt_cadence_days = b_prompt_cadence_days b,
      bv_last_response = map_option buddy_response_as_db_str (b_last_response b),
      bv_last_response_at = b_last_response_at b, bv_confirmed = (b_confirmed_at b \<noteq> None),
      bv_revoked = (b_revoked_at b \<noteq> None)\<rparr>"

record co_steward_view =
  cv_id :: co_steward_id
  cv_display_name :: "string option"
  cv_email :: string
  cv_confirmed :: bool
  cv_revoked :: bool
  cv_last_viewed_at :: "instant option"
  cv_created_at :: instant

definition co_steward_view :: "co_steward \<Rightarrow> co_steward_view" where
  "co_steward_view c =
     \<lparr>cv_id = cs_id c, cv_display_name = cs_display_name c, cv_email = cs_email c,
      cv_confirmed = (cs_confirmed_at c \<noteq> None), cv_revoked = (cs_revoked_at c \<noteq> None),
      cv_last_viewed_at = cs_last_viewed_at c, cv_created_at = cs_created_at c\<rparr>"

record attachment_view =
  av_id :: attachment_id
  av_original_filename :: string
  av_original_mime :: string
  av_original_size :: int
  av_transformed_mime :: string
  av_transformed_size :: int
  av_sha256_hex :: string

definition attachment_view :: "attachment \<Rightarrow> attachment_view" where
  "attachment_view a =
     \<lparr>av_id = at_id a, av_original_filename = at_original_filename a,
      av_original_mime = at_original_mime a, av_original_size = at_original_size a,
      av_transformed_mime = at_transformed_mime a, av_transformed_size = at_transformed_size a,
      av_sha256_hex = at_sha256_hex a\<rparr>"

section \<open>Validation of a letter\<close>

definition VALID_LETTER_KINDS :: "string list" where
  "VALID_LETTER_KINDS =
     [''MESSAGE'', ''CREDENTIAL_BUNDLE'', ''FILE_ARCHIVE'', ''ACTION'', ''WILL_LOCATOR'',
      ''VIDEO_MESSAGE'', ''AUDIO_MESSAGE'', ''MEDIA_PLAYLIST'']"

definition quoted :: "string \<Rightarrow> string" where
  "quoted s = [CHR 39] @ s @ [CHR 39]"

definition validate_letter_kind :: "string option \<Rightarrow> unit api_prog" where
  "validate_letter_kind kind = (case kind of
       Some k \<Rightarrow> if k \<notin> set VALID_LETTER_KINDS
         then throw (BadRequest (''unknown letter kind '' @ quoted k @ ''; allowed: '' @ join '', '' VALID_LETTER_KINDS))
         else ret ()
     | None \<Rightarrow> ret ())"

definition VALID_RELEASE_MODES :: "string list" where
  "VALID_RELEASE_MODES = [''SIGNAL_OR_SCHEDULED'', ''SCHEDULED_ONLY'', ''SIGNAL_ONLY'', ''EVENT_ON_DEMAND'']"

definition validate_release_mode :: "string option \<Rightarrow> instant option \<Rightarrow> unit api_prog" where
  "validate_release_mode mode scheduled_release_at =
     (let m = unwrap_or ''SIGNAL_OR_SCHEDULED'' mode in
      if m \<notin> set VALID_RELEASE_MODES
      then throw (BadRequest (''unknown release_mode '' @ quoted m @ ''; allowed: '' @ join '', '' VALID_RELEASE_MODES))
      else if m = ''SCHEDULED_ONLY'' \<and> scheduled_release_at = None
      then throw (BadRequest (''SCHEDULED_ONLY requires scheduled_release_at'' @ [CHR 32, CHR 0xE2, CHR 0x80, CHR 0x94, CHR 32] @ ''a time-capsule needs a date to open on.''))
      else ret ())"

definition num_days :: "int \<Rightarrow> int" where
  "num_days d = sgn d * (\<bar>d\<bar> div 86400000000)"

text \<open>The two checks of a schedule against the clock and the plan's horizon.\<close>

definition check_schedule :: "plan_features \<Rightarrow> instant option \<Rightarrow> unit api_prog" where
  "check_schedule plan scheduled_release_at = (case scheduled_release_at of
       None \<Rightarrow> ret ()
     | Some t \<Rightarrow> bind now (\<lambda>n.
         if t < n then throw (BadRequest ''scheduled_release_at must be in the future'')
         else if n + days (pf_scheduled_horizon_days plan) < t
         then throw (BadRequest (''Scheduled release is '' @ dec (num_days (t - n)) @
           '' days in the future, which exceeds the '' @ dec (pf_scheduled_horizon_days plan) @
           '' day horizon for this deployment.''))
         else ret ()))"

definition check_authoring :: "subscription \<Rightarrow> unit api_prog" where
  "check_authoring sub =
     reject_if (\<not> allows_authoring (sub_state sub))
       (Forbidden (''Subscription state '' @ subscription_state_debug (sub_state sub) @
          '' does not permit authoring''))"

definition check_sealable :: "vault \<Rightarrow> unit api_prog" where
  "check_sealable vault =
     reject_if (v_state vault \<noteq> Active)
       (Conflict (''Vault state '' @ vault_state_debug (v_state vault) @
          '' does not permit sealing new Letters''))"

definition check_letter_quota :: "plan_features \<Rightarrow> vault \<Rightarrow> unit api_prog" where
  "check_letter_quota plan vault =
     bind (api (db_letter_count (v_id vault))) (\<lambda>n.
     let current_letters = as_u32 n in
     reject_if (pf_max_letters_per_vault plan \<le> current_letters)
       (Forbidden (''Letter limit reached ('' @ dec (uint current_letters) @ '' of '' @
          dec (uint (pf_max_letters_per_vault plan)) @
          '' allowed). Adjust MAX_LETTERS_PER_VAULT in your deployment configuration.'')))"

section \<open>Signatures\<close>

text \<open>RFC 2104 over the parameter \<open>sha256\<close>; the key is hashed when longer than a block.\<close>

definition resize :: "nat \<Rightarrow> byte \<Rightarrow> bytes \<Rightarrow> bytes" where
  "resize n x bs = take n bs @ replicate (n - length bs) x"

definition hmac_sha256 :: "app \<Rightarrow> bytes \<Rightarrow> string \<Rightarrow> bytes" where
  "hmac_sha256 A key msg =
     (let k = resize 64 0 (if 64 < length key then sha256 A key else key);
          ipad = map (\<lambda>b. Bit_Operations.xor b 0x36) k;
          opad = map (\<lambda>b. Bit_Operations.xor b 0x5c) k;
          inner_hash = sha256 A (ipad @ as_bytes msg)
      in sha256 A (opad @ inner_hash))"

definition constant_time_eq :: "bytes \<Rightarrow> bytes \<Rightarrow> bool" where
  "constant_time_eq a b =
     (if length a \<noteq> length b then False
      else foldl (\<lambda>diff (x, y). Bit_Operations.or diff (Bit_Operations.xor x y)) 0 (zip a b) = 0)"

text \<open>The accumulated difference is zero exactly when the strings are equal.\<close>

lemma or_zero_iff: "Bit_Operations.or (a :: byte) b = 0 \<longleftrightarrow> a = 0 \<and> b = 0"
  by (metis or.left_neutral or.right_neutral or_eq_0_iff)

end
