(* ===== verification/RouteAccount.thy ===== *)
theory RouteAccount
  imports RouteBase
begin

text \<open>
  The handlers of src/crates/beacon-api/src/routes.rs for the account: sign-up, e-mail
  sign-in by magic link, sign-out, plans, subscription and usage, account deletion, activity
  and the transparency log. The percentage of \<open>UsageView\<close> and the evidence of an activity
  (\<open>via\<close>) are left out.
\<close>

definition contains_at :: "string \<Rightarrow> bool" where
  "contains_at s \<longleftrightarrow> CHR ''@'' \<in> set s"

text \<open>The link of a magic-link mail, in \<open>signup\<close> and \<open>signin\<close>.\<close>

definition verify_link :: "app \<Rightarrow> string \<Rightarrow> string" where
  "verify_link A magic =
     trim_end_slashes (public_base_url A) @ ''/app/auth/verify?token='' @ magic"

section \<open>Sign-up\<close>

record signup_req =
  sq_email :: string
  sq_display_name :: "string option"
  sq_plan :: "string option"
  sq_tos_accepted :: "bool option"

record signup_resp =
  sr_principal_id :: principal_id
  sr_session_token :: string
  sr_subscription_state :: string
  sr_trial_end_at :: "instant option"
  sr_magic_token_dev_only :: "string option"

definition parse_plan_param :: "string option \<Rightarrow> plan_id api_prog" where
  "parse_plan_param s = ret SelfHosted"

definition signup :: "app \<Rightarrow> signup_req \<Rightarrow> signup_resp api_prog" where
  "signup A body =
     andthen (reject_if (\<not> contains_at (sq_email body)) (BadRequest ''email looks invalid''))
     (andthen (reject_if (sq_tos_accepted body \<noteq> Some True)
        (BadRequest ''You must accept the Terms of Service to create an account.''))
     (bind (api (db_upsert_principal_by_email (sq_email body))) (\<lambda>(principal, created).
      if \<not> created then
        bind (random_token A) (\<lambda>magic.
        andthen (api (db_create_magic_link (p_id principal) (hash_token A magic) 15))
        (andthen (notify (MagicLink (p_primary_email principal) (verify_link A magic)))
          (throw (Conflict (''An account with this email already exists. We'' @ [CHR 39] @
             ''ve emailed you a sign-in link.'')))))
      else
        andthen (ignore (db_set_tos_accepted (p_id principal)))
        (bind (attempt (db_fetch_subscription (p_id principal))) (\<lambda>fetched.
         bind (case fetched of
             Inr s \<Rightarrow> ret s
           | Inl e \<Rightarrow> if e = DbNotFound
               then bind (parse_plan_param (sq_plan body)) (\<lambda>plan.
                 api (db_create_subscription (p_id principal) plan (trial_days A)))
               else throw (of_db_error e)) (\<lambda>sub.
         bind (random_token A) (\<lambda>magic.
         andthen (api (db_create_magic_link (p_id principal) (hash_token A magic) 15))
         (bind (random_token A) (\<lambda>session.
         andthen (api (db_create_session (p_id principal) (hash_token A session) 24))
         (andthen (ignore (db_append_transparency_entry ''PRINCIPAL_SIGNED_UP'' (Some (p_id principal)) None))
         (andthen (case sub_trial_end_at sub of
             Some end_at \<Rightarrow> notify (Welcome (p_primary_email principal) end_at)
           | None \<Rightarrow> ret ())
         (andthen (metrics_inc SignupsTotal)
         (ret \<lparr>sr_principal_id = p_id principal, sr_session_token = session,
               sr_subscription_state = subscription_state_as_db_str (sub_state sub),
               sr_trial_end_at = sub_trial_end_at sub,
               sr_magic_token_dev_only = (if debug_assertions A then Some magic else None)\<rparr>)))))))))))))"

section \<open>Sign-in by e-mail\<close>

record signin_resp =
  sgn_status :: string
  sgn_magic_token_dev_only :: "string option"

definition signin :: "app \<Rightarrow> string \<Rightarrow> signin_resp api_prog" where
  "signin A email =
     andthen (reject_if (\<not> contains_at email) (BadRequest ''email looks invalid''))
     (bind (api (db_fetch_principal_by_email email)) (\<lambda>found.
      bind (case found of
          None \<Rightarrow> ret None
        | Some p \<Rightarrow>
            bind (random_token A) (\<lambda>magic.
            andthen (api (db_create_magic_link (p_id p) (hash_token A magic) 15))
            (andthen (notify (MagicLink (p_primary_email p) (verify_link A magic)))
              (ret (if debug_assertions A then Some magic else None))))) (\<lambda>dev_token.
      ret \<lparr>sgn_status = ''sent'', sgn_magic_token_dev_only = dev_token\<rparr>)))"

record magic_verify_resp =
  mv_principal_id :: principal_id
  mv_session_token :: string
  mv_email :: string

definition magic_link_verify :: "app \<Rightarrow> string \<Rightarrow> magic_verify_resp api_prog" where
  "magic_link_verify A token =
     bind (api (db_consume_magic_link (hash_token A token))) (\<lambda>found.
     bind (ok_or Unauthorised found) (\<lambda>pid.
     bind (api (db_fetch_principal pid)) (\<lambda>principal.
     bind (random_token A) (\<lambda>session.
     andthen (api (db_create_session pid (hash_token A session) (24 * 30)))
       (ret \<lparr>mv_principal_id = pid, mv_session_token = session,
             mv_email = p_primary_email principal\<rparr>)))))"

definition signout :: "app \<Rightarrow> headers \<Rightarrow> unit api_prog" where
  "signout A h =
     (case Option.bind h (strip_prefix ''Bearer '') of
        Some token \<Rightarrow> ignore (db_revoke_session (hash_token A token))
      | None \<Rightarrow> ret ())"

section \<open>Plans, subscription, usage\<close>

record plan_view =
  pv_plan_id :: string
  pv_storage_bytes :: u64
  pv_retention_days :: int
  pv_scheduled_horizon_days :: int
  pv_max_vaults :: u32
  pv_max_letters_per_vault :: u32
  pv_max_trustees :: u32
  pv_allowed_signals :: "string list"
  pv_multi_region :: bool

definition plan_view :: "plan_features \<Rightarrow> plan_view" where
  "plan_view f =
     \<lparr>pv_plan_id = plan_id_as_db_str (pf_plan_id f), pv_storage_bytes = pf_storage_bytes f,
      pv_retention_days = pf_retention_days f,
      pv_scheduled_horizon_days = pf_scheduled_horizon_days f,
      pv_max_vaults = pf_max_vaults f, pv_max_letters_per_vault = pf_max_letters_per_vault f,
      pv_max_trustees = pf_max_trustees f,
      pv_allowed_signals = map signal_source_as_db_str (pf_allowed_signals f),
      pv_multi_region = pf_multi_region f\<rparr>"

definition list_plans :: "plan_view list" where
  "list_plans = map plan_view public_catalog"

definition get_subscription :: "app \<Rightarrow> headers \<Rightarrow> subscription_view api_prog" where
  "get_subscription A h =
     bind (current_principal A h) (\<lambda>pid.
     bind (api (db_fetch_subscription pid)) (\<lambda>sub.
     ret (subscription_view sub)))"

record usage_view =
  uv_plan_id :: string
  uv_storage_used_bytes :: int
  uv_storage_quota_bytes :: u64
  uv_vaults_used :: int
  uv_vaults_quota :: u32
  uv_letters_quota_per_vault :: u32
  uv_co_stewards_quota :: u32
  uv_retention_days :: int
  uv_scheduled_horizon_days :: int

definition get_usage :: "app \<Rightarrow> headers \<Rightarrow> usage_view api_prog" where
  "get_usage A h =
     bind (current_principal A h) (\<lambda>pid.
     bind (api (db_fetch_subscription pid)) (\<lambda>sub.
     let plan = plan_features (sub_plan_id sub) in
     bind (api (db_storage_used pid)) (\<lambda>storage_used.
     bind (api (db_vault_count pid)) (\<lambda>vault_count.
     let effective = effective_storage_bytes sub in
     ret \<lparr>uv_plan_id = plan_id_as_db_str (sub_plan_id sub),
          uv_storage_used_bytes = storage_used, uv_storage_quota_bytes = effective,
          uv_vaults_used = vault_count, uv_vaults_quota = pf_max_vaults plan,
          uv_letters_quota_per_vault = pf_max_letters_per_vault plan,
          uv_co_stewards_quota = pf_max_co_stewards plan,
          uv_retention_days = pf_retention_days plan,
          uv_scheduled_horizon_days = pf_scheduled_horizon_days plan\<rparr>))))"

section \<open>Account deletion\<close>

record deletion_requested_view =
  dv_deletion_scheduled_for :: instant
  dv_cancel_until :: instant

definition request_account_deletion :: "app \<Rightarrow> headers \<Rightarrow> deletion_requested_view api_prog" where
  "request_account_deletion A h =
     bind (current_principal A h) (\<lambda>pid.
     bind (api (db_request_account_deletion pid 30)) (\<lambda>scheduled.
     andthen (ignore (db_append_transparency_entry ''ACCOUNT_DELETION_REQUESTED'' (Some pid) None))
     (bind (api (db_fetch_principal pid)) (\<lambda>principal.
      andthen (notify (AccountDeletionRequested (p_primary_email principal) scheduled))
        (ret \<lparr>dv_deletion_scheduled_for = scheduled, dv_cancel_until = scheduled\<rparr>)))))"

definition cancel_account_deletion :: "app \<Rightarrow> headers \<Rightarrow> unit api_prog" where
  "cancel_account_deletion A h =
     bind (current_principal A h) (\<lambda>pid.
     andthen (api (db_cancel_account_deletion pid))
       (ignore (db_append_transparency_entry ''ACCOUNT_DELETION_CANCELLED'' (Some pid) None)))"

section \<open>Activity and the public log\<close>

record activity_event_resp =
  ae_source :: string
  ae_observed_at :: instant
  ae_vault_name :: string

record activity_resp =
  ay_last_heartbeat_at :: "instant option"
  ay_next_heartbeat_due_at :: "instant option"
  ay_events :: "activity_event_resp list"

definition HEARTBEAT_DUE_DAYS :: int where
  "HEARTBEAT_DUE_DAYS = 14"

definition get_activity :: "app \<Rightarrow> headers \<Rightarrow> activity_resp api_prog" where
  "get_activity A h =
     bind (current_principal A h) (\<lambda>pid.
     bind (api (db_last_heartbeat pid)) (\<lambda>last.
     bind (api (db_list_principal_activity pid 20)) (\<lambda>events.
     ret \<lparr>ay_last_heartbeat_at = last,
          ay_next_heartbeat_due_at = map_option (\<lambda>t. t + days HEARTBEAT_DUE_DAYS) last,
          ay_events = map (\<lambda>(s, t, n). \<lparr>ae_source = s, ae_observed_at = t, ae_vault_name = n\<rparr>) events\<rparr>)))"

definition list_transparency_log :: "(string \<times> instant) list api_prog" where
  "list_transparency_log =
     bind (api (db_list_transparency_entries 200)) (\<lambda>entries.
     ret (map (\<lambda>e. (te_kind e, te_ts e)) entries))"

end
