(* ===== verification/RouteVault.thy ===== *)
theory RouteVault
  imports RouteBase
begin

text \<open>
  The handlers of src/crates/beacon-api/src/routes.rs for vaults: creation with its plan
  checks and default signal subscriptions, listing, settings, moving the storage region, and
  the contacts of a vault.
\<close>

section \<open>Creating a vault\<close>

record create_vault_req =
  cvq_name :: string
  cvq_tier :: "string option"
  cvq_cooling_off_seconds :: "int option"
  cvq_storage_region :: "string option"

definition resolve_storage_region :: "string option \<Rightarrow> plan_features \<Rightarrow> storage_region api_prog" where
  "resolve_storage_region requested plan = (case requested of
       None \<Rightarrow> ret region_default
     | Some s \<Rightarrow>
         bind (parse_or_bad_request [] (region_from_aws_str s)) (\<lambda>region.
         if region \<noteq> region_default \<and> \<not> pf_multi_region plan
         then throw (Forbidden (''Storing a Vault in '' @ region_display_name region @
           '' requires multi-region storage, which is not enabled on this deployment (default region: '' @
           region_display_name region_default @ '').''))
         else ret region))"

definition requested_tier :: "string option \<Rightarrow> tier" where
  "requested_tier t = (case t of
       Some s \<Rightarrow> if s = ''ZERO_KNOWLEDGE'' \<or> s = ''zero_knowledge'' then ZeroKnowledge else HonestOperator
     | None \<Rightarrow> HonestOperator)"

definition create_vault :: "app \<Rightarrow> headers \<Rightarrow> create_vault_req \<Rightarrow> vault_view api_prog" where
  "create_vault A h body =
     bind (current_principal A h) (\<lambda>pid.
     let tr = requested_tier (cvq_tier body) in
     bind (api (db_fetch_subscription pid)) (\<lambda>sub.
     andthen (check_authoring sub)
     (let plan = plan_features (sub_plan_id sub) in
      bind (api (db_vault_count pid)) (\<lambda>n.
      let current_vaults = as_u32 n in
      andthen (reject_if (pf_max_vaults plan \<le> current_vaults)
        (Forbidden (''Vault limit reached ('' @ dec (uint current_vaults) @ '' of '' @
           dec (uint (pf_max_vaults plan)) @
           '' allowed). Adjust MAX_VAULTS in your deployment configuration to increase it.'')))
      (bind (resolve_storage_region (cvq_storage_region body) plan) (\<lambda>region.
       let cool = unwrap_or (default_cooling_off_seconds A) (cvq_cooling_off_seconds body) in
       bind (api (db_create_vault pid (cvq_name body) tr cool region)) (\<lambda>vault.
       andthen (for_each (\<lambda>source.
           ignore (db_upsert_signal_subscription (v_id vault) source (default_weight source) True))
           [Heartbeat, BuddyAttestation, AppleIcloudShortcut])
       (andthen (ignore (db_append_transparency_entry ''VAULT_CREATED'' (Some pid) (Some (v_id vault))))
       (andthen (metrics_inc VaultsCreatedTotal)
         (ret (vault_view vault)))))))))))"

section \<open>Reading and settings\<close>

definition list_vaults :: "app \<Rightarrow> headers \<Rightarrow> vault_view list api_prog" where
  "list_vaults A h =
     bind (current_principal A h) (\<lambda>pid.
     bind (api (db_list_vaults pid)) (\<lambda>vs.
     ret (map vault_view vs)))"

definition get_vault :: "app \<Rightarrow> headers \<Rightarrow> vault_id \<Rightarrow> vault_view api_prog" where
  "get_vault A h v =
     bind (owned_vault A h v) (\<lambda>(pid, vault).
     ret (vault_view vault))"

record update_vault_req =
  uvq_name :: string
  uvq_cooling_off_seconds :: "int option"

definition update_vault :: "app \<Rightarrow> headers \<Rightarrow> vault_id \<Rightarrow> update_vault_req \<Rightarrow> vault_view api_prog" where
  "update_vault A h v body =
     bind (owned_vault A h v) (\<lambda>(pid, vault).
     andthen (reject_if (v_state vault = Released) (Conflict ''Cannot edit a released Vault''))
     (let name = trim (uvq_name body) in
      andthen (reject_if (name = []) (BadRequest ''name cannot be empty''))
      (let cooling_off_seconds = unwrap_or (v_cooling_off_seconds vault) (uvq_cooling_off_seconds body) in
       andthen (reject_if (cooling_off_seconds < 3600)
         (BadRequest ''cooling_off_seconds must be at least 3600 (1 hour)''))
       (bind (api (db_update_vault v name cooling_off_seconds)) (\<lambda>updated.
        ret (vault_view updated))))))"

section \<open>Moving the storage region\<close>

text \<open>One round of the loop over the vault's attachments.\<close>

definition move_attachment :: "app \<Rightarrow> storage_region \<Rightarrow> attachment \<Rightarrow> unit api_prog" where
  "move_attachment A target att = (case parse_key (at_storage_key att) of (cur_region, kid) \<Rightarrow>
     if cur_region = Some (region_as_aws_str target) then ret ()
     else bind (blob (blob_get A (at_storage_key att))) (\<lambda>bs.
       bind (blob (blob_put A (region_as_aws_str target) bs)) (\<lambda>new_key.
       andthen (api (db_update_attachment_storage_key (at_id att) new_key))
         (ignore (blob_delete A (at_storage_key att))))))"

definition move_vault_region :: "app \<Rightarrow> headers \<Rightarrow> vault_id \<Rightarrow> string \<Rightarrow> vault_view api_prog" where
  "move_vault_region A h v region =
     bind (owned_vault A h v) (\<lambda>(pid, vault).
     bind (api (db_fetch_subscription pid)) (\<lambda>sub.
     let plan = plan_features (sub_plan_id sub) in
     andthen (reject_if (\<not> pf_multi_region plan)
       (Forbidden (''Moving a Vault'' @ [CHR 39] @ ''s storage region is not enabled for this deployment.'')))
     (bind (parse_or_bad_request [] (region_from_aws_str region)) (\<lambda>target.
      if target = v_storage_region vault then ret (vault_view vault)
      else
        bind (api (db_list_attachments_for_vault (v_id vault))) (\<lambda>atts.
        andthen (for_each (move_attachment A target) atts)
        (bind (api (db_set_vault_storage_region (v_id vault) target)) (\<lambda>updated.
         andthen (ignore (db_append_transparency_entry ''VAULT_REGION_MOVED'' (Some pid) (Some (v_id vault))))
           (ret (vault_view updated)))))))))"

section \<open>Contacts\<close>

record create_vault_contact_req =
  ccq_display_name :: string
  ccq_email :: string
  ccq_birthday :: "string option"
  ccq_release_note :: "string option"

record vault_contact_view =
  cov_id :: uuid
  cov_display_name :: string
  cov_email :: string
  cov_birthday :: "string option"
  cov_release_note :: "string option"
  cov_created_at :: instant

definition vault_contact_view :: "contact_row \<Rightarrow> vault_contact_view" where
  "vault_contact_view c =
     \<lparr>cov_id = ct_id c, cov_display_name = ct_display_name c, cov_email = ct_email c,
      cov_birthday = ct_birthday c, cov_release_note = ct_release_note c,
      cov_created_at = ct_created_at c\<rparr>"

definition list_vault_contacts :: "app \<Rightarrow> headers \<Rightarrow> vault_id \<Rightarrow> vault_contact_view list api_prog" where
  "list_vault_contacts A h v =
     bind (owned_vault A h v) (\<lambda>(pid, vault).
     bind (api (db_list_vault_contacts (v_id vault))) (\<lambda>cs.
     ret (map vault_contact_view cs)))"

definition create_vault_contact ::
  "app \<Rightarrow> headers \<Rightarrow> vault_id \<Rightarrow> create_vault_contact_req \<Rightarrow> vault_contact_view api_prog" where
  "create_vault_contact A h v body =
     bind (owned_vault A h v) (\<lambda>(pid, vault).
     andthen (reject_if (CHR ''@'' \<notin> set (ccq_email body)) (BadRequest ''email looks invalid''))
     (bind (api (db_create_vault_contact A (v_id vault) (ccq_display_name body) (ccq_email body)
                   (ccq_birthday body) (ccq_release_note body))) (\<lambda>c.
      ret (vault_contact_view c))))"

definition update_vault_contact ::
  "app \<Rightarrow> headers \<Rightarrow> vault_id \<Rightarrow> uuid \<Rightarrow> create_vault_contact_req \<Rightarrow> vault_contact_view api_prog" where
  "update_vault_contact A h v contact body =
     bind (owned_vault A h v) (\<lambda>(pid, vault).
     bind (api (db_update_vault_contact A contact (v_id vault) (ccq_display_name body)
                  (ccq_email body) (ccq_birthday body) (ccq_release_note body))) (\<lambda>c.
     ret (vault_contact_view c)))"

definition delete_vault_contact :: "app \<Rightarrow> headers \<Rightarrow> vault_id \<Rightarrow> uuid \<Rightarrow> unit api_prog" where
  "delete_vault_contact A h v contact =
     bind (owned_vault A h v) (\<lambda>(pid, vault).
     api (db_delete_vault_contact contact (v_id vault)))"

end
