(* ===== verification/RouteLetter.thy ===== *)
theory RouteLetter
  imports RouteBase
begin

text \<open>
  The handlers of src/crates/beacon-api/src/routes.rs that write and read the letters of a
  vault: sealing with a schedule, with attachments, and into a Private Vault; listing,
  editing, deleting, exporting. A text is its UTF-8 bytes, one \<open>char\<close> each.
\<close>

section \<open>Encodings\<close>

text \<open>\<open>hex::decode\<close>: pairs of digits in either case.\<close>

definition hex_value :: "char \<Rightarrow> nat option" where
  "hex_value c = (let n = (of_char c :: nat) in
     if 48 \<le> n \<and> n \<le> 57 then Some (n - 48)
     else if 97 \<le> n \<and> n \<le> 102 then Some (n - 87)
     else if 65 \<le> n \<and> n \<le> 70 then Some (n - 55) else None)"

fun hex_decode :: "string \<Rightarrow> bytes option" where
  "hex_decode [] = Some []"
| "hex_decode [c] = None"
| "hex_decode (c # d # s) = (case (hex_value c, hex_value d, hex_decode s) of
       (Some x, Some y, Some bs) \<Rightarrow> Some (of_nat (16 * x + y) # bs)
     | _ \<Rightarrow> None)"

definition from_utf8 :: "bytes \<Rightarrow> string option" where
  "from_utf8 bs = (if utf8_valid bs then Some (map (\<lambda>b. char_of (unat b)) bs) else None)"

lemma char_of_byte: "char_of (unat (of_char c :: byte)) = c"
proof -
  have "(of_char c :: byte) = of_nat (of_char c :: nat)" by (simp add: of_nat_of_char)
  then have "unat (of_char c :: byte) = of_char c mod 256" by (simp only: unat_of_nat) simp
  then show ?thesis by simp
qed

lemma from_utf8_as_bytes: "utf8_valid (as_bytes s) \<Longrightarrow> from_utf8 (as_bytes s) = Some s"
  by (simp add: from_utf8_def as_bytes_def comp_def char_of_byte)

text \<open>\<open>s.chars().count()\<close>: the bytes of a text that are not continuation bytes.\<close>

definition chars_count :: "string \<Rightarrow> nat" where
  "chars_count s = length (filter (\<lambda>b. \<not> cont b) (as_bytes s))"

section \<open>Sealing\<close>

record seal_letter_req =
  slq_title :: string
  slq_recipient_email :: string
  slq_body :: string
  slq_drill_body :: "string option"
  slq_scheduled_release_at :: "instant option"
  slq_kind :: "string option"
  slq_category :: "string option"
  slq_release_mode :: "string option"

definition seal_letter :: "app \<Rightarrow> headers \<Rightarrow> vault_id \<Rightarrow> seal_letter_req \<Rightarrow> letter_meta_view api_prog" where
  "seal_letter A h v body =
     bind (owned_vault A h v) (\<lambda>(pid, vault).
     andthen (validate_letter_kind (slq_kind body))
     (andthen (validate_release_mode (slq_release_mode body) (slq_scheduled_release_at body))
     (bind (api (db_fetch_subscription pid)) (\<lambda>sub.
      andthen (check_authoring sub)
      (andthen (check_sealable vault)
      (let plan = plan_features (sub_plan_id sub) in
       andthen (check_letter_quota plan vault)
       (andthen (check_schedule plan (slq_scheduled_release_at body))
       (bind (crypt (seal A (as_bytes (slq_body body)))) (\<lambda>sealed.
        bind (case slq_drill_body body of
            None \<Rightarrow> ret None
          | Some dbody \<Rightarrow> bind (crypt (seal A (as_bytes dbody))) (\<lambda>d. ret (Some d))) (\<lambda>drill_sealed.
        bind (api (db_seal_letter
           \<lparr>li_vault_id = v_id vault, li_title = slq_title body,
            li_recipient_email = slq_recipient_email body,
            li_ciphertext = sd_ciphertext sealed, li_nonce = sd_nonce sealed,
            li_drill_ciphertext = map_option sd_ciphertext drill_sealed,
            li_drill_nonce = map_option sd_nonce drill_sealed,
            li_scheduled_release_at = slq_scheduled_release_at body,
            li_kind = slq_kind body, li_category = slq_category body,
            li_release_mode = slq_release_mode body\<rparr>)) (\<lambda>letter.
        andthen (ignore (db_append_transparency_entry ''LETTER_SEALED'' (Some pid) (Some (v_id vault))))
        (andthen (metrics_inc LettersSealedTotal)
          (ret (letter_meta_view letter (slq_scheduled_release_at body)))))))))))))))"

section \<open>Reading, editing, deleting\<close>

definition list_letters :: "app \<Rightarrow> headers \<Rightarrow> vault_id \<Rightarrow> letter_meta_view list api_prog" where
  "list_letters A h v =
     bind (owned_vault A h v) (\<lambda>(pid, vault).
     bind (api (db_list_letters (v_id vault))) (\<lambda>ls.
     ret (map (\<lambda>l. letter_meta_view l None) ls)))"

definition get_letter :: "app \<Rightarrow> headers \<Rightarrow> vault_id \<Rightarrow> letter_id \<Rightarrow> letter_meta_view api_prog" where
  "get_letter A h v l =
     bind (owned_letter A h v l) (\<lambda>letter. ret (letter_meta_view letter None))"

record update_letter_req =
  ulq_title :: string
  ulq_recipient_email :: string
  ulq_scheduled_release_at :: "instant option"
  ulq_release_mode :: "string option"
  ulq_kind :: "string option"

definition update_letter ::
  "app \<Rightarrow> headers \<Rightarrow> vault_id \<Rightarrow> letter_id \<Rightarrow> update_letter_req \<Rightarrow> letter_meta_view api_prog" where
  "update_letter A h v l body =
     bind (owned_letter A h v l) (\<lambda>existing.
     let release_mode = unwrap_or ''SIGNAL_OR_SCHEDULED'' (ulq_release_mode body);
         kind = unwrap_or ''MESSAGE'' (ulq_kind body)
     in andthen (validate_letter_kind (Some kind))
       (andthen (validate_release_mode (Some release_mode) (ulq_scheduled_release_at body))
       (andthen (reject_if (CHR ''@'' \<notin> set (ulq_recipient_email body))
          (BadRequest ''recipient_email looks invalid''))
       (bind (api (db_update_letter_meta l (ulq_title body) (ulq_recipient_email body)
                     (ulq_scheduled_release_at body) release_mode kind)) (\<lambda>letter.
        ret (letter_meta_view letter (ulq_scheduled_release_at body)))))))"

definition purge_and_delete :: "app \<Rightarrow> attachment \<Rightarrow> unit api_prog" where
  "purge_and_delete A att =
     bind (api (db_purge_attachment (at_id att))) (\<lambda>key.
     case key of None \<Rightarrow> ret () | Some k \<Rightarrow> ignore (blob_delete A k))"

definition delete_letter_handler :: "app \<Rightarrow> headers \<Rightarrow> vault_id \<Rightarrow> letter_id \<Rightarrow> unit api_prog" where
  "delete_letter_handler A h v l =
     bind (owned_letter A h v l) (\<lambda>existing.
     bind (api (db_list_attachments l)) (\<lambda>atts.
     andthen (for_each (purge_and_delete A) atts)
       (api (db_delete_letter l))))"

section \<open>Export\<close>

record letter_export_bundle =
  xb_format_version :: nat
  xb_letter_id :: letter_id
  xb_vault_id :: vault_id
  xb_title :: string
  xb_recipient_email :: string
  xb_sealed_at :: instant
  xb_scheduled_release_at :: "instant option"
  xb_kind :: string
  xb_category :: "string option"
  xb_release_mode :: string
  xb_ciphertext_b64 :: string
  xb_nonce_b64 :: string
  xb_salt_b64 :: string
  xb_kdf :: string
  xb_note :: string

definition escape_quotes :: "string \<Rightarrow> string" where
  "escape_quotes s = concat (map (\<lambda>c. if c = CHR 39 then [CHR 92, CHR 39] else [c]) s)"

definition export_note :: "string \<Rightarrow> string" where
  "export_note title =
     ''Paschal Letter export. To open: decrypt ciphertext with AES-256-GCM '' @
     ''using nonce_b64 and a 32-byte key derived from your passphrase as '' @
     ''SHA-256('' @ [CHR 39] @ ''paschal/passphrase-kek/v1'' @ [CHR 39] @
     '' || salt_b64 || passphrase). '' @
     ''The plaintext is the body of '' @ [CHR 39] @ escape_quotes title @ [CHR 39] @ ''.''"

definition passphrase_too_short :: string where
  "passphrase_too_short =
     ''passphrase must be at least 12 characters '' @ em_dash @ '' there is no recovery if it'' @
     [CHR 39] @ ''s lost''"

definition export_letter ::
  "app \<Rightarrow> headers \<Rightarrow> vault_id \<Rightarrow> letter_id \<Rightarrow> string \<Rightarrow> letter_export_bundle api_prog" where
  "export_letter A h v l passphrase =
     bind (current_principal A h) (\<lambda>pid.
     andthen (reject_if (chars_count passphrase < 12) (BadRequest passphrase_too_short))
     (bind (api (db_fetch_vault v)) (\<lambda>vault.
      andthen (reject_if (v_principal_id vault \<noteq> pid) NotFound)
      (andthen (reject_if (v_tier vault = ZeroKnowledge)
        (Conflict (''Private (Zero-Knowledge) Vault letters are encrypted in your browser and '' @
          ''can'' @ [CHR 39] @ ''t be exported server-side. Open and save them from the Vault page.'')))
      (bind (api (db_fetch_letter_full l)) (\<lambda>letter.
       andthen (reject_if (lf_vault_id letter \<noteq> v_id vault) NotFound)
       (andthen (reject_if (length (lf_nonce letter) \<noteq> 12)
         (BadRequest ''letter is missing its ciphertext; was it crypto-erased?''))
       (andthen (reject_if (lf_ciphertext letter = [])
         (Conflict ''letter has been crypto-erased and can no longer be exported''))
       (bind (crypt (unseal A \<lparr>sd_nonce = lf_nonce letter, sd_ciphertext = lf_ciphertext letter\<rparr>)) (\<lambda>plaintext.
        bind (crypt (seal_with_passphrase A plaintext passphrase)) (\<lambda>exported.
        andthen (ignore (db_append_transparency_entry ''LETTER_EXPORTED'' (Some pid) (Some (v_id vault))))
          (ret \<lparr>xb_format_version = 1, xb_letter_id = lf_id letter, xb_vault_id = lf_vault_id letter,
                xb_title = lf_title letter, xb_recipient_email = lf_recipient_email letter,
                xb_sealed_at = lf_sealed_at letter,
                xb_scheduled_release_at = lf_scheduled_release_at letter,
                xb_kind = lf_kind letter, xb_category = lf_category letter,
                xb_release_mode = lf_release_mode letter,
                xb_ciphertext_b64 = b64url A (ps_ciphertext exported),
                xb_nonce_b64 = b64url A (ps_nonce exported),
                xb_salt_b64 = b64url A (ps_salt exported),
                xb_kdf = ''sha256-prefix-v1'', xb_note = export_note (lf_title letter)\<rparr>))))))))))))"

end
