(* ===== verification/RouteUpload.thy ===== *)
theory RouteUpload
  imports RouteLetter
begin

text \<open>
  \<open>seal_letter_multipart\<close> of src/crates/beacon-api/src/routes.rs. The multipart parser is
  axum's: the request is the sequence of what \<open>next_field\<close> returns, an error or a field with
  the results of its \<open>text()\<close> and \<open>bytes()\<close>.
\<close>

section \<open>The form\<close>

record mp_field =
  mf_name :: "string option"
  mf_file_name :: "string option"
  mf_content_type :: "string option"
  mf_text :: "string + string"
  mf_bytes :: "string + bytes"

type_synonym multipart = "(string + mp_field) list"

record mp_form =
  mp_title :: "string option"
  mp_recipient_email :: "string option"
  mp_body :: "string option"
  mp_kind :: "string option"
  mp_category :: "string option"
  mp_release_mode :: "string option"
  mp_scheduled_release_at :: "instant option"
  mp_files :: "(string \<times> string \<times> bytes) list"

definition empty_form :: mp_form where
  "empty_form = \<lparr>mp_title = None, mp_recipient_email = None, mp_body = None, mp_kind = None,
     mp_category = None, mp_release_mode = None, mp_scheduled_release_at = None, mp_files = []\<rparr>"

text \<open>\<open>map_err(|e| BadRequest(format!("what: {e}")))\<close>.\<close>

definition or_bad :: "string \<Rightarrow> (string + 'a) \<Rightarrow> 'a api_prog" where
  "or_bad what x = (case x of Inl e \<Rightarrow> throw (BadRequest (what @ '': '' @ e)) | Inr y \<Rightarrow> ret y)"

definition read_field :: "app \<Rightarrow> mp_field \<Rightarrow> mp_form \<Rightarrow> mp_form api_prog" where
  "read_field A field acc =
     (let name = unwrap_or [] (mf_name field) in
      if name = ''title'' then bind (or_bad ''title'' (mf_text field)) (\<lambda>s. ret (acc\<lparr>mp_title := Some s\<rparr>))
      else if name = ''recipient_email'' then
        bind (or_bad ''recipient_email'' (mf_text field)) (\<lambda>s. ret (acc\<lparr>mp_recipient_email := Some s\<rparr>))
      else if name = ''body'' then bind (or_bad ''body'' (mf_text field)) (\<lambda>s. ret (acc\<lparr>mp_body := Some s\<rparr>))
      else if name = ''kind'' then bind (or_bad ''kind'' (mf_text field)) (\<lambda>s. ret (acc\<lparr>mp_kind := Some s\<rparr>))
      else if name = ''category'' then
        bind (or_bad ''category'' (mf_text field)) (\<lambda>s. ret (acc\<lparr>mp_category := Some s\<rparr>))
      else if name = ''release_mode'' then
        bind (or_bad ''release_mode'' (mf_text field)) (\<lambda>s. ret (acc\<lparr>mp_release_mode := Some s\<rparr>))
      else if name = ''scheduled_release_at'' then
        bind (or_bad ''scheduled_release_at'' (mf_text field)) (\<lambda>s.
        bind (or_bad ''scheduled_release_at'' (parse_rfc3339 A s)) (\<lambda>t.
        ret (acc\<lparr>mp_scheduled_release_at := Some t\<rparr>)))
      else if name = ''file'' then
        (let filename = unwrap_or ''unnamed'' (mf_file_name field);
             mime = unwrap_or ''application/octet-stream'' (mf_content_type field)
         in bind (or_bad ''file body'' (mf_bytes field)) (\<lambda>bs.
            andthen (reject_if (max_upload_bytes A < length bs)
              (BadRequest (''file '' @ quoted filename @ '' exceeds MAX_UPLOAD_BYTES ('' @
                 dec_digits (length bs) @ '' > '' @ dec_digits (max_upload_bytes A) @ '')'')))
              (ret (acc\<lparr>mp_files := mp_files acc @ [(filename, mime, bs)]\<rparr>))))
      else ret acc)"

fun read_form :: "app \<Rightarrow> multipart \<Rightarrow> mp_form \<Rightarrow> mp_form api_prog" where
  "read_form A [] acc = ret acc"
| "read_form A (x # xs) acc =
     bind (or_bad ''multipart'' x) (\<lambda>field.
     bind (read_field A field acc) (\<lambda>acc'. read_form A xs acc'))"

section \<open>Sealing\<close>

definition upload_total :: "(string \<times> string \<times> bytes) list \<Rightarrow> u64" where
  "upload_total files = sum_list (map (\<lambda>(_, _, b). of_nat (length b)) files)"

definition as_u64 :: "int \<Rightarrow> u64" where
  "as_u64 n = word_of_int n"

text \<open>The sum on \<open>u64\<close> wraps, as in a release build.\<close>

definition check_storage_quota ::
  "principal_id \<Rightarrow> subscription \<Rightarrow> (string \<times> string \<times> bytes) list \<Rightarrow> unit api_prog" where
  "check_storage_quota pid sub files =
     bind (api (db_storage_used pid)) (\<lambda>n.
     let current_storage = as_u64 n; effective_quota = effective_storage_bytes sub in
     reject_if (effective_quota < current_storage + upload_total files)
       (Forbidden (''Storage quota exceeded: '' @ dec (uint current_storage) @ '' bytes used of '' @
          dec (uint effective_quota) @ '' allowed; this upload would add '' @
          dec (uint (upload_total files)) @ '' bytes.'')))"

text \<open>One file: transform, seal, store the ciphertext, record the row.\<close>

definition seal_file ::
  "app \<Rightarrow> principal_id \<Rightarrow> vault \<Rightarrow> letter_id \<Rightarrow> string \<times> string \<times> bytes \<Rightarrow> attachment_view api_prog" where
  "seal_file A pid vault l f = (case f of (filename, original_mime, bs) \<Rightarrow>
     bind (case apply_pipeline A default_pipeline bs original_mime (max_upload_bytes A) of
         Inl e \<Rightarrow> throw (BadRequest (''transform failed for '' @ quoted filename @ '': '' @ transform_error_display e))
       | Inr t \<Rightarrow> ret t) (\<lambda>transformed.
     bind (crypt (seal A (tr_bytes transformed))) (\<lambda>attachment_sealed.
     bind (blob (blob_put A (region_as_aws_str (v_storage_region vault))
                    (sd_ciphertext attachment_sealed))) (\<lambda>storage_key.
     bind (ok_or Internal (hex_decode (tr_sha256_hex transformed))) (\<lambda>sha256_bytes.
     bind (api (db_create_attachment
        \<lparr>ai_letter_id = l, ai_original_filename = filename, ai_original_mime = original_mime,
         ai_original_size = int (length bs), ai_transformed_mime = tr_mime transformed,
         ai_transformed_size = int (length (tr_bytes transformed)), ai_sha256 = sha256_bytes,
         ai_storage_key = storage_key, ai_nonce = sd_nonce attachment_sealed\<rparr>)) (\<lambda>attachment.
     andthen (ignore (db_append_transparency_entry ''ATTACHMENT_SEALED'' (Some pid) (Some (v_id vault))))
     (andthen (metrics_inc AttachmentsSealedTotal)
     (andthen (metrics_add AttachmentsBytesTotal (as_u64 (at_transformed_size attachment)))
       (ret (attachment_view attachment))))))))))"

record letter_with_attachments_view =
  lav_id :: letter_id
  lav_title :: string
  lav_recipient_email :: string
  lav_sealed_at :: instant
  lav_attachments :: "attachment_view list"

definition seal_letter_multipart ::
  "app \<Rightarrow> headers \<Rightarrow> vault_id \<Rightarrow> multipart \<Rightarrow> letter_with_attachments_view api_prog" where
  "seal_letter_multipart A h v multipart =
     bind (owned_vault A h v) (\<lambda>(pid, vault).
     bind (api (db_fetch_subscription pid)) (\<lambda>sub.
     andthen (check_authoring sub)
     (andthen (check_sealable vault)
     (bind (read_form A multipart empty_form) (\<lambda>form.
      bind (ok_or (BadRequest ''title is required'') (mp_title form)) (\<lambda>title.
      bind (ok_or (BadRequest ''recipient_email is required'') (mp_recipient_email form)) (\<lambda>recipient_email.
      let body = unwrap_or [] (mp_body form); files = mp_files form in
      andthen (reject_if (body = [] \<and> files = [])
        (BadRequest ''either body or at least one file must be supplied''))
      (let plan = plan_features (sub_plan_id sub) in
       andthen (check_letter_quota plan vault)
       (andthen (check_storage_quota pid sub files)
       (andthen (validate_letter_kind (mp_kind form))
       (andthen (validate_release_mode (mp_release_mode form) (mp_scheduled_release_at form))
       (andthen (check_schedule plan (mp_scheduled_release_at form))
       (bind (crypt (seal A (as_bytes body))) (\<lambda>sealed.
        bind (api (db_seal_letter
           \<lparr>li_vault_id = v_id vault, li_title = title, li_recipient_email = recipient_email,
            li_ciphertext = sd_ciphertext sealed, li_nonce = sd_nonce sealed,
            li_drill_ciphertext = None, li_drill_nonce = None,
            li_scheduled_release_at = mp_scheduled_release_at form, li_kind = mp_kind form,
            li_category = mp_category form, li_release_mode = mp_release_mode form\<rparr>)) (\<lambda>letter.
        bind (collect (seal_file A pid vault (lm_id letter)) files) (\<lambda>attachment_views.
        andthen (metrics_inc LettersSealedTotal)
        (andthen (ignore (db_append_transparency_entry ''LETTER_SEALED'' (Some pid) (Some (v_id vault))))
          (ret \<lparr>lav_id = lm_id letter, lav_title = lm_title letter,
                lav_recipient_email = lm_recipient_email letter,
                lav_sealed_at = lm_sealed_at letter, lav_attachments = attachment_views\<rparr>))))))))))))))))))"

end
