(* ===== verification/RouteZk.thy ===== *)
theory RouteZk
  imports RouteLetter
begin

text \<open>
  Letters of Private (Zero-Knowledge) Vaults, from src/crates/beacon-api/src/routes.rs: the
  body arrives encrypted, and an optional heir envelope is stored for the recipient.
\<close>

record seal_zk_letter_req =
  szq_title :: string
  szq_recipient_email :: string
  szq_ciphertext :: string
  szq_nonce :: string
  szq_scheduled_release_at :: "instant option"
  szq_kind :: "string option"
  szq_category :: "string option"
  szq_release_mode :: "string option"
  szq_heir_ciphertext :: "string option"
  szq_heir_nonce :: "string option"
  szq_heir_mode :: "string option"
  szq_heir_salt :: "string option"
  szq_heir_release_secret :: "string option"
  szq_heir_recipient_share :: "string option"

text \<open>The envelope of the letter, once the letter is stored: whether there is one.\<close>

definition store_heir_envelope :: "app \<Rightarrow> letter_id \<Rightarrow> seal_zk_letter_req \<Rightarrow> bool api_prog" where
  "store_heir_envelope A l body =
     (let heir_mode = unwrap_or ''manual'' (szq_heir_mode body) in
      case (szq_heir_ciphertext body, szq_heir_nonce body) of
        (Some hc, Some hn) \<Rightarrow>
          bind (ok_or (BadRequest ''heir_ciphertext must be base64url'') (b64url_decode A hc)) (\<lambda>ciphertext.
          bind (ok_or (BadRequest ''heir_nonce must be base64url'') (b64url_decode A hn)) (\<lambda>nonce.
          andthen (reject_if (length nonce \<noteq> 12) (BadRequest ''heir_nonce must be 12 bytes''))
          (andthen
            (if heir_mode = ''manual'' then
               bind (ok_or (BadRequest ''manual heir mode needs heir_salt'') (szq_heir_salt body)) (\<lambda>salt_hex.
               bind (ok_or (BadRequest ''heir_salt must be hex'') (hex_decode salt_hex)) (\<lambda>salt.
               api (db_upsert_zk_letter_heir_envelope l ciphertext nonce ''manual'' (Some salt) None)))
             else if heir_mode = ''split'' then
               bind (ok_or (BadRequest ''split heir mode needs heir_release_secret'') (szq_heir_release_secret body)) (\<lambda>share_b64.
               bind (ok_or (BadRequest ''heir_release_secret must be base64url'') (b64url_decode A share_b64)) (\<lambda>op_share.
               bind (ok_or (BadRequest ''split heir mode needs heir_recipient_share'') (szq_heir_recipient_share body)) (\<lambda>rcpt_share.
               andthen (api (db_upsert_zk_letter_heir_envelope l ciphertext nonce ''split'' None (Some op_share)))
                 (notify (HeirShare (szq_recipient_email body) rcpt_share)))))
             else if heir_mode = ''operator'' then
               bind (ok_or (BadRequest ''operator heir mode needs heir_release_secret'') (szq_heir_release_secret body)) (\<lambda>key_b64.
               bind (ok_or (BadRequest ''heir_release_secret must be base64url'') (b64url_decode A key_b64)) (\<lambda>key.
               api (db_upsert_zk_letter_heir_envelope l ciphertext nonce ''operator'' None (Some key))))
             else throw (BadRequest (''unknown heir_mode '' @ quoted heir_mode)))
            (ret True))))
      | _ \<Rightarrow> ret False)"

definition check_zk_schedule :: "plan_features \<Rightarrow> instant option \<Rightarrow> unit api_prog" where
  "check_zk_schedule plan scheduled_release_at = (case scheduled_release_at of
       None \<Rightarrow> ret ()
     | Some t \<Rightarrow> bind now (\<lambda>n.
         if t < n then throw (BadRequest ''scheduled_release_at must be in the future'')
         else if n + days (pf_scheduled_horizon_days plan) < t
         then throw (BadRequest (''Scheduled releases are limited to '' @
           dec (pf_scheduled_horizon_days plan) @ '' days in the future. '' @
           ''Adjust the scheduled-release horizon in your deployment configuration to extend it.''))
         else ret ()))"

definition check_zk_quota :: "plan_features \<Rightarrow> vault \<Rightarrow> unit api_prog" where
  "check_zk_quota plan vault =
     bind (api (db_letter_count (v_id vault))) (\<lambda>n.
     let current_letters = as_u32 n in
     reject_if (pf_max_letters_per_vault plan \<le> current_letters)
       (Forbidden (''Letter limit reached ('' @ dec (uint current_letters) @ '' of '' @
          dec (uint (pf_max_letters_per_vault plan)) @
          '' per Vault). Adjust the plan limits in your deployment configuration to increase it.'')))"

definition seal_zk_letter ::
  "app \<Rightarrow> headers \<Rightarrow> vault_id \<Rightarrow> seal_zk_letter_req \<Rightarrow> letter_meta_view api_prog" where
  "seal_zk_letter A h v body =
     bind (owned_vault A h v) (\<lambda>(pid, vault).
     andthen (reject_if (v_tier vault \<noteq> ZeroKnowledge)
       (BadRequest (''This endpoint is for Private (Zero-Knowledge) Vaults. Use /letters to '' @
          ''seal in a Standard Vault.'')))
     (andthen (validate_letter_kind (szq_kind body))
     (andthen (validate_release_mode (szq_release_mode body) (szq_scheduled_release_at body))
     (bind (api (db_fetch_subscription pid)) (\<lambda>sub.
      andthen (check_authoring sub)
      (andthen (check_sealable vault)
      (let plan = plan_features (sub_plan_id sub) in
       andthen (check_zk_quota plan vault)
       (andthen (check_zk_schedule plan (szq_scheduled_release_at body))
       (bind (ok_or (BadRequest ''ciphertext must be base64url'') (b64url_decode A (szq_ciphertext body))) (\<lambda>ciphertext.
        bind (ok_or (BadRequest ''nonce must be base64url'') (b64url_decode A (szq_nonce body))) (\<lambda>nonce.
        andthen (reject_if (ciphertext = []) (BadRequest ''ciphertext is empty''))
        (andthen (reject_if (length nonce \<noteq> 12) (BadRequest ''nonce must be 12 bytes''))
        (bind (api (db_seal_letter
           \<lparr>li_vault_id = v_id vault, li_title = szq_title body,
            li_recipient_email = szq_recipient_email body,
            li_ciphertext = ciphertext, li_nonce = nonce,
            li_drill_ciphertext = None, li_drill_nonce = None,
            li_scheduled_release_at = szq_scheduled_release_at body,
            li_kind = szq_kind body, li_category = szq_category body,
            li_release_mode = szq_release_mode body\<rparr>)) (\<lambda>letter.
         bind (store_heir_envelope A (lm_id letter) body) (\<lambda>has_heir.
         andthen (ignore (db_append_transparency_entry ''LETTER_SEALED'' (Some pid) (Some (v_id vault))))
         (andthen (metrics_inc LettersSealedTotal)
           (ret (letter_meta_view letter (szq_scheduled_release_at body)))))))))))))))))))"

record zk_letter_ciphertext_view =
  zlv_ciphertext :: string
  zlv_nonce :: string

definition get_zk_letter_ciphertext ::
  "app \<Rightarrow> headers \<Rightarrow> vault_id \<Rightarrow> letter_id \<Rightarrow> zk_letter_ciphertext_view api_prog" where
  "get_zk_letter_ciphertext A h v l =
     bind (owned_vault A h v) (\<lambda>(pid, vault).
     andthen (reject_if (v_tier vault \<noteq> ZeroKnowledge)
       (BadRequest ''This endpoint is for Private (Zero-Knowledge) Vaults.''))
     (bind (api (db_fetch_letter_full l)) (\<lambda>letter.
      andthen (reject_if (lf_vault_id letter \<noteq> v_id vault) NotFound)
      (andthen (reject_if (lf_ciphertext letter = [])
        (Conflict ''letter has been crypto-erased and can no longer be opened''))
        (ret \<lparr>zlv_ciphertext = b64url A (lf_ciphertext letter),
              zlv_nonce = b64url A (lf_nonce letter)\<rparr>)))))"

end
