(* ===== verification/RouteRelease.thy ===== *)
theory RouteRelease
  imports RouteLetter
begin

text \<open>
  The release handlers of src/crates/beacon-api/src/routes.rs (force, cancel, drill) and the
  recipient's side: claiming a letter and claiming an attachment.
\<close>

section \<open>Force, cancel, drill\<close>

definition force_release :: "app \<Rightarrow> headers \<Rightarrow> vault_id \<Rightarrow> force_release_resp api_prog" where
  "force_release A h v =
     bind (owned_vault A h v) (\<lambda>(pid, vault).
     bind (api (db_fetch_subscription pid)) (\<lambda>sub.
     andthen (reject_if (\<not> allows_release (sub_state sub))
       (Forbidden (''Subscription state '' @ subscription_state_debug (sub_state sub) @
          '' does not permit release'')))
     (andthen (reject_if (v_state vault \<noteq> Active)
       (Conflict (''Vault state is '' @ vault_state_debug (v_state vault) @
          ''; force-release requires ACTIVE'')))
     (andthen (reject_if (\<not> can_transition (v_state vault) CoolingOff)
       (Conflict ''cannot enter cooling-off''))
       (begin_release (v_id vault) ManualPrincipalRelease False)))))"

definition cancel_release :: "app \<Rightarrow> headers \<Rightarrow> vault_id \<Rightarrow> vault_view api_prog" where
  "cancel_release A h v =
     bind (owned_vault A h v) (\<lambda>(pid, vault).
     andthen (reject_if (v_state vault \<noteq> CoolingOff)
       (Conflict (''Vault is in state '' @ vault_state_debug (v_state vault) @ ''; nothing to cancel'')))
     (bind (api (db_set_vault_state (v_id vault) Active None None)) (\<lambda>updated.
      bind (attempt (db_fetch_open_release (v_id vault))) (\<lambda>open.
      andthen (case open of
          Inr (Some e) \<Rightarrow> ignore (db_mark_release_cancelled (re_id e))
        | _ \<Rightarrow> ret ())
      (andthen (ignore (db_append_transparency_entry ''COOLING_OFF_CANCELLED'' (Some pid) (Some (v_id vault))))
      (bind (api (db_fetch_principal pid)) (\<lambda>who.
       andthen (notify (CoolingOffCancelled (p_primary_email who)))
         (ret (vault_view updated)))))))))"

definition run_drill :: "app \<Rightarrow> headers \<Rightarrow> vault_id \<Rightarrow> force_release_resp api_prog" where
  "run_drill A h v =
     bind (owned_vault A h v) (\<lambda>(pid, vault).
     bind (api (db_fetch_subscription pid)) (\<lambda>sub.
     andthen (reject_if (\<not> allows_release (sub_state sub))
       (Forbidden (''Subscription state '' @ subscription_state_debug (sub_state sub) @
          '' does not permit drills'')))
     (andthen (reject_if (v_state vault \<noteq> Active)
       (Conflict (''Drill requires Vault state ACTIVE; currently '' @ vault_state_debug (v_state vault))))
       (begin_release_with_cool (v_id vault) Drill True 3))))"

section \<open>Claiming a letter\<close>

record claim_view =
  clv_title :: string
  clv_recipient_email :: string
  clv_body :: string
  clv_is_drill :: bool
  clv_zk :: bool
  clv_heir_mode :: "string option"
  clv_heir_ciphertext :: "string option"
  clv_heir_nonce :: "string option"
  clv_heir_salt :: "string option"
  clv_heir_release_secret :: "string option"

definition binary_letter :: string where
  "binary_letter = ''(binary Letter '' @ em_dash @ '' viewer not yet implemented)''"

definition claim_release :: "app \<Rightarrow> string \<Rightarrow> claim_view api_prog" where
  "claim_release A token =
     bind (api (db_consume_release_claim (hash_token A token))) (\<lambda>found.
     bind (ok_or NotFound found) (\<lambda>(l, rcpt0, is_drill).
     bind (api (db_fetch_letter_full l)) (\<lambda>letter.
     bind (api (db_fetch_vault (lf_vault_id letter))) (\<lambda>vault.
     if v_tier vault = ZeroKnowledge then
       bind (api (db_get_zk_letter_heir_envelope l)) (\<lambda>heir.
       ret \<lparr>clv_title = lf_title letter, clv_recipient_email = lf_recipient_email letter,
            clv_body = [], clv_is_drill = is_drill, clv_zk = True,
            clv_heir_mode = map_option he_mode heir,
            clv_heir_ciphertext = map_option (b64url A \<circ> he_ciphertext) heir,
            clv_heir_nonce = map_option (b64url A \<circ> he_nonce) heir,
            clv_heir_salt = Option.bind heir (\<lambda>e. map_option hex_encode (he_salt e)),
            clv_heir_release_secret = Option.bind heir (\<lambda>e. map_option (b64url A) (he_release_secret e))\<rparr>)
     else
       bind (api (db_fetch_letter_ciphertext l is_drill)) (\<lambda>(title, rcpt, ciphertext, nonce).
       andthen (reject_if (length nonce \<noteq> 12) Internal)
       (bind (crypt (unseal A \<lparr>sd_nonce = nonce, sd_ciphertext = ciphertext\<rparr>)) (\<lambda>plaintext.
        ret \<lparr>clv_title = title, clv_recipient_email = rcpt,
             clv_body = unwrap_or binary_letter (from_utf8 plaintext), clv_is_drill = is_drill,
             clv_zk = False, clv_heir_mode = None, clv_heir_ciphertext = None,
             clv_heir_nonce = None, clv_heir_salt = None, clv_heir_release_secret = None\<rparr>)))))))"

section \<open>Claiming an attachment\<close>

text \<open>The response, with the headers that depend on the attachment.\<close>

record attachment_response =
  arp_content_type :: string
  arp_content_disposition :: string
  arp_sha256 :: string
  arp_body :: bytes

definition safe_filename :: "string \<Rightarrow> string" where
  "safe_filename s =
     filter (\<lambda>c. is_ascii_alphanumeric c \<or> c = CHR ''.'' \<or> c = CHR ''-'' \<or> c = CHR ''_'') s"

definition claim_attachment :: "app \<Rightarrow> string \<Rightarrow> attachment_response api_prog" where
  "claim_attachment A token =
     bind (api (db_consume_attachment_claim (hash_token A token))) (\<lambda>found.
     bind (ok_or NotFound found) (\<lambda>(a, rcpt, is_drill).
     bind (api (db_fetch_attachment a)) (\<lambda>(attachment, nonce).
     bind (blob (blob_get A (at_storage_key attachment))) (\<lambda>ciphertext.
     andthen (reject_if (length nonce \<noteq> 12) Internal)
     (bind (crypt (unseal A \<lparr>sd_nonce = nonce, sd_ciphertext = ciphertext\<rparr>)) (\<lambda>plaintext.
      ret \<lparr>arp_content_type = at_transformed_mime attachment,
           arp_content_disposition =
             ''attachment; filename='' @ [CHR 34] @ safe_filename (at_original_filename attachment) @ [CHR 34],
           arp_sha256 = at_sha256_hex attachment, arp_body = plaintext\<rparr>))))))"

end
