(* ===== verification/RouteSignals.thy ===== *)
theory RouteSignals
  imports RouteLetter
begin

text \<open>
  The handlers of src/crates/beacon-api/src/routes.rs for proof of life: heartbeat, signal
  subscriptions, the Apple Shortcut with its signed pings, Microsoft sign-ins, the bank
  webhook, and the covert duress webhook. Evidence (JSON) is left out. An \<open>i64\<close> is a word of
  64 bits; its overflow panics in a build with debug assertions and wraps otherwise.
\<close>

text \<open>The loop that records one observation on every vault of a principal.\<close>

definition record_on_vaults :: "principal_id \<Rightarrow> signal_source \<Rightarrow> f32 \<Rightarrow> nat api_prog" where
  "record_on_vaults pid source contribution =
     bind (api (db_list_vaults pid)) (\<lambda>vs.
     andthen (for_each (\<lambda>vault. ignore (db_record_signal (v_id vault) source contribution)) vs)
       (ret (length vs)))"

section \<open>Heartbeat\<close>

definition post_heartbeat :: "app \<Rightarrow> headers \<Rightarrow> string option \<Rightarrow> instant api_prog" where
  "post_heartbeat A h via0 =
     bind (current_principal A h) (\<lambda>pid.
     let via = to_uppercase (unwrap_or ''CLI'' via0) in
     andthen (reject_if (via \<notin> set [''CLI'', ''WEB'', ''EMAIL'', ''SMS'', ''PUSH''])
       (BadRequest ''invalid via value''))
     (bind (api (db_record_heartbeat pid via)) (\<lambda>ts.
      andthen (metrics_inc HeartbeatsTotal)
      (bind (record_on_vaults pid Heartbeat (f32_lit 0)) (\<lambda>_.
       ret ts)))))"

section \<open>Subscriptions\<close>

record upsert_signal_sub_req =
  usq_source :: string
  usq_weight :: "f32 option"
  usq_enabled :: "bool option"

record signal_sub_view =
  ssv_source :: string
  ssv_weight :: f32
  ssv_enabled :: bool

definition signal_sub_view :: "signal_subscription \<Rightarrow> signal_sub_view" where
  "signal_sub_view s =
     \<lparr>ssv_source = signal_source_as_db_str (sn_source s), ssv_weight = sn_weight s,
      ssv_enabled = sn_enabled s\<rparr>"

definition upsert_signal_subscription ::
  "app \<Rightarrow> headers \<Rightarrow> vault_id \<Rightarrow> upsert_signal_sub_req \<Rightarrow> signal_sub_view api_prog" where
  "upsert_signal_subscription A h v body =
     bind (owned_vault A h v) (\<lambda>(pid, vault).
     bind (parse_or_bad_request ''unknown source: ''
             (signal_source_from_db_str (to_uppercase (usq_source body)))) (\<lambda>source.
     let weight = unwrap_or (default_weight source) (usq_weight body);
         enabled = unwrap_or True (usq_enabled body)
     in bind (api (db_upsert_signal_subscription (v_id vault) source weight enabled)) (\<lambda>sub.
        ret (signal_sub_view sub))))"

definition list_signal_subscriptions :: "app \<Rightarrow> headers \<Rightarrow> vault_id \<Rightarrow> signal_sub_view list api_prog" where
  "list_signal_subscriptions A h v =
     bind (owned_vault A h v) (\<lambda>(pid, vault).
     bind (api (db_list_signal_subscriptions (v_id vault))) (\<lambda>subs.
     ret (map signal_sub_view subs)))"

section \<open>Apple Shortcut\<close>

record apple_enrol_resp =
  aer_installation_id :: string
  aer_secret_base64 :: string
  aer_ping_url :: string

definition apple_icloud_enrol :: "app \<Rightarrow> headers \<Rightarrow> string \<Rightarrow> apple_enrol_resp api_prog" where
  "apple_icloud_enrol A h installation_id =
     bind (current_principal A h) (\<lambda>pid.
     andthen (reject_if (installation_id = [] \<or> 128 < length installation_id)
       (BadRequest ''installation_id length invalid''))
     (bind (draw_bytes A 32) (\<lambda>secret.
      andthen (api (db_create_apple_shortcut_sub pid installation_id secret))
        (ret \<lparr>aer_installation_id = installation_id, aer_secret_base64 = b64std A secret,
              aer_ping_url = trim_end_slashes (public_base_url A) @ ''/v1/signals/apple-icloud/ping''\<rparr>))))"

record apple_ping_req =
  apq_installation_id :: string
  apq_timestamp :: "64 word"
  apq_signature :: string

definition i64_min :: int where
  "i64_min = - (2 ^ 63)"

definition i64_sub :: "app \<Rightarrow> 64 word \<Rightarrow> 64 word \<Rightarrow> (world, 'e, 64 word) prog" where
  "i64_sub A a b =
     (if debug_assertions A \<and> (sint a - sint b < i64_min \<or> 2 ^ 63 \<le> sint a - sint b)
      then panic ''attempt to subtract with overflow'' else ret (a - b))"

definition i64_abs :: "app \<Rightarrow> 64 word \<Rightarrow> (world, 'e, 64 word) prog" where
  "i64_abs A a =
     (if debug_assertions A \<and> sint a = i64_min then panic ''attempt to negate with overflow''
      else ret (if sint a < 0 then - a else a))"

definition ping_message :: "string \<Rightarrow> 64 word \<Rightarrow> string" where
  "ping_message installation_id timestamp = installation_id @ ''|'' @ dec (sint timestamp)"

definition apple_icloud_ping :: "app \<Rightarrow> apple_ping_req \<Rightarrow> instant api_prog" where
  "apple_icloud_ping A body =
     bind now (\<lambda>t.
     bind (i64_sub A (word_of_int (t div 1000000)) (apq_timestamp body)) (\<lambda>diff.
     bind (i64_abs A diff) (\<lambda>drift.
     andthen (reject_if (300 < sint drift)
       (BadRequest (''timestamp drift '' @ dec (sint drift) @ ''s outside acceptable window'')))
     (bind (api (db_fetch_apple_shortcut_sub (apq_installation_id body))) (\<lambda>found.
      bind (ok_or NotFound found) (\<lambda>(pid, secret).
      bind (ok_or (BadRequest ''signature must be base64'') (b64std_decode A (apq_signature body))) (\<lambda>provided.
      let expected = hmac_sha256 A secret (ping_message (apq_installation_id body) (apq_timestamp body)) in
      andthen (reject_if (\<not> constant_time_eq provided expected) Unauthorised)
      (andthen (api (db_touch_apple_shortcut_sub (apq_installation_id body)))
      (andthen (metrics_inc ApplePingsTotal)
      (bind (record_on_vaults pid AppleIcloudShortcut (f32_lit 0)) (\<lambda>_.
       now)))))))))))"

section \<open>Microsoft\<close>

definition sign_in_contribution :: "int \<Rightarrow> f32" where
  "sign_in_contribution secs =
     f32_clamp (f32_lit 0) (f32_lit 1) (f32_div (f32_of_int secs) (f32_of_int (14 * 86400)))"

definition microsoft_observe :: "app \<Rightarrow> headers \<Rightarrow> instant \<Rightarrow> (instant \<times> f32 \<times> nat) api_prog" where
  "microsoft_observe A h last_sign_in_at =
     bind (current_principal A h) (\<lambda>pid.
     bind now (\<lambda>t.
     andthen (reject_if (t + minutes 5 < last_sign_in_at) (BadRequest ''last_sign_in_at is in the future''))
     (let secs = max (num_seconds (t - last_sign_in_at)) 0;
          contribution = sign_in_contribution secs
      in bind (record_on_vaults pid MicrosoftAccount contribution) (\<lambda>affected.
         ret (t, contribution, affected)))))"

section \<open>Bank dormancy\<close>

record bank_signal_view =
  bsv_webhook_url :: string
  bsv_last_webhook_at :: "instant option"

definition bank_url :: "app \<Rightarrow> uuid \<Rightarrow> string" where
  "bank_url A webhook_id =
     trim_end_slashes (public_base_url A) @ ''/v1/signals/bank-dormancy/'' @ uuid_string webhook_id"

definition bank_dormancy_enrol :: "app \<Rightarrow> headers \<Rightarrow> bank_signal_view api_prog" where
  "bank_dormancy_enrol A h =
     bind (current_principal A h) (\<lambda>pid.
     bind (api (db_fetch_bank_dormancy_sub pid)) (\<lambda>existing.
     case existing of
       Some row \<Rightarrow> ret \<lparr>bsv_webhook_url = bank_url A (bk_webhook_id row),
                        bsv_last_webhook_at = bk_last_webhook_at row\<rparr>
     | None \<Rightarrow>
         bind gen_random_uuid (\<lambda>webhook_id.
         bind (draw_bytes A 32) (\<lambda>secret.
         andthen (api (db_create_bank_dormancy_sub pid webhook_id secret))
           (ret \<lparr>bsv_webhook_url = bank_url A webhook_id, bsv_last_webhook_at = None\<rparr>)))))"

definition get_bank_signal_status :: "app \<Rightarrow> headers \<Rightarrow> bank_signal_view api_prog" where
  "get_bank_signal_status A h =
     bind (current_principal A h) (\<lambda>pid.
     bind (api (db_fetch_bank_dormancy_sub pid)) (\<lambda>found.
     bind (ok_or NotFound found) (\<lambda>row.
     ret \<lparr>bsv_webhook_url = bank_url A (bk_webhook_id row),
          bsv_last_webhook_at = bk_last_webhook_at row\<rparr>)))"

definition revoke_bank_signal :: "app \<Rightarrow> headers \<Rightarrow> unit api_prog" where
  "revoke_bank_signal A h =
     bind (current_principal A h) (\<lambda>pid. api (db_delete_bank_dormancy_sub pid))"

definition bank_dormancy_webhook :: "app \<Rightarrow> uuid \<Rightarrow> unit api_prog" where
  "bank_dormancy_webhook A webhook_id =
     bind (api (db_fetch_bank_dormancy_sub_by_webhook webhook_id)) (\<lambda>found.
     bind (ok_or NotFound found) (\<lambda>row.
     bind now (\<lambda>t.
     andthen (api (db_touch_bank_dormancy_sub webhook_id t))
       (bind (record_on_vaults (bk_principal_id row) Cdr (f32_lit 0)) (\<lambda>_. ret ())))))"

section \<open>Duress\<close>

record arm_duress_req =
  adq_alert_email :: "string option"
  adq_panic_mode :: "string option"

record duress_view =
  duv_armed :: bool
  duv_triggered_at :: "instant option"
  duv_webhook_url :: "string option"
  duv_alert_email :: "string option"
  duv_panic_mode :: string

definition duress_view :: "app \<Rightarrow> duress_row option \<Rightarrow> duress_view" where
  "duress_view A row = (case row of
       Some r \<Rightarrow> \<lparr>duv_armed = True, duv_triggered_at = du_triggered_at r,
         duv_webhook_url = Some (trim_end_slashes (public_base_url A) @ ''/v1/signals/duress/'' @
           uuid_string (du_webhook_id r)),
         duv_alert_email = du_alert_email r, duv_panic_mode = du_panic_mode r\<rparr>
     | None \<Rightarrow> \<lparr>duv_armed = False, duv_triggered_at = None, duv_webhook_url = None,
         duv_alert_email = None, duv_panic_mode = ''freeze''\<rparr>)"

definition arm_duress :: "app \<Rightarrow> headers \<Rightarrow> arm_duress_req \<Rightarrow> duress_view api_prog" where
  "arm_duress A h body =
     bind (current_principal A h) (\<lambda>pid.
     let alert_email = Option.bind (adq_alert_email body)
           (\<lambda>s. if trim s = [] then None else Some (trim s)) in
     andthen (case alert_email of
         Some e \<Rightarrow> reject_if (CHR ''@'' \<notin> set e) (BadRequest ''alert_email looks invalid'')
       | None \<Rightarrow> ret ())
     (let panic_mode = unwrap_or ''freeze'' (map_option trim (adq_panic_mode body)) in
      andthen (reject_if (panic_mode \<notin> set [''freeze'', ''release''])
        (BadRequest (''panic_mode must be '' @ quoted ''freeze'' @ '' or '' @ quoted ''release'')))
      (bind gen_random_uuid (\<lambda>webhook_id.
       bind (api (db_arm_duress pid webhook_id alert_email panic_mode)) (\<lambda>row.
       ret (duress_view A (Some row)))))))"

definition get_duress :: "app \<Rightarrow> headers \<Rightarrow> duress_view api_prog" where
  "get_duress A h =
     bind (current_principal A h) (\<lambda>pid.
     bind (api (db_fetch_duress pid)) (\<lambda>row. ret (duress_view A row)))"

definition revoke_duress :: "app \<Rightarrow> headers \<Rightarrow> unit api_prog" where
  "revoke_duress A h = bind (current_principal A h) (\<lambda>pid. api (db_delete_duress pid))"

text \<open>One watchable vault of a principal who chose the release mode.\<close>

definition duress_release_vault :: "vault \<Rightarrow> unit api_prog" where
  "duress_release_vault vault =
     bind (attempt (db_claim_vault_cooling_off (v_id vault) (v_state vault))) (\<lambda>won.
     if won \<noteq> Inr True then ret ()
     else
       bind now (\<lambda>t.
       let ends_at = t + seconds (v_cooling_off_seconds vault) in
       bind (attempt (db_fetch_principal (v_principal_id vault))) (\<lambda>who.
       andthen (case who of
           Inr p \<Rightarrow> notify (CoolingOffStarted (p_primary_email p) (v_name vault) ends_at)
         | Inl _ \<Rightarrow> ret ())
       (andthen (ignore (db_create_release_event_with_deadline (v_id vault) SignalTrigger False ends_at))
         (ignore (db_append_transparency_entry ''DURESS_RELEASE_TRIGGERED''
            (Some (v_principal_id vault)) (Some (v_id vault))))))))"

definition watchable :: "vault_state list" where
  "watchable = [Active, Suspicious, Alert]"

definition duress_webhook :: "uuid \<Rightarrow> unit api_prog" where
  "duress_webhook webhook_id =
     bind now (\<lambda>t.
     bind (attempt (db_trigger_duress webhook_id t)) (\<lambda>triggered.
     case triggered of
       Inr (Some row) \<Rightarrow>
         andthen (case du_alert_email row of
             Some email \<Rightarrow> notify (DuressAlert email)
           | None \<Rightarrow> ret ())
         (andthen (ignore (db_append_transparency_entry ''DURESS_TRIGGERED'' (Some (du_principal_id row)) None))
         (if du_panic_mode row = ''release''
          then bind (attempt (db_list_vaults (du_principal_id row))) (\<lambda>vs.
            case vs of
              Inr vs' \<Rightarrow> for_each duress_release_vault (filter (\<lambda>v. v_state v \<in> set watchable) vs')
            | Inl _ \<Rightarrow> ret ())
          else ret ()))
     | _ \<Rightarrow> ret ()))"

end
