(* ===== verification/RoutePeople.thy ===== *)
theory RoutePeople
  imports RouteLetter
begin

text \<open>
  The handlers of src/crates/beacon-api/src/routes.rs for buddies and Co-Stewards: inviting,
  confirming, answering, signing in, the read-only dashboard, and the powers of a Co-Steward
  over a released vault.
\<close>

section \<open>Buddies\<close>

record invite_buddy_req =
  ibq_email :: string
  ibq_display_name :: "string option"
  ibq_phone :: "string option"
  ibq_prompt_cadence_days :: "int option"

definition clamp :: "int \<Rightarrow> int \<Rightarrow> int \<Rightarrow> int" where
  "clamp lo hi x = (if x < lo then lo else if hi < x then hi else x)"

definition invite_buddy :: "app \<Rightarrow> headers \<Rightarrow> invite_buddy_req \<Rightarrow> (buddy_view \<times> string) api_prog" where
  "invite_buddy A h body =
     bind (current_principal A h) (\<lambda>pid.
     andthen (reject_if (CHR ''@'' \<notin> set (ibq_email body)) (BadRequest ''email looks invalid''))
     (bind (random_token A) (\<lambda>token.
      let cadence = clamp 7 365 (unwrap_or 90 (ibq_prompt_cadence_days body)) in
      bind (api (db_invite_buddy
         \<lparr>bi_principal_id = pid, bi_display_name = ibq_display_name body,
          bi_email = ibq_email body, bi_phone = ibq_phone body,
          bi_confirmation_token_hash = hash_token A token, bi_prompt_cadence_days = cadence\<rparr>)) (\<lambda>buddy.
      bind (api (db_fetch_principal pid)) (\<lambda>who.
      andthen (notify (BuddyInvite (ibq_email body) (p_primary_email who)
         (trim_end_slashes (public_base_url A) @ ''/buddies/confirm?token='' @ token)))
        (ret (buddy_view buddy, token)))))))"

definition list_buddies :: "app \<Rightarrow> headers \<Rightarrow> buddy_view list api_prog" where
  "list_buddies A h =
     bind (current_principal A h) (\<lambda>pid.
     bind (api (db_list_buddies pid)) (\<lambda>bs. ret (map buddy_view bs)))"

definition revoke_buddy :: "app \<Rightarrow> headers \<Rightarrow> buddy_id \<Rightarrow> unit api_prog" where
  "revoke_buddy A h b =
     bind (current_principal A h) (\<lambda>pid.
     bind (api (db_fetch_buddy b)) (\<lambda>buddy.
     andthen (reject_if (b_principal_id buddy \<noteq> pid) NotFound)
       (api (db_revoke_buddy (b_id buddy)))))"

definition confirm_buddy :: "app \<Rightarrow> string \<Rightarrow> buddy_view api_prog" where
  "confirm_buddy A token =
     bind (api (db_confirm_buddy (hash_token A token))) (\<lambda>found.
     bind (ok_or NotFound found) (\<lambda>buddy. ret (buddy_view buddy)))"

text \<open>The statement \<open>respond_buddy\<close> issues itself.\<close>

definition bump_attestation :: "principal_id \<Rightarrow> unit db_prog" where
  "bump_attestation i =
     bind (update_rows vaults vaults_update (\<lambda>w r. va_principal_id r = i)
             (\<lambda>w r. r\<lparr>va_last_attestation_at := clock w\<rparr>)) (\<lambda>_. ret ())"

definition respond_buddy :: "buddy_id \<Rightarrow> string \<Rightarrow> buddy_view api_prog" where
  "respond_buddy b response_text =
     bind (parse_or_bad_request [] (buddy_response_from_db_str (to_uppercase response_text))) (\<lambda>response.
     bind (api (db_record_buddy_response b response)) (\<lambda>buddy.
     andthen (metrics_inc BuddyResponsesTotal)
     (andthen
       (if f32_lt (f32_lit 0) (release_contribution response)
        then bind (api (db_list_vaults (b_principal_id buddy))) (\<lambda>vs.
          for_each (\<lambda>vault. ignore (db_record_signal (v_id vault) BuddyAttestation
            (release_contribution response))) vs)
        else ignore (bump_attestation (b_principal_id buddy)))
       (ret (buddy_view buddy)))))"

section \<open>Co-Stewards\<close>

record invite_co_steward_req =
  icq_email :: string
  icq_display_name :: "string option"

definition invite_co_steward ::
  "app \<Rightarrow> headers \<Rightarrow> invite_co_steward_req \<Rightarrow> (co_steward_view \<times> string) api_prog" where
  "invite_co_steward A h body =
     bind (current_principal A h) (\<lambda>pid.
     andthen (reject_if (CHR ''@'' \<notin> set (icq_email body)) (BadRequest ''email looks invalid''))
     (bind (api (db_fetch_subscription pid)) (\<lambda>sub.
      let plan = plan_features (sub_plan_id sub) in
      andthen (reject_if (pf_max_co_stewards plan = 0)
        (Forbidden ''Co-Stewards are not enabled on this deployment.''))
      (bind (api (db_co_steward_count pid)) (\<lambda>n.
       let current = as_u32 n in
       andthen (reject_if (pf_max_co_stewards plan \<le> current)
         (Forbidden (''Co-Steward limit reached ('' @ dec (uint current) @ '' of '' @
            dec (uint (pf_max_co_stewards plan)) @
            '' allowed). Adjust MAX_CO_STEWARDS in your deployment configuration.'')))
       (bind (random_token A) (\<lambda>token.
        bind (api (db_invite_co_steward pid (icq_display_name body) (icq_email body) (hash_token A token))) (\<lambda>co.
        bind (api (db_fetch_principal pid)) (\<lambda>who.
        andthen (notify (CoStewardInvite (icq_email body) (p_primary_email who)
           (trim_end_slashes (public_base_url A) @ ''/app/co-steward/confirm?token='' @ token)))
        (andthen (ignore (db_append_transparency_entry ''CO_STEWARD_INVITED'' (Some pid) None))
          (ret (co_steward_view co, token))))))))))))"

definition list_co_stewards :: "app \<Rightarrow> headers \<Rightarrow> co_steward_view list api_prog" where
  "list_co_stewards A h =
     bind (current_principal A h) (\<lambda>pid.
     bind (api (db_list_co_stewards pid)) (\<lambda>cs. ret (map co_steward_view cs)))"

definition revoke_co_steward :: "app \<Rightarrow> headers \<Rightarrow> co_steward_id \<Rightarrow> unit api_prog" where
  "revoke_co_steward A h c =
     bind (current_principal A h) (\<lambda>pid.
     bind (api (db_fetch_co_steward c)) (\<lambda>co.
     andthen (reject_if (cs_principal_id co \<noteq> pid) NotFound)
     (andthen (api (db_revoke_co_steward (cs_id co)))
       (ignore (db_append_transparency_entry ''CO_STEWARD_REVOKED'' (Some pid) None)))))"

record confirm_co_steward_resp =
  ccr_co_steward_id :: co_steward_id
  ccr_session_token :: string

definition confirm_co_steward :: "app \<Rightarrow> string \<Rightarrow> string \<Rightarrow> confirm_co_steward_resp api_prog" where
  "confirm_co_steward A token passphrase =
     andthen (reject_if (chars_count passphrase < 10)
       (BadRequest ''passphrase must be at least 10 characters''))
     (bind (random_salt A) (\<lambda>salt.
      let hash = hash_passphrase A passphrase salt; token_hash = hash_token A token in
      bind (api (db_confirm_co_steward token_hash hash salt)) (\<lambda>found.
      bind (ok_or (BadRequest ''invalid or expired token'') found) (\<lambda>co.
      bind (random_token A) (\<lambda>session.
      andthen (api (db_create_co_steward_session (cs_id co) (cs_principal_id co) (hash_token A session) 24))
      (andthen (ignore (db_append_transparency_entry ''CO_STEWARD_CONFIRMED'' (Some (cs_principal_id co)) None))
        (ret \<lparr>ccr_co_steward_id = cs_id co, ccr_session_token = session\<rparr>)))))))"

definition sign_in_co_steward :: "app \<Rightarrow> string \<Rightarrow> string \<Rightarrow> confirm_co_steward_resp api_prog" where
  "sign_in_co_steward A email passphrase =
     bind (api (db_lookup_co_steward_salt email)) (\<lambda>found_salt.
     bind (ok_or Unauthorised found_salt) (\<lambda>salt.
     let hash = hash_passphrase A passphrase salt in
     bind (api (db_sign_in_co_steward email hash)) (\<lambda>found.
     bind (ok_or Unauthorised found) (\<lambda>co.
     bind (random_token A) (\<lambda>session.
     andthen (api (db_create_co_steward_session (cs_id co) (cs_principal_id co) (hash_token A session) 24))
       (ret \<lparr>ccr_co_steward_id = cs_id co, ccr_session_token = session\<rparr>))))))"

record co_steward_dashboard_view =
  cdv_principal_email :: string
  cdv_subscription :: subscription_view
  cdv_vaults :: "vault_view list"
  cdv_buddy_count :: nat
  cdv_letter_counts :: "(vault_id \<times> int) list"

definition co_steward_dashboard :: "app \<Rightarrow> headers \<Rightarrow> co_steward_dashboard_view api_prog" where
  "co_steward_dashboard A h =
     bind (current_co_steward A h) (\<lambda>(co, pid).
     andthen (api (db_touch_co_steward_view co))
     (bind (api (db_fetch_principal pid)) (\<lambda>who.
      bind (api (db_fetch_subscription pid)) (\<lambda>sub.
      bind (api (db_list_vaults pid)) (\<lambda>vs.
      bind (api (db_list_buddies pid)) (\<lambda>bs.
      bind (collect (\<lambda>v. bind (api (db_letter_count (v_id v))) (\<lambda>n. ret (v_id v, n))) vs) (\<lambda>letter_counts.
      ret \<lparr>cdv_principal_email = p_primary_email who, cdv_subscription = subscription_view sub,
           cdv_vaults = map vault_view vs,
           cdv_buddy_count = length (filter buddy_is_active bs),
           cdv_letter_counts = letter_counts\<rparr>)))))))"

section \<open>Co-Stewards after the release\<close>

definition authorise_postmortem :: "co_steward_id \<Rightarrow> principal_id \<Rightarrow> vault_id \<Rightarrow> unit api_prog" where
  "authorise_postmortem c pid v =
     bind (api (db_fetch_co_steward c)) (\<lambda>co.
     andthen (reject_if (\<not> co_steward_is_active co \<or> cs_principal_id co \<noteq> pid) Unauthorised)
     (bind (api (db_fetch_vault v)) (\<lambda>vault.
      andthen (reject_if (v_principal_id vault \<noteq> pid) NotFound)
        (reject_if (v_state vault \<noteq> Released) (Conflict ''Available only after the Vault has released'')))))"

record pending_change_view =
  pcv_change_id :: uuid
  pcv_new_email :: string
  pcv_effective_at :: instant

record admin_letter_view =
  adv_letter_id :: letter_id
  adv_vault_id :: vault_id
  adv_title :: string
  adv_recipient_email :: string
  adv_release_mode :: string
  adv_awaiting_event_trigger :: bool
  adv_event_released :: bool
  adv_pending_recipient_change :: "pending_change_view option"

definition admin_letter :: "letter_admin \<Rightarrow> admin_letter_view api_prog" where
  "admin_letter la =
     bind (api (db_fetch_pending_recipient_change (la_id la))) (\<lambda>pending.
     ret \<lparr>adv_letter_id = la_id la, adv_vault_id = la_vault_id la, adv_title = la_title la,
          adv_recipient_email = la_recipient_email la, adv_release_mode = la_release_mode la,
          adv_awaiting_event_trigger =
            (la_release_mode la = ''EVENT_ON_DEMAND'' \<and> la_event_released_at la = None),
          adv_event_released = (la_event_released_at la \<noteq> None),
          adv_pending_recipient_change = map_option (\<lambda>c.
            \<lparr>pcv_change_id = rc_id c, pcv_new_email = rc_new_email c,
             pcv_effective_at = rc_effective_at c\<rparr>) pending\<rparr>)"

definition co_steward_admin_letters :: "app \<Rightarrow> headers \<Rightarrow> admin_letter_view list api_prog" where
  "co_steward_admin_letters A h =
     bind (current_co_steward A h) (\<lambda>(c, pid).
     bind (api (db_fetch_co_steward c)) (\<lambda>co.
     andthen (reject_if (\<not> co_steward_is_active co) Unauthorised)
     (andthen (api (db_touch_co_steward_view c))
     (bind (api (db_list_vaults pid)) (\<lambda>vs.
      bind (collect (\<lambda>vault.
        if v_state vault \<noteq> Released then ret []
        else bind (api (db_list_letters_admin (v_id vault))) (collect admin_letter)) vs) (\<lambda>out.
      ret (concat out)))))))"

definition letter_editable :: "letter_admin \<Rightarrow> instant \<Rightarrow> bool" where
  "letter_editable letter t \<longleftrightarrow>
     (la_release_mode letter = ''EVENT_ON_DEMAND'' \<and> la_event_released_at letter = None)
     \<or> upcoming (la_scheduled_release_at letter) t"

definition co_steward_update_recipient ::
  "app \<Rightarrow> headers \<Rightarrow> letter_id \<Rightarrow> string \<Rightarrow> (uuid \<times> instant) api_prog" where
  "co_steward_update_recipient A h l new_email0 =
     bind (current_co_steward A h) (\<lambda>(c, pid).
     bind (api (db_fetch_letter_admin l)) (\<lambda>letter.
     andthen (authorise_postmortem c pid (la_vault_id letter))
     (let new_email = trim new_email0 in
      andthen (reject_if (CHR ''@'' \<notin> set new_email \<or> 320 < length new_email)
        (BadRequest ''invalid email address''))
      (bind now (\<lambda>t.
       andthen (reject_if (\<not> letter_editable letter t)
         (Conflict ''This Letter has no pending automated delivery to redirect''))
       (let effective_at = t + seconds (max (recipient_change_hold_seconds A) 0) in
        bind (api (db_request_recipient_change l c (la_recipient_email letter) new_email effective_at)) (\<lambda>change.
        andthen (ignore (db_append_transparency_entry ''RECIPIENT_CHANGE_REQUESTED'' (Some pid) (Some (la_vault_id letter))))
        (andthen (notify (RecipientChangeRequested (la_recipient_email letter) (la_title letter) effective_at))
          (ret (rc_id change, effective_at))))))))))"

definition co_steward_cancel_recipient_change :: "app \<Rightarrow> headers \<Rightarrow> uuid \<Rightarrow> unit api_prog" where
  "co_steward_cancel_recipient_change A h change_id =
     bind (current_co_steward A h) (\<lambda>(c, pid).
     bind (api (db_fetch_recipient_change change_id)) (\<lambda>found.
     bind (ok_or NotFound found) (\<lambda>change.
     bind (api (db_fetch_letter_admin (rc_letter_id change))) (\<lambda>letter.
     andthen (authorise_postmortem c pid (la_vault_id letter))
     (bind (api (db_cancel_recipient_change change_id)) (\<lambda>done.
      andthen (reject_if (\<not> done)
        (Conflict ''Change is no longer pending (already applied or cancelled)''))
        (ignore (db_append_transparency_entry ''RECIPIENT_CHANGE_CANCELLED'' (Some pid) (Some (la_vault_id letter))))))))))"

definition co_steward_release_event_letter :: "app \<Rightarrow> headers \<Rightarrow> letter_id \<Rightarrow> unit api_prog" where
  "co_steward_release_event_letter A h l =
     bind (current_co_steward A h) (\<lambda>(c, pid).
     bind (api (db_fetch_letter_admin l)) (\<lambda>letter.
     andthen (authorise_postmortem c pid (la_vault_id letter))
     (andthen (reject_if (la_release_mode letter \<noteq> ''EVENT_ON_DEMAND'')
       (Conflict ''Only held event Letters can be triggered this way''))
       (trigger_event_release A (la_vault_id letter) l))))"

end
