(* ===== verification/Passkey.thy ===== *)
theory Passkey
  imports RouteAccount RouteLetter
begin

text \<open>
  The passkey and recovery handlers of src/crates/beacon-api/src/passkey.rs. The WebAuthn
  protocol (the webauthn-rs crate) and the hmac crate are parameters, in \<open>webauthn\<close>: their
  values are kept as the JSON texts the code stores, and serialising them does not fail.
\<close>

record webauthn =
  wa_start_registration :: "uuid \<Rightarrow> string \<Rightarrow> bytes list option \<Rightarrow> string + (string \<times> string)"
  wa_registration_state_ok :: "string \<Rightarrow> bool"
  wa_parse_credential :: "string \<Rightarrow> string + string"
  wa_finish_registration :: "string \<Rightarrow> string \<Rightarrow> string + string"
  wa_cred_id :: "string \<Rightarrow> bytes"
  wa_backup_state :: "string \<Rightarrow> bool"
  wa_transports :: "string \<Rightarrow> string list"
  wa_passkey_ok :: "string \<Rightarrow> bool"
  wa_start_authentication :: "string list \<Rightarrow> string + (string \<times> string)"
  wa_authentication_state_ok :: "string \<Rightarrow> bool"
  wa_parse_assertion :: "string \<Rightarrow> string + string"
  wa_finish_authentication :: "string \<Rightarrow> string \<Rightarrow> string + string"
  wa_result_cred_id :: "string \<Rightarrow> bytes"
  wa_update_credential :: "string \<Rightarrow> string \<Rightarrow> string"
  wa_hmac_sha256 :: "bytes \<Rightarrow> bytes \<Rightarrow> bytes"

definition or_bad_request :: "string \<Rightarrow> (string + 'a) \<Rightarrow> 'a api_prog" where
  "or_bad_request what x = (case x of Inl e \<Rightarrow> throw (BadRequest (what @ e)) | Inr y \<Rightarrow> ret y)"

definition or_internal :: "(string + 'a) \<Rightarrow> 'a api_prog" where
  "or_internal x = (case x of Inl e \<Rightarrow> throw Internal | Inr y \<Rightarrow> ret y)"

section \<open>Registration\<close>

record passkey_register_options_req =
  prq_email :: string
  prq_plan :: "string option"
  prq_tos_accepted :: "bool option"

definition passkey_register_options ::
  "app \<Rightarrow> webauthn \<Rightarrow> headers \<Rightarrow> passkey_register_options_req \<Rightarrow> (uuid \<times> string) api_prog" where
  "passkey_register_options A W h body =
     andthen (reject_if (\<not> contains_at (prq_email body)) (BadRequest ''email looks invalid''))
     (bind (api (db_upsert_principal_by_email (prq_email body))) (\<lambda>(who, created).
      andthen
        (if created then
           andthen (reject_if (prq_tos_accepted body \<noteq> Some True)
             (BadRequest ''You must accept the Terms of Service to create an account.''))
           (andthen (ignore (db_set_tos_accepted (p_id who)))
           (bind (parse_plan_param (prq_plan body)) (\<lambda>plan.
            bind (api (db_create_subscription (p_id who) plan (trial_days A))) (\<lambda>_. ret ()))))
         else
           bind (map_err (\<lambda>_. Conflict ''An account with this email already exists. Sign in first to add a passkey.'')
                   (current_principal A h)) (\<lambda>caller.
           reject_if (caller \<noteq> p_id who) Unauthorised))
      (bind (api (db_list_passkeys_for_principal (p_id who))) (\<lambda>existing.
       let exclude = map pk_credential_id existing;
           exclude_opt = (if exclude = [] then None else Some exclude)
       in bind (or_internal (wa_start_registration W (principal_uuid (p_id who)) (prq_email body) exclude_opt)) (\<lambda>(ccr, state_json).
          bind (api (db_create_webauthn_challenge (Some (p_id who)) state_json ''REGISTRATION'')) (\<lambda>challenge_id.
          ret (challenge_id, ccr)))))))"

record passkey_register_verify_req =
  pvq_challenge_id :: uuid
  pvq_credential :: string
  pvq_name :: "string option"

record passkey_register_verify_resp =
  pvr_principal_id :: principal_id
  pvr_session_token :: string
  pvr_recovery_code :: "string option"

definition generate_recovery_code :: "app \<Rightarrow> (world, 'e, string) prog" where
  "generate_recovery_code A = bind (draw_bytes A 16) (\<lambda>bs. ret (hex_encode bs))"

definition challenge_gone :: api_error where
  "challenge_gone = BadRequest ''Challenge not found, expired, or already used''"

definition passkey_register_verify ::
  "app \<Rightarrow> webauthn \<Rightarrow> passkey_register_verify_req \<Rightarrow> passkey_register_verify_resp api_prog" where
  "passkey_register_verify A W body =
     bind (api (db_consume_webauthn_challenge (pvq_challenge_id body) ''REGISTRATION'')) (\<lambda>found.
     bind (ok_or challenge_gone found) (\<lambda>(state_json, pid_opt).
     bind (ok_or Internal pid_opt) (\<lambda>pid.
     andthen (reject_if (\<not> wa_registration_state_ok W state_json) Internal)
     (bind (or_bad_request ''invalid credential: '' (wa_parse_credential W (pvq_credential body))) (\<lambda>response.
      bind (or_bad_request ''passkey registration failed: '' (wa_finish_registration W response state_json)) (\<lambda>passkey.
      let cred = wa_cred_id W passkey in
      bind (api (db_get_passkey_by_credential_id cred)) (\<lambda>known.
      andthen (reject_if (known \<noteq> None) (Conflict ''This passkey is already registered''))
      (bind (api (db_store_passkey pid cred passkey (wa_backup_state W passkey) (wa_transports W passkey)
                    (unwrap_or ''Passkey'' (pvq_name body)))) (\<lambda>_.
       bind (api (db_get_principal_recovery pid)) (\<lambda>recovery.
       bind (if recovery \<noteq> None then ret None
             else bind (generate_recovery_code A) (\<lambda>code.
               bind (draw_bytes A 32) (\<lambda>code_salt.
               andthen (api (db_upsert_principal_recovery pid code_salt (wa_hmac_sha256 W code_salt (as_bytes code))))
                 (ret (Some code))))) (\<lambda>recovery_code.
       bind (random_token A) (\<lambda>session.
       andthen (api (db_create_session pid (hash_token A session) 720))
         (ret \<lparr>pvr_principal_id = pid, pvr_session_token = session,
               pvr_recovery_code = recovery_code\<rparr>)))))))))))))"

section \<open>Authentication\<close>

definition passkey_authenticate_options :: "webauthn \<Rightarrow> string \<Rightarrow> (uuid \<times> string) api_prog" where
  "passkey_authenticate_options W email =
     bind (api (db_fetch_principal_by_email email)) (\<lambda>found.
     bind (ok_or Unauthorised found) (\<lambda>who.
     bind (api (db_get_passkeys_for_authentication (p_id who))) (\<lambda>rows.
     andthen (reject_if (rows = []) Unauthorised)
     (let pks = filter (wa_passkey_ok W) (map pk_passkey_json rows) in
      bind (or_internal (wa_start_authentication W pks)) (\<lambda>(rcr, state_json).
      bind (api (db_create_webauthn_challenge (Some (p_id who)) state_json ''AUTHENTICATION'')) (\<lambda>challenge_id.
      ret (challenge_id, rcr)))))))"

record passkey_auth_verify_resp =
  pav_principal_id :: principal_id
  pav_session_token :: string

definition passkey_authenticate_verify ::
  "app \<Rightarrow> webauthn \<Rightarrow> uuid \<Rightarrow> string \<Rightarrow> passkey_auth_verify_resp api_prog" where
  "passkey_authenticate_verify A W challenge_id assertion =
     bind (api (db_consume_webauthn_challenge challenge_id ''AUTHENTICATION'')) (\<lambda>found.
     bind (ok_or challenge_gone found) (\<lambda>(state_json, _).
     andthen (reject_if (\<not> wa_authentication_state_ok W state_json) Internal)
     (bind (or_bad_request ''invalid assertion: '' (wa_parse_assertion W assertion)) (\<lambda>response.
      bind (or_bad_request ''passkey authentication failed: '' (wa_finish_authentication W response state_json)) (\<lambda>auth_result.
      bind (api (db_get_passkey_by_credential_id (wa_result_cred_id W auth_result))) (\<lambda>row_opt.
      bind (ok_or Unauthorised row_opt) (\<lambda>row.
      andthen (reject_if (\<not> wa_passkey_ok W (pk_passkey_json row)) Internal)
      (bind now (\<lambda>t.
       andthen (api (db_update_passkey_after_auth (pk_id row)
                       (wa_update_credential W (pk_passkey_json row) auth_result) t))
       (bind (random_token A) (\<lambda>session.
        andthen (api (db_create_session (pk_principal_id row) (hash_token A session) 720))
          (ret \<lparr>pav_principal_id = pk_principal_id row, pav_session_token = session\<rparr>))))))))))))"

section \<open>Recovery\<close>

definition check_recovery_code :: "webauthn \<Rightarrow> recovery_row \<Rightarrow> string \<Rightarrow> unit api_prog" where
  "check_recovery_code W recovery code =
     reject_if (wa_hmac_sha256 W (rv_code_salt recovery) (as_bytes code) \<noteq> rv_code_verifier recovery)
       (BadRequest ''Invalid recovery code'')"

definition passkey_recovery_validate :: "webauthn \<Rightarrow> string \<Rightarrow> string \<Rightarrow> string api_prog" where
  "passkey_recovery_validate W email code =
     bind (api (db_get_principal_recovery_by_email email)) (\<lambda>found.
     bind (ok_or (BadRequest ''No recovery code set for this account'') found) (\<lambda>(pid, recovery).
     andthen (check_recovery_code W recovery code)
       (ret (hex_encode (rv_code_salt recovery)))))"

definition b64url_decode_or_bad :: "app \<Rightarrow> string \<Rightarrow> bytes api_prog" where
  "b64url_decode_or_bad A s = ok_or (BadRequest ''invalid base64url encoding'') (b64url_decode A s)"

record store_recovery_key_req =
  skq_code_salt :: string
  skq_prk_code_ct :: string
  skq_prk_code_nonce :: string
  skq_prk_prf_ct :: string
  skq_prk_prf_nonce :: string

definition store_recovery_key :: "app \<Rightarrow> headers \<Rightarrow> store_recovery_key_req \<Rightarrow> unit api_prog" where
  "store_recovery_key A h body =
     bind (current_principal A h) (\<lambda>pid.
     bind (ok_or (BadRequest ''code_salt must be hex'') (hex_decode (skq_code_salt body))) (\<lambda>code_salt.
     bind (b64url_decode_or_bad A (skq_prk_code_ct body)) (\<lambda>prk_code_ct.
     bind (b64url_decode_or_bad A (skq_prk_code_nonce body)) (\<lambda>prk_code_nonce.
     bind (b64url_decode_or_bad A (skq_prk_prf_ct body)) (\<lambda>prk_prf_ct.
     bind (b64url_decode_or_bad A (skq_prk_prf_nonce body)) (\<lambda>prk_prf_nonce.
     api (db_upsert_principal_recovery_key pid code_salt prk_code_ct prk_code_nonce prk_prf_ct prk_prf_nonce)))))))"

record recovery_key_view =
  rkv_configured :: bool
  rkv_prk_prf_ct :: "string option"
  rkv_prk_prf_nonce :: "string option"

definition get_recovery_key :: "app \<Rightarrow> headers \<Rightarrow> recovery_key_view api_prog" where
  "get_recovery_key A h =
     bind (current_principal A h) (\<lambda>pid.
     bind (api (db_get_principal_recovery_key pid)) (\<lambda>row.
     ret (case row of
         Some r \<Rightarrow> \<lparr>rkv_configured = True, rkv_prk_prf_ct = Some (b64url A (rk_prk_prf_ct r)),
                    rkv_prk_prf_nonce = Some (b64url A (rk_prk_prf_nonce r))\<rparr>
       | None \<Rightarrow> \<lparr>rkv_configured = False, rkv_prk_prf_ct = None, rkv_prk_prf_nonce = None\<rparr>)))"

definition store_vault_prk_envelope ::
  "app \<Rightarrow> headers \<Rightarrow> vault_id \<Rightarrow> string \<Rightarrow> string \<Rightarrow> unit api_prog" where
  "store_vault_prk_envelope A h v ciphertext nonce =
     bind (owned_vault A h v) (\<lambda>(pid, vault).
     bind (b64url_decode_or_bad A ciphertext) (\<lambda>ct.
     bind (b64url_decode_or_bad A nonce) (\<lambda>nc.
     api (db_upsert_vault_prk_envelope v pid ct nc))))"

definition get_vault_prk_envelope :: "app \<Rightarrow> headers \<Rightarrow> vault_id \<Rightarrow> (string \<times> string) api_prog" where
  "get_vault_prk_envelope A h v =
     bind (owned_vault A h v) (\<lambda>(pid, vault).
     bind (api (db_get_vault_prk_envelope v)) (\<lambda>found.
     bind (ok_or NotFound found) (\<lambda>(ciphertext, nonce).
     ret (b64url A ciphertext, b64url A nonce))))"

record recovery_letter_view =
  rlv_id :: letter_id
  rlv_title :: string
  rlv_recipient_email :: string
  rlv_ciphertext :: string
  rlv_nonce :: string

record recovery_vault_view =
  rvv_vault_id :: vault_id
  rvv_name :: string
  rvv_dek_prk_ct :: string
  rvv_dek_prk_nonce :: string
  rvv_letters :: "recovery_letter_view list"

record recovery_redeem_resp =
  rrr_code_salt :: string
  rrr_prk_code_ct :: string
  rrr_prk_code_nonce :: string
  rrr_vaults :: "recovery_vault_view list"

definition recovery_letter :: "app \<Rightarrow> letter_meta \<Rightarrow> recovery_letter_view list api_prog" where
  "recovery_letter A lm =
     bind (api (db_fetch_letter_full (lm_id lm))) (\<lambda>full.
     ret (if lf_ciphertext full = [] then []
       else [\<lparr>rlv_id = lm_id lm, rlv_title = lf_title full,
              rlv_recipient_email = lf_recipient_email full,
              rlv_ciphertext = b64url A (lf_ciphertext full),
              rlv_nonce = b64url A (lf_nonce full)\<rparr>]))"

definition recovery_vault :: "app \<Rightarrow> vault \<Rightarrow> recovery_vault_view list api_prog" where
  "recovery_vault A vault =
     (if v_tier vault \<noteq> ZeroKnowledge then ret []
      else bind (api (db_get_vault_prk_envelope (v_id vault))) (\<lambda>envelope.
        case envelope of
          None \<Rightarrow> ret []
        | Some (dek_ct, dek_nonce) \<Rightarrow>
            bind (api (db_list_letters (v_id vault))) (\<lambda>ls.
            bind (collect (recovery_letter A) ls) (\<lambda>letters.
            ret [\<lparr>rvv_vault_id = v_id vault, rvv_name = v_name vault,
                  rvv_dek_prk_ct = b64url A dek_ct, rvv_dek_prk_nonce = b64url A dek_nonce,
                  rvv_letters = concat letters\<rparr>]))))"

definition recovery_redeem :: "app \<Rightarrow> webauthn \<Rightarrow> string \<Rightarrow> string \<Rightarrow> recovery_redeem_resp api_prog" where
  "recovery_redeem A W email code =
     bind (api (db_get_principal_recovery_by_email email)) (\<lambda>found.
     bind (ok_or (BadRequest ''No recovery available for this account'') found) (\<lambda>(pid, recovery).
     andthen (check_recovery_code W recovery code)
     (bind (api (db_get_principal_recovery_key_by_email email)) (\<lambda>prk_opt.
      bind (ok_or (BadRequest ''No Recovery Key set up for this account'') prk_opt) (\<lambda>prk.
      bind (api (db_list_vaults pid)) (\<lambda>vs.
      bind (collect (recovery_vault A) vs) (\<lambda>out.
      ret \<lparr>rrr_code_salt = hex_encode (rk_code_salt prk),
           rrr_prk_code_ct = b64url A (rk_prk_code_ct prk),
           rrr_prk_code_nonce = b64url A (rk_prk_code_nonce prk),
           rrr_vaults = concat out\<rparr>)))))))"

section \<open>Management and envelopes\<close>

record passkey_info_resp =
  pki_id :: uuid
  pki_name :: string
  pki_backed_up :: bool
  pki_transports :: "string list"
  pki_created_at :: instant
  pki_last_used_at :: "instant option"

definition list_passkeys :: "app \<Rightarrow> headers \<Rightarrow> passkey_info_resp list api_prog" where
  "list_passkeys A h =
     bind (current_principal A h) (\<lambda>pid.
     bind (api (db_list_passkeys_for_principal pid)) (\<lambda>rows.
     ret (map (\<lambda>r. \<lparr>pki_id = pk_id r, pki_name = pk_name r, pki_backed_up = pk_backed_up r,
       pki_transports = pk_transports r, pki_created_at = pk_created_at r,
       pki_last_used_at = pk_last_used_at r\<rparr>) rows)))"

definition delete_passkey :: "app \<Rightarrow> headers \<Rightarrow> uuid \<Rightarrow> unit api_prog" where
  "delete_passkey A h p =
     bind (current_principal A h) (\<lambda>pid.
     bind (api (db_count_passkeys_for_principal pid)) (\<lambda>count.
     andthen
       (if count \<le> 1
        then bind (api (db_count_zk_vaults_for_principal pid)) (\<lambda>zk_count.
          reject_if (0 < zk_count)
            (Conflict (''Cannot delete your only passkey while Private Vaults exist. '' @
               ''Add another passkey or delete your Private Vaults first.'')))
        else ret ())
     (bind (api (db_delete_passkey p pid)) (\<lambda>deleted.
      if deleted then ret () else throw NotFound))))"

record store_zk_envelope_req =
  seq_passkey_id :: uuid
  seq_ciphertext :: string
  seq_nonce :: string
  seq_recovery_ciphertext :: "string option"
  seq_recovery_nonce :: "string option"
  seq_recovery_salt :: "string option"

definition store_zk_envelope :: "app \<Rightarrow> headers \<Rightarrow> vault_id \<Rightarrow> store_zk_envelope_req \<Rightarrow> unit api_prog" where
  "store_zk_envelope A h v body =
     bind (owned_vault A h v) (\<lambda>(pid, vault).
     bind (b64url_decode_or_bad A (seq_ciphertext body)) (\<lambda>ciphertext.
     bind (b64url_decode_or_bad A (seq_nonce body)) (\<lambda>nonce.
     andthen (api (db_upsert_zk_envelope v (seq_passkey_id body) ciphertext nonce))
       (case (seq_recovery_ciphertext body, seq_recovery_nonce body, seq_recovery_salt body) of
          (Some rc, Some rn, Some rs) \<Rightarrow>
            bind (b64url_decode_or_bad A rc) (\<lambda>rc_bytes.
            bind (b64url_decode_or_bad A rn) (\<lambda>rn_bytes.
            bind (ok_or (BadRequest ''recovery_salt must be hex-encoded'') (hex_decode rs)) (\<lambda>rs_bytes.
            api (db_upsert_zk_recovery_envelope v pid rs_bytes rc_bytes rn_bytes))))
        | _ \<Rightarrow> ret ()))))"

record zk_envelope_resp =
  zer_passkey_id :: uuid
  zer_ciphertext :: string
  zer_nonce :: string
  zer_created_at :: instant

definition get_zk_envelopes :: "app \<Rightarrow> headers \<Rightarrow> vault_id \<Rightarrow> zk_envelope_resp list api_prog" where
  "get_zk_envelopes A h v =
     bind (owned_vault A h v) (\<lambda>(pid, vault).
     bind (api (db_get_zk_envelopes_for_vault v)) (\<lambda>rows.
     ret (map (\<lambda>r. \<lparr>zer_passkey_id = ze_passkey_id r, zer_ciphertext = b64url A (ze_ciphertext r),
       zer_nonce = b64url A (ze_nonce r), zer_created_at = ze_created_at r\<rparr>) rows)))"

end
