(* ===== verification/App.thy ===== *)
theory App
  imports Aggregator RouteAccount RouteVault RouteUpload RouteZk RouteRelease RouteSignals RoutePeople Passkey
begin

text \<open>
  The whole server: the routes of src/crates/beacon-api/src/app.rs with the handler each one
  calls, and the passes of the workers that src/crates/beacon-api/src/scheduler.rs spawns. A
  request of a group is a constructor with the path and body parameters of its route; the
  bearer header is an argument. The answers that touch no state (health, canary, pages) are in
  Gateway.
\<close>

section \<open>Answers\<close>

text \<open>A handler that panics drops the connection.\<close>

datatype reply = Success | Failure problem | Dropped

definition answer :: "'a api_prog \<Rightarrow> world \<Rightarrow> reply \<times> world" where
  "answer m w = (case m w of
       (Ok _, w') \<Rightarrow> (Success, w')
     | (Err e, w') \<Rightarrow> (Failure (into_response e), w')
     | (Panic _, w') \<Rightarrow> (Dropped, w'))"

lemma snd_answer [simp]: "snd (answer m w) = snd (m w)"
  by (simp add: answer_def split: prod.split outcome.split)

section \<open>Signing up and in\<close>

datatype auth_request =
  PostSignup signup_req
| PostSignin string
| PostSignout
| PostMagicLinkVerify string
| PostPasskeyRegisterOptions passkey_register_options_req
| PostPasskeyRegisterVerify passkey_register_verify_req
| PostPasskeyAuthenticateOptions string
| PostPasskeyAuthenticateVerify uuid string
| PostRecoveryValidate string string
| PostRecoveryRedeem string string
| GetPlans
| GetTransparencyLog

fun auth_route :: "auth_request \<Rightarrow> string \<times> string" where
  "auth_route (PostSignup _) = (''POST'', ''/v1/auth/signup'')"
| "auth_route (PostSignin _) = (''POST'', ''/v1/auth/signin'')"
| "auth_route PostSignout = (''POST'', ''/v1/auth/signout'')"
| "auth_route (PostMagicLinkVerify _) = (''POST'', ''/v1/auth/magic-link/verify'')"
| "auth_route (PostPasskeyRegisterOptions _) = (''POST'', ''/v1/auth/passkey/register/options'')"
| "auth_route (PostPasskeyRegisterVerify _) = (''POST'', ''/v1/auth/passkey/register/verify'')"
| "auth_route (PostPasskeyAuthenticateOptions _) = (''POST'', ''/v1/auth/passkey/authenticate/options'')"
| "auth_route (PostPasskeyAuthenticateVerify _ _) = (''POST'', ''/v1/auth/passkey/authenticate/verify'')"
| "auth_route (PostRecoveryValidate _ _) = (''POST'', ''/v1/auth/passkey/recovery/validate'')"
| "auth_route (PostRecoveryRedeem _ _) = (''POST'', ''/v1/auth/passkey/recovery/redeem'')"
| "auth_route GetPlans = (''GET'', ''/v1/plans'')"
| "auth_route GetTransparencyLog = (''GET'', ''/v1/public/transparency-log'')"

fun serve_auth :: "app \<Rightarrow> webauthn \<Rightarrow> headers \<Rightarrow> auth_request \<Rightarrow> world \<Rightarrow> reply \<times> world" where
  "serve_auth A W h (PostSignup a) = answer (signup A a)"
| "serve_auth A W h (PostSignin a) = answer (signin A a)"
| "serve_auth A W h PostSignout = answer (signout A h)"
| "serve_auth A W h (PostMagicLinkVerify a) = answer (magic_link_verify A a)"
| "serve_auth A W h (PostPasskeyRegisterOptions a) = answer (passkey_register_options A W h a)"
| "serve_auth A W h (PostPasskeyRegisterVerify a) = answer (passkey_register_verify A W a)"
| "serve_auth A W h (PostPasskeyAuthenticateOptions a) = answer (passkey_authenticate_options W a)"
| "serve_auth A W h (PostPasskeyAuthenticateVerify a b) = answer (passkey_authenticate_verify A W a b)"
| "serve_auth A W h (PostRecoveryValidate a b) = answer (passkey_recovery_validate W a b)"
| "serve_auth A W h (PostRecoveryRedeem a b) = answer (recovery_redeem A W a b)"
| "serve_auth A W h GetPlans = answer (ret list_plans)"
| "serve_auth A W h GetTransparencyLog = answer list_transparency_log"

section \<open>Vaults\<close>

datatype vault_request =
  GetVaults
| PostVaults create_vault_req
| GetVault vault_id
| PatchVault vault_id update_vault_req
| PostVaultRegion vault_id string
| GetZkEnvelopes vault_id
| PostZkEnvelope vault_id store_zk_envelope_req
| GetPrkEnvelope vault_id
| PostPrkEnvelope vault_id string string
| PostForceRelease vault_id
| PostCancel vault_id
| PostDrills vault_id
| GetSignalSubscriptions vault_id
| PostSignalSubscription vault_id upsert_signal_sub_req
| GetContacts vault_id
| PostContact vault_id create_vault_contact_req
| PutContact vault_id uuid create_vault_contact_req
| DeleteContact vault_id uuid

fun vault_route :: "vault_request \<Rightarrow> string \<times> string" where
  "vault_route GetVaults = (''GET'', ''/v1/vaults'')"
| "vault_route (PostVaults _) = (''POST'', ''/v1/vaults'')"
| "vault_route (GetVault _) = (''GET'', ''/v1/vaults/:id'')"
| "vault_route (PatchVault _ _) = (''PATCH'', ''/v1/vaults/:id'')"
| "vault_route (PostVaultRegion _ _) = (''POST'', ''/v1/vaults/:id/region'')"
| "vault_route (GetZkEnvelopes _) = (''GET'', ''/v1/vaults/:id/zk-envelope'')"
| "vault_route (PostZkEnvelope _ _) = (''POST'', ''/v1/vaults/:id/zk-envelope'')"
| "vault_route (GetPrkEnvelope _) = (''GET'', ''/v1/vaults/:id/prk-envelope'')"
| "vault_route (PostPrkEnvelope _ _ _) = (''POST'', ''/v1/vaults/:id/prk-envelope'')"
| "vault_route (PostForceRelease _) = (''POST'', ''/v1/vaults/:id/force-release'')"
| "vault_route (PostCancel _) = (''POST'', ''/v1/vaults/:id/cancel'')"
| "vault_route (PostDrills _) = (''POST'', ''/v1/vaults/:id/drills'')"
| "vault_route (GetSignalSubscriptions _) = (''GET'', ''/v1/vaults/:id/signal-subscriptions'')"
| "vault_route (PostSignalSubscription _ _) = (''POST'', ''/v1/vaults/:id/signal-subscriptions'')"
| "vault_route (GetContacts _) = (''GET'', ''/v1/vaults/:id/contacts'')"
| "vault_route (PostContact _ _) = (''POST'', ''/v1/vaults/:id/contacts'')"
| "vault_route (PutContact _ _ _) = (''PUT'', ''/v1/vaults/:id/contacts/:cid'')"
| "vault_route (DeleteContact _ _) = (''DELETE'', ''/v1/vaults/:id/contacts/:cid'')"

fun serve_vault :: "app \<Rightarrow> webauthn \<Rightarrow> headers \<Rightarrow> vault_request \<Rightarrow> world \<Rightarrow> reply \<times> world" where
  "serve_vault A W h GetVaults = answer (list_vaults A h)"
| "serve_vault A W h (PostVaults a) = answer (create_vault A h a)"
| "serve_vault A W h (GetVault a) = answer (get_vault A h a)"
| "serve_vault A W h (PatchVault a b) = answer (update_vault A h a b)"
| "serve_vault A W h (PostVaultRegion a b) = answer (move_vault_region A h a b)"
| "serve_vault A W h (GetZkEnvelopes a) = answer (get_zk_envelopes A h a)"
| "serve_vault A W h (PostZkEnvelope a b) = answer (store_zk_envelope A h a b)"
| "serve_vault A W h (GetPrkEnvelope a) = answer (get_vault_prk_envelope A h a)"
| "serve_vault A W h (PostPrkEnvelope a b c) = answer (store_vault_prk_envelope A h a b c)"
| "serve_vault A W h (PostForceRelease a) = answer (force_release A h a)"
| "serve_vault A W h (PostCancel a) = answer (cancel_release A h a)"
| "serve_vault A W h (PostDrills a) = answer (run_drill A h a)"
| "serve_vault A W h (GetSignalSubscriptions a) = answer (list_signal_subscriptions A h a)"
| "serve_vault A W h (PostSignalSubscription a b) = answer (upsert_signal_subscription A h a b)"
| "serve_vault A W h (GetContacts a) = answer (list_vault_contacts A h a)"
| "serve_vault A W h (PostContact a b) = answer (create_vault_contact A h a b)"
| "serve_vault A W h (PutContact a b c) = answer (update_vault_contact A h a b c)"
| "serve_vault A W h (DeleteContact a b) = answer (delete_vault_contact A h a b)"

section \<open>Letters\<close>

datatype letter_request =
  GetLetters vault_id
| PostLetter vault_id seal_letter_req
| PostLetterMultipart vault_id multipart
| PostLetterExport vault_id letter_id string
| GetLetter vault_id letter_id
| PatchLetter vault_id letter_id update_letter_req
| DeleteLetter vault_id letter_id
| PostZkLetter vault_id seal_zk_letter_req
| GetZkCiphertext vault_id letter_id
| GetClaim string
| GetClaimAttachment string

fun letter_route :: "letter_request \<Rightarrow> string \<times> string" where
  "letter_route (GetLetters _) = (''GET'', ''/v1/vaults/:id/letters'')"
| "letter_route (PostLetter _ _) = (''POST'', ''/v1/vaults/:id/letters'')"
| "letter_route (PostLetterMultipart _ _) = (''POST'', ''/v1/vaults/:id/letters/multipart'')"
| "letter_route (PostLetterExport _ _ _) = (''POST'', ''/v1/vaults/:vault_id/letters/:letter_id/export'')"
| "letter_route (GetLetter _ _) = (''GET'', ''/v1/vaults/:vault_id/letters/:letter_id'')"
| "letter_route (PatchLetter _ _ _) = (''PATCH'', ''/v1/vaults/:vault_id/letters/:letter_id'')"
| "letter_route (DeleteLetter _ _) = (''DELETE'', ''/v1/vaults/:vault_id/letters/:letter_id'')"
| "letter_route (PostZkLetter _ _) = (''POST'', ''/v1/vaults/:id/letters/zk'')"
| "letter_route (GetZkCiphertext _ _) = (''GET'', ''/v1/vaults/:vault_id/letters/:letter_id/ciphertext'')"
| "letter_route (GetClaim _) = (''GET'', ''/v1/releases/claim'')"
| "letter_route (GetClaimAttachment _) = (''GET'', ''/v1/releases/claim/attachment'')"

fun serve_letter :: "app \<Rightarrow> webauthn \<Rightarrow> headers \<Rightarrow> letter_request \<Rightarrow> world \<Rightarrow> reply \<times> world" where
  "serve_letter A W h (GetLetters a) = answer (list_letters A h a)"
| "serve_letter A W h (PostLetter a b) = answer (seal_letter A h a b)"
| "serve_letter A W h (PostLetterMultipart a b) = answer (seal_letter_multipart A h a b)"
| "serve_letter A W h (PostLetterExport a b c) = answer (export_letter A h a b c)"
| "serve_letter A W h (GetLetter a b) = answer (get_letter A h a b)"
| "serve_letter A W h (PatchLetter a b c) = answer (update_letter A h a b c)"
| "serve_letter A W h (DeleteLetter a b) = answer (delete_letter_handler A h a b)"
| "serve_letter A W h (PostZkLetter a b) = answer (seal_zk_letter A h a b)"
| "serve_letter A W h (GetZkCiphertext a b) = answer (get_zk_letter_ciphertext A h a b)"
| "serve_letter A W h (GetClaim a) = answer (claim_release A a)"
| "serve_letter A W h (GetClaimAttachment a) = answer (claim_attachment A a)"

section \<open>Signals and duress\<close>

datatype signal_request =
  PostHeartbeat "string option"
| PostAppleEnrol string
| PostApplePing apple_ping_req
| PostMicrosoftObserve instant
| GetBankSignal
| PostBankSignal
| DeleteBankSignal
| PostBankWebhook uuid
| GetDuress
| PostDuress arm_duress_req
| DeleteDuress
| PostDuressWebhook uuid

fun signal_route :: "signal_request \<Rightarrow> string \<times> string" where
  "signal_route (PostHeartbeat _) = (''POST'', ''/v1/heartbeats'')"
| "signal_route (PostAppleEnrol _) = (''POST'', ''/v1/signals/apple-icloud/enrol'')"
| "signal_route (PostApplePing _) = (''POST'', ''/v1/signals/apple-icloud/ping'')"
| "signal_route (PostMicrosoftObserve _) = (''POST'', ''/v1/signals/microsoft/observe'')"
| "signal_route GetBankSignal = (''GET'', ''/v1/principals/me/bank-signal'')"
| "signal_route PostBankSignal = (''POST'', ''/v1/principals/me/bank-signal'')"
| "signal_route DeleteBankSignal = (''DELETE'', ''/v1/principals/me/bank-signal'')"
| "signal_route (PostBankWebhook _) = (''POST'', ''/v1/signals/bank-dormancy/:webhook_id'')"
| "signal_route GetDuress = (''GET'', ''/v1/principals/me/duress'')"
| "signal_route (PostDuress _) = (''POST'', ''/v1/principals/me/duress'')"
| "signal_route DeleteDuress = (''DELETE'', ''/v1/principals/me/duress'')"
| "signal_route (PostDuressWebhook _) = (''POST'', ''/v1/signals/duress/:webhook_id'')"

fun serve_signal :: "app \<Rightarrow> webauthn \<Rightarrow> headers \<Rightarrow> signal_request \<Rightarrow> world \<Rightarrow> reply \<times> world" where
  "serve_signal A W h (PostHeartbeat a) = answer (post_heartbeat A h a)"
| "serve_signal A W h (PostAppleEnrol a) = answer (apple_icloud_enrol A h a)"
| "serve_signal A W h (PostApplePing a) = answer (apple_icloud_ping A a)"
| "serve_signal A W h (PostMicrosoftObserve a) = answer (microsoft_observe A h a)"
| "serve_signal A W h GetBankSignal = answer (get_bank_signal_status A h)"
| "serve_signal A W h PostBankSignal = answer (bank_dormancy_enrol A h)"
| "serve_signal A W h DeleteBankSignal = answer (revoke_bank_signal A h)"
| "serve_signal A W h (PostBankWebhook a) = answer (bank_dormancy_webhook A a)"
| "serve_signal A W h GetDuress = answer (get_duress A h)"
| "serve_signal A W h (PostDuress a) = answer (arm_duress A h a)"
| "serve_signal A W h DeleteDuress = answer (revoke_duress A h)"
| "serve_signal A W h (PostDuressWebhook a) = answer (duress_webhook a)"

section \<open>Co-Stewards and buddies\<close>

datatype people_request =
  GetCoStewards
| PostCoSteward invite_co_steward_req
| DeleteCoSteward co_steward_id
| PostCoStewardConfirm string string
| PostCoStewardSignIn string string
| GetCoStewardDashboard
| GetCoStewardLetters
| PostLetterRecipient letter_id string
| PostLetterRelease letter_id
| PostRecipientChangeCancel uuid
| GetBuddies
| PostBuddy invite_buddy_req
| DeleteBuddy buddy_id
| PostBuddyConfirm string
| PostBuddyResponse buddy_id string

fun people_route :: "people_request \<Rightarrow> string \<times> string" where
  "people_route GetCoStewards = (''GET'', ''/v1/principals/me/co-stewards'')"
| "people_route (PostCoSteward _) = (''POST'', ''/v1/principals/me/co-stewards'')"
| "people_route (DeleteCoSteward _) = (''DELETE'', ''/v1/co-stewards/:id'')"
| "people_route (PostCoStewardConfirm _ _) = (''POST'', ''/v1/co-stewards/confirm'')"
| "people_route (PostCoStewardSignIn _ _) = (''POST'', ''/v1/co-stewards/sign-in'')"
| "people_route GetCoStewardDashboard = (''GET'', ''/v1/co-stewards/me/dashboard'')"
| "people_route GetCoStewardLetters = (''GET'', ''/v1/co-stewards/me/letters'')"
| "people_route (PostLetterRecipient _ _) = (''POST'', ''/v1/co-stewards/me/letters/:id/recipient'')"
| "people_route (PostLetterRelease _) = (''POST'', ''/v1/co-stewards/me/letters/:id/release'')"
| "people_route (PostRecipientChangeCancel _) = (''POST'', ''/v1/co-stewards/me/recipient-changes/:id/cancel'')"
| "people_route GetBuddies = (''GET'', ''/v1/principals/me/buddies'')"
| "people_route (PostBuddy _) = (''POST'', ''/v1/principals/me/buddies'')"
| "people_route (DeleteBuddy _) = (''DELETE'', ''/v1/buddies/:id'')"
| "people_route (PostBuddyConfirm _) = (''POST'', ''/v1/buddies/confirm'')"
| "people_route (PostBuddyResponse _ _) = (''POST'', ''/v1/buddies/:id/responses'')"

fun serve_people :: "app \<Rightarrow> webauthn \<Rightarrow> headers \<Rightarrow> people_request \<Rightarrow> world \<Rightarrow> reply \<times> world" where
  "serve_people A W h GetCoStewards = answer (list_co_stewards A h)"
| "serve_people A W h (PostCoSteward a) = answer (invite_co_steward A h a)"
| "serve_people A W h (DeleteCoSteward a) = answer (revoke_co_steward A h a)"
| "serve_people A W h (PostCoStewardConfirm a b) = answer (confirm_co_steward A a b)"
| "serve_people A W h (PostCoStewardSignIn a b) = answer (sign_in_co_steward A a b)"
| "serve_people A W h GetCoStewardDashboard = answer (co_steward_dashboard A h)"
| "serve_people A W h GetCoStewardLetters = answer (co_steward_admin_letters A h)"
| "serve_people A W h (PostLetterRecipient a b) = answer (co_steward_update_recipient A h a b)"
| "serve_people A W h (PostLetterRelease a) = answer (co_steward_release_event_letter A h a)"
| "serve_people A W h (PostRecipientChangeCancel a) = answer (co_steward_cancel_recipient_change A h a)"
| "serve_people A W h GetBuddies = answer (list_buddies A h)"
| "serve_people A W h (PostBuddy a) = answer (invite_buddy A h a)"
| "serve_people A W h (DeleteBuddy a) = answer (revoke_buddy A h a)"
| "serve_people A W h (PostBuddyConfirm a) = answer (confirm_buddy A a)"
| "serve_people A W h (PostBuddyResponse a b) = answer (respond_buddy a b)"

section \<open>The account\<close>

datatype account_request =
  GetSubscription
| GetUsage
| GetActivity
| GetPasskeys
| DeletePasskey uuid
| GetRecoveryKey
| PostRecoveryKey store_recovery_key_req
| DeleteMe
| PostCancelDeletion

fun account_route :: "account_request \<Rightarrow> string \<times> string" where
  "account_route GetSubscription = (''GET'', ''/v1/principals/me/subscription'')"
| "account_route GetUsage = (''GET'', ''/v1/principals/me/usage'')"
| "account_route GetActivity = (''GET'', ''/v1/principals/me/activity'')"
| "account_route GetPasskeys = (''GET'', ''/v1/principals/me/passkeys'')"
| "account_route (DeletePasskey _) = (''DELETE'', ''/v1/principals/me/passkeys/:id'')"
| "account_route GetRecoveryKey = (''GET'', ''/v1/principals/me/recovery-key'')"
| "account_route (PostRecoveryKey _) = (''POST'', ''/v1/principals/me/recovery-key'')"
| "account_route DeleteMe = (''DELETE'', ''/v1/principals/me'')"
| "account_route PostCancelDeletion = (''POST'', ''/v1/principals/me/cancel-deletion'')"

fun serve_account :: "app \<Rightarrow> webauthn \<Rightarrow> headers \<Rightarrow> account_request \<Rightarrow> world \<Rightarrow> reply \<times> world" where
  "serve_account A W h GetSubscription = answer (get_subscription A h)"
| "serve_account A W h GetUsage = answer (get_usage A h)"
| "serve_account A W h GetActivity = answer (get_activity A h)"
| "serve_account A W h GetPasskeys = answer (list_passkeys A h)"
| "serve_account A W h (DeletePasskey a) = answer (delete_passkey A h a)"
| "serve_account A W h GetRecoveryKey = answer (get_recovery_key A h)"
| "serve_account A W h (PostRecoveryKey a) = answer (store_recovery_key A h a)"
| "serve_account A W h DeleteMe = answer (request_account_deletion A h)"
| "serve_account A W h PostCancelDeletion = answer (cancel_account_deletion A h)"

section \<open>The router and the workers\<close>

datatype request =
  AuthRequest auth_request
| VaultRequest vault_request
| LetterRequest letter_request
| SignalRequest signal_request
| PeopleRequest people_request
| AccountRequest account_request

fun route :: "request \<Rightarrow> string \<times> string" where
  "route (AuthRequest r) = auth_route r"
| "route (VaultRequest r) = vault_route r"
| "route (LetterRequest r) = letter_route r"
| "route (SignalRequest r) = signal_route r"
| "route (PeopleRequest r) = people_route r"
| "route (AccountRequest r) = account_route r"

fun serve :: "app \<Rightarrow> webauthn \<Rightarrow> headers \<Rightarrow> request \<Rightarrow> world \<Rightarrow> reply \<times> world" where
  "serve A W h (AuthRequest r) = serve_auth A W h r"
| "serve A W h (VaultRequest r) = serve_vault A W h r"
| "serve A W h (LetterRequest r) = serve_letter A W h r"
| "serve A W h (SignalRequest r) = serve_signal A W h r"
| "serve A W h (PeopleRequest r) = serve_people A W h r"
| "serve A W h (AccountRequest r) = serve_account A W h r"

text \<open>One pass of each background loop, and a per-request release timer that fires.\<close>

datatype worker =
  SignalAggregator | RetentionScheduler | ScheduledReleaseScheduler | ReleaseElapseScheduler
| RecipientChangeApplier | ReleaseTimer timer

fun worker_pass :: "app \<Rightarrow> worker \<Rightarrow> world \<Rightarrow> world" where
  "worker_pass A SignalAggregator w = snd (aggregator_tick A w)"
| "worker_pass A RetentionScheduler w = snd (retention_tick A w)"
| "worker_pass A ScheduledReleaseScheduler w = snd (scheduled_release_tick w)"
| "worker_pass A ReleaseElapseScheduler w = snd (release_elapse_tick A w)"
| "worker_pass A RecipientChangeApplier w = snd (recipient_change_tick w)"
| "worker_pass A (ReleaseTimer t) w = snd (fire_timer A t w)"

text \<open>
  The server runs: it answers a request, a worker makes a pass, a timer that was started
  fires, or time passes.
\<close>

inductive server_step :: "app \<Rightarrow> webauthn \<Rightarrow> world \<Rightarrow> world \<Rightarrow> bool" for A W where
  request: "server_step A W w (snd (serve A W h r w))"
| worker: "\<forall>t. wk \<noteq> ReleaseTimer t \<Longrightarrow> server_step A W w (worker_pass A wk w)"
| timer: "t \<in> set (timers w) \<Longrightarrow> tm_fires_at t \<le> clock w \<Longrightarrow>
    server_step A W w (worker_pass A (ReleaseTimer t) w)"
| time: "clock w \<le> t \<Longrightarrow> server_step A W w (w\<lparr>clock := t\<rparr>)"

definition runs :: "app \<Rightarrow> webauthn \<Rightarrow> world \<Rightarrow> world \<Rightarrow> bool" where
  "runs A W = (server_step A W)\<^sup>*\<^sup>*"

inductive_simps server_step_iff: "server_step A W w w'"

end
