(* ===== verification/Notify.thy ===== *)
theory Notify
  imports RouteBase
begin

text \<open>
  The messages of src/crates/beacon-api/src/notifications.rs: the texts and HTML of the \<open>tx\<close>
  functions, the payload of the Resend sink and the line of the stub sink. \<open>render\<close> gives the
  message of a \<open>notice\<close> of the world. The HTTP and SMTP transports are third-party.
\<close>

section \<open>Messages\<close>

datatype channel = ChEmail | ChSms | ChPush | ChVoice | ChOperator

fun channel_as_str :: "channel \<Rightarrow> string" where
  "channel_as_str ChEmail = ''EMAIL''"
| "channel_as_str ChSms = ''SMS''"
| "channel_as_str ChPush = ''PUSH''"
| "channel_as_str ChVoice = ''VOICE''"
| "channel_as_str ChOperator = ''OPERATOR''"

record outbound_message =
  om_channel :: channel
  om_to :: string
  om_subject :: "string option"
  om_body :: string
  om_html :: "string option"

definition nl :: string where
  "nl = [CHR 10]"

definition replace_char :: "char \<Rightarrow> string \<Rightarrow> string \<Rightarrow> string" where
  "replace_char c r s = concat (map (\<lambda>x. if x = c then r else [x]) s)"

section \<open>Sinks\<close>

definition stub_line :: "string \<Rightarrow> outbound_message \<Rightarrow> string" where
  "stub_line timestamp msg =
     timestamp @ [CHR 9] @ channel_as_str (om_channel msg) @ [CHR 9] @ om_to msg @ [CHR 9] @
     unwrap_or [] (om_subject msg) @ [CHR 9] @
     replace_char (CHR 10) ('' '' @ [CHR 92] @ ''n '') (om_body msg) @ nl"

record resend_payload =
  rp_from :: string
  rp_to :: "string list"
  rp_subject :: string
  rp_text :: string
  rp_html :: "string option"

definition resend_payload_of :: "string \<Rightarrow> outbound_message \<Rightarrow> resend_payload" where
  "resend_payload_of from_addr msg =
     \<lparr>rp_from = from_addr, rp_to = [om_to msg], rp_subject = unwrap_or [] (om_subject msg),
      rp_text = om_body msg, rp_html = om_html msg\<rparr>"

text \<open>What Resend is sent: nothing for a channel other than e-mail.\<close>

definition resend_send :: "string \<Rightarrow> outbound_message \<Rightarrow> resend_payload option" where
  "resend_send from_addr msg =
     (if om_channel msg \<noteq> ChEmail then None else Some (resend_payload_of from_addr msg))"

section \<open>HTML\<close>

definition esc :: "string \<Rightarrow> string" where
  "esc s = replace_char (CHR 34) ''&quot;'' (replace_char (CHR ''>'') ''&gt;''
     (replace_char (CHR ''<'') ''&lt;'' (replace_char (CHR ''&'') ''&amp;'' s)))"

definition html_email :: "string \<Rightarrow> string" where
  \<open>html_email body_html =
     ''<!DOCTYPE html>'' @ nl @
     ''<html lang="en"><head><meta charset="utf-8"><meta name="viewport" '' @
     ''content="width=device-width, initial-scale=1.0"></head><body '' @
     ''style="margin:0;padding:0;background:#f4f5f7;"><table role="presentation" '' @
     ''width="100%" cellpadding="0" cellspacing="0" '' @
     ''style="background:#f4f5f7;"><tr><td align="center" style="padding:32px '' @
     ''16px;"><table role="presentation" width="100%" cellpadding="0" '' @ ''cellspacing="0" '' @
     ''style="max-width:520px;background:#ffffff;border-radius:12px;border:1px solid '' @
     ''#e3e6ea;overflow:hidden;"><tr><td style="padding:24px '' @
     ''32px;background:#0f172a;"><span style="font:600 18px '' @
     ''-apple-system,BlinkMacSystemFont,'' @ [CHR 39] @ ''Segoe UI'' @ [CHR 39] @
     '',Roboto,Helvetica,Arial,sans-serif;color:#ffffff;letter-spacing:0.02em;">Pasch'' @
     ''al</span></td></tr><tr><td style="padding:32px;font:400 15px/1.6 '' @
     ''-apple-system,BlinkMacSystemFont,'' @ [CHR 39] @ ''Segoe UI'' @ [CHR 39] @
     '',Roboto,Helvetica,Arial,sans-serif;color:#1f2933;">'' @ body_html @
     ''</td></tr><tr><td style="padding:20px 32px;border-top:1px solid '' @
     ''#e3e6ea;font:400 12px/1.5 -apple-system,BlinkMacSystemFont,'' @ [CHR 39] @ ''Segoe UI'' @
     [CHR 39] @ '',Roboto,Helvetica,Arial,sans-serif;color:#8895a7;">Paschal is a digital '' @
     ''continuity service. This message and its transparency-log entry are '' @
     ''recorded.</td></tr></table></td></tr></table></body></html>''\<close>

definition heading :: "string \<Rightarrow> string" where
  \<open>heading txt =
     ''<h1 style="margin:0 0 16px;font:600 20px -apple-system,BlinkMacSystemFont,'' @ [CHR 39] @
     ''Segoe UI'' @ [CHR 39] @ '',Roboto,Helvetica,Arial,sans-serif;color:#0f172a;">'' @ esc txt @
     ''</h1>''\<close>

definition cta_button :: "string \<Rightarrow> string \<Rightarrow> string" where
  \<open>cta_button label url =
     ''<table role="presentation" cellpadding="0" cellspacing="0" style="margin:24px '' @
     ''0;"><tr><td align="center" style="border-radius:8px;background:#2563eb;"><a '' @
     ''href="'' @ esc url @ ''" style="display:inline-block;padding:12px 28px;font:600 15px '' @
     ''-apple-system,BlinkMacSystemFont,'' @ [CHR 39] @ ''Segoe UI'' @ [CHR 39] @
     '',Roboto,Helvetica,Arial,sans-serif;color:#ffffff;text-decoration:none;border-r'' @
     ''adius:8px;">'' @ esc label @ ''</a></td></tr></table>''\<close>

section \<open>The standard messages\<close>

definition tx_welcome ::
  "string \<Rightarrow> string \<Rightarrow> outbound_message" where
  \<open>tx_welcome email trial_end_at =
    \<lparr>om_channel = ChEmail, om_to = email,
     om_subject = Some (''Welcome to Paschal''),
     om_body =
       ''Welcome to Paschal. Your Trial ends at '' @ trial_end_at @ ''.'' @ nl @
       ''You can author Letters now; we will run a rehearsal soon.'',
     om_html = Some (html_email (
       heading (''Welcome to Paschal'') @
       ''<p style="margin:0 0 16px;">Your trial ends on <strong>'' @ esc trial_end_at @
       ''</strong>.</p><p style="margin:0;">You can author Letters now '' @
       [CHR 0xE2, CHR 0x80, CHR 0x94] @ '' we'' @ [CHR 39] @
       ''ll run a rehearsal soon so you can see exactly how delivery works.</p>''))\<rparr>\<close>

definition tx_magic_link ::
  "string \<Rightarrow> string \<Rightarrow> outbound_message" where
  \<open>tx_magic_link email link =
    \<lparr>om_channel = ChEmail, om_to = email,
     om_subject = Some (''Your Paschal sign-in link''),
     om_body =
       ''Click the link below to sign in to Paschal:'' @ nl @ nl @ link @ nl @ nl @
       ''This link expires in 15 minutes and can be used once.'' @ nl @
       ''If you did not request this, you can safely ignore this email '' @
       [CHR 0xE2, CHR 0x80, CHR 0x94] @ '' no one can sign in without it.'' @ nl @ nl @
       [CHR 0xE2, CHR 0x80, CHR 0x94] @ '' The Paschal team'',
     om_html = None\<rparr>\<close>

definition tx_cooling_off_started ::
  "string \<Rightarrow> string \<Rightarrow> string \<Rightarrow> outbound_message" where
  \<open>tx_cooling_off_started principal_email vault_name ends_at =
    \<lparr>om_channel = ChEmail, om_to = principal_email,
     om_subject = Some (''Your '' @ vault_name @ '' Vault is in cooling-off''),
     om_body =
       ''Your '' @ vault_name @ '' Vault entered cooling-off.'' @ nl @
       ''Unless you cancel, it will release at '' @ ends_at @ ''.'' @ nl @
       ''Cancel from any signed-in device.'',
     om_html = Some (html_email (
       heading (''Your '' @ vault_name @ '' Vault is in cooling-off'') @
       ''<p style="margin:0 0 16px;">Your <strong>'' @ esc vault_name @
       ''</strong> Vault entered cooling-off. Unless you cancel, it will release at '' @
       ''<strong>'' @ esc ends_at @
       ''</strong>.</p><p style="margin:0;">You can cancel from any signed-in '' @ ''device.</p>''))\<rparr>\<close>

definition tx_cooling_off_cancelled ::
  "string \<Rightarrow> outbound_message" where
  \<open>tx_cooling_off_cancelled principal_email =
    \<lparr>om_channel = ChEmail, om_to = principal_email,
     om_subject = Some (''Cooling-off cancelled''),
     om_body =
       ''Your Vault is back to Active. No further action.'',
     om_html = Some (html_email (
       heading (''Cooling-off cancelled'') @
       ''<p style="margin:0;">Your Vault is back to <strong>Active</strong>. No '' @
       ''further action is needed.</p>''))\<rparr>\<close>

definition attachment_lines :: "(string \<times> string) list \<Rightarrow> string" where
  \<open>attachment_lines atts = join nl (map (\<lambda>(name, url). ''  - '' @ name @ nl @ ''    '' @ url) atts)\<close>

definition attachments_block :: "(string \<times> string) list \<Rightarrow> string" where
  \<open>attachments_block atts =
     (if atts = [] then []
      else nl @ nl @ ''Attachments (each link works once):'' @ nl @ attachment_lines atts)\<close>

definition attachment_item :: "string \<times> string \<Rightarrow> string" where
  \<open>attachment_item a = (case a of (name, url) \<Rightarrow>
     ''<li style="margin:0 0 8px;"><a href="'' @ esc url @ ''" style="color:#2563eb;">'' @
     esc name @ ''</a></li>'')\<close>

definition attachments_html :: "(string \<times> string) list \<Rightarrow> string" where
  \<open>attachments_html atts =
     (if atts = [] then []
      else ''<p style="margin:24px 0 8px;font-weight:600;">Attachments (each link works '' @
     ''once):</p><ul style="margin:0;padding-left:20px;">'' @ concat (map attachment_item atts) @
     ''</ul>'')\<close>

definition release_subject :: "bool \<Rightarrow> string" where
  \<open>release_subject is_drill =
     (if is_drill then ''Rehearsal '' @ [CHR 0xE2, CHR 0x80, CHR 0x94] @ '' please read''
      else ''Material left for you'')\<close>

definition release_opener :: "bool \<Rightarrow> string" where
  \<open>release_opener is_drill =
     (if is_drill then ''Rehearsal '' @ [CHR 0xE2, CHR 0x80, CHR 0x94] @
       '' the principal is rehearsing the system that will one day release material to '' @
       ''you.''
      else ''The principal named you to receive material from their Vault.'')\<close>

definition tx_release_notification_with_attachments ::
  "string \<Rightarrow> string \<Rightarrow> string \<Rightarrow> bool \<Rightarrow> (string \<times> string) list \<Rightarrow> outbound_message" where
  \<open>tx_release_notification_with_attachments recipient letter_title claim is_drill atts =
    \<lparr>om_channel = ChEmail, om_to = recipient,
     om_subject = Some (release_subject is_drill),
     om_body =
       release_opener is_drill @ nl @ nl @ ''Title: '' @ letter_title @ nl @ ''Open the Letter: '' @
       claim @ attachments_block atts @ nl @ nl @
       ''Paschal is a digital continuity service. The transparency log entry for this '' @
       ''message is recorded.'',
     om_html = Some (html_email (
       heading (release_subject is_drill) @ ''<p style="margin:0 0 16px;">'' @
       esc (release_opener is_drill) @ ''</p><p style="margin:0;">Title: <strong>'' @
       esc letter_title @ ''</strong></p>'' @ cta_button ''Open the Letter'' claim @
       attachments_html atts))\<rparr>\<close>

definition tx_buddy_invite ::
  "string \<Rightarrow> string \<Rightarrow> string \<Rightarrow> outbound_message" where
  \<open>tx_buddy_invite buddy_email principal_email confirmation_url =
    \<lparr>om_channel = ChEmail, om_to = buddy_email,
     om_subject = Some (''You were invited as a Paschal Buddy''),
     om_body =
       principal_email @ '' added you as a Buddy on Paschal.'' @ nl @
       ''You will be asked to confirm they are well, occasionally.'' @ nl @ ''Confirm your role: '' @
       confirmation_url,
     om_html = Some (html_email (
       heading (''You were invited as a Paschal Buddy'') @ ''<p style="margin:0 0 16px;"><strong>'' @
       esc principal_email @
       ''</strong> added you as a Buddy on Paschal.</p><p style="margin:0;">You'' @ [CHR 39] @
       ''ll be asked to confirm they'' @ [CHR 39] @
       ''re well, occasionally. You never see Letter contents.</p>'' @
       cta_button ''Confirm your role'' confirmation_url))\<rparr>\<close>

definition tx_heir_share ::
  "string \<Rightarrow> string \<Rightarrow> outbound_message" where
  \<open>tx_heir_share recipient_email share_code =
    \<lparr>om_channel = ChEmail, om_to = recipient_email,
     om_subject = Some (''You'' @ [CHR 39] @ ''ve been named in a Paschal letter''),
     om_body =
       ''Someone has written you a letter through Paschal, to be delivered to you at '' @
       ''some point in the future.'' @ nl @ nl @ ''Keep this recovery code somewhere safe '' @
       [CHR 0xE2, CHR 0x80, CHR 0x94] @ '' you'' @ [CHR 39] @
       ''ll need it to open the letter if and when it is delivered to you:'' @ nl @ nl @ ''    '' @
       share_code @ nl @ nl @ ''There'' @ [CHR 39] @
       ''s nothing to do now. If the letter is ever released you'' @ [CHR 39] @
       ''ll get a link, and this code will open it. We cannot recover this code for '' @
       ''you, and we cannot read the letter.'',
     om_html = Some (html_email (
       heading (''You'' @ [CHR 39] @ ''ve been named in a Paschal letter'') @
       ''<p style="margin:0 0 16px;">Someone has written you a letter through Paschal, '' @
       ''to be delivered to you at some point in the future.</p><p style="margin:0 0 '' @
       ''12px;">Keep this recovery code somewhere safe '' @ [CHR 0xE2, CHR 0x80, CHR 0x94] @
       '' you'' @ [CHR 39] @
       ''ll need it to open the letter if and when it is delivered to you:</p><p '' @
       ''style="margin:0 0 '' @
       ''16px;padding:16px;background:#f4f5f7;border-radius:8px;font:600 18px '' @
       ''ui-monospace,SFMono-Regular,Menlo,Consolas,monospace;color:#0f172a;text-align:'' @
       ''center;letter-spacing:0.05em;">'' @ esc share_code @ ''</p><p style="margin:0;">There'' @
       [CHR 39] @ ''s nothing to do now. If the letter is ever released you'' @ [CHR 39] @
       ''ll get a link, and this code will open it. We cannot recover this code for '' @
       ''you, and we cannot read the letter.</p>''))\<rparr>\<close>

definition tx_recipient_change_requested ::
  "string \<Rightarrow> string \<Rightarrow> string \<Rightarrow> outbound_message" where
  \<open>tx_recipient_change_requested old_recipient letter_title effective_at =
    \<lparr>om_channel = ChEmail, om_to = old_recipient,
     om_subject = Some (''A delivery address was changed''),
     om_body =
       ''A Co-Steward has asked to change the delivery contact for the Letter "'' @ letter_title @
       ''".'' @ nl @ ''The change takes effect at '' @ effective_at @ ''.'' @ nl @
       ''If this is unexpected, contact support before then. The change is recorded in '' @
       ''the transparency log.'',
     om_html = Some (html_email (
       heading (''A delivery address was changed'') @
       ''<p style="margin:0 0 16px;">A Co-Steward has asked to change the delivery '' @
       ''contact for the Letter '' @ [CHR 0xE2, CHR 0x80, CHR 0x9C] @ ''<strong>'' @
       esc letter_title @ ''</strong>'' @ [CHR 0xE2, CHR 0x80, CHR 0x9D] @
       ''.</p><p style="margin:0 0 16px;">The change takes effect at <strong>'' @ esc effective_at @
       ''</strong>.</p><p style="margin:0;">If this is unexpected, contact support '' @
       ''before then. The change is recorded in the transparency log.</p>''))\<rparr>\<close>

definition tx_co_steward_invite ::
  "string \<Rightarrow> string \<Rightarrow> string \<Rightarrow> outbound_message" where
  \<open>tx_co_steward_invite co_steward_email principal_email confirmation_url =
    \<lparr>om_channel = ChEmail, om_to = co_steward_email,
     om_subject = Some (''You were invited as a Paschal Co-Steward''),
     om_body =
       principal_email @ '' nominated you as a Co-Steward on their Paschal account.'' @ nl @ nl @
       ''As a Co-Steward you can SEE the state of their Vaults '' @ [CHR 0xE2, CHR 0x80, CHR 0x94] @
       '' last heartbeat,'' @ nl @ ''signal strength, scheduled releases '' @
       [CHR 0xE2, CHR 0x80, CHR 0x94] @ '' but you will NEVER see Letter'' @ nl @
       ''contents and you cannot change anything.'' @ nl @ nl @
       ''To accept this role, set a passphrase here:'' @ nl @ confirmation_url @ nl @ nl @
       ''You can refuse simply by ignoring this email.'',
     om_html = Some (html_email (
       heading (''You were invited as a Paschal Co-Steward'') @
       ''<p style="margin:0 0 16px;"><strong>'' @ esc principal_email @
       ''</strong> nominated you as a Co-Steward on their Paschal account.</p><p '' @
       ''style="margin:0 0 16px;">As a Co-Steward you can <strong>see</strong> the '' @
       ''state of their Vaults '' @ [CHR 0xE2, CHR 0x80, CHR 0x94] @
       '' last heartbeat, signal strength, scheduled releases '' @ [CHR 0xE2, CHR 0x80, CHR 0x94] @
       '' but you will <strong>never</strong> see Letter contents and you cannot '' @
       ''change anything.</p>'' @ cta_button ''Accept and set a passphrase'' confirmation_url @
       ''<p style="margin:16px 0 0;color:#8895a7;">You can refuse simply by ignoring '' @
       ''this email.</p>''))\<rparr>\<close>

text \<open>The two messages that handlers of src/crates/beacon-api/src/routes.rs compose themselves.\<close>

definition tx_account_deletion_requested ::
  "string \<Rightarrow> string \<Rightarrow> outbound_message" where
  \<open>tx_account_deletion_requested email scheduled =
    \<lparr>om_channel = ChEmail, om_to = email,
     om_subject = Some (''Account deletion requested''),
     om_body =
       ''We have received your request to delete your Paschal account. If you do '' @
       ''nothing, all your Vaults, Letters, and Attachments will be permanently '' @
       ''destroyed at '' @ scheduled @
       ''. To cancel and keep your account, sign in and reverse this request within 30 '' @
       ''days.'',
     om_html = None\<rparr>\<close>

definition tx_duress_alert ::
  "string \<Rightarrow> outbound_message" where
  \<open>tx_duress_alert email =
    \<lparr>om_channel = ChEmail, om_to = email,
     om_subject = Some (''Wellbeing check '' @ [CHR 0xE2, CHR 0x80, CHR 0x94] @ '' please reach out''),
     om_body =
       ''Someone who trusts you has triggered a private safety alert through Paschal. '' @
       ''Please check on them directly and discreetly. This message was sent on their '' @
       ''prior instruction.'',
     om_html = None\<rparr>\<close>

text \<open>The message of a notice; times are rendered by chrono.\<close>

fun render :: "app \<Rightarrow> notice \<Rightarrow> outbound_message" where
  "render A (Welcome email trial_end_at) = tx_welcome email (to_rfc3339 A trial_end_at)"
| "render A (MagicLink email link) = tx_magic_link email link"
| "render A (CoolingOffStarted email vault_name ends_at) =
     tx_cooling_off_started email vault_name (to_rfc3339 A ends_at)"
| "render A (CoolingOffCancelled email) = tx_cooling_off_cancelled email"
| "render A (ReleaseNotice recipient title url is_drill atts) =
     tx_release_notification_with_attachments recipient title url is_drill atts"
| "render A (BuddyInvite email who url) = tx_buddy_invite email who url"
| "render A (RecipientChangeRequested old_recipient title effective_at) =
     tx_recipient_change_requested old_recipient title (to_rfc3339 A effective_at)"
| "render A (CoStewardInvite email who url) = tx_co_steward_invite email who url"
| "render A (HeirShare recipient share) = tx_heir_share recipient share"
| "render A (AccountDeletionRequested email scheduled) =
     tx_account_deletion_requested email (to_rfc3339 A scheduled)"
| "render A (DuressAlert email) = tx_duress_alert email"

end
