(* ===== verification/Web.thy ===== *)
theory Web
  imports Notify
begin

text \<open>
  What the server answers outside the API: the counters as Prometheus text
  (src/crates/beacon-api/src/metrics.rs), the embedded pages (spa.rs) and the headers that
  security_headers.rs adds to every response. The directory embedded at build time is the
  parameter \<open>spa\<close>, from relative paths to contents; a header map is a list of names and
  values with one entry per name.
\<close>

section \<open>JSON\<close>

text \<open>A document; a number is its text, an object its members in order.\<close>

datatype json = JNull | JBool bool | JNum string | JStr string | JArr "json list" | JObj "(string \<times> json) list"

section \<open>Counters\<close>

definition snapshot :: "(metric \<Rightarrow> 64 word) \<Rightarrow> (string \<times> string \<times> 64 word) list" where
  "snapshot m =
    [(''paschal_signups_total'', ''Total principal sign-ups.'', m SignupsTotal),
     (''paschal_vaults_created_total'', ''Total Vaults created.'', m VaultsCreatedTotal),
     (''paschal_letters_sealed_total'', ''Total Letters sealed.'', m LettersSealedTotal),
     (''paschal_attachments_sealed_total'', ''Total Attachments sealed.'', m AttachmentsSealedTotal),
     (''paschal_attachments_bytes_total'', ''Total Attachment bytes (post-transform).'', m AttachmentsBytesTotal),
     (''paschal_heartbeats_total'', ''Total Heartbeats received.'', m HeartbeatsTotal),
     (''paschal_releases_started_total'', ''Total release events started (any reason).'', m ReleasesStartedTotal),
     (''paschal_releases_completed_total'', ''Total release events that reached RELEASED.'', m ReleasesCompletedTotal),
     (''paschal_drills_completed_total'', ''Total Drills completed.'', m DrillsCompletedTotal),
     (''paschal_buddy_responses_total'', ''Total Buddy responses received.'', m BuddyResponsesTotal),
     (''paschal_apple_pings_total'', ''Total Apple Shortcut pings verified.'', m ApplePingsTotal),
     (''paschal_subscription_canceled_total'', ''Total Subscriptions transitioned to CANCELED.'', m SubscriptionCanceledTotal),
     (''paschal_subscription_reactivated_total'', ''Total Subscriptions reactivated within retention.'', m SubscriptionReactivatedTotal)]"

definition counter_lines :: "string \<times> string \<times> 64 word \<Rightarrow> string" where
  "counter_lines c = (case c of (name, help, value) \<Rightarrow>
     ''# HELP '' @ name @ '' '' @ help @ nl @
     ''# TYPE '' @ name @ '' counter'' @ nl @
     name @ '' '' @ dec_digits (unat value) @ nl)"

definition prometheus :: "(metric \<Rightarrow> 64 word) \<Rightarrow> string" where
  "prometheus m = concat (map counter_lines (snapshot m))"

section \<open>Responses\<close>

type_synonym header_map = "(string \<times> string) list"

record response =
  rs_status :: nat
  rs_headers :: header_map
  rs_body :: bytes

text \<open>\<open>headers.entry(name).or_insert(v)\<close>, after \<open>HeaderValue::from_str\<close> accepted the value.\<close>

definition header_value_ok :: "string \<Rightarrow> bool" where
  "header_value_ok v \<longleftrightarrow> list_all (\<lambda>c. let n = (of_char c :: nat) in n = 9 \<or> 32 \<le> n \<and> n \<noteq> 127) v"

definition insert_header :: "string \<Rightarrow> string \<Rightarrow> header_map \<Rightarrow> header_map" where
  "insert_header name v headers =
     (if \<not> header_value_ok v then headers
      else case map_of headers name of Some _ \<Rightarrow> headers | None \<Rightarrow> headers @ [(name, v)])"

section \<open>Pages\<close>

fun mime_of_ext :: "string \<Rightarrow> string" where
  "mime_of_ext ext =
     (if ext = ''html'' then ''text/html; charset=utf-8''
      else if ext = ''css'' then ''text/css; charset=utf-8''
      else if ext = ''js'' \<or> ext = ''mjs'' then ''application/javascript; charset=utf-8''
      else if ext = ''json'' then ''application/json; charset=utf-8''
      else if ext = ''svg'' then ''image/svg+xml''
      else if ext = ''png'' then ''image/png''
      else if ext = ''jpg'' \<or> ext = ''jpeg'' then ''image/jpeg''
      else if ext = ''gif'' then ''image/gif''
      else if ext = ''ico'' then ''image/x-icon''
      else if ext = ''woff'' then ''font/woff''
      else if ext = ''woff2'' then ''font/woff2''
      else if ext = ''txt'' then ''text/plain; charset=utf-8''
      else if ext = ''map'' then ''application/json; charset=utf-8''
      else ''application/octet-stream'')"

text \<open>\<open>rsplit('.').next()\<close>: what follows the last dot, or the whole path.\<close>

definition after_last :: "char \<Rightarrow> string \<Rightarrow> string" where
  "after_last c s = rev (takeWhile (\<lambda>x. x \<noteq> c) (rev s))"

definition guess_mime :: "string \<Rightarrow> string" where
  "guess_mime path = mime_of_ext (after_last CHR ''.'' path)"

definition immutable_prefix :: string where
  "immutable_prefix = ''_app/immutable/''"

definition file_response :: "string \<Rightarrow> bytes \<Rightarrow> response" where
  "file_response path bs =
     \<lparr>rs_status = 200,
      rs_headers = (''content-type'', guess_mime path) #
        (if starts_with immutable_prefix path
         then [(''cache-control'', ''public, max-age=31536000, immutable'')] else []),
      rs_body = bs\<rparr>"

definition spa_fallback :: "(string \<Rightarrow> bytes option) \<Rightarrow> response" where
  "spa_fallback spa = (case spa ''index.html'' of
       Some contents \<Rightarrow> file_response ''index.html'' contents
     | None \<Rightarrow> \<lparr>rs_status = 503, rs_headers = [(''content-type'', ''text/plain; charset=utf-8'')],
         rs_body = as_bytes (''Frontend build missing. Run `pnpm --filter @paschal/principal build`.'')\<rparr>)"

definition serve_path :: "(string \<Rightarrow> bytes option) \<Rightarrow> string \<Rightarrow> response" where
  "serve_path spa rel0 =
     (let rel = dropWhile (\<lambda>c. c = CHR ''/'') rel0 in
      if rel = [] then spa_fallback spa
      else case spa rel of Some contents \<Rightarrow> file_response rel contents | None \<Rightarrow> spa_fallback spa)"

definition spa_serve :: "(string \<Rightarrow> bytes option) \<Rightarrow> string \<Rightarrow> response" where
  "spa_serve spa path =
     serve_path spa (case strip_prefix ''/app/'' path of Some rel \<Rightarrow> rel | None \<Rightarrow> [])"

section \<open>Security headers\<close>

definition is_browser_page :: "string \<Rightarrow> bool" where
  "is_browser_page path \<longleftrightarrow> path = ''/'' \<or> path = ''/claim'' \<or> path = ''/docs'' \<or> path = ''/app''
     \<or> starts_with ''/app/'' path"

definition permissions :: "string \<Rightarrow> string" where
  "permissions path = (if is_browser_page path
     then ''accelerometer=(), camera=(self), geolocation=(), gyroscope=(), magnetometer=(), microphone=(self), payment=(), usb=()''
     else ''accelerometer=(), camera=(), geolocation=(), gyroscope=(), magnetometer=(), microphone=(), payment=(), usb=()'')"

definition quote_word :: "string \<Rightarrow> string" where
  "quote_word s = [CHR 39] @ s @ [CHR 39]"

definition csp :: "string \<Rightarrow> string" where
  "csp path = (if is_browser_page path
     then ''default-src '' @ quote_word ''self'' @ ''; ''
        @ ''script-src '' @ quote_word ''self'' @ '' '' @ quote_word ''unsafe-inline'' @ '' https://cdn.jsdelivr.net; ''
        @ ''style-src '' @ quote_word ''self'' @ '' '' @ quote_word ''unsafe-inline'' @ '' https://cdn.jsdelivr.net https://fonts.googleapis.com; ''
        @ ''font-src '' @ quote_word ''self'' @ '' https://fonts.gstatic.com data:; ''
        @ ''img-src '' @ quote_word ''self'' @ '' data: https://cdn.jsdelivr.net; ''
        @ ''connect-src '' @ quote_word ''self'' @ ''; ''
        @ ''frame-ancestors '' @ quote_word ''none'' @ ''; ''
        @ ''base-uri '' @ quote_word ''none''
     else ''default-src '' @ quote_word ''none'' @ ''; frame-ancestors '' @ quote_word ''none''
        @ ''; base-uri '' @ quote_word ''none'')"

definition pkg_version :: string where
  "pkg_version = ''0.1.0''"

text \<open>The inserts of the middleware in their order; an API path gets the cache header too.\<close>

definition header_inserts :: "string \<Rightarrow> (string \<times> string) list" where
  "header_inserts path =
     [(''x-content-type-options'', ''nosniff''), (''x-frame-options'', ''DENY''),
      (''referrer-policy'', ''no-referrer''),
      (''strict-transport-security'', ''max-age=31536000; includeSubDomains''),
      (''permissions-policy'', permissions path), (''content-security-policy'', csp path)]
     @ (if is_browser_page path then [] else [(''cache-control'', ''no-store'')])
     @ [(''x-paschal-version'', pkg_version)]"

definition security_headers :: "string \<Rightarrow> response \<Rightarrow> response" where
  "security_headers path resp =
     resp\<lparr>rs_headers := fold (\<lambda>(name, v). insert_header name v) (header_inserts path) (rs_headers resp)\<rparr>"

end
