(* ===== verification/RateLimit.thy ===== *)
theory RateLimit
  imports F32
begin

text \<open>
  The per-IP token bucket of src/crates/beacon-api/src/rate_limit.rs. Time
  (\<open>std::time::Instant\<close>) is in nanoseconds; an address is a number. The rest of the request
  is handled when the middleware passes it on.
\<close>

section \<open>Operations on \<open>f32\<close> used here\<close>

definition f32_sub :: "f32 \<Rightarrow> f32 \<Rightarrow> f32" where
  "f32_sub x y = f32_add x (f32_neg y)"

definition f32_min :: "f32 \<Rightarrow> f32 \<Rightarrow> f32" where
  "f32_min x y = (if x = NaN then y else if y = NaN then x else if f32_lt y x then y else x)"

fun f32_ceil :: "f32 \<Rightarrow> f32" where
  "f32_ceil (Fin x) = Fin (of_int \<lceil>x\<rceil>)"
| "f32_ceil x = x"

text \<open>\<open>as u32\<close>: towards zero, saturating, NaN to 0.\<close>

fun f32_as_u32 :: "f32 \<Rightarrow> nat" where
  "f32_as_u32 NaN = 0"
| "f32_as_u32 PInf = 2 ^ 32 - 1"
| "f32_as_u32 NInf = 0"
| "f32_as_u32 (Fin x) = (if x < 0 then 0 else min (nat \<lfloor>x\<rfloor>) (2 ^ 32 - 1))"

text \<open>\<open>now.duration_since(t).as_secs_f32()\<close>: zero when \<open>t\<close> is later.\<close>

definition duration_secs :: "int \<Rightarrow> int \<Rightarrow> f32" where
  "duration_secs now' t =
     (let d = max (now' - t) 0 in
      f32_add (f32_of_int (d div 10 ^ 9)) (f32_div (f32_of_int (d mod 10 ^ 9)) (f32_of_int (10 ^ 9))))"

section \<open>The limiter\<close>

type_synonym ip_addr = nat

record bucket =
  tokens :: f32
  last_refill :: int

record rate_limiter =
  capacity :: f32
  refill_per_sec :: f32
  buckets :: "ip_addr \<rightharpoonup> bucket"

definition new_limiter :: "nat \<Rightarrow> rate_limiter" where
  "new_limiter per_minute =
     (let capacity' = f32_of_int (int per_minute) in
      \<lparr>capacity = capacity', refill_per_sec = f32_div capacity' (f32_of_int 60),
       buckets = Map.empty\<rparr>)"

definition limiter_enabled :: "rate_limiter \<Rightarrow> bool" where
  "limiter_enabled L \<longleftrightarrow> f32_lt (f32_lit 0) (capacity L)"

text \<open>The bucket of an address at a time, refilled; and the check, \<open>Inl\<close> the seconds to wait.\<close>

definition refilled :: "rate_limiter \<Rightarrow> int \<Rightarrow> ip_addr \<Rightarrow> f32" where
  "refilled L now' ip =
     (let b = (case buckets L ip of Some b \<Rightarrow> b | None \<Rightarrow> \<lparr>tokens = capacity L, last_refill = now'\<rparr>)
      in f32_min (f32_add (tokens b) (f32_mul (duration_secs now' (last_refill b)) (refill_per_sec L)))
           (capacity L))"

definition check_ip :: "rate_limiter \<Rightarrow> int \<Rightarrow> ip_addr \<Rightarrow> (nat + unit) \<times> rate_limiter" where
  "check_ip L now' ip =
     (let t = refilled L now' ip in
      if f32_le (f32_lit 1) t
      then (Inr (), L\<lparr>buckets := (buckets L)(ip \<mapsto> \<lparr>tokens = f32_sub t (f32_lit 1), last_refill = now'\<rparr>)\<rparr>)
      else (Inl (max (f32_as_u32 (f32_ceil (f32_div (f32_sub (f32_lit 1) t) (refill_per_sec L)))) 1),
            L\<lparr>buckets := (buckets L)(ip \<mapsto> \<lparr>tokens = t, last_refill = now'\<rparr>)\<rparr>))"

datatype verdict = PassOn | TooManyRequests nat

text \<open>The middleware: a missing \<open>ConnectInfo\<close> is \<open>None\<close>.\<close>

definition rate_limit_middleware ::
  "rate_limiter \<Rightarrow> int \<Rightarrow> string \<Rightarrow> ip_addr option \<Rightarrow> verdict \<times> rate_limiter" where
  "rate_limit_middleware L now' path connect_info =
     (if \<not> limiter_enabled L then (PassOn, L)
      else if path \<in> set [''/health'', ''/livez'', ''/readyz'', ''/metrics''] then (PassOn, L)
      else case connect_info of
        None \<Rightarrow> (PassOn, L)
      | Some ip \<Rightarrow> (case check_ip L now' ip of
          (Inr _, L') \<Rightarrow> (PassOn, L')
        | (Inl retry_after_secs, L') \<Rightarrow> (TooManyRequests retry_after_secs, L')))"

section \<open>Requests in a row\<close>

fun serve_all ::
  "rate_limiter \<Rightarrow> (int \<times> string \<times> ip_addr option) list \<Rightarrow> verdict list \<times> rate_limiter" where
  "serve_all L [] = ([], L)"
| "serve_all L ((t, path, ip) # rs) =
     (case rate_limit_middleware L t path ip of (v, L') \<Rightarrow>
      case serve_all L' rs of (vs, L'') \<Rightarrow> (v # vs, L''))"

section \<open>Lemmas\<close>

lemma f32_of_small_int:
  assumes "0 \<le> k" and "k < 2 ^ 24"
  shows "f32_round (of_int k) = Fin (of_int k)"
proof (cases "k = 0")
  case False
  with assms have x: "0 < (of_int k :: rat)" by simp
  have "pow2 (ilog2 (of_int k)) < pow2 24"
    using ilog2_bounds [OF x] assms(2) unfolding pow2_lits
    by (metis le_less_trans of_int_less_iff of_int_numeral of_int_power)
  then have "ilog2 (of_int k) < 24" by (simp add: pow2_less_iff)
  then have u: "ulp_exp (of_int k) \<le> 0" by (simp add: ulp_exp_def)
  define q where "q = ulp_exp (of_int k)"
  have "(of_int k :: rat) / pow2 q = of_int (k * 2 ^ nat (- q))"
    using u by (simp add: q_def pow2_def)
  then have "round_pos (of_int k) = of_int k"
    unfolding round_pos_def q_def [symmetric]
    by (metis round_half_even_of_int nonzero_eq_divide_eq pow2_neq_0)
  moreover have "(of_int k :: rat) < pow2 128"
  proof -
    have "(of_int k :: rat) < of_int (2 ^ 24)" using assms(2) by (simp only: of_int_less_iff)
    also have "\<dots> = pow2 24" by (simp add: pow2_lits)
    also have "\<dots> < pow2 128" by (simp add: pow2_less_iff)
    finally show ?thesis .
  qed
  ultimately show ?thesis using x by (simp add: f32_round_def)
qed simp

lemma f32_lit_one [simp]: "f32_lit 1 = Fin 1" "f32_lit 0 = Fin 0"
  by (simp_all add: f32_lit_def)

lemma duration_now [simp]: "duration_secs t t = Fin 0"
proof -
  have "f32_of_int (10 ^ 9) \<noteq> NaN" by (simp add: f32_of_int_def)
  then have "f32_div (Fin 0) (f32_of_int (10 ^ 9)) \<in> {Fin 0, NaN}"
    by (cases "f32_of_int (10 ^ 9)") (auto simp: f32_inf_sgn_def)
  moreover have "f32_of_int (10 ^ 9) = Fin (of_int 15625000 * pow2 (29 - 23))"
    unfolding f32_of_int_def by (rule f32_round_eqI) (simp_all add: pow2_def)
  then have "f32_of_int (10 ^ 9) = Fin (10 ^ 9)" by (simp add: pow2_def)
  ultimately show ?thesis by (simp add: duration_secs_def Let_def f32_of_int_def)
qed

end
