(* ===== verification/Gateway.thy ===== *)
theory Gateway
  imports App Web RateLimit
begin

text \<open>
  The HTTP service that src/crates/beacon-api/src/app.rs builds around the handlers: the route
  table, the pages that are not handlers of the API, and the middleware in its order. Seen from
  outside, a request meets the layers of tower (request identifiers, traces, CORS), then the
  security headers, then the rate limiter, then the router.

  The web framework is the parameter \<open>framework\<close>: what CORS answers by itself, what the outer
  layers add to a response, what the router and the extractors make of a request, and JSON text.
  Addresses and instants of the limiter are those of RateLimit.
\<close>

section \<open>Pages\<close>

datatype page =
  GetHealth | GetLivez | GetReadyz | GetMetrics | GetWarrantCanary
| GetClaimPage | GetRoot | GetApp | GetAppSlash | GetAppRest string

fun page_route :: "page \<Rightarrow> string \<times> string" where
  "page_route GetHealth = (''GET'', ''/health'')"
| "page_route GetLivez = (''GET'', ''/livez'')"
| "page_route GetReadyz = (''GET'', ''/readyz'')"
| "page_route GetMetrics = (''GET'', ''/metrics'')"
| "page_route GetWarrantCanary = (''GET'', ''/v1/public/warrant-canary'')"
| "page_route GetClaimPage = (''GET'', ''/claim'')"
| "page_route GetRoot = (''GET'', ''/'')"
| "page_route GetApp = (''GET'', ''/app'')"
| "page_route GetAppSlash = (''GET'', ''/app/'')"
| "page_route (GetAppRest _) = (''GET'', ''/app/*rest'')"

section \<open>The route table\<close>

text \<open>Every registration of \<open>build_router\<close>, in its order.\<close>

definition build_router :: "(string \<times> string) list" where
  "build_router =
    [(''GET'', ''/health''),
     (''GET'', ''/livez''),
     (''GET'', ''/readyz''),
     (''GET'', ''/metrics''),
     (''POST'', ''/v1/auth/signup''),
     (''POST'', ''/v1/auth/signin''),
     (''POST'', ''/v1/auth/signout''),
     (''POST'', ''/v1/auth/magic-link/verify''),
     (''POST'', ''/v1/auth/passkey/register/options''),
     (''POST'', ''/v1/auth/passkey/register/verify''),
     (''POST'', ''/v1/auth/passkey/authenticate/options''),
     (''POST'', ''/v1/auth/passkey/authenticate/verify''),
     (''POST'', ''/v1/auth/passkey/recovery/validate''),
     (''POST'', ''/v1/auth/passkey/recovery/redeem''),
     (''GET'', ''/v1/plans''),
     (''GET'', ''/v1/public/warrant-canary''),
     (''GET'', ''/v1/public/transparency-log''),
     (''GET'', ''/v1/vaults''),
     (''POST'', ''/v1/vaults''),
     (''GET'', ''/v1/vaults/:id''),
     (''PATCH'', ''/v1/vaults/:id''),
     (''POST'', ''/v1/vaults/:id/region''),
     (''GET'', ''/v1/vaults/:id/letters''),
     (''POST'', ''/v1/vaults/:id/letters''),
     (''POST'', ''/v1/vaults/:id/letters/multipart''),
     (''POST'', ''/v1/vaults/:vault_id/letters/:letter_id/export''),
     (''GET'', ''/v1/vaults/:vault_id/letters/:letter_id''),
     (''PATCH'', ''/v1/vaults/:vault_id/letters/:letter_id''),
     (''DELETE'', ''/v1/vaults/:vault_id/letters/:letter_id''),
     (''POST'', ''/v1/vaults/:id/letters/zk''),
     (''GET'', ''/v1/vaults/:vault_id/letters/:letter_id/ciphertext''),
     (''GET'', ''/v1/vaults/:id/zk-envelope''),
     (''POST'', ''/v1/vaults/:id/zk-envelope''),
     (''GET'', ''/v1/vaults/:id/prk-envelope''),
     (''POST'', ''/v1/vaults/:id/prk-envelope''),
     (''POST'', ''/v1/vaults/:id/force-release''),
     (''POST'', ''/v1/vaults/:id/cancel''),
     (''POST'', ''/v1/vaults/:id/drills''),
     (''GET'', ''/v1/vaults/:id/signal-subscriptions''),
     (''POST'', ''/v1/vaults/:id/signal-subscriptions''),
     (''POST'', ''/v1/heartbeats''),
     (''POST'', ''/v1/signals/apple-icloud/enrol''),
     (''POST'', ''/v1/signals/apple-icloud/ping''),
     (''POST'', ''/v1/signals/microsoft/observe''),
     (''GET'', ''/v1/principals/me/co-stewards''),
     (''POST'', ''/v1/principals/me/co-stewards''),
     (''DELETE'', ''/v1/co-stewards/:id''),
     (''POST'', ''/v1/co-stewards/confirm''),
     (''POST'', ''/v1/co-stewards/sign-in''),
     (''GET'', ''/v1/co-stewards/me/dashboard''),
     (''GET'', ''/v1/co-stewards/me/letters''),
     (''POST'', ''/v1/co-stewards/me/letters/:id/recipient''),
     (''POST'', ''/v1/co-stewards/me/letters/:id/release''),
     (''POST'', ''/v1/co-stewards/me/recipient-changes/:id/cancel''),
     (''GET'', ''/v1/principals/me/buddies''),
     (''POST'', ''/v1/principals/me/buddies''),
     (''DELETE'', ''/v1/buddies/:id''),
     (''POST'', ''/v1/buddies/confirm''),
     (''POST'', ''/v1/buddies/:id/responses''),
     (''GET'', ''/v1/principals/me/subscription''),
     (''GET'', ''/v1/principals/me/usage''),
     (''GET'', ''/v1/principals/me/activity''),
     (''GET'', ''/v1/principals/me/passkeys''),
     (''DELETE'', ''/v1/principals/me/passkeys/:id''),
     (''GET'', ''/v1/principals/me/recovery-key''),
     (''POST'', ''/v1/principals/me/recovery-key''),
     (''DELETE'', ''/v1/principals/me''),
     (''POST'', ''/v1/principals/me/cancel-deletion''),
     (''GET'', ''/v1/releases/claim''),
     (''GET'', ''/v1/releases/claim/attachment''),
     (''GET'', ''/v1/vaults/:id/contacts''),
     (''POST'', ''/v1/vaults/:id/contacts''),
     (''PUT'', ''/v1/vaults/:id/contacts/:cid''),
     (''DELETE'', ''/v1/vaults/:id/contacts/:cid''),
     (''GET'', ''/v1/principals/me/bank-signal''),
     (''POST'', ''/v1/principals/me/bank-signal''),
     (''DELETE'', ''/v1/principals/me/bank-signal''),
     (''POST'', ''/v1/signals/bank-dormancy/:webhook_id''),
     (''GET'', ''/v1/principals/me/duress''),
     (''POST'', ''/v1/principals/me/duress''),
     (''DELETE'', ''/v1/principals/me/duress''),
     (''POST'', ''/v1/signals/duress/:webhook_id''),
     (''GET'', ''/claim''),
     (''GET'', ''/''),
     (''GET'', ''/app''),
     (''GET'', ''/app/''),
     (''GET'', ''/app/*rest'')]"

section \<open>Requests and the framework\<close>

record http_request =
  hr_method :: string
  hr_path :: string
  hr_peer :: "ip_addr option"
  hr_auth :: headers
  hr_body :: bytes

text \<open>
  What the router and the extractors of axum make of a request: the handler of a route with its
  decoded arguments, a page, or a refusal (no such route, wrong method, body too large or not
  what the handler takes).
\<close>

datatype target = ToHandler request | ToPage page | Refused response

text \<open>
  \<open>fw_cors\<close> is the answer of the CORS layer to a request it keeps for itself (a preflight), and
  \<open>fw_outer\<close> what the request identifier, trace and CORS layers make of a response. \<open>fw_db\<close>
  says whether the database answers \<open>SELECT 1\<close>, \<open>fw_success\<close> is the response of a handler that
  returned, from the state it left.
\<close>

record framework =
  fw_cors :: "http_request \<Rightarrow> response option"
  fw_outer :: "http_request \<Rightarrow> response \<Rightarrow> response"
  fw_target :: "http_request \<Rightarrow> target"
  fw_success :: "request \<Rightarrow> world \<Rightarrow> response"
  fw_json :: "json \<Rightarrow> bytes"
  fw_db :: "world \<Rightarrow> bool"
  fw_spa :: "string \<Rightarrow> bytes option"
  fw_heir :: bytes

section \<open>Static answers\<close>

definition json_response :: "framework \<Rightarrow> nat \<Rightarrow> json \<Rightarrow> response" where
  "json_response F status v =
     \<lparr>rs_status = status, rs_headers = [(''content-type'', ''application/json'')], rs_body = fw_json F v\<rparr>"

definition health :: "framework \<Rightarrow> response" where
  "health F = json_response F 200 (JObj
     [(''status'', JStr ''ok''), (''service'', JStr ''paschal-beacon''), (''version'', JStr pkg_version)])"

definition livez :: response where
  "livez = \<lparr>rs_status = 200, rs_headers = [], rs_body = []\<rparr>"

definition readyz :: "framework \<Rightarrow> world \<Rightarrow> response" where
  "readyz F w =
     (if fw_db F w
      then json_response F 200 (JObj [(''ready'', JBool True), (''checks'', JObj [(''db'', JStr ''ok'')])])
      else json_response F 503 (JObj [(''ready'', JBool False), (''checks'', JObj [(''db'', JStr ''error'')])]))"

definition heir_page :: "framework \<Rightarrow> response" where
  "heir_page F = \<lparr>rs_status = 200, rs_headers = [(''content-type'', ''text/html; charset=utf-8'')],
     rs_body = fw_heir F\<rparr>"

definition root_redirect :: response where
  "root_redirect = \<lparr>rs_status = 308, rs_headers = [(''location'', ''/app/'')], rs_body = []\<rparr>"

definition metrics_endpoint :: "world \<Rightarrow> response" where
  "metrics_endpoint w =
     \<lparr>rs_status = 200, rs_headers = [(''content-type'', ''text/plain; version=0.0.4; charset=utf-8'')],
      rs_body = as_bytes (prometheus (metrics w))\<rparr>"

definition get_warrant_canary :: "framework \<Rightarrow> response" where
  "get_warrant_canary F = json_response F 200 (JObj
     [(''statement'', JStr (''As of this statement, the operator of this Paschal instance has not received any secret government order, search warrant, gag order, or national-security letter requiring them to compromise the security or integrity of any user'' @ [CHR 39] @ ''s data, and has not been compelled to install any backdoor.'')),
      (''issued_at'', JStr ''2026-06-01T00:00:00Z''), (''next_update_by'', JStr ''2026-09-01T00:00:00Z'')])"

fun serve_page :: "framework \<Rightarrow> http_request \<Rightarrow> page \<Rightarrow> world \<Rightarrow> response" where
  "serve_page F rq GetHealth w = health F"
| "serve_page F rq GetLivez w = livez"
| "serve_page F rq GetReadyz w = readyz F w"
| "serve_page F rq GetMetrics w = metrics_endpoint w"
| "serve_page F rq GetWarrantCanary w = get_warrant_canary F"
| "serve_page F rq GetClaimPage w = heir_page F"
| "serve_page F rq GetRoot w = root_redirect"
| "serve_page F rq GetApp w = spa_serve (fw_spa F) (hr_path rq)"
| "serve_page F rq GetAppSlash w = spa_serve (fw_spa F) (hr_path rq)"
| "serve_page F rq (GetAppRest rest) w = serve_path (fw_spa F) rest"

section \<open>The layers\<close>

definition problem_response :: "framework \<Rightarrow> problem \<Rightarrow> response" where
  "problem_response F p =
     \<lparr>rs_status = pb_status p, rs_headers = [(''content-type'', ''application/problem+json'')],
      rs_body = fw_json F (JObj [(''type'', JStr (pb_type p)), (''title'', JStr (pb_title p)),
        (''status'', JNum (dec_digits (pb_status p))), (''detail'', JStr (pb_detail p))])\<rparr>"

text \<open>The router: a handler that panics leaves no response.\<close>

definition dispatch :: "app \<Rightarrow> webauthn \<Rightarrow> framework \<Rightarrow> http_request \<Rightarrow> world \<Rightarrow> response option \<times> world" where
  "dispatch A W F rq w = (case fw_target F rq of
       Refused resp \<Rightarrow> (Some resp, w)
     | ToPage p \<Rightarrow> (Some (serve_page F rq p w), w)
     | ToHandler r \<Rightarrow> (case serve A W (hr_auth rq) r w of
           (Success, w') \<Rightarrow> (Some (fw_success F r w'), w')
         | (Failure p, w') \<Rightarrow> (Some (problem_response F p), w')
         | (Dropped, w') \<Rightarrow> (None, w')))"

text \<open>The refusal of the limiter.\<close>

definition too_many_requests :: "nat \<Rightarrow> response" where
  "too_many_requests retry_after_secs =
     \<lparr>rs_status = 429,
      rs_headers = [(''content-type'', ''application/problem+json''),
        (''retry-after'', dec_digits retry_after_secs)],
      rs_body = as_bytes (''{\"type\":\"https://paschal.com/errors/rate_limited\",\"title\":\"rate_limited\",\"status\":429,\"detail\":\"per-IP rate limit reached\"}'')\<rparr>"

record gateway =
  gw_world :: world
  gw_limiter :: rate_limiter
  gw_now :: int

definition rate_limited :: "app \<Rightarrow> webauthn \<Rightarrow> framework \<Rightarrow> http_request \<Rightarrow> gateway \<Rightarrow> response option \<times> gateway" where
  "rate_limited A W F rq g =
     (case rate_limit_middleware (gw_limiter g) (gw_now g) (hr_path rq) (hr_peer rq) of
        (TooManyRequests n, L) \<Rightarrow> (Some (too_many_requests n), g\<lparr>gw_limiter := L\<rparr>)
      | (PassOn, L) \<Rightarrow> (case dispatch A W F rq (gw_world g) of
            (resp, w) \<Rightarrow> (resp, g\<lparr>gw_limiter := L, gw_world := w\<rparr>)))"

definition hardened :: "app \<Rightarrow> webauthn \<Rightarrow> framework \<Rightarrow> http_request \<Rightarrow> gateway \<Rightarrow> response option \<times> gateway" where
  "hardened A W F rq g = (case rate_limited A W F rq g of
     (resp, g') \<Rightarrow> (map_option (security_headers (hr_path rq)) resp, g'))"

definition http_serve :: "app \<Rightarrow> webauthn \<Rightarrow> framework \<Rightarrow> http_request \<Rightarrow> gateway \<Rightarrow> response option \<times> gateway" where
  "http_serve A W F rq g = (case fw_cors F rq of
       Some resp \<Rightarrow> (Some (fw_outer F rq resp), g)
     | None \<Rightarrow> (case hardened A W F rq g of (resp, g') \<Rightarrow> (map_option (fw_outer F rq) resp, g')))"

section \<open>The running service\<close>

definition new_gateway :: "nat \<Rightarrow> int \<Rightarrow> world \<Rightarrow> gateway" where
  "new_gateway per_minute now' w = \<lparr>gw_world = w, gw_limiter = new_limiter per_minute, gw_now = now'\<rparr>"

text \<open>
  A request comes in, a worker makes a pass, a timer fires, or time passes, on the clock of the
  database and on the monotonic clock of the limiter.
\<close>

inductive http_step :: "app \<Rightarrow> webauthn \<Rightarrow> framework \<Rightarrow> gateway \<Rightarrow> gateway \<Rightarrow> bool" for A W F where
  request: "http_step A W F g (snd (http_serve A W F rq g))"
| worker: "\<forall>t. wk \<noteq> ReleaseTimer t \<Longrightarrow>
    http_step A W F g (g\<lparr>gw_world := worker_pass A wk (gw_world g)\<rparr>)"
| timer: "t \<in> set (timers (gw_world g)) \<Longrightarrow> tm_fires_at t \<le> clock (gw_world g) \<Longrightarrow>
    http_step A W F g (g\<lparr>gw_world := worker_pass A (ReleaseTimer t) (gw_world g)\<rparr>)"
| time: "clock (gw_world g) \<le> t \<Longrightarrow> gw_now g \<le> n \<Longrightarrow>
    http_step A W F g (g\<lparr>gw_world := (gw_world g)\<lparr>clock := t\<rparr>, gw_now := n\<rparr>)"

definition http_runs :: "app \<Rightarrow> webauthn \<Rightarrow> framework \<Rightarrow> gateway \<Rightarrow> gateway \<Rightarrow> bool" where
  "http_runs A W F = (http_step A W F)\<^sup>*\<^sup>*"

end
