(* ===== verification/SystemFacts.thy ===== *)
theory SystemFacts
  imports App "HOL-Library.Sublist"
begin

text \<open>
  An invariant of the whole server: keys are unique, references resolve, enum columns parse,
  and what a run may never take back stays. Every statement keeps it, hence every handler and
  every worker pass.
\<close>

named_theorems inv_intros "statements, blobs and keys that keep the invariant of the server"

section \<open>The invariant\<close>

definition fresh_keyed :: "('r \<Rightarrow> 'k) \<Rightarrow> ('k \<Rightarrow> uuid) \<Rightarrow> uuid \<Rightarrow> 'r list \<Rightarrow> bool" where
  "fresh_keyed k u n t \<longleftrightarrow> keyed k t \<and> (\<forall>x \<in> k ` set t. u x < n)"

definition keys_ok :: "world \<Rightarrow> bool" where
  "keys_ok w \<longleftrightarrow>
     fresh_keyed pr_id principal_uuid (next_uuid w) (principals w)
   \<and> fresh_keyed va_id vault_uuid (next_uuid w) (vaults w)
   \<and> fresh_keyed le_id letter_uuid (next_uuid w) (letters w)
   \<and> fresh_keyed ev_id release_event_uuid (next_uuid w) (release_events w)
   \<and> fresh_keyed ar_id attachment_uuid (next_uuid w) (attachments w)
   \<and> fresh_keyed rc_id (\<lambda>u. u) (next_uuid w) (recipient_changes w)
   \<and> fresh_keyed co_id co_steward_uuid (next_uuid w) (co_stewards w)
   \<and> keyed su_principal_id (subscriptions w) \<and> keyed ml_token_hash (magic_links w)
   \<and> keyed se_token_hash (sessions w) \<and> keyed cl_token_hash (release_claims w)
   \<and> keyed ac_token_hash (attachment_claims w)"

text \<open>Foreign keys.\<close>

definition refs_ok :: "world \<Rightarrow> bool" where
  "refs_ok w \<longleftrightarrow>
     va_principal_id ` set (vaults w) \<subseteq> pr_id ` set (principals w)
   \<and> su_principal_id ` set (subscriptions w) \<subseteq> pr_id ` set (principals w)
   \<and> ml_principal_id ` set (magic_links w) \<subseteq> pr_id ` set (principals w)
   \<and> se_principal_id ` set (sessions w) \<subseteq> pr_id ` set (principals w)
   \<and> co_principal_id ` set (co_stewards w) \<subseteq> pr_id ` set (principals w)
   \<and> le_vault_id ` set (letters w) \<subseteq> va_id ` set (vaults w)
   \<and> ev_vault_id ` set (release_events w) \<subseteq> va_id ` set (vaults w)
   \<and> cl_letter_id ` set (release_claims w) \<subseteq> le_id ` set (letters w)
   \<and> cl_release_event_id ` set (release_claims w) \<subseteq> ev_id ` set (release_events w)
   \<and> ar_letter_id ` set (attachments w) \<subseteq> le_id ` set (letters w)
   \<and> ac_attachment_id ` set (attachment_claims w) \<subseteq> ar_id ` set (attachments w)
   \<and> ac_release_event_id ` set (attachment_claims w) \<subseteq> ev_id ` set (release_events w)
   \<and> rc_letter_id ` set (recipient_changes w) \<subseteq> le_id ` set (letters w)"

text \<open>Enum columns hold what the decoders accept.\<close>

definition parses :: "(string \<Rightarrow> domain_error + 'a) \<Rightarrow> string \<Rightarrow> bool" where
  "parses decode s \<longleftrightarrow> (\<exists>x. decode s = Inr x)"

definition vault_parses :: "vault_row \<Rightarrow> bool" where
  "vault_parses r \<longleftrightarrow> parses tier_from_db_str (va_tier r) \<and> parses vault_state_from_db_str (va_state r)
     \<and> parses region_from_aws_str (va_storage_region r)"

definition enums_ok :: "world \<Rightarrow> bool" where
  "enums_ok w \<longleftrightarrow> (\<forall>r \<in> set (vaults w). vault_parses r)
     \<and> (\<forall>r \<in> set (subscriptions w). parses subscription_state_from_db_str (su_state r))
     \<and> (\<forall>r \<in> set (letters w). letter_kind_check (le_kind r) \<and> parses release_mode_from_db_str (le_release_mode r))
     \<and> (\<forall>r \<in> set (buddies w). \<forall>s. bu_last_response r = Some s \<longrightarrow> parses buddy_response_from_db_str s)
     \<and> (\<forall>r \<in> set (signal_subs w). parses signal_source_from_db_str (ss_source r))
     \<and> (\<forall>r \<in> set (signals w). parses signal_source_from_db_str (sg_source r))"

definition consistent :: "world \<Rightarrow> bool" where
  "consistent w \<longleftrightarrow> keys_ok w \<and> refs_ok w \<and> enums_ok w"

text \<open>What a later state keeps of an earlier one.\<close>

definition vault_identity :: "vault_row \<Rightarrow> vault_id \<times> principal_id \<times> string \<times> instant" where
  "vault_identity r = (va_id r, va_principal_id r, va_tier r, va_created_at r)"

definition event_identity :: "release_event_row \<Rightarrow> release_event_id \<times> vault_id \<times> string \<times> bool" where
  "event_identity r = (ev_id r, ev_vault_id r, ev_reason r, ev_is_drill r)"

definition once_released :: "world \<Rightarrow> vault_id set" where
  "once_released w = va_id ` {r \<in> set (vaults w). va_released_at r \<noteq> None}"

text \<open>The keys of the rows that carry a mark: a spent magic link, a revoked session.\<close>

definition marked :: "('r \<Rightarrow> 'k) \<Rightarrow> ('r \<Rightarrow> bool) \<Rightarrow> 'r list \<Rightarrow> 'k set" where
  "marked k M t = k ` {r \<in> set t. M r}"

lemma marked_append [simp]: "marked k M (t @ [r]) = marked k M t \<union> (if M r then {k r} else {})"
  by (auto simp: marked_def)

lemma marked_update:
  assumes "\<And>r. k (f r) = k r" "\<And>r. M r \<Longrightarrow> M (f r)" "m \<subseteq> marked k M t"
  shows "m \<subseteq> marked k M (sql_update P f t)"
proof
  fix x assume "x \<in> m"
  with assms(3) obtain r where r: "r \<in> set t" "M r" "x = k r" by (auto simp: marked_def)
  define r' where "r' = (if P r then f r else r)"
  have "r' \<in> set (sql_update P f t)" "M r'" "x = k r'"
    using r assms(1,2) by (auto simp: r'_def)
  then show "x \<in> marked k M (sql_update P f t)" unfolding marked_def by blast
qed

definition session_identity ::
  "session_row \<Rightarrow> bytes \<times> principal_id \<times> co_steward_id option \<times> instant \<times> string" where
  "session_identity r = (se_token_hash r, se_principal_id r, se_co_steward_id r, se_expires_at r, se_auth_role r)"

definition link_identity :: "magic_link_row \<Rightarrow> bytes \<times> principal_id \<times> instant" where
  "link_identity r = (ml_token_hash r, ml_principal_id r, ml_expires_at r)"

definition revoked :: "session_row \<Rightarrow> bool" where
  "revoked r \<longleftrightarrow> se_revoked_at r \<noteq> None"

definition spent :: "magic_link_row \<Rightarrow> bool" where
  "spent r \<longleftrightarrow> ml_consumed_at r \<noteq> None"

abbreviation revoked_tokens :: "world \<Rightarrow> bytes set" where
  "revoked_tokens w \<equiv> marked se_token_hash revoked (sessions w)"

abbreviation spent_links :: "world \<Rightarrow> bytes set" where
  "spent_links w \<equiv> marked ml_token_hash spent (magic_links w)"

text \<open>A letter stays in its vault and keeps its ciphertext until it is erased.\<close>

definition letter_step :: "letter_row \<Rightarrow> letter_row \<Rightarrow> bool" where
  "letter_step r r' \<longleftrightarrow> le_vault_id r' = le_vault_id r
     \<and> (le_ciphertext r' = le_ciphertext r \<and> le_nonce r' = le_nonce r \<or> le_ciphertext r' = [] \<and> le_nonce r' = [])"

definition letters_kept :: "letter_row list \<Rightarrow> uuid \<Rightarrow> letter_row list \<Rightarrow> bool" where
  "letters_kept t0 n t \<longleftrightarrow> (\<forall>r0 \<in> set t0. letter_uuid (le_id r0) < n)
     \<and> (\<forall>r0 \<in> set t0. \<forall>r \<in> set t. le_id r = le_id r0 \<longrightarrow> letter_step r0 r)"

definition extends :: "world \<Rightarrow> world \<Rightarrow> bool" where
  "extends w0 w \<longleftrightarrow> prefix (transparency w0) (transparency w)
     \<and> prefix (map pr_id (principals w0)) (map pr_id (principals w))
     \<and> prefix (map vault_identity (vaults w0)) (map vault_identity (vaults w))
     \<and> prefix (map event_identity (release_events w0)) (map event_identity (release_events w))
     \<and> prefix (map session_identity (sessions w0)) (map session_identity (sessions w))
     \<and> prefix (map link_identity (magic_links w0)) (map link_identity (magic_links w))
     \<and> revoked_tokens w0 \<subseteq> revoked_tokens w \<and> spent_links w0 \<subseteq> spent_links w
     \<and> clock w0 \<le> clock w
     \<and> once_released w0 \<subseteq> once_released w
     \<and> map su_principal_id (subscriptions w) = map su_principal_id (subscriptions w0)
     \<and> (subscriptions w0 = [] \<and> vaults w0 = [] \<longrightarrow> vaults w = [])
     \<and> letters_kept (letters w0) (next_uuid w) (letters w) \<and> (\<forall>k. kms_file w0 = Some k \<longrightarrow> kms_file w = Some k)"

definition sys_inv :: "world \<Rightarrow> world \<Rightarrow> bool" where
  "sys_inv w0 w \<longleftrightarrow> keys_ok w \<and> refs_ok w \<and> enums_ok w \<and> extends w0 w"

lemmas sys_inv_defs = sys_inv_def keys_ok_def refs_ok_def enums_ok_def extends_def once_released_def

section \<open>Tables\<close>

lemma keyed_first_iff:
  assumes "keyed k t" and "r \<in> set t" and "P r" and "\<And>x. P x \<Longrightarrow> k x = k r"
  shows "sql_first P t = Some r"
proof (cases "sql_first P t")
  case None
  with assms show ?thesis by (simp add: sql_first_None)
next
  case (Some x)
  with sql_first_Some [OF Some] assms keyed_unique [OF assms(1)] show ?thesis by metis
qed


lemma fresh_keyed_append:
  "fresh_keyed k u n t \<Longrightarrow> u (k r) = n \<Longrightarrow> fresh_keyed k u (Suc n) (t @ [r])"
  by (force simp: fresh_keyed_def keyed_append)

lemma fresh_keyed_Suc: "fresh_keyed k u n t \<Longrightarrow> fresh_keyed k u (Suc n) t"
  by (auto simp: fresh_keyed_def)

lemma image_sql_update:
  assumes "\<And>r. k (f r) = k r"
  shows "k ` set (sql_update P f t) = k ` set t"
proof -
  have "set (map k (sql_update P f t)) = set (map k t)" using map_sql_update [of k f P t] assms by simp
  then show ?thesis by (simp only: set_map)
qed

lemma fresh_keyed_update: "(\<And>r. k (f r) = k r) \<Longrightarrow> fresh_keyed k u n (sql_update P f t) = fresh_keyed k u n t"
  by (simp only: fresh_keyed_def keyed_update image_sql_update)

lemma fresh_keyed_delete: "fresh_keyed k u n t \<Longrightarrow> fresh_keyed k u n (sql_delete P t)"
  by (auto simp: fresh_keyed_def keyed_delete)


lemma sql_update_Nil [simp]: "sql_update P f t = [] \<longleftrightarrow> t = []"
  by (simp add: sql_update_def)

lemma letters_kept_Suc: "letters_kept t0 n t \<Longrightarrow> letters_kept t0 (Suc n) t"
  by (auto simp: letters_kept_def)

lemma letters_kept_append:
  assumes "letters_kept t0 n t" and "le_id r = LetterId n"
  shows "letters_kept t0 (Suc n) (t @ [r])"
proof -
  have "le_id r0 \<noteq> le_id r" if "r0 \<in> set t0" for r0
  proof
    assume "le_id r0 = le_id r"
    with assms(2) have "letter_uuid (le_id r0) = n" by simp
    with assms(1) that show False by (auto simp: letters_kept_def)
  qed
  then have "\<forall>r0 \<in> set t0. \<forall>x \<in> set (t @ [r]). le_id x = le_id r0 \<longrightarrow> letter_step r0 x"
    using assms(1) unfolding letters_kept_def by (metis UnE empty_iff insert_iff list.set(1,2) set_append)
  with letters_kept_Suc [OF assms(1)] show ?thesis unfolding letters_kept_def by blast
qed

lemma letters_kept_delete: "letters_kept t0 n t \<Longrightarrow> letters_kept t0 n (sql_delete P t)"
  by (auto simp: letters_kept_def)

lemma letters_kept_update:
  assumes "letters_kept t0 n t" and "\<And>r. le_id (f r) = le_id r" and step: "\<And>r. letter_step r (f r)"
  shows "letters_kept t0 n (sql_update P f t)"
proof -
  have "letter_step r0 r'" if r0: "r0 \<in> set t0" and r': "r' \<in> set (sql_update P f t)"
    and eq: "le_id r' = le_id r0" for r0 r'
  proof -
    from r' obtain r where r: "r \<in> set t" "r' = (if P r then f r else r)" by auto
    with eq assms(2) have "le_id r = le_id r0" by (auto split: if_splits)
    with r r0 assms(1) have "letter_step r0 r" by (auto simp: letters_kept_def)
    with r(2) step [of r] show ?thesis by (auto simp: letter_step_def split: if_splits)
  qed
  with assms(1) show ?thesis by (auto simp: letters_kept_def simp del: set_sql_update)
qed

lemma map_sql_update_same: "(\<And>r. g (f r) = g r) \<Longrightarrow> map g (sql_update P f t) = map g t"
  by (rule map_sql_update)

lemma parses_simps [simp]:
  "parses tier_from_db_str (tier_as_db_str t)" "parses vault_state_from_db_str (vault_state_as_db_str s)"
  "parses region_from_aws_str (region_as_aws_str g)"
  "parses signal_source_from_db_str (signal_source_as_db_str src)"
  "parses buddy_response_from_db_str (buddy_response_as_db_str b)"
  by (simp_all add: parses_def tier_enum.parse_print vault_state_enum.parse_print
      region_enum.parse_print signal_source_enum.parse_print buddy_response_enum.parse_print)

lemma parses_literals [simp]:
  "parses vault_state_from_db_str ''ACTIVE''" "parses vault_state_from_db_str ''COOLING_OFF''"
  "parses vault_state_from_db_str ''RELEASING''" "parses subscription_state_from_db_str ''TRIALING''"
  "parses subscription_state_from_db_str ''ACTIVE''" "parses subscription_state_from_db_str ''CANCELED''"
  "parses subscription_state_from_db_str ''EXPIRED''" "parses subscription_state_from_db_str ''DELETED''"
  by (simp_all add: parses_def vault_state_from_db_str_def subscription_state_from_db_str_def)

lemma release_mode_check_parses: "release_mode_check s \<Longrightarrow> parses release_mode_from_db_str s"
  by (auto simp: release_mode_check_def parses_def release_mode_from_db_str_def)

text \<open>State that the invariant does not read.\<close>

lemma sys_inv_skip [simp]:
  "sys_inv w0 (rng_pos_update x2 w) = sys_inv w0 w"
  "sys_inv w0 (heartbeats_update x3 w) = sys_inv w0 w" "sys_inv w0 (apple_subs_update x4 w) = sys_inv w0 w"
  "sys_inv w0 (bank_subs_update x5 w) = sys_inv w0 w" "sys_inv w0 (duress_signals_update x6 w) = sys_inv w0 w"
  "sys_inv w0 (blobs_update x7 w) = sys_inv w0 w"
  "sys_inv w0 (aux_update x9 w) = sys_inv w0 w" "sys_inv w0 (timers_update x10 w) = sys_inv w0 w"
  "sys_inv w0 (outbox_update x11 w) = sys_inv w0 w" "sys_inv w0 (metrics_update x12 w) = sys_inv w0 w"
  by (simp_all add: sys_inv_defs)

lemma sys_inv_clock: "clock w \<le> t \<Longrightarrow> sys_inv w0 w \<Longrightarrow> sys_inv w0 (w\<lparr>clock := t\<rparr>)"
  by (auto simp: sys_inv_defs)

lemma sys_inv_uuid: "sys_inv w0 w \<Longrightarrow> sys_inv w0 (w\<lparr>next_uuid := Suc (next_uuid w)\<rparr>)"
  by (simp add: sys_inv_defs fresh_keyed_Suc letters_kept_Suc)

lemma sys_inv_new_key: "sys_inv w0 w \<Longrightarrow> kms_file w = None \<Longrightarrow> sys_inv w0 (w\<lparr>kms_file := k\<rparr>)"
  by (auto simp: sys_inv_defs)

section \<open>Statements on the tables of the invariant\<close>

definition vault_step :: "vault_row \<Rightarrow> vault_row \<Rightarrow> bool" where
  "vault_step r r' \<longleftrightarrow> vault_identity r' = vault_identity r
     \<and> (va_released_at r \<noteq> None \<longrightarrow> va_released_at r' \<noteq> None) \<and> (vault_parses r \<longrightarrow> vault_parses r')"

lemma inv_vaults:
  assumes "sys_inv w0 w" and "\<And>r. vault_step r (f r)"
  shows "sys_inv w0 (w\<lparr>vaults := sql_update P f (vaults w)\<rparr>)"
proof -
  have i: "vault_identity (f r) = vault_identity r" for r using assms(2) by (simp add: vault_step_def)
  then have k: "va_id (f r) = va_id r" "va_principal_id (f r) = va_principal_id r" for r
    by (auto simp: vault_identity_def)
  have e: "\<forall>r \<in> set (sql_update P f (vaults w)). vault_parses r"
    using assms by (auto simp: sys_inv_defs vault_step_def)
  have "once_released w \<subseteq> once_released (w\<lparr>vaults := sql_update P f (vaults w)\<rparr>)"
  proof
    fix v assume "v \<in> once_released w"
    then obtain r where r: "r \<in> set (vaults w)" "va_released_at r \<noteq> None" "va_id r = v"
      by (auto simp: once_released_def)
    define r' where "r' = (if P r then f r else r)"
    have "r' \<in> set (sql_update P f (vaults w))" using r(1) by (auto simp: r'_def)
    moreover have "va_released_at r' \<noteq> None" "va_id r' = v"
      using r assms(2) [of r] k by (auto simp: r'_def vault_step_def)
    ultimately have "\<exists>x \<in> set (sql_update P f (vaults w)). va_released_at x \<noteq> None \<and> va_id x = v" by blast
    then show "v \<in> once_released (w\<lparr>vaults := sql_update P f (vaults w)\<rparr>)"
      by (auto simp: once_released_def image_iff simp del: set_sql_update)
  qed
  then have "extends w0 (w\<lparr>vaults := sql_update P f (vaults w)\<rparr>)"
    using assms(1) by (auto simp: sys_inv_def extends_def map_sql_update_same [where g = vault_identity, OF i])
  moreover have "keys_ok (w\<lparr>vaults := sql_update P f (vaults w)\<rparr>)"
    using assms(1) by (simp add: sys_inv_def keys_ok_def fresh_keyed_update [where k = va_id, OF k(1)])
  moreover have "refs_ok (w\<lparr>vaults := sql_update P f (vaults w)\<rparr>)"
    using assms(1) by (simp add: sys_inv_def refs_ok_def image_sql_update [where k = va_id, OF k(1)]
        image_sql_update [where k = va_principal_id, OF k(2)] del: set_sql_update)
  moreover have "enums_ok (w\<lparr>vaults := sql_update P f (vaults w)\<rparr>)"
    using assms(1) e by (simp add: sys_inv_def enums_ok_def del: set_sql_update)
  ultimately show ?thesis by (simp add: sys_inv_def)
qed

lemma ball_sql_update:
  "(\<And>r. Q r \<Longrightarrow> Q (f r)) \<Longrightarrow> \<forall>r \<in> set t. Q r \<Longrightarrow> \<forall>r \<in> set (sql_update P f t). Q r"
  by auto

lemma inv_principals:
  assumes "sys_inv w0 w"
    and "\<And>r. pr_id (f r) = pr_id r"
  shows "sys_inv w0 (w\<lparr>principals := sql_update P f (principals w)\<rparr>)"
  using assms(1) by (simp add: sys_inv_defs fresh_keyed_update [where k = pr_id, OF assms(2)]
      image_sql_update [where k = pr_id, OF assms(2)] map_sql_update [where g = pr_id, OF assms(2)] del: set_sql_update)

lemma inv_letters:
  assumes "sys_inv w0 w"
    and "\<And>r. le_id (f r) = le_id r"
    and "\<And>r. le_vault_id (f r) = le_vault_id r"
    and "\<And>r. letter_kind_check (le_kind r) \<and> parses release_mode_from_db_str (le_release_mode r) \<Longrightarrow> letter_kind_check (le_kind (f r)) \<and> parses release_mode_from_db_str (le_release_mode (f r))"
    and step: "\<And>r. letter_step r (f r)"
  shows "sys_inv w0 (w\<lparr>letters := sql_update P f (letters w)\<rparr>)"
proof -
  have q: "\<forall>r \<in> set (sql_update P f (letters w)). letter_kind_check (le_kind r) \<and> parses release_mode_from_db_str (le_release_mode r)"
    by (rule ball_sql_update [where Q = "\<lambda>r. letter_kind_check (le_kind r) \<and> parses release_mode_from_db_str (le_release_mode r)", OF assms(4)], assumption) (use assms(1) in \<open>simp add: sys_inv_def enums_ok_def\<close>)
  moreover have "keys_ok (w\<lparr>letters := sql_update P f (letters w)\<rparr>)" "refs_ok (w\<lparr>letters := sql_update P f (letters w)\<rparr>)"
    using assms(1) by (simp_all add: sys_inv_defs fresh_keyed_update [where k = le_id, OF assms(2)]
      image_sql_update [where k = le_id, OF assms(2)]
      image_sql_update [where k = le_vault_id, OF assms(3)] del: set_sql_update)
  moreover have "extends w0 (w\<lparr>letters := sql_update P f (letters w)\<rparr>)"
    using assms(1) letters_kept_update [OF _ assms(2) step]
    by (simp add: sys_inv_def extends_def once_released_def)
  ultimately show ?thesis
    using assms(1) q by (simp add: sys_inv_def enums_ok_def del: set_sql_update)
qed

lemma inv_events:
  assumes "sys_inv w0 w"
    and "\<And>r. ev_id (f r) = ev_id r"
    and "\<And>r. ev_vault_id (f r) = ev_vault_id r"
    and "\<And>r. event_identity (f r) = event_identity r"
  shows "sys_inv w0 (w\<lparr>release_events := sql_update P f (release_events w)\<rparr>)"
  using assms(1) by (simp add: sys_inv_defs fresh_keyed_update [where k = ev_id, OF assms(2)]
      image_sql_update [where k = ev_id, OF assms(2)]
      image_sql_update [where k = ev_vault_id, OF assms(3)] map_sql_update [where g = event_identity, OF assms(4)] del: set_sql_update)

lemma inv_claims:
  assumes "sys_inv w0 w"
    and "\<And>r. cl_token_hash (f r) = cl_token_hash r"
    and "\<And>r. cl_letter_id (f r) = cl_letter_id r"
    and "\<And>r. cl_release_event_id (f r) = cl_release_event_id r"
  shows "sys_inv w0 (w\<lparr>release_claims := sql_update P f (release_claims w)\<rparr>)"
  using assms(1) by (simp add: sys_inv_defs keyed_update [where k = cl_token_hash, OF assms(2)]
      image_sql_update [where k = cl_token_hash, OF assms(2)]
      image_sql_update [where k = cl_letter_id, OF assms(3)]
      image_sql_update [where k = cl_release_event_id, OF assms(4)] del: set_sql_update)

lemma inv_attachments:
  assumes "sys_inv w0 w"
    and "\<And>r. ar_id (f r) = ar_id r"
    and "\<And>r. ar_letter_id (f r) = ar_letter_id r"
  shows "sys_inv w0 (w\<lparr>attachments := sql_update P f (attachments w)\<rparr>)"
  using assms(1) by (simp add: sys_inv_defs fresh_keyed_update [where k = ar_id, OF assms(2)]
      image_sql_update [where k = ar_id, OF assms(2)]
      image_sql_update [where k = ar_letter_id, OF assms(3)] del: set_sql_update)

lemma inv_attachment_claims:
  assumes "sys_inv w0 w"
    and "\<And>r. ac_token_hash (f r) = ac_token_hash r"
    and "\<And>r. ac_attachment_id (f r) = ac_attachment_id r"
    and "\<And>r. ac_release_event_id (f r) = ac_release_event_id r"
  shows "sys_inv w0 (w\<lparr>attachment_claims := sql_update P f (attachment_claims w)\<rparr>)"
  using assms(1) by (simp add: sys_inv_defs keyed_update [where k = ac_token_hash, OF assms(2)]
      image_sql_update [where k = ac_token_hash, OF assms(2)]
      image_sql_update [where k = ac_attachment_id, OF assms(3)]
      image_sql_update [where k = ac_release_event_id, OF assms(4)] del: set_sql_update)

lemma inv_changes:
  assumes "sys_inv w0 w"
    and "\<And>r. rc_id (f r) = rc_id r"
    and "\<And>r. rc_letter_id (f r) = rc_letter_id r"
  shows "sys_inv w0 (w\<lparr>recipient_changes := sql_update P f (recipient_changes w)\<rparr>)"
  using assms(1) by (simp add: sys_inv_defs fresh_keyed_update [where k = rc_id, OF assms(2)]
      image_sql_update [where k = rc_id, OF assms(2)]
      image_sql_update [where k = rc_letter_id, OF assms(3)] del: set_sql_update)

lemma inv_co_stewards:
  assumes "sys_inv w0 w"
    and "\<And>r. co_id (f r) = co_id r"
    and "\<And>r. co_principal_id (f r) = co_principal_id r"
  shows "sys_inv w0 (w\<lparr>co_stewards := sql_update P f (co_stewards w)\<rparr>)"
  using assms(1) by (simp add: sys_inv_defs fresh_keyed_update [where k = co_id, OF assms(2)]
      image_sql_update [where k = co_id, OF assms(2)]
      image_sql_update [where k = co_principal_id, OF assms(3)] del: set_sql_update)

lemma inv_subscriptions:
  assumes "sys_inv w0 w"
    and "\<And>r. su_principal_id (f r) = su_principal_id r"
    and "\<And>r. parses subscription_state_from_db_str (su_state r) \<Longrightarrow> parses subscription_state_from_db_str (su_state (f r))"
  shows "sys_inv w0 (w\<lparr>subscriptions := sql_update P f (subscriptions w)\<rparr>)"
proof -
  have q: "\<forall>r \<in> set (sql_update P f (subscriptions w)). parses subscription_state_from_db_str (su_state r)"
    by (rule ball_sql_update [where Q = "\<lambda>r. parses subscription_state_from_db_str (su_state r)", OF assms(3)], assumption) (use assms(1) in \<open>simp add: sys_inv_def enums_ok_def\<close>)
  moreover have "keys_ok (w\<lparr>subscriptions := sql_update P f (subscriptions w)\<rparr>)" "refs_ok (w\<lparr>subscriptions := sql_update P f (subscriptions w)\<rparr>)"
      "extends w0 (w\<lparr>subscriptions := sql_update P f (subscriptions w)\<rparr>)"
    using assms(1) by (simp_all add: sys_inv_defs keyed_update [where k = su_principal_id, OF assms(2)]
      image_sql_update [where k = su_principal_id, OF assms(2)] map_sql_update [where g = su_principal_id, OF assms(2)] del: set_sql_update)
  ultimately show ?thesis
    using assms(1) by (simp add: sys_inv_def enums_ok_def del: set_sql_update)
qed

lemma inv_magic_links:
  assumes "sys_inv w0 w"
    and "\<And>r. ml_token_hash (f r) = ml_token_hash r"
    and "\<And>r. ml_principal_id (f r) = ml_principal_id r"
    and i: "\<And>r. link_identity (f r) = link_identity r"
    and m: "\<And>r. spent r \<Longrightarrow> spent (f r)"
  shows "sys_inv w0 (w\<lparr>magic_links := sql_update P f (magic_links w)\<rparr>)"
  using assms(1) by (simp add: sys_inv_defs keyed_update [where k = ml_token_hash, OF assms(2)]
      image_sql_update [where k = ml_token_hash, OF assms(2)]
      image_sql_update [where k = ml_principal_id, OF assms(3)] map_sql_update [where g = link_identity, OF i]
      marked_update [where k = ml_token_hash and M = spent, OF assms(2) m] del: set_sql_update)

lemma inv_sessions:
  assumes "sys_inv w0 w"
    and "\<And>r. se_token_hash (f r) = se_token_hash r"
    and "\<And>r. se_principal_id (f r) = se_principal_id r"
    and i: "\<And>r. session_identity (f r) = session_identity r"
    and m: "\<And>r. revoked r \<Longrightarrow> revoked (f r)"
  shows "sys_inv w0 (w\<lparr>sessions := sql_update P f (sessions w)\<rparr>)"
  using assms(1) by (simp add: sys_inv_defs keyed_update [where k = se_token_hash, OF assms(2)]
      image_sql_update [where k = se_token_hash, OF assms(2)]
      image_sql_update [where k = se_principal_id, OF assms(3)] map_sql_update [where g = session_identity, OF i]
      marked_update [where k = se_token_hash and M = revoked, OF assms(2) m] del: set_sql_update)

lemma inv_buddies:
  assumes "sys_inv w0 w"
    and "\<And>r. \<forall>s. bu_last_response r = Some s \<longrightarrow> parses buddy_response_from_db_str s \<Longrightarrow> \<forall>s. bu_last_response (f r) = Some s \<longrightarrow> parses buddy_response_from_db_str s"
  shows "sys_inv w0 (w\<lparr>buddies := sql_update P f (buddies w)\<rparr>)"
proof -
  have q: "\<forall>r \<in> set (sql_update P f (buddies w)). \<forall>s. bu_last_response r = Some s \<longrightarrow> parses buddy_response_from_db_str s"
    by (rule ball_sql_update [where Q = "\<lambda>r. \<forall>s. bu_last_response r = Some s \<longrightarrow> parses buddy_response_from_db_str s", OF assms(2)], assumption) (use assms(1) in \<open>simp add: sys_inv_def enums_ok_def\<close>)
  moreover have "keys_ok (w\<lparr>buddies := sql_update P f (buddies w)\<rparr>)" "refs_ok (w\<lparr>buddies := sql_update P f (buddies w)\<rparr>)"
      "extends w0 (w\<lparr>buddies := sql_update P f (buddies w)\<rparr>)"
    using assms(1) by (simp_all add: sys_inv_defs del: set_sql_update)
  ultimately show ?thesis
    using assms(1) by (simp add: sys_inv_def enums_ok_def del: set_sql_update)
qed

lemma inv_signal_subs:
  assumes "sys_inv w0 w"
    and "\<And>r. parses signal_source_from_db_str (ss_source r) \<Longrightarrow> parses signal_source_from_db_str (ss_source (f r))"
  shows "sys_inv w0 (w\<lparr>signal_subs := sql_update P f (signal_subs w)\<rparr>)"
proof -
  have q: "\<forall>r \<in> set (sql_update P f (signal_subs w)). parses signal_source_from_db_str (ss_source r)"
    by (rule ball_sql_update [where Q = "\<lambda>r. parses signal_source_from_db_str (ss_source r)", OF assms(2)], assumption) (use assms(1) in \<open>simp add: sys_inv_def enums_ok_def\<close>)
  moreover have "keys_ok (w\<lparr>signal_subs := sql_update P f (signal_subs w)\<rparr>)" "refs_ok (w\<lparr>signal_subs := sql_update P f (signal_subs w)\<rparr>)"
      "extends w0 (w\<lparr>signal_subs := sql_update P f (signal_subs w)\<rparr>)"
    using assms(1) by (simp_all add: sys_inv_defs del: set_sql_update)
  ultimately show ?thesis
    using assms(1) by (simp add: sys_inv_def enums_ok_def del: set_sql_update)
qed

section \<open>Programs\<close>

lemma keeps_update:
  assumes "\<And>w. I w \<Longrightarrow> I (upd (\<lambda>_. sql_update (P w) (f w) (tbl w)) w)"
  shows "keeps I (update_rows tbl upd P f)" "keeps I (update_returning tbl upd P f)"
  using assms by (simp_all add: keeps_def)

lemma keeps_insert:
  assumes "\<And>w. I w \<Longrightarrow> C w \<Longrightarrow> I (upd (\<lambda>_. tbl w @ [r]) w)"
  shows "keeps I (insert_row what C tbl upd r)"
  using assms by (simp add: keeps_def)

lemma keeps_create:
  assumes "\<And>w u t. sys_inv w0 w \<Longrightarrow> u = next_uuid w \<Longrightarrow> C u t (w\<lparr>next_uuid := Suc u\<rparr>) \<Longrightarrow>
      sys_inv w0 (upd (\<lambda>_. tbl (w\<lparr>next_uuid := Suc u\<rparr>) @ [r u t]) (w\<lparr>next_uuid := Suc u\<rparr>))"
    and "\<And>u t. keeps (sys_inv w0) (k u t)"
  shows "keeps (sys_inv w0) (bind gen_random_uuid (\<lambda>u. bind now (\<lambda>t.
      andthen (insert_row what (C u t) tbl upd (r u t)) (k u t))))"
proof (rule keepsI)
  fix w assume w: "sys_inv w0 w"
  let ?w = "w\<lparr>next_uuid := Suc (next_uuid w)\<rparr>"
  show "sys_inv w0 (snd (bind gen_random_uuid (\<lambda>u. bind now (\<lambda>t.
      andthen (insert_row what (C u t) tbl upd (r u t)) (k u t))) w))"
  proof (cases "C (next_uuid w) (clock w) ?w")
    case True
    with assms(1) [OF w] have "sys_inv w0 (upd (\<lambda>_. tbl ?w @ [r (next_uuid w) (clock w)]) ?w)" by simp
    with True keepsD [OF assms(2)] show ?thesis by (simp add: run)
  next
    case False
    with w show ?thesis by (simp add: run sys_inv_uuid)
  qed
qed

lemma keeps_uuid [inv_intros]: "keeps (sys_inv w0) gen_random_uuid"
  by (simp add: keeps_def sys_inv_uuid)

lemma keeps_skip [inv_intros]:
  "keeps (sys_inv w0) (draw_bytes A n)" "keeps (sys_inv w0) (random_token A)"
  "keeps (sys_inv w0) (notify nt)" "keeps (sys_inv w0) (metrics_add c k)"
  "keeps (sys_inv w0) (metrics_inc c)"
  by (simp_all add: keeps_def)

lemmas keeps_table_updates [inv_intros] =
  keeps_update [where I = "sys_inv w0" and upd = vaults_update and tbl = vaults, OF inv_vaults]
  keeps_update [where I = "sys_inv w0" and upd = principals_update and tbl = principals, OF inv_principals]
  keeps_update [where I = "sys_inv w0" and upd = letters_update and tbl = letters, OF inv_letters]
  keeps_update [where I = "sys_inv w0" and upd = release_events_update and tbl = release_events, OF inv_events]
  keeps_update [where I = "sys_inv w0" and upd = release_claims_update and tbl = release_claims, OF inv_claims]
  keeps_update [where I = "sys_inv w0" and upd = attachments_update and tbl = attachments, OF inv_attachments]
  keeps_update [where I = "sys_inv w0" and upd = attachment_claims_update and tbl = attachment_claims, OF inv_attachment_claims]
  keeps_update [where I = "sys_inv w0" and upd = recipient_changes_update and tbl = recipient_changes, OF inv_changes]
  keeps_update [where I = "sys_inv w0" and upd = co_stewards_update and tbl = co_stewards, OF inv_co_stewards]
  keeps_update [where I = "sys_inv w0" and upd = subscriptions_update and tbl = subscriptions, OF inv_subscriptions]
  keeps_update [where I = "sys_inv w0" and upd = magic_links_update and tbl = magic_links, OF inv_magic_links]
  keeps_update [where I = "sys_inv w0" and upd = sessions_update and tbl = sessions, OF inv_sessions]
  keeps_update [where I = "sys_inv w0" and upd = buddies_update and tbl = buddies, OF inv_buddies]
  keeps_update [where I = "sys_inv w0" and upd = signal_subs_update and tbl = signal_subs, OF inv_signal_subs]
  for w0

lemmas inv_append = sys_inv_defs fresh_keyed_append fresh_keyed_Suc keyed_append
  letters_kept_Suc letters_kept_append letters_kept_delete vault_parses_def prefix_prefix subset_insertI2
  revoked_def spent_def

end
