(* ===== verification/SystemDb.thy ===== *)
theory SystemDb
  imports SystemFacts
begin

lemma coalesce_Some: "(\<exists>y. coalesce a b = Some y) \<longleftrightarrow> (\<exists>y. a = Some y) \<or> (\<exists>y. b = Some y)"
  by (cases a) auto

lemmas inv_steps = vault_step_def vault_identity_def vault_parses_def event_identity_def
  release_mode_check_parses coalesce_Some letter_step_def session_identity_def link_identity_def revoked_def spent_def

lemma keeps_auth_reads [inv_intros]:
  "keeps I (db_fetch_principal a0)"
  "keeps I db_list_due_account_deletions"
  "keeps I (db_principal_deletion_state a2)"
  "keeps I (db_principal_for_session a3)"
  "keeps I (row_to_subscription a4)"
  "keeps I (db_fetch_subscription a5)"
  "keeps I db_list_canceled_past_retention"
  unfolding db_fetch_principal_def db_list_due_account_deletions_def
    db_principal_deletion_state_def db_principal_for_session_def row_to_subscription_def
    db_fetch_subscription_def db_list_canceled_past_retention_def
  by (intro keeps_intros)+

lemma keeps_auth_updates [inv_intros]:
  "keeps (sys_inv w0) (db_set_tos_accepted a0)"
  "keeps (sys_inv w0) (db_request_account_deletion a1 b1)"
  "keeps (sys_inv w0) (db_cancel_account_deletion a2)"
  "keeps (sys_inv w0) (db_consume_magic_link a3)"
  "keeps (sys_inv w0) (db_revoke_session a4)"
  "keeps (sys_inv w0) (db_cancel_subscription a5 b5)"
  "keeps (sys_inv w0) (db_reactivate_subscription a6)"
  "keeps (sys_inv w0) (db_expire_subscription a7)"
  "keeps (sys_inv w0) (db_delete_subscription a8)"
  unfolding db_set_tos_accepted_def db_request_account_deletion_def db_cancel_account_deletion_def
    db_consume_magic_link_def db_revoke_session_def db_cancel_subscription_def
    db_reactivate_subscription_def db_expire_subscription_def db_delete_subscription_def Let_def
  by (intro keeps_intros inv_intros; simp add: inv_steps)+

lemma keeps_auth_inserts [inv_intros]:
  "keeps (sys_inv w0) (db_create_magic_link a0 b0 c0)"
  "keeps (sys_inv w0) (db_create_session a1 b1 c1)"
  unfolding db_create_magic_link_def db_create_session_def Let_def
  by (intro keeps_intros keeps_insert inv_intros; simp add: inv_append)+

lemma keeps_auth_creates [inv_intros]:
  "keeps (sys_inv w0) (db_upsert_principal_by_email a0)"
  unfolding db_upsert_principal_by_email_def Let_def
  by ((rule keeps_create | rule keeps_intros inv_intros) | (simp add: inv_append)[1])+

lemma keeps_vault_reads [inv_intros]:
  "keeps I (row_to_vault a0 b0)"
  "keeps I (db_fetch_vault a1)"
  "keeps I (db_list_vaults a2)"
  "keeps I (db_vault_count a3)"
  "keeps I (db_list_vaults_in_states a4)"
  "keeps I (db_list_letters a5)"
  "keeps I (db_letter_count a6)"
  "keeps I (db_fetch_letter_ciphertext a7 b7)"
  "keeps I (db_fetch_letter_full a8)"
  "keeps I (db_list_scheduled_letters_due a9)"
  "keeps I (db_list_letters_for_signal_release a10)"
  "keeps I (db_list_letters_admin a11)"
  "keeps I (db_fetch_letter_admin a12)"
  "keeps I (db_fetch_letter_meta a13)"
  "keeps I (db_fetch_recipient_change a14)"
  "keeps I (db_fetch_pending_recipient_change a15)"
  "keeps I (db_list_due_recipient_changes a16)"
  "keeps I (db_last_heartbeat a17)"
  unfolding row_to_vault_def db_fetch_vault_def db_list_vaults_def db_vault_count_def
    db_list_vaults_in_states_def db_list_letters_def db_letter_count_def
    db_fetch_letter_ciphertext_def db_fetch_letter_full_def db_list_scheduled_letters_due_def
    db_list_letters_for_signal_release_def db_list_letters_admin_def db_fetch_letter_admin_def
    db_fetch_letter_meta_def db_fetch_recipient_change_def db_fetch_pending_recipient_change_def
    db_list_due_recipient_changes_def db_last_heartbeat_def
  by (intro keeps_intros)+

lemma keeps_vault_updates [inv_intros]:
  "keeps (sys_inv w0) (db_set_vault_state a0 b0 c0 d0)"
  "keeps (sys_inv w0) (db_set_vault_storage_region a1 b1)"
  "keeps (sys_inv w0) (db_update_vault a2 b2 c2)"
  "keeps (sys_inv w0) (db_claim_vault_cooling_off a3 b3)"
  "keeps (sys_inv w0) (db_claim_vault_for_release a4)"
  "keeps (sys_inv w0) (db_mark_letter_event_released a5)"
  "keeps (sys_inv w0) (db_clear_letter_schedule a6)"
  "keeps (sys_inv w0) (db_purge_letter_ciphertext a7)"
  "keeps (sys_inv w0) (db_cancel_recipient_change a8)"
  "keeps (sys_inv w0) (db_apply_recipient_change a9)"
  unfolding db_set_vault_state_def db_set_vault_storage_region_def db_update_vault_def
    db_claim_vault_cooling_off_def db_claim_vault_for_release_def db_mark_letter_event_released_def
    db_clear_letter_schedule_def db_purge_letter_ciphertext_def db_cancel_recipient_change_def
    db_apply_recipient_change_def Let_def
  by (intro keeps_intros inv_intros; simp add: inv_steps)+

lemma keeps_vault_creates [inv_intros]:
  "keeps (sys_inv w0) (db_request_recipient_change a0 b0 c0 d0 e0)"
  unfolding db_request_recipient_change_def Let_def
  by ((rule keeps_create | rule keeps_intros inv_intros) | (simp add: inv_append)[1])+

lemma keeps_release_reads [inv_intros]:
  "keeps I (db_list_due_releases a0)"
  "keeps I (db_fetch_open_release a1)"
  "keeps I (db_list_attachments a2)"
  "keeps I (db_fetch_attachment a3)"
  "keeps I (db_list_attachments_for_vault a4)"
  "keeps I (db_storage_used a5)"
  "keeps I (db_list_transparency_entries a6)"
  unfolding db_list_due_releases_def db_fetch_open_release_def db_list_attachments_def
    db_fetch_attachment_def db_list_attachments_for_vault_def db_storage_used_def
    db_list_transparency_entries_def
  by (intro keeps_intros)+

lemma keeps_release_updates [inv_intros]:
  "keeps (sys_inv w0) (db_mark_release_released a0)"
  "keeps (sys_inv w0) (db_mark_release_cancelled a1)"
  "keeps (sys_inv w0) (db_consume_release_claim a2)"
  "keeps (sys_inv w0) (db_update_attachment_storage_key a3 b3)"
  "keeps (sys_inv w0) (db_consume_attachment_claim a4)"
  unfolding db_mark_release_released_def db_mark_release_cancelled_def db_consume_release_claim_def
    db_update_attachment_storage_key_def db_consume_attachment_claim_def Let_def
  by (intro keeps_intros inv_intros; simp add: inv_steps)+

lemma keeps_release_inserts [inv_intros]:
  "keeps (sys_inv w0) (db_issue_release_claim a0 b0 c0 d0 e0)"
  "keeps (sys_inv w0) (db_issue_attachment_claim a1 b1 c1 d1 e1)"
  "keeps (sys_inv w0) (db_append_transparency_entry a2 b2 c2)"
  unfolding db_issue_release_claim_def db_issue_attachment_claim_def
    db_append_transparency_entry_def Let_def
  by (intro keeps_intros keeps_insert inv_intros; simp add: inv_append)+

lemma keeps_release_creates [inv_intros]:
  "keeps (sys_inv w0) (db_create_attachment a0)"
  unfolding db_create_attachment_def Let_def
  by ((rule keeps_create | rule keeps_intros inv_intros) | (simp add: inv_append)[1])+

lemma keeps_people_reads [inv_intros]:
  "keeps I (row_to_buddy a0)"
  "keeps I (db_list_buddies a1)"
  "keeps I (db_fetch_buddy a2)"
  "keeps I (db_sign_in_co_steward a3 b3)"
  "keeps I (db_lookup_co_steward_salt a4)"
  "keeps I (db_list_co_stewards a5)"
  "keeps I (db_co_steward_count a6)"
  "keeps I (db_fetch_co_steward a7)"
  "keeps I (db_co_steward_for_session a8)"
  unfolding row_to_buddy_def db_list_buddies_def db_fetch_buddy_def db_sign_in_co_steward_def
    db_lookup_co_steward_salt_def db_list_co_stewards_def db_co_steward_count_def
    db_fetch_co_steward_def db_co_steward_for_session_def
  by (intro keeps_intros)+

lemma keeps_people_updates [inv_intros]:
  "keeps (sys_inv w0) (db_confirm_buddy a0)"
  "keeps (sys_inv w0) (db_record_buddy_response a1 b1)"
  "keeps (sys_inv w0) (db_revoke_buddy a2)"
  "keeps (sys_inv w0) (db_confirm_co_steward a3 b3 c3)"
  "keeps (sys_inv w0) (db_revoke_co_steward a4)"
  "keeps (sys_inv w0) (db_touch_co_steward_view a5)"
  unfolding db_confirm_buddy_def db_record_buddy_response_def db_revoke_buddy_def
    db_confirm_co_steward_def db_revoke_co_steward_def db_touch_co_steward_view_def Let_def
  by (intro keeps_intros inv_intros; simp add: inv_steps)+

lemma keeps_people_inserts [inv_intros]:
  "keeps (sys_inv w0) (db_create_co_steward_session a0 b0 c0 d0)"
  unfolding db_create_co_steward_session_def Let_def
  by (intro keeps_intros keeps_insert inv_intros; simp add: inv_append)+

lemma keeps_people_creates [inv_intros]:
  "keeps (sys_inv w0) (db_invite_buddy a0)"
  unfolding db_invite_buddy_def Let_def
  by ((rule keeps_create | rule keeps_intros inv_intros) | (simp add: inv_append)[1])+

lemma keeps_signals_reads [inv_intros]:
  "keeps I (row_to_signal_subscription a0)"
  "keeps I (db_list_signal_subscriptions a1)"
  "keeps I (row_to_signal a2)"
  "keeps I (db_list_recent_signals a3 b3)"
  "keeps I (db_list_principal_activity a4 b4)"
  "keeps I (db_fetch_apple_shortcut_sub a5)"
  "keeps I (db_fetch_bank_dormancy_sub a6)"
  "keeps I (db_fetch_bank_dormancy_sub_by_webhook a7)"
  "keeps I (db_list_bank_dormancy_subs_with_recent_ping a8 b8)"
  "keeps I (db_fetch_duress a9)"
  "keeps I (db_principal_in_duress a10)"
  unfolding row_to_signal_subscription_def db_list_signal_subscriptions_def row_to_signal_def
    db_list_recent_signals_def db_list_principal_activity_def db_fetch_apple_shortcut_sub_def
    db_fetch_bank_dormancy_sub_def db_fetch_bank_dormancy_sub_by_webhook_def
    db_list_bank_dormancy_subs_with_recent_ping_def db_fetch_duress_def db_principal_in_duress_def
  by (intro keeps_intros)+

lemma keeps_signals_inserts [inv_intros]:
  "keeps (sys_inv w0) (db_record_signal a0 b0 c0)"
  unfolding db_record_signal_def Let_def
  by (intro keeps_intros keeps_insert inv_intros; simp add: inv_append)+

lemma keeps_signals_aside [inv_intros]:
  "keeps (sys_inv w0) (db_create_apple_shortcut_sub a0 b0 c0)"
  "keeps (sys_inv w0) (db_touch_apple_shortcut_sub a1)"
  "keeps (sys_inv w0) (db_create_bank_dormancy_sub a2 b2 c2)"
  "keeps (sys_inv w0) (db_touch_bank_dormancy_sub a3 b3)"
  "keeps (sys_inv w0) (db_delete_bank_dormancy_sub a4)"
  "keeps (sys_inv w0) (db_arm_duress a5 b5 c5 d5)"
  "keeps (sys_inv w0) (db_delete_duress a6)"
  "keeps (sys_inv w0) (db_trigger_duress a7 b7)"
  unfolding db_create_apple_shortcut_sub_def db_touch_apple_shortcut_sub_def
    db_create_bank_dormancy_sub_def db_touch_bank_dormancy_sub_def db_delete_bank_dormancy_sub_def
    db_arm_duress_def db_delete_duress_def db_trigger_duress_def Let_def
  by (intro keeps_intros keeps_insert keeps_update keeps_modify inv_intros; simp add: upd_aux_def)+

lemma keeps_keys_reads [inv_intros]:
  "keeps I (db_list_vault_contacts a0)"
  "keeps I (db_fetch_principal_by_email a1)"
  "keeps I (db_list_passkeys_for_principal a2)"
  "keeps I (db_get_passkey_by_credential_id a3)"
  "keeps I (db_get_passkeys_for_authentication a4)"
  "keeps I (db_get_zk_envelopes_for_vault a5)"
  "keeps I (db_get_zk_recovery_envelope a6)"
  "keeps I (db_get_principal_recovery a7)"
  "keeps I (db_get_principal_recovery_by_email a8)"
  "keeps I (db_count_passkeys_for_principal a9)"
  "keeps I (db_count_zk_vaults_for_principal a10)"
  "keeps I (db_get_principal_recovery_key a11)"
  "keeps I (db_get_principal_recovery_key_by_email a12)"
  "keeps I (db_get_vault_prk_envelope a13)"
  "keeps I (db_get_zk_letter_heir_envelope a14)"
  unfolding db_list_vault_contacts_def db_fetch_principal_by_email_def
    db_list_passkeys_for_principal_def db_get_passkey_by_credential_id_def
    db_get_passkeys_for_authentication_def db_get_zk_envelopes_for_vault_def
    db_get_zk_recovery_envelope_def db_get_principal_recovery_def
    db_get_principal_recovery_by_email_def db_count_passkeys_for_principal_def
    db_count_zk_vaults_for_principal_def db_get_principal_recovery_key_def
    db_get_principal_recovery_key_by_email_def db_get_vault_prk_envelope_def
    db_get_zk_letter_heir_envelope_def
  by (intro keeps_intros)+

lemma keeps_keys_aside [inv_intros]:
  "keeps (sys_inv w0) (db_create_vault_contact a0 b0 c0 d0 e0 f0)"
  "keeps (sys_inv w0) (db_update_vault_contact a1 b1 c1 d1 e1 f1 g1)"
  "keeps (sys_inv w0) (db_delete_vault_contact a2 b2)"
  "keeps (sys_inv w0) (db_create_webauthn_challenge a3 b3 c3)"
  "keeps (sys_inv w0) (db_consume_webauthn_challenge a4 b4)"
  "keeps (sys_inv w0) db_expire_webauthn_challenges"
  "keeps (sys_inv w0) (db_store_passkey a6 b6 c6 d6 e6 f6)"
  "keeps (sys_inv w0) (db_update_passkey_after_auth a7 b7 c7)"
  "keeps (sys_inv w0) (db_delete_passkey a8 b8)"
  "keeps (sys_inv w0) (db_upsert_zk_envelope a9 b9 c9 d9)"
  "keeps (sys_inv w0) (db_upsert_zk_recovery_envelope a10 b10 c10 d10 e10)"
  "keeps (sys_inv w0) (db_upsert_principal_recovery a11 b11 c11)"
  "keeps (sys_inv w0) (db_upsert_principal_recovery_key a12 b12 c12 d12 e12 f12)"
  "keeps (sys_inv w0) (db_upsert_vault_prk_envelope a13 b13 c13 d13)"
  "keeps (sys_inv w0) (db_upsert_zk_letter_heir_envelope a14 b14 c14 d14 e14 f14)"
  unfolding db_create_vault_contact_def db_update_vault_contact_def db_delete_vault_contact_def
    db_create_webauthn_challenge_def db_consume_webauthn_challenge_def
    db_expire_webauthn_challenges_def db_store_passkey_def db_update_passkey_after_auth_def
    db_delete_passkey_def db_upsert_zk_envelope_def db_upsert_zk_recovery_envelope_def
    db_upsert_principal_recovery_def db_upsert_principal_recovery_key_def
    db_upsert_vault_prk_envelope_def db_upsert_zk_letter_heir_envelope_def Let_def
  by (intro keeps_intros keeps_insert keeps_update keeps_modify inv_intros; simp add: upd_aux_def)+

section \<open>Statements with a proof of their own\<close>

lemma keeps_anonymise [inv_intros]: "keeps (sys_inv w0) (db_anonymise_principal i)"
  by (rule keepsI) (auto simp: db_anonymise_principal_def Let_def intro: inv_principals)

text \<open>No subscription is ever inserted: the plan the code writes is not one the table's check allows.\<close>

lemma create_subscription_fails:
  "db_create_subscription i p d w =
     (Err (Sqlx ''subscription''), w\<lparr>next_uuid := Suc (next_uuid w)\<rparr>)"
  by (cases p) (simp add: db_create_subscription_def Let_def run plan_id_check_def)

lemma keeps_create_subscription [inv_intros]: "keeps (sys_inv w0) (db_create_subscription i p d)"
  by (simp add: keeps_def create_subscription_fails sys_inv_uuid)

lemma released_append:
  "va_released_at x = None \<Longrightarrow>
    {r. (r = x \<or> r \<in> T) \<and> (\<exists>y. va_released_at r = Some y)} = {r \<in> T. \<exists>y. va_released_at r = Some y}"
  by auto

text \<open>A vault is only inserted where there is a subscription.\<close>

lemma keeps_create_vault:
  assumes "subscriptions w0 \<noteq> []"
  shows "keeps (sys_inv w0) (db_create_vault i n t c g)"
  unfolding db_create_vault_def Let_def
  by (rule keeps_create)
    (use assms in \<open>simp_all add: inv_append vault_identity_def released_append keeps_vault_reads\<close>)

lemma keeps_seal_letter [inv_intros]: "keeps (sys_inv w0) (db_seal_letter input)"
  unfolding db_seal_letter_def Let_def
  by (rule keeps_create keeps_ret; simp add: inv_append release_mode_check_parses)+

lemma keeps_release_event [inv_intros]:
  "keeps (sys_inv w0) (insert_release_event v reason d ends)"
  "keeps (sys_inv w0) (db_create_release_event v reason d)"
  "keeps (sys_inv w0) (db_create_release_event_with_deadline v reason d t)"
  unfolding db_create_release_event_def db_create_release_event_with_deadline_def
    insert_release_event_def Let_def
  by (rule keeps_create keeps_ret; simp add: inv_append)+

lemma keeps_update_letter_meta [inv_intros]: "keeps (sys_inv w0) (db_update_letter_meta l t rc s m k)"
proof (rule keepsI)
  fix w assume w: "sys_inv w0 w"
  show "sys_inv w0 (snd (db_update_letter_meta l t rc s m k w))"
  proof (cases "release_mode_check m \<and> letter_kind_check k")
    case True
    with w have "sys_inv w0 (w\<lparr>letters := sql_update (\<lambda>r. le_id r = l)
        (\<lambda>r. r\<lparr>le_title := t, le_recipient_email := rc, le_scheduled_release_at := s,
           le_release_mode := m, le_kind := k\<rparr>) (letters w)\<rparr>)"
      by (intro inv_letters) (simp_all add: release_mode_check_parses letter_step_def)
    with w True show ?thesis
      by (simp add: db_update_letter_meta_def run ok_or_def split: option.split)
  next
    case False
    show ?thesis
    proof (cases "sql_first (\<lambda>r. le_id r = l) (letters w)")
      case None
      then have "sql_update (\<lambda>r. le_id r = l) f (letters w) = letters w" for f
        by (induction "letters w") (auto simp: sql_update_none sql_first_None)
      with w None show ?thesis by (simp add: db_update_letter_meta_def run)
    next
      case (Some r)
      with w False show ?thesis by (simp add: db_update_letter_meta_def run reject_if_def)
    qed
  qed
qed

lemma mem_image_other [simp]: "x \<in> k ` {r \<in> T. k r \<noteq> l} \<longleftrightarrow> x \<in> k ` T \<and> x \<noteq> l"
  by auto

lemma keeps_delete_letter [inv_intros]: "keeps (sys_inv w0) (db_delete_letter l)"
proof (rule keepsI)
  fix w assume w: "sys_inv w0 w"
  let ?w = "snd (db_delete_letter l w)"
  have "keys_ok ?w"
    using w by (simp add: db_delete_letter_def sys_inv_def keys_ok_def fresh_keyed_delete keyed_delete)
  moreover have "refs_ok ?w"
    using w by (simp add: db_delete_letter_def sys_inv_def refs_ok_def image_subset_iff) fastforce
  moreover have "enums_ok ?w" "extends w0 ?w"
    using w by (simp_all add: db_delete_letter_def sys_inv_def enums_ok_def extends_def once_released_def letters_kept_delete)
  ultimately show "sys_inv w0 ?w" by (simp add: sys_inv_def)
qed

lemma keeps_purge_attachment [inv_intros]: "keeps (sys_inv w0) (db_purge_attachment a)"
proof (rule keepsI)
  fix w assume w: "sys_inv w0 w"
  let ?w = "snd (db_purge_attachment a w)"
  have "keys_ok ?w"
    using w by (simp add: db_purge_attachment_def run sys_inv_def keys_ok_def fresh_keyed_delete keyed_delete)
  moreover have "refs_ok ?w"
    using w by (simp add: db_purge_attachment_def run sys_inv_def refs_ok_def image_subset_iff)
  moreover have "enums_ok ?w" "extends w0 ?w"
    using w by (simp_all add: db_purge_attachment_def run sys_inv_def enums_ok_def extends_def once_released_def)
  ultimately show "sys_inv w0 ?w" by (simp add: sys_inv_def)
qed

lemma keeps_record_heartbeat [inv_intros]: "keeps (sys_inv w0) (db_record_heartbeat i via)"
  unfolding db_record_heartbeat_def
  by (intro keeps_intros keeps_insert inv_intros) (simp_all add: inv_steps)

lemma keeps_invite_co_steward [inv_intros]: "keeps (sys_inv w0) (db_invite_co_steward i n e h)"
  unfolding db_invite_co_steward_def Let_def
  by ((rule keeps_create | rule keeps_intros inv_intros) | (simp add: inv_append)[1])+

lemma keeps_upsert_signal_subscription [inv_intros]:
  "keeps (sys_inv w0) (db_upsert_signal_subscription v src wt en)"
  unfolding db_upsert_signal_subscription_def Let_def
  by (intro keeps_intros keeps_insert inv_intros) (simp_all add: inv_append)

end
