(* ===== verification/SystemRoutes.thy ===== *)
theory SystemRoutes
  imports SystemDb
begin

text \<open>Every helper, handler and worker pass keeps the invariant of the server.\<close>

lemma keeps_sessions [inv_intros]:
  "keeps I (current_principal A h)" "keeps I (current_co_steward A h)"
  by (simp_all add: keeps_def)

lemma keeps_case_backend [inv_intros]:
  assumes "keeps I m" "\<And>x. keeps I (f x)" "\<And>x y. keeps I (g x y)"
  shows "keeps I (case bk of LocalFilesystemStore \<Rightarrow> m | S3Store x \<Rightarrow> f x | RegionRouter x y \<Rightarrow> g x y)"
  using assms by (cases bk) auto

lemma keeps_conversions [inv_intros]:
  "keeps I m1 \<Longrightarrow> keeps I (crypt m1)" "keeps I m2 \<Longrightarrow> keeps I (blob m2)"
  "keeps I m3 \<Longrightarrow> keeps I (or_default m3)"
  by (simp_all add: keeps_crypt keeps_blob or_default_def keeps_bind keeps_attempt keeps_case_sum)

lemma kept_local_put [inv_intros]: "keeps (sys_inv w0) (local_put a b)"
  unfolding local_put_def
  by (intro keeps_intros keeps_modify inv_intros) simp_all

lemma kept_local_get [inv_intros]: "keeps (sys_inv w0) (local_get a)"
  unfolding local_get_def
  by (intro keeps_intros inv_intros)

lemma kept_local_delete [inv_intros]: "keeps (sys_inv w0) (local_delete a)"
  unfolding local_delete_def
  by (intro keeps_intros keeps_modify inv_intros) simp_all

lemma kept_put_id [inv_intros]: "keeps (sys_inv w0) (put_id a b c)"
  unfolding put_id_def
  by (intro keeps_intros keeps_modify inv_intros) simp_all

lemma kept_get_id [inv_intros]: "keeps (sys_inv w0) (get_id a b c)"
  unfolding get_id_def
  by (intro keeps_intros inv_intros)

lemma kept_delete_id [inv_intros]: "keeps (sys_inv w0) (delete_id a b c)"
  unfolding delete_id_def
  by (intro keeps_intros keeps_modify inv_intros) simp_all

lemma kept_s3_put [inv_intros]: "keeps (sys_inv w0) (s3_put a b c)"
  unfolding s3_put_def
  by (intro keeps_intros inv_intros)

lemma kept_s3_get [inv_intros]: "keeps (sys_inv w0) (s3_get a b)"
  unfolding s3_get_def
  by (intro keeps_intros inv_intros)

lemma kept_s3_delete [inv_intros]: "keeps (sys_inv w0) (s3_delete a b)"
  unfolding s3_delete_def
  by (intro keeps_intros inv_intros)

lemma kept_store_for [inv_intros]: "keeps (sys_inv w0) (store_for a b)"
  unfolding store_for_def
  by (intro keeps_intros inv_intros)

lemma kept_router_put [inv_intros]: "keeps (sys_inv w0) (router_put a b c)"
  unfolding router_put_def
  by (intro keeps_intros inv_intros)

lemma kept_router_get [inv_intros]: "keeps (sys_inv w0) (router_get a b c)"
  unfolding router_get_def
  by (intro keeps_intros inv_intros)

lemma kept_router_delete [inv_intros]: "keeps (sys_inv w0) (router_delete a b c)"
  unfolding router_delete_def
  by (intro keeps_intros inv_intros)

lemma kept_blob_put [inv_intros]: "keeps (sys_inv w0) (blob_put a b c)"
  unfolding blob_put_def
  by (intro keeps_intros inv_intros)

lemma kept_blob_get [inv_intros]: "keeps (sys_inv w0) (blob_get a b)"
  unfolding blob_get_def
  by (intro keeps_intros inv_intros)

lemma kept_blob_delete [inv_intros]: "keeps (sys_inv w0) (blob_delete a b)"
  unfolding blob_delete_def
  by (intro keeps_intros inv_intros)

lemma kept_data_key [inv_intros]: "keeps (sys_inv w0) (data_key A)"
  by (rule keepsI) (auto simp: data_key_def run Let_def sys_inv_new_key split: option.split)

lemma kept_seal [inv_intros]: "keeps (sys_inv w0) (seal a b)"
  unfolding seal_def
  by (intro keeps_intros inv_intros)

lemma kept_unseal [inv_intros]: "keeps (sys_inv w0) (unseal a b)"
  unfolding unseal_def
  by (intro keeps_intros inv_intros)

lemma kept_seal_with_passphrase [inv_intros]: "keeps (sys_inv w0) (seal_with_passphrase a b c)"
  unfolding seal_with_passphrase_def
  by (intro keeps_intros inv_intros)

lemma kept_open_with_passphrase [inv_intros]: "keeps (sys_inv w0) (open_with_passphrase a b c)"
  unfolding open_with_passphrase_def
  by (intro keeps_intros inv_intros)

lemma kept_random_salt [inv_intros]: "keeps (sys_inv w0) (random_salt a)"
  unfolding random_salt_def
  by (intro keeps_intros inv_intros)

lemma kept_issue_for_attachment [inv_intros]: "keeps (sys_inv w0) (issue_for_attachment a b c d)"
  unfolding issue_for_attachment_def
  by (intro keeps_intros inv_intros)

lemma kept_deliver_letter [inv_intros]: "keeps (sys_inv w0) (deliver_letter a b c d)"
  unfolding deliver_letter_def
  by (intro keeps_intros inv_intros)

lemma kept_perform_release [inv_intros]: "keeps (sys_inv w0) (perform_release a b c d)"
  unfolding perform_release_def
  by (intro keeps_intros inv_intros)

lemma kept_spawn_release_elapse [inv_intros]: "keeps (sys_inv w0) (spawn_release_elapse a b c d)"
  unfolding spawn_release_elapse_def
  by (intro keeps_intros keeps_modify inv_intros) simp_all

lemma kept_begin_release_with_cool [inv_intros]: "keeps (sys_inv w0) (begin_release_with_cool a b c d)"
  unfolding begin_release_with_cool_def
  by (intro keeps_intros inv_intros)

lemma kept_begin_release [inv_intros]: "keeps (sys_inv w0) (begin_release a b c)"
  unfolding begin_release_def
  by (intro keeps_intros inv_intros)

lemma kept_elapse_release [inv_intros]: "keeps (sys_inv w0) (elapse_release a b c d)"
  unfolding elapse_release_def
  by (intro keeps_intros inv_intros)

lemma kept_release_elapse_tick [inv_intros]: "keeps (sys_inv w0) (release_elapse_tick a)"
  unfolding release_elapse_tick_def
  by (intro keeps_intros inv_intros)

lemma kept_fire_timer [inv_intros]: "keeps (sys_inv w0) (fire_timer A t)"
proof -
  have "keeps (sys_inv w0) (andthen (modify (\<lambda>w. w\<lparr>timers := remove1 t (timers w)\<rparr>))
      (ignore (elapse_release A (tm_vault t) (tm_event t) (tm_is_drill t))))"
    by (intro keeps_intros keeps_modify inv_intros) simp
  then show ?thesis by (auto simp: keeps_def fire_timer_def)
qed

lemma kept_trigger_event_release [inv_intros]: "keeps (sys_inv w0) (trigger_event_release a b c)"
  unfolding trigger_event_release_def
  by (intro keeps_intros inv_intros)

lemma kept_recipient_change_tick [inv_intros]: "keeps (sys_inv w0) recipient_change_tick"
  unfolding recipient_change_tick_def
  by (intro keeps_intros inv_intros)

lemma kept_scheduled_release_step [inv_intros]: "keeps (sys_inv w0) (scheduled_release_step a)"
  unfolding scheduled_release_step_def
  by (intro keeps_intros inv_intros)

lemma kept_scheduled_release_tick [inv_intros]: "keeps (sys_inv w0) scheduled_release_tick"
  unfolding scheduled_release_tick_def
  by (intro keeps_intros inv_intros)

lemma kept_observe_buddy [inv_intros]: "keeps (sys_inv w0) (observe_buddy a b c)"
  unfolding observe_buddy_def
  by (intro keeps_intros inv_intros)

lemma kept_observe_bank [inv_intros]: "keeps (sys_inv w0) (observe_bank a b c d)"
  unfolding observe_bank_def
  by (intro keeps_intros inv_intros)

lemma kept_observations [inv_intros]: "keeps (sys_inv w0) (observations a b c d)"
  unfolding observations_def
  by (intro keeps_intros inv_intros)

lemma kept_enter_cooling_off [inv_intros]: "keeps (sys_inv w0) (enter_cooling_off a)"
  unfolding enter_cooling_off_def
  by (intro keeps_intros inv_intros)

lemma kept_apply_evaluation [inv_intros]: "keeps (sys_inv w0) (apply_evaluation a b)"
  unfolding apply_evaluation_def
  by (intro keeps_intros inv_intros)

lemma kept_aggregate_vault [inv_intros]: "keeps (sys_inv w0) (aggregate_vault a b c)"
  unfolding aggregate_vault_def
  by (intro keeps_intros inv_intros)

lemma kept_aggregator_tick [inv_intros]: "keeps (sys_inv w0) (aggregator_tick a)"
  unfolding aggregator_tick_def
  by (intro keeps_intros inv_intros)

lemma kept_purge_one_attachment [inv_intros]: "keeps (sys_inv w0) (purge_one_attachment a b)"
  unfolding purge_one_attachment_def
  by (intro keeps_intros inv_intros)

lemma kept_purge_letter [inv_intros]: "keeps (sys_inv w0) (purge_letter a b)"
  unfolding purge_letter_def
  by (intro keeps_intros inv_intros)

lemma kept_purge_principal_ciphertext [inv_intros]: "keeps (sys_inv w0) (purge_principal_ciphertext a b)"
  unfolding purge_principal_ciphertext_def
  by (intro keeps_intros inv_intros)

lemma kept_expire_and_delete [inv_intros]: "keeps (sys_inv w0) (expire_and_delete a b)"
  unfolding expire_and_delete_def
  by (intro keeps_intros inv_intros)

lemma kept_delete_account_data [inv_intros]: "keeps (sys_inv w0) (delete_account_data a b)"
  unfolding delete_account_data_def
  by (intro keeps_intros inv_intros)

lemma kept_retention_tick [inv_intros]: "keeps (sys_inv w0) (retention_tick a)"
  unfolding retention_tick_def
  by (intro keeps_intros inv_intros)

lemma kept_parse_or_bad_request [inv_intros]: "keeps (sys_inv w0) (parse_or_bad_request a b)"
  unfolding parse_or_bad_request_def
  by (intro keeps_intros inv_intros)

lemma kept_owned_vault [inv_intros]: "keeps (sys_inv w0) (owned_vault a b c)"
  unfolding owned_vault_def
  by (intro keeps_intros inv_intros)

lemma kept_owned_letter [inv_intros]: "keeps (sys_inv w0) (owned_letter a b c d)"
  unfolding owned_letter_def
  by (intro keeps_intros inv_intros)

lemma kept_validate_letter_kind [inv_intros]: "keeps (sys_inv w0) (validate_letter_kind a)"
  unfolding validate_letter_kind_def
  by (intro keeps_intros inv_intros)

lemma kept_validate_release_mode [inv_intros]: "keeps (sys_inv w0) (validate_release_mode a b)"
  unfolding validate_release_mode_def
  by (intro keeps_intros inv_intros)

lemma kept_check_schedule [inv_intros]: "keeps (sys_inv w0) (check_schedule a b)"
  unfolding check_schedule_def
  by (intro keeps_intros inv_intros)

lemma kept_check_authoring [inv_intros]: "keeps (sys_inv w0) (check_authoring a)"
  unfolding check_authoring_def
  by (intro keeps_intros inv_intros)

lemma kept_check_sealable [inv_intros]: "keeps (sys_inv w0) (check_sealable a)"
  unfolding check_sealable_def
  by (intro keeps_intros inv_intros)

lemma kept_check_letter_quota [inv_intros]: "keeps (sys_inv w0) (check_letter_quota a b)"
  unfolding check_letter_quota_def
  by (intro keeps_intros inv_intros)

lemma kept_parse_plan_param [inv_intros]: "keeps (sys_inv w0) (parse_plan_param a)"
  unfolding parse_plan_param_def
  by (intro keeps_intros inv_intros)

lemma kept_signup [inv_intros]: "keeps (sys_inv w0) (signup a b)"
  unfolding signup_def
  by (intro keeps_intros inv_intros)

lemma kept_signin [inv_intros]: "keeps (sys_inv w0) (signin a b)"
  unfolding signin_def
  by (intro keeps_intros inv_intros)

lemma kept_magic_link_verify [inv_intros]: "keeps (sys_inv w0) (magic_link_verify a b)"
  unfolding magic_link_verify_def
  by (intro keeps_intros inv_intros)

lemma kept_signout [inv_intros]: "keeps (sys_inv w0) (signout a b)"
  unfolding signout_def
  by (intro keeps_intros inv_intros)

lemma kept_get_subscription [inv_intros]: "keeps (sys_inv w0) (get_subscription a b)"
  unfolding get_subscription_def
  by (intro keeps_intros inv_intros)

lemma kept_get_usage [inv_intros]: "keeps (sys_inv w0) (get_usage a b)"
  unfolding get_usage_def
  by (intro keeps_intros inv_intros)

lemma kept_request_account_deletion [inv_intros]: "keeps (sys_inv w0) (request_account_deletion a b)"
  unfolding request_account_deletion_def
  by (intro keeps_intros inv_intros)

lemma kept_cancel_account_deletion [inv_intros]: "keeps (sys_inv w0) (cancel_account_deletion a b)"
  unfolding cancel_account_deletion_def
  by (intro keeps_intros inv_intros)

lemma kept_get_activity [inv_intros]: "keeps (sys_inv w0) (get_activity a b)"
  unfolding get_activity_def
  by (intro keeps_intros inv_intros)

lemma kept_list_transparency_log [inv_intros]: "keeps (sys_inv w0) list_transparency_log"
  unfolding list_transparency_log_def
  by (intro keeps_intros inv_intros)

lemma kept_resolve_storage_region [inv_intros]: "keeps (sys_inv w0) (resolve_storage_region a b)"
  unfolding resolve_storage_region_def
  by (intro keeps_intros inv_intros)

text \<open>A vault is created only for a principal with a subscription.\<close>

lemma kept_create_vault_route [inv_intros]: "keeps (sys_inv w0) (create_vault A h body)"
proof (cases "subscriptions w0 = []")
  case False
  then show ?thesis
    unfolding create_vault_def by (intro keeps_intros inv_intros keeps_create_vault)
next
  case True
  show ?thesis
  proof (rule keepsI)
    fix w assume w: "sys_inv w0 w"
    with True have "subscriptions w = []" by (simp add: sys_inv_def extends_def)
    with w show "sys_inv w0 (snd (create_vault A h body w))"
      by (simp add: create_vault_def run api_step Let_def current_principal_eq db_fetch_subscription_def
          split: option.split)
  qed
qed

lemma kept_list_vaults [inv_intros]: "keeps (sys_inv w0) (list_vaults a b)"
  unfolding list_vaults_def
  by (intro keeps_intros inv_intros)

lemma kept_get_vault [inv_intros]: "keeps (sys_inv w0) (get_vault a b c)"
  unfolding get_vault_def
  by (intro keeps_intros inv_intros)

lemma kept_update_vault [inv_intros]: "keeps (sys_inv w0) (update_vault a b c d)"
  unfolding update_vault_def
  by (intro keeps_intros inv_intros)

lemma kept_move_attachment [inv_intros]: "keeps (sys_inv w0) (move_attachment a b c)"
  unfolding move_attachment_def
  by (intro keeps_intros inv_intros)

lemma kept_move_vault_region [inv_intros]: "keeps (sys_inv w0) (move_vault_region a b c d)"
  unfolding move_vault_region_def
  by (intro keeps_intros inv_intros)

lemma kept_list_vault_contacts [inv_intros]: "keeps (sys_inv w0) (list_vault_contacts a b c)"
  unfolding list_vault_contacts_def
  by (intro keeps_intros inv_intros)

lemma kept_create_vault_contact [inv_intros]: "keeps (sys_inv w0) (create_vault_contact a b c d)"
  unfolding create_vault_contact_def
  by (intro keeps_intros inv_intros)

lemma kept_update_vault_contact [inv_intros]: "keeps (sys_inv w0) (update_vault_contact a b c d e)"
  unfolding update_vault_contact_def
  by (intro keeps_intros inv_intros)

lemma kept_delete_vault_contact [inv_intros]: "keeps (sys_inv w0) (delete_vault_contact a b c d)"
  unfolding delete_vault_contact_def
  by (intro keeps_intros inv_intros)

lemma kept_seal_letter [inv_intros]: "keeps (sys_inv w0) (seal_letter a b c d)"
  unfolding seal_letter_def
  by (intro keeps_intros inv_intros)

lemma kept_list_letters [inv_intros]: "keeps (sys_inv w0) (list_letters a b c)"
  unfolding list_letters_def
  by (intro keeps_intros inv_intros)

lemma kept_get_letter [inv_intros]: "keeps (sys_inv w0) (get_letter a b c d)"
  unfolding get_letter_def
  by (intro keeps_intros inv_intros)

lemma kept_update_letter [inv_intros]: "keeps (sys_inv w0) (update_letter a b c d e)"
  unfolding update_letter_def
  by (intro keeps_intros inv_intros)

lemma kept_purge_and_delete [inv_intros]: "keeps (sys_inv w0) (purge_and_delete a b)"
  unfolding purge_and_delete_def
  by (intro keeps_intros inv_intros)

lemma kept_delete_letter_handler [inv_intros]: "keeps (sys_inv w0) (delete_letter_handler a b c d)"
  unfolding delete_letter_handler_def
  by (intro keeps_intros inv_intros)

lemma kept_export_letter [inv_intros]: "keeps (sys_inv w0) (export_letter a b c d e)"
  unfolding export_letter_def
  by (intro keeps_intros inv_intros)

lemma kept_store_heir_envelope [inv_intros]: "keeps (sys_inv w0) (store_heir_envelope a b c)"
  unfolding store_heir_envelope_def
  by (intro keeps_intros inv_intros)

lemma kept_check_zk_schedule [inv_intros]: "keeps (sys_inv w0) (check_zk_schedule a b)"
  unfolding check_zk_schedule_def
  by (intro keeps_intros inv_intros)

lemma kept_check_zk_quota [inv_intros]: "keeps (sys_inv w0) (check_zk_quota a b)"
  unfolding check_zk_quota_def
  by (intro keeps_intros inv_intros)

lemma kept_seal_zk_letter [inv_intros]: "keeps (sys_inv w0) (seal_zk_letter a b c d)"
  unfolding seal_zk_letter_def
  by (intro keeps_intros inv_intros)

lemma kept_get_zk_letter_ciphertext [inv_intros]: "keeps (sys_inv w0) (get_zk_letter_ciphertext a b c d)"
  unfolding get_zk_letter_ciphertext_def
  by (intro keeps_intros inv_intros)

lemma kept_or_bad [inv_intros]: "keeps (sys_inv w0) (or_bad a b)"
  unfolding or_bad_def
  by (intro keeps_intros inv_intros)

lemma kept_read_field [inv_intros]: "keeps (sys_inv w0) (read_field a b c)"
  unfolding read_field_def
  by (intro keeps_intros inv_intros)

lemma kept_read_form [inv_intros]: "keeps (sys_inv w0) (read_form A xs form)"
proof (induction xs arbitrary: form)
  case (Cons x xs)
  show ?case unfolding read_form.simps by (intro keeps_bind inv_intros Cons.IH)
qed simp

lemma kept_check_storage_quota [inv_intros]: "keeps (sys_inv w0) (check_storage_quota a b c)"
  unfolding check_storage_quota_def
  by (intro keeps_intros inv_intros)

lemma kept_seal_file [inv_intros]: "keeps (sys_inv w0) (seal_file a b c d e)"
  unfolding seal_file_def
  by (intro keeps_intros inv_intros)

lemma kept_seal_letter_multipart [inv_intros]: "keeps (sys_inv w0) (seal_letter_multipart a b c d)"
  unfolding seal_letter_multipart_def
  by (intro keeps_intros inv_intros)

lemma kept_force_release [inv_intros]: "keeps (sys_inv w0) (force_release a b c)"
  unfolding force_release_def
  by (intro keeps_intros inv_intros)

lemma kept_cancel_release [inv_intros]: "keeps (sys_inv w0) (cancel_release a b c)"
  unfolding cancel_release_def
  by (intro keeps_intros inv_intros)

lemma kept_run_drill [inv_intros]: "keeps (sys_inv w0) (run_drill a b c)"
  unfolding run_drill_def
  by (intro keeps_intros inv_intros)

lemma kept_claim_release [inv_intros]: "keeps (sys_inv w0) (claim_release a b)"
  unfolding claim_release_def
  by (intro keeps_intros inv_intros)

lemma kept_claim_attachment [inv_intros]: "keeps (sys_inv w0) (claim_attachment a b)"
  unfolding claim_attachment_def
  by (intro keeps_intros inv_intros)

lemma kept_record_on_vaults [inv_intros]: "keeps (sys_inv w0) (record_on_vaults a b c)"
  unfolding record_on_vaults_def
  by (intro keeps_intros inv_intros)

lemma kept_post_heartbeat [inv_intros]: "keeps (sys_inv w0) (post_heartbeat a b c)"
  unfolding post_heartbeat_def
  by (intro keeps_intros inv_intros)

lemma kept_upsert_signal_subscription [inv_intros]: "keeps (sys_inv w0) (upsert_signal_subscription a b c d)"
  unfolding upsert_signal_subscription_def
  by (intro keeps_intros inv_intros)

lemma kept_list_signal_subscriptions [inv_intros]: "keeps (sys_inv w0) (list_signal_subscriptions a b c)"
  unfolding list_signal_subscriptions_def
  by (intro keeps_intros inv_intros)

lemma kept_apple_icloud_enrol [inv_intros]: "keeps (sys_inv w0) (apple_icloud_enrol a b c)"
  unfolding apple_icloud_enrol_def
  by (intro keeps_intros inv_intros)

lemma kept_i64_sub [inv_intros]: "keeps (sys_inv w0) (i64_sub a b c)"
  unfolding i64_sub_def
  by (intro keeps_intros inv_intros)

lemma kept_i64_abs [inv_intros]: "keeps (sys_inv w0) (i64_abs a b)"
  unfolding i64_abs_def
  by (intro keeps_intros inv_intros)

lemma kept_apple_icloud_ping [inv_intros]: "keeps (sys_inv w0) (apple_icloud_ping a b)"
  unfolding apple_icloud_ping_def
  by (intro keeps_intros inv_intros)

lemma kept_microsoft_observe [inv_intros]: "keeps (sys_inv w0) (microsoft_observe a b c)"
  unfolding microsoft_observe_def
  by (intro keeps_intros inv_intros)

lemma kept_bank_dormancy_enrol [inv_intros]: "keeps (sys_inv w0) (bank_dormancy_enrol a b)"
  unfolding bank_dormancy_enrol_def
  by (intro keeps_intros inv_intros)

lemma kept_get_bank_signal_status [inv_intros]: "keeps (sys_inv w0) (get_bank_signal_status a b)"
  unfolding get_bank_signal_status_def
  by (intro keeps_intros inv_intros)

lemma kept_revoke_bank_signal [inv_intros]: "keeps (sys_inv w0) (revoke_bank_signal a b)"
  unfolding revoke_bank_signal_def
  by (intro keeps_intros inv_intros)

lemma kept_bank_dormancy_webhook [inv_intros]: "keeps (sys_inv w0) (bank_dormancy_webhook a b)"
  unfolding bank_dormancy_webhook_def
  by (intro keeps_intros inv_intros)

lemma kept_arm_duress [inv_intros]: "keeps (sys_inv w0) (arm_duress a b c)"
  unfolding arm_duress_def
  by (intro keeps_intros inv_intros)

lemma kept_get_duress [inv_intros]: "keeps (sys_inv w0) (get_duress a b)"
  unfolding get_duress_def
  by (intro keeps_intros inv_intros)

lemma kept_revoke_duress [inv_intros]: "keeps (sys_inv w0) (revoke_duress a b)"
  unfolding revoke_duress_def
  by (intro keeps_intros inv_intros)

lemma kept_duress_release_vault [inv_intros]: "keeps (sys_inv w0) (duress_release_vault a)"
  unfolding duress_release_vault_def
  by (intro keeps_intros inv_intros)

lemma kept_duress_webhook [inv_intros]: "keeps (sys_inv w0) (duress_webhook a)"
  unfolding duress_webhook_def
  by (intro keeps_intros inv_intros)

lemma kept_invite_buddy [inv_intros]: "keeps (sys_inv w0) (invite_buddy a b c)"
  unfolding invite_buddy_def
  by (intro keeps_intros inv_intros)

lemma kept_list_buddies [inv_intros]: "keeps (sys_inv w0) (list_buddies a b)"
  unfolding list_buddies_def
  by (intro keeps_intros inv_intros)

lemma kept_revoke_buddy [inv_intros]: "keeps (sys_inv w0) (revoke_buddy a b c)"
  unfolding revoke_buddy_def
  by (intro keeps_intros inv_intros)

lemma kept_confirm_buddy [inv_intros]: "keeps (sys_inv w0) (confirm_buddy a b)"
  unfolding confirm_buddy_def
  by (intro keeps_intros inv_intros)

lemma kept_bump_attestation [inv_intros]: "keeps (sys_inv w0) (bump_attestation a)"
  unfolding bump_attestation_def
  by (intro keeps_intros inv_intros) (simp_all add: inv_steps)

lemma kept_respond_buddy [inv_intros]: "keeps (sys_inv w0) (respond_buddy a b)"
  unfolding respond_buddy_def
  by (intro keeps_intros inv_intros)

lemma kept_invite_co_steward [inv_intros]: "keeps (sys_inv w0) (invite_co_steward a b c)"
  unfolding invite_co_steward_def
  by (intro keeps_intros inv_intros)

lemma kept_list_co_stewards [inv_intros]: "keeps (sys_inv w0) (list_co_stewards a b)"
  unfolding list_co_stewards_def
  by (intro keeps_intros inv_intros)

lemma kept_revoke_co_steward [inv_intros]: "keeps (sys_inv w0) (revoke_co_steward a b c)"
  unfolding revoke_co_steward_def
  by (intro keeps_intros inv_intros)

lemma kept_confirm_co_steward [inv_intros]: "keeps (sys_inv w0) (confirm_co_steward a b c)"
  unfolding confirm_co_steward_def
  by (intro keeps_intros inv_intros)

lemma kept_sign_in_co_steward [inv_intros]: "keeps (sys_inv w0) (sign_in_co_steward a b c)"
  unfolding sign_in_co_steward_def
  by (intro keeps_intros inv_intros)

lemma kept_co_steward_dashboard [inv_intros]: "keeps (sys_inv w0) (co_steward_dashboard a b)"
  unfolding co_steward_dashboard_def
  by (intro keeps_intros inv_intros)

lemma kept_authorise_postmortem [inv_intros]: "keeps (sys_inv w0) (authorise_postmortem a b c)"
  unfolding authorise_postmortem_def
  by (intro keeps_intros inv_intros)

lemma kept_admin_letter [inv_intros]: "keeps (sys_inv w0) (admin_letter a)"
  unfolding admin_letter_def
  by (intro keeps_intros inv_intros)

lemma kept_co_steward_admin_letters [inv_intros]: "keeps (sys_inv w0) (co_steward_admin_letters a b)"
  unfolding co_steward_admin_letters_def
  by (intro keeps_intros inv_intros)

lemma kept_co_steward_update_recipient [inv_intros]: "keeps (sys_inv w0) (co_steward_update_recipient a b c d)"
  unfolding co_steward_update_recipient_def
  by (intro keeps_intros inv_intros)

lemma kept_co_steward_cancel_recipient_change [inv_intros]: "keeps (sys_inv w0) (co_steward_cancel_recipient_change a b c)"
  unfolding co_steward_cancel_recipient_change_def
  by (intro keeps_intros inv_intros)

lemma kept_co_steward_release_event_letter [inv_intros]: "keeps (sys_inv w0) (co_steward_release_event_letter a b c)"
  unfolding co_steward_release_event_letter_def
  by (intro keeps_intros inv_intros)

lemma kept_or_bad_request [inv_intros]: "keeps (sys_inv w0) (or_bad_request a b)"
  unfolding or_bad_request_def
  by (intro keeps_intros inv_intros)

lemma kept_or_internal [inv_intros]: "keeps (sys_inv w0) (or_internal a)"
  unfolding or_internal_def
  by (intro keeps_intros inv_intros)

lemma kept_passkey_register_options [inv_intros]: "keeps (sys_inv w0) (passkey_register_options a b c d)"
  unfolding passkey_register_options_def
  by (intro keeps_intros inv_intros)

lemma kept_generate_recovery_code [inv_intros]: "keeps (sys_inv w0) (generate_recovery_code a)"
  unfolding generate_recovery_code_def
  by (intro keeps_intros inv_intros)

lemma kept_passkey_register_verify [inv_intros]: "keeps (sys_inv w0) (passkey_register_verify a b c)"
  unfolding passkey_register_verify_def
  by (intro keeps_intros inv_intros)

lemma kept_passkey_authenticate_options [inv_intros]: "keeps (sys_inv w0) (passkey_authenticate_options a b)"
  unfolding passkey_authenticate_options_def
  by (intro keeps_intros inv_intros)

lemma kept_passkey_authenticate_verify [inv_intros]: "keeps (sys_inv w0) (passkey_authenticate_verify a b c d)"
  unfolding passkey_authenticate_verify_def
  by (intro keeps_intros inv_intros)

lemma kept_check_recovery_code [inv_intros]: "keeps (sys_inv w0) (check_recovery_code a b c)"
  unfolding check_recovery_code_def
  by (intro keeps_intros inv_intros)

lemma kept_passkey_recovery_validate [inv_intros]: "keeps (sys_inv w0) (passkey_recovery_validate a b c)"
  unfolding passkey_recovery_validate_def
  by (intro keeps_intros inv_intros)

lemma kept_b64url_decode_or_bad [inv_intros]: "keeps (sys_inv w0) (b64url_decode_or_bad a b)"
  unfolding b64url_decode_or_bad_def
  by (intro keeps_intros inv_intros)

lemma kept_store_recovery_key [inv_intros]: "keeps (sys_inv w0) (store_recovery_key a b c)"
  unfolding store_recovery_key_def
  by (intro keeps_intros inv_intros)

lemma kept_get_recovery_key [inv_intros]: "keeps (sys_inv w0) (get_recovery_key a b)"
  unfolding get_recovery_key_def
  by (intro keeps_intros inv_intros)

lemma kept_store_vault_prk_envelope [inv_intros]: "keeps (sys_inv w0) (store_vault_prk_envelope a b c d e)"
  unfolding store_vault_prk_envelope_def
  by (intro keeps_intros inv_intros)

lemma kept_get_vault_prk_envelope [inv_intros]: "keeps (sys_inv w0) (get_vault_prk_envelope a b c)"
  unfolding get_vault_prk_envelope_def
  by (intro keeps_intros inv_intros)

lemma kept_recovery_letter [inv_intros]: "keeps (sys_inv w0) (recovery_letter a b)"
  unfolding recovery_letter_def
  by (intro keeps_intros inv_intros)

lemma kept_recovery_vault [inv_intros]: "keeps (sys_inv w0) (recovery_vault a b)"
  unfolding recovery_vault_def
  by (intro keeps_intros inv_intros)

lemma kept_recovery_redeem [inv_intros]: "keeps (sys_inv w0) (recovery_redeem a b c d)"
  unfolding recovery_redeem_def
  by (intro keeps_intros inv_intros)

lemma kept_list_passkeys [inv_intros]: "keeps (sys_inv w0) (list_passkeys a b)"
  unfolding list_passkeys_def
  by (intro keeps_intros inv_intros)

lemma kept_delete_passkey [inv_intros]: "keeps (sys_inv w0) (delete_passkey a b c)"
  unfolding delete_passkey_def
  by (intro keeps_intros inv_intros)

lemma kept_store_zk_envelope [inv_intros]: "keeps (sys_inv w0) (store_zk_envelope a b c d)"
  unfolding store_zk_envelope_def
  by (intro keeps_intros inv_intros)

lemma kept_get_zk_envelopes [inv_intros]: "keeps (sys_inv w0) (get_zk_envelopes a b c)"
  unfolding get_zk_envelopes_def
  by (intro keeps_intros inv_intros)

section \<open>The server\<close>

lemma keeps_serve: "sys_inv w0 w \<Longrightarrow> sys_inv w0 (snd (serve A W h r w))"
proof (cases r)
  case (AuthRequest q)
  then show "sys_inv w0 w \<Longrightarrow> ?thesis" by (cases q) (simp_all add: keepsD inv_intros)
next
  case (VaultRequest q)
  then show "sys_inv w0 w \<Longrightarrow> ?thesis" by (cases q) (simp_all add: keepsD inv_intros)
next
  case (LetterRequest q)
  then show "sys_inv w0 w \<Longrightarrow> ?thesis" by (cases q) (simp_all add: keepsD inv_intros)
next
  case (SignalRequest q)
  then show "sys_inv w0 w \<Longrightarrow> ?thesis" by (cases q) (simp_all add: keepsD inv_intros)
next
  case (PeopleRequest q)
  then show "sys_inv w0 w \<Longrightarrow> ?thesis" by (cases q) (simp_all add: keepsD inv_intros)
next
  case (AccountRequest q)
  then show "sys_inv w0 w \<Longrightarrow> ?thesis" by (cases q) (simp_all add: keepsD inv_intros)
qed

lemma keeps_worker: "sys_inv w0 w \<Longrightarrow> sys_inv w0 (worker_pass A k w)"
  by (cases k) (simp_all add: keepsD inv_intros)

lemma keeps_step: "server_step A W w w' \<Longrightarrow> sys_inv w0 w \<Longrightarrow> sys_inv w0 w'"
  by (induction rule: server_step.induct) (simp_all only: keeps_serve keeps_worker sys_inv_clock)

lemma keeps_runs: "runs A W w w' \<Longrightarrow> sys_inv w0 w \<Longrightarrow> sys_inv w0 w'"
  unfolding runs_def by (induction rule: rtranclp_induct) (auto intro: keeps_step)

end
