(* ===== verification/Samples.thy ===== *)
theory Samples
  imports World
begin

text \<open>Concrete rows, a concrete \<open>AppState\<close> and a small world: the inputs of the witnesses.\<close>

definition sample_principal :: principal_row where
  "sample_principal = \<lparr>pr_id = PrincipalId 0, pr_display_name = None, pr_primary_email = ''p'',
     pr_created_at = 0, pr_deletion_requested_at = None, pr_deletion_scheduled_for = None,
     pr_tos_accepted_at = None\<rparr>"

definition sample_vault :: "string \<Rightarrow> vault_row" where
  "sample_vault st =
     \<lparr>va_id = VaultId 7, va_principal_id = PrincipalId 0, va_name = ''v'',
      va_tier = ''HONEST_OPERATOR'', va_state = st, va_cooling_off_seconds = 3600,
      va_storage_region = ''eu-central-1'', va_last_attestation_at = 0,
      va_cooling_off_started_at = None, va_released_at = None, va_created_at = 0\<rparr>"

definition sample_letter :: "nat \<Rightarrow> string \<Rightarrow> letter_row" where
  "sample_letter n mode =
     \<lparr>le_id = LetterId n, le_vault_id = VaultId 7, le_kind = ''MESSAGE'', le_title = ''t'',
      le_recipient_email = ''r'', le_ciphertext = [1, 2], le_nonce = [3], le_drill_ciphertext = None,
      le_drill_nonce = None, le_scheduled_release_at = None, le_category = None,
      le_release_mode = mode, le_event_released_at = None, le_sealed_at = 0\<rparr>"

definition sample_event :: "nat \<Rightarrow> instant \<Rightarrow> release_event_row" where
  "sample_event n ends =
     \<lparr>ev_id = ReleaseEventId n, ev_vault_id = VaultId 7, ev_reason = ''MANUAL_PRINCIPAL_RELEASE'',
      ev_triggered_at = 0, ev_released_at = None, ev_cancelled_at = None, ev_is_drill = False,
      ev_cooling_off_ends_at = Some ends\<rparr>"

text \<open>The random stream counts tokens; hashing is the identity.\<close>

definition sample_app :: app where
  "sample_app =
     \<lparr>sha256 = (\<lambda>bs. bs), b64url = (\<lambda>bs. map (\<lambda>b. char_of (unat b)) bs), os_rng = (\<lambda>p. of_nat (p div 32)),
      b64std = (\<lambda>bs. map (\<lambda>b. char_of (unat b)) bs),
      b64std_decode = (\<lambda>s. Some (map of_char s)), b64url_decode = (\<lambda>s. Some (map of_char s)), decode_image = Inr, encode_jpeg = Inr,
      to_rfc3339 = (\<lambda>t. []), parse_rfc3339 = (\<lambda>s. Inr (int (length s))), aead_encrypt = (\<lambda>k n p. Some (p @ k)),
      aead_decrypt = (\<lambda>k n c. Some (take (length c - length k) c)),
      blob_backend = LocalFilesystemStore, naive_date = Some, debug_assertions = False,
      public_base_url = ''u'', max_upload_bytes = 1000, trial_days = 14, retention_days = 90,
      default_cooling_off_seconds = 15, recipient_change_hold_seconds = 60,
      trigger_threshold = f32_lit (7 / 10), min_independent_signals = 3,
      heartbeat_max_gap_seconds = 30\<rparr>"

text \<open>A cooling-off vault with one letter and its release event.\<close>

definition sample_world :: world where
  "sample_world = empty_world\<lparr>clock := 5, next_uuid := 10, principals := [sample_principal],
     vaults := [sample_vault ''COOLING_OFF''], letters := [sample_letter 2 ''SIGNAL_ONLY''],
     release_events := [sample_event 3 4]\<rparr>"

lemmas sample_defs = sample_principal_def sample_vault_def sample_letter_def sample_event_def
  sample_app_def sample_world_def empty_world_def empty_aux_def

end
