(* ===== verification/SystemProps.thy ===== *)
theory SystemProps
  imports SystemRoutes Samples
begin

text \<open>Properties of every run of the server, whatever requests arrive and whatever workers run.\<close>

lemma letters_kept_refl: "fresh_keyed le_id letter_uuid n t \<Longrightarrow> letters_kept t n t"
  by (auto simp: fresh_keyed_def letters_kept_def letter_step_def dest: keyed_unique)

lemma consistent_refl: "consistent w \<Longrightarrow> sys_inv w w"
  by (simp add: consistent_def sys_inv_def extends_def letters_kept_refl keys_ok_def)

lemma sys_inv_consistent: "sys_inv w0 w \<Longrightarrow> consistent w"
  by (simp add: consistent_def sys_inv_def)

lemma runs_inv: "consistent w0 \<Longrightarrow> runs A W w0 w \<Longrightarrow> sys_inv w0 w"
  by (rule keeps_runs [OF _ consistent_refl])

lemma one_request: "runs A W w (snd (serve A W h r w))"
  unfolding runs_def by (rule r_into_rtranclp) (rule server_step.request)

lemma one_pass: "\<forall>t. k \<noteq> ReleaseTimer t \<Longrightarrow> runs A W w (worker_pass A k w)"
  unfolding runs_def by (rule r_into_rtranclp) (rule server_step.worker)

section \<open>The invariant\<close>


text \<open>
  C12: What a run never takes back. The transparency log only grows at its end, no principal, vault
  or release event disappears, a vault keeps its owner and its tier, a release event keeps its
  vault and its kind, a vault that was released once keeps a release time, and a letter that is
  still there is in its vault and has its ciphertext, unless it was erased.
\<close>

theorem server_history:
  assumes "consistent w" and "runs A W w w'"
  shows "prefix (transparency w) (transparency w')
    \<and> set (map pr_id (principals w)) \<subseteq> set (map pr_id (principals w'))
    \<and> set (map vault_identity (vaults w)) \<subseteq> set (map vault_identity (vaults w'))
    \<and> set (map event_identity (release_events w)) \<subseteq> set (map event_identity (release_events w'))
    \<and> once_released w \<subseteq> once_released w'
    \<and> (\<forall>r \<in> set (letters w). \<forall>r' \<in> set (letters w'). le_id r' = le_id r \<longrightarrow> letter_step r r')"
proof -
  have ext: "extends w w'" using runs_inv [OF assms] by (simp add: sys_inv_def)
  then have "\<forall>r \<in> set (letters w). \<forall>r' \<in> set (letters w'). le_id r' = le_id r \<longrightarrow> letter_step r r'"
    by (simp add: extends_def letters_kept_def)
  with ext show ?thesis by (simp only: extends_def set_mono_prefix simp_thms)
qed


section \<open>A fresh installation\<close>

lemma empty_world_ok: "consistent empty_world"
  by (simp add: consistent_def keys_ok_def refs_ok_def enums_ok_def empty_world_def fresh_keyed_def keyed_def)

text \<open>
  C18: On a freshly migrated database no vault can ever be created. \<open>create_subscription\<close> writes the
  plan \<open>self_hosted\<close>, which the check of migration 0005 does not list, so sign-up fails and no
  subscription ever exists; and a vault is created only for a principal with a subscription.
  Whatever requests arrive, there is no vault, no letter and no release.
\<close>

theorem no_vault_on_fresh_install:
  assumes "runs A W empty_world w"
  shows "subscriptions w = [] \<and> vaults w = [] \<and> letters w = [] \<and> release_events w = [] \<and> release_claims w = []"
proof -
  have inv: "sys_inv empty_world w" using runs_inv [OF empty_world_ok assms] .
  then have "subscriptions w = []" "vaults w = []"
    by (simp_all add: sys_inv_def extends_def empty_world_def)
  moreover from this inv have "letters w = []" "release_events w = []"
    by (simp_all add: sys_inv_def refs_ok_def)
  moreover from this inv have "release_claims w = []" by (simp add: sys_inv_def refs_ok_def)
  ultimately show ?thesis by simp
qed

section \<open>Witnesses\<close>

lemma sample_consistent: "consistent sample_world"
  by (simp add: consistent_def keys_ok_def refs_ok_def enums_ok_def sample_defs fresh_keyed_def keyed_def
      vault_parses_def parses_def tier_from_db_str_def vault_state_from_db_str_def
      region_from_aws_str_def letter_kind_check_def release_mode_from_db_str_def)

text \<open>The sample after a pass of the release poll loop.\<close>

definition polled :: world where
  "polled = worker_pass sample_app ReleaseElapseScheduler sample_world"

lemma runs_polled: "runs sample_app W sample_world polled"
  unfolding polled_def by (rule one_pass) simp

lemma polled_vaults: "vaults polled \<noteq> []"
proof -
  have "sys_inv sample_world polled" by (rule runs_inv [OF sample_consistent runs_polled])
  then have "prefix (map vault_identity (vaults sample_world)) (map vault_identity (vaults polled))"
    by (simp add: sys_inv_def extends_def)
  then show ?thesis by (auto simp: sample_world_def)
qed


theorem server_history_witness:
  "(VaultId 7, PrincipalId 0, ''HONEST_OPERATOR'', 0) \<in> set (map vault_identity (vaults polled))"
  using server_history [OF sample_consistent runs_polled]
  by (auto simp: sample_world_def sample_vault_def vault_identity_def)


theorem no_vault_on_fresh_install_witness:
  "\<exists>W w. runs sample_app W empty_world w \<and> principals w \<noteq> [] \<and> vaults w = []"
proof -
  obtain W :: webauthn where "W = W" by blast
  let ?r = "AuthRequest (PostSignup \<lparr>sq_email = ''a@b'', sq_display_name = None, sq_plan = None, sq_tos_accepted = Some True\<rparr>)"
  let ?w = "snd (serve sample_app W None ?r empty_world)"
  have "principals ?w \<noteq> []"
    by (simp add: signup_def contains_at_def run api_step db_upsert_principal_by_email_def Let_def
        db_set_tos_accepted_def db_fetch_subscription_def parse_plan_param_def create_subscription_fails
        empty_world_def row_to_principal_def)
  with no_vault_on_fresh_install [OF one_request, of sample_app W None ?r] one_request [of sample_app W empty_world None ?r]
  show ?thesis by blast
qed

end
