(* ===== verification/RateLimitProps.thy ===== *)
theory RateLimitProps
  imports RateLimit
begin

text \<open>
  Properties of the rate limiter: the tokens of a bucket stay between zero and the
  capacity, and a burst is cut off after exactly the budget, for each address on its own.
  Budgets are below \<open>2 ^ 24\<close> per minute, up to which every count is an \<open>f32\<close>.
\<close>

section \<open>The invariant\<close>

definition limiter_ok :: "nat \<Rightarrow> rate_limiter \<Rightarrow> bool" where
  "limiter_ok n L \<longleftrightarrow> capacity L = Fin (of_nat n) \<and> n < 2 ^ 24
     \<and> (\<exists>r \<ge> 0. refill_per_sec L = Fin r)
     \<and> (\<forall>ip b. buckets L ip = Some b \<longrightarrow> (\<exists>x. tokens b = Fin x \<and> 0 \<le> x \<and> x \<le> of_nat n))"

lemma f32_of_nat: "n < 2 ^ 24 \<Longrightarrow> f32_of_int (int n) = Fin (of_nat n)"
  using f32_of_small_int [of "int n"] by (simp add: f32_of_int_def)

lemma new_limiter_ok: "n < 2 ^ 24 \<Longrightarrow> limiter_ok n (new_limiter n)"
proof -
  assume n: "n < 2 ^ 24"
  have c: "f32_of_int (int n) = Fin (of_nat n)" "f32_of_int 60 = Fin 60"
    using f32_of_nat [OF n] f32_of_nat [of 60] by simp_all
  have "(of_nat n :: rat) / 60 \<le> of_nat n" by simp
  then obtain a where "f32_round (of_nat n / 60) = Fin a" "0 \<le> a"
    using f32_round_nonneg_mono [of "of_nat n / 60" "of_nat n" "of_nat n"] f32_of_small_int [of "int n"] n by auto
  then show ?thesis using n c by (simp add: new_limiter_def limiter_ok_def Let_def)
qed

lemma refilled_range:
  assumes "limiter_ok n L"
  shows "\<exists>x. refilled L t ip = Fin x \<and> 0 \<le> x \<and> x \<le> of_nat n"
proof -
  define b where "b = (case buckets L ip of Some b \<Rightarrow> b | None \<Rightarrow> \<lparr>tokens = capacity L, last_refill = t\<rparr>)"
  obtain x where x: "tokens b = Fin x" "0 \<le> x" "x \<le> of_nat n"
  proof (cases "buckets L ip")
    case None
    with assms that [of "of_nat n"] show ?thesis by (simp add: b_def limiter_ok_def)
  next
    case (Some c)
    with assms that show ?thesis by (auto simp: b_def limiter_ok_def)
  qed
  obtain r where r: "refill_per_sec L = Fin r" "0 \<le> r" using assms by (auto simp: limiter_ok_def)
  define s where "s = f32_mul (duration_secs t (last_refill b)) (Fin r)"
  have d: "f32_nonneg (f32_of_int k)" if "0 \<le> k" for k
    using that by (simp add: f32_of_int_def)
  have q: "f32_of_int (10 ^ 9) = Fin (10 ^ 9)"
    using f32_round_eqI [of 29 "10 ^ 9" 15625000] by (simp add: f32_of_int_def pow2_def)
  have "f32_nonneg (f32_div (f32_of_int (k mod 10 ^ 9)) (Fin (10 ^ 9)))" for k
    using d [of "k mod 10 ^ 9"] by (cases "f32_of_int (k mod 10 ^ 9)") auto
  then have "f32_nonneg (duration_secs t (last_refill b))"
    unfolding duration_secs_def Let_def q by (intro f32_nonneg_add d) auto
  then have "s = NaN \<or> f32_nonneg s"
    unfolding s_def using r by (elim f32_nonneg_cases) (auto simp: f32_inf_sgn_def)
  then have "f32_add (Fin x) s = NaN \<or> f32_nonneg (f32_add (Fin x) s)"
    using f32_nonneg_add [of "Fin x" s] x by auto
  moreover have "refilled L t ip = f32_min (f32_add (Fin x) s) (Fin (of_nat n))"
    using assms x(1) r by (simp add: refilled_def b_def s_def Let_def limiter_ok_def)
  ultimately show ?thesis
    using x by (cases "f32_add (Fin x) s") (auto simp: f32_min_def not_less)
qed

lemma sub_one:
  assumes "1 \<le> x" "x \<le> of_nat n" "n < 2 ^ 24"
  shows "\<exists>y. f32_sub (Fin x) (Fin 1) = Fin y \<and> 0 \<le> y \<and> y \<le> of_nat n"
  using f32_round_nonneg_mono [of "x - 1" "of_nat n" "of_nat n"] f32_of_small_int [of "int n"] assms
  by (simp add: f32_sub_def)

lemma check_ok: "limiter_ok n L \<Longrightarrow> limiter_ok n (snd (check_ip L t ip))"
  using refilled_range [of n L t ip] sub_one [of _ n]
  by (auto simp: check_ip_def Let_def limiter_ok_def split: if_splits)

lemma middleware_ok: "limiter_ok n L \<Longrightarrow> limiter_ok n (snd (rate_limit_middleware L t path ip))"
  using check_ok [of n L t]
  by (auto simp: rate_limit_middleware_def split: option.splits prod.splits sum.splits) (metis snd_conv)+

lemma refusal_waits: "fst (rate_limit_middleware L t path ip) = TooManyRequests k \<Longrightarrow> 1 \<le> k"
  by (auto simp: rate_limit_middleware_def check_ip_def Let_def split: option.splits if_splits)

lemma serve_all_ok:
  "limiter_ok n L \<Longrightarrow> limiter_ok n (snd (serve_all L rs)) \<and> (\<forall>k. TooManyRequests k \<in> set (fst (serve_all L rs)) \<longrightarrow> 1 \<le> k)"
proof (induction L rs rule: serve_all.induct)
  case (2 L t path ip rs)
  obtain v L' where m: "rate_limit_middleware L t path ip = (v, L')" by fastforce
  with 2(2) middleware_ok have "limiter_ok n L'" by (metis snd_conv)
  with 2(1) [OF m [symmetric]] refusal_waits [of L t path ip] m show ?case
    by (auto split: prod.splits)
qed simp

text \<open>
  Tokens stay within the budget. Whatever requests arrive at whatever times, every
  bucket of a limiter with a budget below \<open>2 ^ 24\<close> holds a finite number of tokens between
  zero and the budget, and every refusal asks for a wait of at least a second.
\<close>

theorem tokens_within_capacity:
  assumes "n < 2 ^ 24"
  shows "(\<forall>ip b. buckets (snd (serve_all (new_limiter n) rs)) ip = Some b \<longrightarrow>
      (\<exists>x. tokens b = Fin x \<and> 0 \<le> x \<and> x \<le> of_nat n))
    \<and> (\<forall>k. TooManyRequests k \<in> set (fst (serve_all (new_limiter n) rs)) \<longrightarrow> 1 \<le> k)"
  using serve_all_ok [OF new_limiter_ok [OF assms], of rs] by (auto simp: limiter_ok_def)

section \<open>A burst\<close>

text \<open>At one instant: the tokens are counts and nothing is refilled.\<close>

definition holds :: "nat \<Rightarrow> int \<Rightarrow> nat \<Rightarrow> bucket option \<Rightarrow> bool" where
  "holds n t k ob \<longleftrightarrow> k \<le> n \<and> (case ob of None \<Rightarrow> k = n
     | Some b \<Rightarrow> tokens b = Fin (of_nat k) \<and> last_refill b = t)"

definition frozen :: "nat \<Rightarrow> int \<Rightarrow> (ip_addr \<Rightarrow> nat) \<Rightarrow> rate_limiter \<Rightarrow> bool" where
  "frozen n t left L \<longleftrightarrow> capacity L = Fin (of_nat n) \<and> 0 < n \<and> n < 2 ^ 24
     \<and> (\<exists>r. refill_per_sec L = Fin r) \<and> (\<forall>ip. holds n t (left ip) (buckets L ip))"

lemma frozen_refilled:
  assumes "frozen n t left L"
  shows "refilled L t ip = Fin (of_nat (left ip))"
proof -
  define b where "b = (case buckets L ip of Some b \<Rightarrow> b | None \<Rightarrow> \<lparr>tokens = capacity L, last_refill = t\<rparr>)"
  obtain r where r: "refill_per_sec L = Fin r" using assms by (auto simp: frozen_def)
  have l: "left ip \<le> n" "n < 2 ^ 24" "capacity L = Fin (of_nat n)" using assms by (auto simp: frozen_def holds_def)
  have "case buckets L ip of None \<Rightarrow> left ip = n | Some b \<Rightarrow> tokens b = Fin (of_nat (left ip)) \<and> last_refill b = t"
    using assms by (simp add: frozen_def holds_def)
  then have b: "tokens b = Fin (of_nat (left ip))" "last_refill b = t"
    using l(3) by (cases "buckets L ip"; simp add: b_def)+
  have "f32_round (of_nat (left ip)) = Fin (of_nat (left ip))"
    using f32_of_small_int [of "int (left ip)"] l by simp
  moreover have "(of_nat (left ip) :: rat) \<le> of_nat n" using l by simp
  ultimately show ?thesis
    unfolding refilled_def b_def [symmetric] Let_def by (simp add: b l(3) r f32_min_def not_less)
qed

lemma frozen_step:
  assumes f: "frozen n t left L"
  shows "0 < left ip \<longleftrightarrow> fst (check_ip L t ip) = Inr ()"
    and "frozen n t (left(ip := left ip - 1)) (snd (check_ip L t ip))"
proof -
  have R: "refilled L t ip = Fin (of_nat (left ip))" by (rule frozen_refilled [OF f])
  have l: "left ip \<le> n" "n < 2 ^ 24" using f by (auto simp: frozen_def holds_def)
  have one: "f32_le (Fin 1) (Fin (of_nat (left ip))) \<longleftrightarrow> 0 < left ip"
    using of_nat_le_iff [of 1 "left ip", where 'a = rat] by auto
  have sub: "f32_sub (Fin (of_nat (left ip))) (Fin 1) = Fin (of_nat (left ip - 1))" if "0 < left ip"
    using f32_of_small_int [of "int (left ip) - 1"] l that by (simp add: f32_sub_def of_nat_diff)
  have C: "check_ip L t ip = (if 0 < left ip
      then (Inr (), L\<lparr>buckets := (buckets L)(ip \<mapsto> \<lparr>tokens = Fin (of_nat (left ip - 1)), last_refill = t\<rparr>)\<rparr>)
      else (Inl (max (f32_as_u32 (f32_ceil (f32_div (f32_sub (Fin 1) (Fin (of_nat (left ip)))) (refill_per_sec L)))) 1),
            L\<lparr>buckets := (buckets L)(ip \<mapsto> \<lparr>tokens = Fin (of_nat (left ip - 1)), last_refill = t\<rparr>)\<rparr>))"
    by (simp add: check_ip_def R one sub Let_def)
  show "0 < left ip \<longleftrightarrow> fst (check_ip L t ip) = Inr ()"
    by (simp add: C)
  show "frozen n t (left(ip := left ip - 1)) (snd (check_ip L t ip))"
  proof -
    have "holds n t ((left(ip := left ip - 1)) ip') (buckets (snd (check_ip L t ip)) ip')" for ip'
      using f le_trans [OF diff_le_self l(1)] by (cases "ip' = ip") (auto simp: C frozen_def holds_def)
    moreover have "capacity (snd (check_ip L t ip)) = capacity L" "refill_per_sec (snd (check_ip L t ip)) = refill_per_sec L"
      by (simp_all add: C)
    ultimately show ?thesis using f by (simp add: frozen_def)
  qed
qed

lemma frozen_new:
  assumes "0 < n" "n < 2 ^ 24"
  shows "frozen n t (\<lambda>_. n) (new_limiter n)"
proof -
  have "limiter_ok n (new_limiter n)" by (rule new_limiter_ok [OF assms(2)])
  then show ?thesis using assms by (auto simp: frozen_def holds_def limiter_ok_def new_limiter_def Let_def)
qed

definition limited :: "string \<Rightarrow> bool" where
  "limited path \<longleftrightarrow> path \<notin> set [''/health'', ''/livez'', ''/readyz'', ''/metrics'']"

text \<open>The requests of an address that count, and how many of them passed.\<close>

definition counted :: "ip_addr \<Rightarrow> int \<times> string \<times> ip_addr option \<Rightarrow> bool" where
  "counted ip r \<longleftrightarrow> limited (fst (snd r)) \<and> snd (snd r) = Some ip"

definition passed :: "ip_addr \<Rightarrow> (int \<times> string \<times> ip_addr option) list \<Rightarrow> verdict list \<Rightarrow> nat" where
  "passed ip rs vs = length (filter (\<lambda>(r, v). counted ip r \<and> v = PassOn) (zip rs vs))"

lemma frozen_middleware:
  assumes f: "frozen n t left L"
  shows "rate_limit_middleware L t path a =
    (if limited path then (case a of None \<Rightarrow> (PassOn, L)
       | Some ip \<Rightarrow> (case fst (check_ip L t ip) of Inr _ \<Rightarrow> PassOn | Inl k \<Rightarrow> TooManyRequests k, snd (check_ip L t ip)))
     else (PassOn, L))"
proof -
  have "limiter_enabled L" using f by (simp add: limiter_enabled_def frozen_def)
  then show ?thesis
    by (auto simp: rate_limit_middleware_def limited_def split: option.splits prod.splits sum.splits)
qed

lemma burst_general:
  assumes "frozen n t left L" and "\<forall>r \<in> set rs. fst r = t"
  shows "passed ip rs (fst (serve_all L rs)) = min (left ip) (length (filter (counted ip) rs))"
  using assms
proof (induction rs arbitrary: L left)
  case (Cons r rs)
  obtain path a where r: "r = (t, path, a)" using Cons.prems(2) by (cases r) auto
  have rest: "\<forall>r \<in> set rs. fst r = t" using Cons.prems(2) by simp
  note mw = frozen_middleware [OF Cons.prems(1), of path a]
  have p: "passed ip (r # rs) (fst (serve_all L (r # rs))) =
      (if counted ip r \<and> fst (rate_limit_middleware L t path a) = PassOn then 1 else 0)
      + passed ip rs (fst (serve_all (snd (rate_limit_middleware L t path a)) rs))"
    by (auto simp: r passed_def split: prod.splits)
  show ?case
  proof (cases "limited path \<and> a \<noteq> None")
    case False
    then have "rate_limit_middleware L t path a = (PassOn, L)" "\<not> counted ip r"
      using mw by (auto simp: counted_def r)
    then show ?thesis using Cons.IH [OF Cons.prems(1) rest] p by simp
  next
    case True
    then obtain b where b: "a = Some b" by auto
    note step = frozen_step [OF Cons.prems(1), of b]
    have next_eq: "snd (rate_limit_middleware L t path a) = snd (check_ip L t b)"
      and ok: "fst (rate_limit_middleware L t path a) = PassOn \<longleftrightarrow> 0 < left b"
      using True b mw step(1) by (auto split: sum.splits)
    have c: "counted ip r \<longleftrightarrow> b = ip" using True b by (auto simp: counted_def r)
    show ?thesis
      using Cons.IH [OF step(2) rest] p by (auto simp: next_eq ok c min_def)
  qed
qed (simp add: passed_def)

text \<open>
  A burst is cut off at the budget. Among any requests that arrive at one instant at a
  fresh limiter with a budget of \<open>n\<close>, exactly the first \<open>n\<close> counted requests of an address pass
  (fewer when it sent fewer), whatever the other addresses do.
\<close>

theorem burst_is_bounded:
  assumes "0 < n" and "n < 2 ^ 24" and "\<forall>r \<in> set rs. fst r = t"
  shows "passed ip rs (fst (serve_all (new_limiter n) rs)) = min n (length (filter (counted ip) rs))"
  using burst_general [OF frozen_new [OF assms(1,2)] assms(3)] by simp

text \<open>Two requests per minute; an address sends three at once and another one.\<close>

lemma middleware_bucket:
  "limiter_ok n L \<Longrightarrow> 0 < n \<Longrightarrow> path = ''/v1'' \<Longrightarrow>
    \<exists>b. buckets (snd (rate_limit_middleware L t path (Some ip))) ip = Some b"
  by (auto simp: rate_limit_middleware_def limiter_enabled_def limiter_ok_def check_ip_def Let_def)

theorem tokens_within_capacity_witness:
  "(case buckets (snd (serve_all (new_limiter 2) [(5, ''/v1'', Some 1)])) 1 of
      Some b \<Rightarrow> \<exists>x. tokens b = Fin x \<and> 0 \<le> x \<and> x \<le> of_nat 2
    | None \<Rightarrow> False)
    \<and> list_all (\<lambda>v. case v of TooManyRequests k \<Rightarrow> 1 \<le> k | PassOn \<Rightarrow> True)
        (fst (serve_all (new_limiter 2) [(5, ''/v1'', Some 1)]))"
proof -
  obtain b where "buckets (snd (rate_limit_middleware (new_limiter 2) 5 ''/v1'' (Some 1))) 1 = Some b"
    using middleware_bucket [OF new_limiter_ok [of 2], of "''/v1''" 5 1] that by fastforce
  then have "buckets (snd (serve_all (new_limiter 2) [(5, ''/v1'', Some 1)])) 1 = Some b"
    by (auto split: prod.splits)
  then show ?thesis
    using tokens_within_capacity [of 2 "[(5, ''/v1'', Some 1)]"]
    by (auto simp: list_all_iff split: verdict.split)
qed

theorem burst_is_bounded_witness:
  "passed 1 [(0, ''/v1'', Some 1), (0, ''/v1'', Some 1), (0, ''/v1'', Some 2), (0, ''/v1'', Some 1)]
     (fst (serve_all (new_limiter 2)
       [(0, ''/v1'', Some 1), (0, ''/v1'', Some 1), (0, ''/v1'', Some 2), (0, ''/v1'', Some 1)])) = 2"
  using burst_is_bounded [of 2 "[(0, ''/v1'', Some 1), (0, ''/v1'', Some 1), (0, ''/v1'', Some 2), (0, ''/v1'', Some 1)]" 0 1]
  by (simp add: counted_def limited_def)

end
