(* ===== verification/WebProps.thy ===== *)
theory WebProps
  imports Web
begin

text \<open>The headers of every response, and the counters read back from the Prometheus text.\<close>

section \<open>Headers\<close>

lemma map_of_insert_header:
  "header_value_ok v \<Longrightarrow> map_of (insert_header n v h) k =
     (case map_of h k of Some x \<Rightarrow> Some x | None \<Rightarrow> if k = n then Some v else None)"
  by (auto simp: insert_header_def map_add_def split: option.splits)

lemma fold_insert_header:
  "list_all (\<lambda>(n, v). header_value_ok v) ins \<Longrightarrow>
   map_of (fold (\<lambda>(n, v). insert_header n v) ins h) k =
     (case map_of h k of Some x \<Rightarrow> Some x | None \<Rightarrow> map_of ins k)"
proof (induction ins arbitrary: h)
  case (Cons i ins)
  obtain n v where i: "i = (n, v)" by (cases i)
  from Cons.prems have "header_value_ok v" "list_all (\<lambda>(n, v). header_value_ok v) ins" by (simp_all add: i)
  with Cons.IH [of "insert_header n v h"] show ?case
    by (simp add: i map_of_insert_header split: option.split)
qed (simp split: option.split)

lemma inserts_ok: "list_all (\<lambda>(n, v). header_value_ok v) (header_inserts path)"
  by (cases "is_browser_page path")
    (simp_all add: header_inserts_def permissions_def csp_def quote_word_def pkg_version_def header_value_ok_def)

lemma app_page: "is_browser_page (''/app/'' @ rel)"
  by (simp add: is_browser_page_def starts_with_def)

lemma file_cache: "map_of (rs_headers (file_response path bs)) ''cache-control'' =
    (if starts_with immutable_prefix path then Some ''public, max-age=31536000, immutable'' else None)"
  by (simp add: file_response_def)

lemma fallback_cache: "map_of (rs_headers (spa_fallback spa)) ''cache-control'' = None"
proof -
  have "\<not> starts_with immutable_prefix ''index.html''" by code_simp
  then show ?thesis by (auto simp: spa_fallback_def file_cache split: option.split)
qed

text \<open>
  The headers of a response. A header is what the handler set, else what the middleware
  inserts for the path: no sniffing, no framing, no referrer, HSTS, the policies of the surface
  and the version on every response, and \<open>no-store\<close> on every response that is not a page.
  A file of the embedded application under \<open>_app/immutable/\<close> is cacheable for a year; every
  other answer under \<open>/app/\<close> has no cache header at all.
\<close>

theorem response_headers:
  "(\<forall>k. map_of (rs_headers (security_headers path r)) k =
      (case map_of (rs_headers r) k of Some v \<Rightarrow> Some v | None \<Rightarrow> map_of (header_inserts path) k))
   \<and> map_of (rs_headers (security_headers (''/app/'' @ rel) (serve_path spa rel))) ''cache-control'' =
      (let file = dropWhile (\<lambda>c. c = CHR ''/'') rel in
       if file \<noteq> [] \<and> spa file \<noteq> None \<and> starts_with immutable_prefix file
       then Some ''public, max-age=31536000, immutable'' else None)"
proof -
  have all: "map_of (rs_headers (security_headers p r)) k =
      (case map_of (rs_headers r) k of Some v \<Rightarrow> Some v | None \<Rightarrow> map_of (header_inserts p) k)" for p r k
    by (simp add: security_headers_def fold_insert_header [OF inserts_ok])
  have "map_of (header_inserts (''/app/'' @ rel)) ''cache-control'' = None"
    using app_page [of rel] by (simp add: header_inserts_def)
  then have "map_of (rs_headers (security_headers (''/app/'' @ rel) r)) ''cache-control'' =
      map_of (rs_headers r) ''cache-control''" for r
    by (simp only: all) (simp split: option.split)
  then show ?thesis
    using all by (simp add: serve_path_def Let_def fallback_cache file_cache split: option.split)
qed

section \<open>Counters\<close>

text \<open>What a scraper reads: a line that is not a comment is a name, a space and a number.\<close>

fun lines_of :: "string \<Rightarrow> string list" where
  "lines_of [] = []"
| "lines_of (c # cs) = (if c = CHR 10 then [] # lines_of cs
     else case lines_of cs of [] \<Rightarrow> [[c]] | l # ls \<Rightarrow> (c # l) # ls)"

definition read_sample :: "string \<Rightarrow> (string \<times> string) option" where
  "read_sample l = (if l = [] \<or> hd l = CHR ''#'' then None else split_once CHR '' '' l)"

lemma lines_of_line: "CHR 10 \<notin> set l \<Longrightarrow> lines_of (l @ CHR 10 # rest) = l # lines_of rest"
  by (induction l) auto

lemma split_once_app: "c \<notin> set a \<Longrightarrow> split_once c (a @ c # b) = Some (a, b)"
  by (induction a) auto

lemma digit_chars: "x \<in> set (dec_digits n) \<Longrightarrow> (48 :: nat) \<le> of_char x \<and> of_char x \<le> (57 :: nat)"
proof (induction n rule: dec_digits.induct)
  case (1 n)
  have "x \<in> set (dec_digits (n div 10)) \<and> \<not> n < 10 \<or> x = char_of (48 + n mod 10)"
    using 1(2) by (subst (asm) dec_digits.simps) (auto split: if_splits)
  moreover have "48 + n mod 10 < 256" by simp
  ultimately show ?case using 1(1) by auto
qed

lemma digits_plain: "CHR 10 \<notin> set (dec_digits n)" "CHR '' '' \<notin> set (dec_digits n)"
  using digit_chars [of _ n] by fastforce+

text \<open>A counter's name and help text: no line break, and the name has no space and no \<open>#\<close>.\<close>

definition plain_counter :: "string \<times> string \<times> 64 word \<Rightarrow> bool" where
  "plain_counter c = (case c of (name, help, value) \<Rightarrow>
     name \<noteq> [] \<and> hd name \<noteq> CHR ''#'' \<and> list_all (\<lambda>x. x \<noteq> CHR 10 \<and> x \<noteq> CHR '' '') name
     \<and> list_all (\<lambda>x. x \<noteq> CHR 10) help)"

lemma snapshot_plain: "list_all plain_counter (snapshot m)"
  by (simp add: snapshot_def plain_counter_def)

lemma scrape_counter:
  assumes "plain_counter (name, help, value)"
  shows "List.map_filter read_sample (lines_of (counter_lines (name, help, value) @ rest)) =
    (name, dec_digits (unat value)) # List.map_filter read_sample (lines_of rest)"
proof -
  let ?v = "dec_digits (unat value)"
  from assms have n: "name \<noteq> []" "hd name \<noteq> CHR ''#''" "CHR 10 \<notin> set name" "CHR '' '' \<notin> set name" "CHR 10 \<notin> set help"
    by (auto simp: plain_counter_def list_all_iff)
  define h where "h = ''# HELP '' @ name @ '' '' @ help"
  define t where "t = ''# TYPE '' @ name @ '' counter''"
  define l where "l = name @ '' '' @ ?v"
  have e: "counter_lines (name, help, value) @ rest = h @ CHR 10 # t @ CHR 10 # l @ CHR 10 # rest"
    by (simp add: counter_lines_def nl_def h_def t_def l_def)
  have "CHR 10 \<notin> set h" "CHR 10 \<notin> set t" "CHR 10 \<notin> set l"
    using n digits_plain(1) by (simp_all add: h_def t_def l_def)
  then have "lines_of (counter_lines (name, help, value) @ rest) = h # t # l # lines_of rest"
    unfolding e by (simp only: lines_of_line not_False_eq_True)
  moreover have "read_sample h = None" "read_sample t = None" "read_sample l = Some (name, ?v)"
    using n by (simp_all add: h_def t_def l_def read_sample_def split_once_app)
  ultimately show ?thesis by (simp add: List.map_filter_simps)
qed

text \<open>
  The metrics endpoint. Reading the text of \<open>prometheus\<close> line by line gives back the thirteen
  counters, each under its name with its 64-bit value in decimal, in the order of the snapshot.
\<close>

theorem metrics_text_reads_back:
  "List.map_filter read_sample (lines_of (prometheus m)) =
     map (\<lambda>(name, help, value). (name, dec_digits (unat value))) (snapshot m)"
proof -
  have "List.map_filter read_sample (lines_of (concat (map counter_lines cs))) =
      map (\<lambda>(name, help, value). (name, dec_digits (unat value))) cs" if "list_all plain_counter cs" for cs
    using that
  proof (induction cs)
    case (Cons c cs)
    then show ?case by (cases c) (simp add: scrape_counter)
  qed (simp add: List.map_filter_simps)
  with snapshot_plain show ?thesis by (simp add: prometheus_def)
qed

end
