(* ===== verification/NoPanic.thy ===== *)
theory NoPanic
  imports App
begin

text \<open>
  Which programs can panic: a rule for each combinator, then a lemma for each statement,
  helper, handler and worker pass. Only \<open>row.get\<close> on a column that was not selected, an
  unexpected NULL and the checked arithmetic of debug builds panic in the model.
\<close>

named_theorems calm_intros "programs that never panic"

definition calm :: "('s, 'e, 'a) prog \<Rightarrow> bool" where
  "calm m \<longleftrightarrow> (\<forall>s p. fst (m s) \<noteq> Panic p)"

lemma calmI: "(\<And>s p. fst (m s) \<noteq> Panic p) \<Longrightarrow> calm m"
  by (simp add: calm_def)

lemma calmD: "calm m \<Longrightarrow> fst (m s) \<noteq> Panic p"
  by (simp add: calm_def)

lemma calm_ret [calm_intros]: "calm (ret x)"
  by (simp add: calm_def)

lemma calm_throw [calm_intros]: "calm (throw e)"
  by (simp add: calm_def)

lemma calm_gets [calm_intros]: "calm (gets f)"
  by (simp add: calm_def)

lemma calm_modify [calm_intros]: "calm (modify f)"
  by (simp add: calm_def)

lemma calm_bind [calm_intros]:
  assumes "calm m" "\<And>x. calm (f x)"
  shows "calm (bind m f)"
proof (rule calmI)
  fix s p
  obtain r t where r: "m s = (r, t)" by (cases "m s")
  show "fst (bind m f s) \<noteq> Panic p"
    using calmD [OF assms(1), of s] calmD [OF assms(2), of _ t] by (cases r) (simp_all add: bind_def r)
qed

lemma calm_andthen [calm_intros]: "calm m \<Longrightarrow> calm n \<Longrightarrow> calm (andthen m n)"
  by (simp add: andthen_def calm_bind)

lemma calm_ok_or [calm_intros]: "calm (ok_or e x)"
  by (cases x) (simp_all add: calm_intros)

lemma calm_reject_if [calm_intros]: "calm (reject_if b e)"
  by (cases b) (simp_all add: calm_intros)

lemma calm_of_sum [calm_intros]: "calm (of_sum x)"
  by (cases x) (simp_all add: calm_intros)

lemma calm_map_err [calm_intros]: "calm m \<Longrightarrow> calm (map_err g m)"
  by (simp add: calm_def map_err_def split: prod.split outcome.split) (metis fst_conv)

lemma calm_attempt [calm_intros]: "calm m \<Longrightarrow> calm (attempt m)"
  by (simp add: calm_def attempt_def split: prod.split outcome.split) (metis fst_conv)

lemma calm_ignore [calm_intros]: "calm m \<Longrightarrow> calm (ignore m)"
  by (simp add: ignore_def calm_intros)

lemma calm_if [calm_intros]: "(b \<Longrightarrow> calm m) \<Longrightarrow> (\<not> b \<Longrightarrow> calm n) \<Longrightarrow> calm (if b then m else n)"
  by simp

lemma calm_case_option [calm_intros]:
  "calm m \<Longrightarrow> (\<And>x. calm (f x)) \<Longrightarrow> calm (case opt of None \<Rightarrow> m | Some x \<Rightarrow> f x)"
  by (cases opt) auto

lemma calm_case_prod [calm_intros]: "(\<And>x y. calm (f x y)) \<Longrightarrow> calm (case p of (x, y) \<Rightarrow> f x y)"
  by (cases p) auto

lemma calm_case_sum [calm_intros]:
  "(\<And>x. calm (f x)) \<Longrightarrow> (\<And>x. calm (g x)) \<Longrightarrow> calm (case p of Inl x \<Rightarrow> f x | Inr x \<Rightarrow> g x)"
  by (cases p) auto

lemma calm_Let [calm_intros]: "(\<And>x. calm (f x)) \<Longrightarrow> calm (let x = v in f x)"
  by simp

lemma calm_for_each [calm_intros]: "(\<And>x. calm (f x)) \<Longrightarrow> calm (for_each f xs)"
  by (induction xs) (simp_all add: calm_intros)

lemma calm_collect [calm_intros]: "(\<And>x. calm (f x)) \<Longrightarrow> calm (collect f xs)"
  by (induction xs) (simp_all add: calm_intros)

lemma calm_case_backend [calm_intros]:
  assumes "calm m" "\<And>x. calm (f x)" "\<And>x y. calm (g x y)"
  shows "calm (case bk of LocalFilesystemStore \<Rightarrow> m | S3Store x \<Rightarrow> f x | RegionRouter x y \<Rightarrow> g x y)"
  using assms by (cases bk) auto


section \<open>World\<close>

lemma calm_now [calm_intros]: "calm now"
  unfolding now_def by (intro calm_intros)

lemma calm_gen_random_uuid [calm_intros]: "calm gen_random_uuid"
  unfolding gen_random_uuid_def by (intro calm_intros)

lemma calm_draw_bytes [calm_intros]: "calm (draw_bytes a b)"
  unfolding draw_bytes_def by (intro calm_intros)

lemma calm_notify [calm_intros]: "calm (notify a)"
  unfolding notify_def by (intro calm_intros)

lemma calm_metrics_add [calm_intros]: "calm (metrics_add a b)"
  unfolding metrics_add_def by (intro calm_intros)

lemma calm_metrics_inc [calm_intros]: "calm (metrics_inc a)"
  unfolding metrics_inc_def by (intro calm_intros)

lemma calm_insert_row [calm_intros]: "calm (insert_row a b c d e)"
  by (simp add: calm_def)

lemma calm_update_rows [calm_intros]: "calm (update_rows a b c d)"
  by (simp add: calm_def)

lemma calm_update_returning [calm_intros]: "calm (update_returning a b c d)"
  by (simp add: calm_def)



lemma calm_random_token [calm_intros]: "calm (random_token a)"
  unfolding random_token_def by (intro calm_intros)


section \<open>Blob\<close>

lemma calm_local_put [calm_intros]: "calm (local_put a b)"
  unfolding local_put_def by (intro calm_intros)

lemma calm_local_get [calm_intros]: "calm (local_get a)"
  unfolding local_get_def by (intro calm_intros)

lemma calm_local_delete [calm_intros]: "calm (local_delete a)"
  unfolding local_delete_def by (intro calm_intros)

lemma calm_put_id [calm_intros]: "calm (put_id a b c)"
  unfolding put_id_def by (intro calm_intros)

lemma calm_get_id [calm_intros]: "calm (get_id a b c)"
  unfolding get_id_def by (intro calm_intros)

lemma calm_delete_id [calm_intros]: "calm (delete_id a b c)"
  unfolding delete_id_def by (intro calm_intros)

lemma calm_s3_put [calm_intros]: "calm (s3_put a b c)"
  unfolding s3_put_def by (intro calm_intros)

lemma calm_s3_get [calm_intros]: "calm (s3_get a b)"
  unfolding s3_get_def by (intro calm_intros)

lemma calm_s3_delete [calm_intros]: "calm (s3_delete a b)"
  unfolding s3_delete_def by (intro calm_intros)

lemma calm_store_for [calm_intros]: "calm (store_for a b)"
  unfolding store_for_def by (intro calm_intros)

lemma calm_router_put [calm_intros]: "calm (router_put a b c)"
  unfolding router_put_def by (intro calm_intros)

lemma calm_router_get [calm_intros]: "calm (router_get a b c)"
  unfolding router_get_def by (intro calm_intros)

lemma calm_router_delete [calm_intros]: "calm (router_delete a b c)"
  unfolding router_delete_def by (intro calm_intros)

lemma calm_blob_put [calm_intros]: "calm (blob_put a b c)"
  unfolding blob_put_def by (intro calm_intros)

lemma calm_blob_get [calm_intros]: "calm (blob_get a b)"
  unfolding blob_get_def by (intro calm_intros)

lemma calm_blob_delete [calm_intros]: "calm (blob_delete a b)"
  unfolding blob_delete_def by (intro calm_intros)


section \<open>Crypto\<close>

lemma calm_data_key [calm_intros]: "calm (data_key a)"
  unfolding data_key_def by (intro calm_intros)

lemma calm_seal [calm_intros]: "calm (seal a b)"
  unfolding seal_def by (intro calm_intros)

lemma calm_unseal [calm_intros]: "calm (unseal a b)"
  unfolding unseal_def by (intro calm_intros)

lemma calm_seal_with_passphrase [calm_intros]: "calm (seal_with_passphrase a b c)"
  unfolding seal_with_passphrase_def by (intro calm_intros)

lemma calm_open_with_passphrase [calm_intros]: "calm (open_with_passphrase a b c)"
  unfolding open_with_passphrase_def by (intro calm_intros)

lemma calm_random_salt [calm_intros]: "calm (random_salt a)"
  unfolding random_salt_def by (intro calm_intros)


section \<open>DbAuth\<close>

lemma calm_try_domain [calm_intros]: "calm (try_domain a)"
  unfolding try_domain_def by (intro calm_intros)

lemma calm_db_upsert_principal_by_email [calm_intros]: "calm (db_upsert_principal_by_email a)"
  unfolding db_upsert_principal_by_email_def by (intro calm_intros)

lemma calm_db_fetch_principal [calm_intros]: "calm (db_fetch_principal a)"
  unfolding db_fetch_principal_def by (intro calm_intros)

lemma calm_db_set_tos_accepted [calm_intros]: "calm (db_set_tos_accepted a)"
  unfolding db_set_tos_accepted_def by (intro calm_intros)

lemma calm_db_request_account_deletion [calm_intros]: "calm (db_request_account_deletion i d)"
proof (rule calmI)
  fix w p
  show "fst (db_request_account_deletion i d w) \<noteq> Panic p"
    by (cases "sql_first (\<lambda>r. pr_id r = i) (principals w)")
      (auto simp: db_request_account_deletion_def run coalesce_def split: option.split)
qed

lemma calm_db_cancel_account_deletion [calm_intros]: "calm (db_cancel_account_deletion a)"
  unfolding db_cancel_account_deletion_def by (intro calm_intros)

lemma calm_db_list_due_account_deletions [calm_intros]: "calm db_list_due_account_deletions"
  unfolding db_list_due_account_deletions_def by (intro calm_intros)

lemma calm_db_anonymise_principal [calm_intros]: "calm (db_anonymise_principal i)"
  by (simp add: calm_def db_anonymise_principal_def Let_def)

lemma calm_db_principal_deletion_state [calm_intros]: "calm (db_principal_deletion_state a)"
  unfolding db_principal_deletion_state_def by (intro calm_intros)

lemma calm_db_create_magic_link [calm_intros]: "calm (db_create_magic_link a b c)"
  unfolding db_create_magic_link_def by (intro calm_intros)

lemma calm_db_consume_magic_link [calm_intros]: "calm (db_consume_magic_link a)"
  unfolding db_consume_magic_link_def by (intro calm_intros)

lemma calm_db_create_session [calm_intros]: "calm (db_create_session a b c)"
  unfolding db_create_session_def by (intro calm_intros)

lemma calm_db_principal_for_session [calm_intros]: "calm (db_principal_for_session a)"
  unfolding db_principal_for_session_def by (intro calm_intros)

lemma calm_db_revoke_session [calm_intros]: "calm (db_revoke_session a)"
  unfolding db_revoke_session_def by (intro calm_intros)

lemma calm_row_to_subscription [calm_intros]: "calm (row_to_subscription a)"
  unfolding row_to_subscription_def by (intro calm_intros)

lemma calm_db_create_subscription [calm_intros]: "calm (db_create_subscription a b c)"
  unfolding db_create_subscription_def by (intro calm_intros)

lemma calm_db_fetch_subscription [calm_intros]: "calm (db_fetch_subscription a)"
  unfolding db_fetch_subscription_def by (intro calm_intros)

lemma calm_db_cancel_subscription [calm_intros]: "calm (db_cancel_subscription a b)"
  unfolding db_cancel_subscription_def by (intro calm_intros)

lemma calm_db_reactivate_subscription [calm_intros]: "calm (db_reactivate_subscription a)"
  unfolding db_reactivate_subscription_def by (intro calm_intros)

lemma calm_db_list_canceled_past_retention [calm_intros]: "calm db_list_canceled_past_retention"
  unfolding db_list_canceled_past_retention_def by (intro calm_intros)

lemma calm_db_expire_subscription [calm_intros]: "calm (db_expire_subscription a)"
  unfolding db_expire_subscription_def by (intro calm_intros)

lemma calm_db_delete_subscription [calm_intros]: "calm (db_delete_subscription a)"
  unfolding db_delete_subscription_def by (intro calm_intros)


section \<open>DbVault\<close>

lemma calm_row_get: "calm (row_get vault_columns c v)"
  by (cases c) (simp_all add: calm_def vault_columns_def)

lemma calm_row_to_vault [calm_intros]: "calm (row_to_vault vault_columns r)"
  unfolding row_to_vault_def by (intro calm_row_get calm_intros)

lemma calm_db_create_vault [calm_intros]: "calm (db_create_vault a b c d e)"
  unfolding db_create_vault_def by (intro calm_intros)

lemma calm_db_fetch_vault [calm_intros]: "calm (db_fetch_vault a)"
  unfolding db_fetch_vault_def by (intro calm_intros)

lemma calm_db_list_vaults [calm_intros]: "calm (db_list_vaults a)"
  unfolding db_list_vaults_def by (intro calm_intros)

lemma calm_db_set_vault_state [calm_intros]: "calm (db_set_vault_state a b c d)"
  unfolding db_set_vault_state_def by (intro calm_intros)

lemma calm_db_set_vault_storage_region [calm_intros]: "calm (db_set_vault_storage_region a b)"
  unfolding db_set_vault_storage_region_def by (intro calm_intros)

lemma calm_db_update_vault [calm_intros]: "calm (db_update_vault a b c)"
  unfolding db_update_vault_def by (intro calm_intros)

lemma calm_db_vault_count [calm_intros]: "calm (db_vault_count a)"
  unfolding db_vault_count_def by (intro calm_intros)

lemma calm_db_claim_vault_cooling_off [calm_intros]: "calm (db_claim_vault_cooling_off a b)"
  unfolding db_claim_vault_cooling_off_def by (intro calm_intros)

lemma calm_db_claim_vault_for_release [calm_intros]: "calm (db_claim_vault_for_release a)"
  unfolding db_claim_vault_for_release_def by (intro calm_intros)

lemma calm_db_seal_letter [calm_intros]: "calm (db_seal_letter a)"
  unfolding db_seal_letter_def by (intro calm_intros)

lemma calm_db_list_letters [calm_intros]: "calm (db_list_letters a)"
  unfolding db_list_letters_def by (intro calm_intros)

lemma calm_db_letter_count [calm_intros]: "calm (db_letter_count a)"
  unfolding db_letter_count_def by (intro calm_intros)

lemma calm_db_fetch_letter_ciphertext [calm_intros]: "calm (db_fetch_letter_ciphertext a b)"
  unfolding db_fetch_letter_ciphertext_def by (intro calm_intros)

lemma calm_db_fetch_letter_full [calm_intros]: "calm (db_fetch_letter_full a)"
  unfolding db_fetch_letter_full_def by (intro calm_intros)

lemma calm_db_list_scheduled_letters_due [calm_intros]: "calm (db_list_scheduled_letters_due a)"
  unfolding db_list_scheduled_letters_due_def by (intro calm_intros)

lemma calm_db_list_letters_for_signal_release [calm_intros]: "calm (db_list_letters_for_signal_release a)"
  unfolding db_list_letters_for_signal_release_def by (intro calm_intros)

lemma calm_db_list_letters_admin [calm_intros]: "calm (db_list_letters_admin a)"
  unfolding db_list_letters_admin_def by (intro calm_intros)

lemma calm_db_fetch_letter_admin [calm_intros]: "calm (db_fetch_letter_admin a)"
  unfolding db_fetch_letter_admin_def by (intro calm_intros)

lemma calm_db_fetch_letter_meta [calm_intros]: "calm (db_fetch_letter_meta a)"
  unfolding db_fetch_letter_meta_def by (intro calm_intros)

lemma calm_db_update_letter_meta [calm_intros]: "calm (db_update_letter_meta a b c d e f)"
  unfolding db_update_letter_meta_def by (intro calm_intros)

lemma calm_db_delete_letter [calm_intros]: "calm (db_delete_letter a)"
  unfolding db_delete_letter_def by (intro calm_intros)

lemma calm_db_mark_letter_event_released [calm_intros]: "calm (db_mark_letter_event_released a)"
  unfolding db_mark_letter_event_released_def by (intro calm_intros)

lemma calm_db_clear_letter_schedule [calm_intros]: "calm (db_clear_letter_schedule a)"
  unfolding db_clear_letter_schedule_def by (intro calm_intros)

lemma calm_db_purge_letter_ciphertext [calm_intros]: "calm (db_purge_letter_ciphertext a)"
  unfolding db_purge_letter_ciphertext_def by (intro calm_intros)

lemma calm_db_request_recipient_change [calm_intros]: "calm (db_request_recipient_change a b c d e)"
  unfolding db_request_recipient_change_def by (intro calm_intros)

lemma calm_db_fetch_recipient_change [calm_intros]: "calm (db_fetch_recipient_change a)"
  unfolding db_fetch_recipient_change_def by (intro calm_intros)

lemma calm_db_fetch_pending_recipient_change [calm_intros]: "calm (db_fetch_pending_recipient_change a)"
  unfolding db_fetch_pending_recipient_change_def by (intro calm_intros)

lemma calm_db_cancel_recipient_change [calm_intros]: "calm (db_cancel_recipient_change a)"
  unfolding db_cancel_recipient_change_def by (intro calm_intros)

lemma calm_db_list_due_recipient_changes [calm_intros]: "calm (db_list_due_recipient_changes a)"
  unfolding db_list_due_recipient_changes_def by (intro calm_intros)

lemma calm_db_apply_recipient_change [calm_intros]: "calm (db_apply_recipient_change a)"
  unfolding db_apply_recipient_change_def by (intro calm_intros)

lemma calm_db_record_heartbeat [calm_intros]: "calm (db_record_heartbeat a b)"
  unfolding db_record_heartbeat_def by (intro calm_intros)

lemma calm_db_last_heartbeat [calm_intros]: "calm (db_last_heartbeat a)"
  unfolding db_last_heartbeat_def by (intro calm_intros)


section \<open>DbRelease\<close>

lemma calm_insert_release_event [calm_intros]: "calm (insert_release_event a b c d)"
  unfolding insert_release_event_def by (intro calm_intros)

lemma calm_db_create_release_event [calm_intros]: "calm (db_create_release_event a b c)"
  unfolding db_create_release_event_def by (intro calm_intros)

lemma calm_db_create_release_event_with_deadline [calm_intros]: "calm (db_create_release_event_with_deadline a b c d)"
  unfolding db_create_release_event_with_deadline_def by (intro calm_intros)

lemma calm_db_list_due_releases [calm_intros]: "calm (db_list_due_releases a)"
  unfolding db_list_due_releases_def by (intro calm_intros)

lemma calm_db_mark_release_released [calm_intros]: "calm (db_mark_release_released a)"
  unfolding db_mark_release_released_def by (intro calm_intros)

lemma calm_db_mark_release_cancelled [calm_intros]: "calm (db_mark_release_cancelled a)"
  unfolding db_mark_release_cancelled_def by (intro calm_intros)

lemma calm_db_fetch_open_release [calm_intros]: "calm (db_fetch_open_release a)"
  unfolding db_fetch_open_release_def by (intro calm_intros)

lemma calm_db_issue_release_claim [calm_intros]: "calm (db_issue_release_claim a b c d e)"
  unfolding db_issue_release_claim_def by (intro calm_intros)

lemma calm_db_consume_release_claim [calm_intros]: "calm (db_consume_release_claim a)"
  unfolding db_consume_release_claim_def by (intro calm_intros)

lemma calm_db_create_attachment [calm_intros]: "calm (db_create_attachment a)"
  unfolding db_create_attachment_def by (intro calm_intros)

lemma calm_db_list_attachments [calm_intros]: "calm (db_list_attachments a)"
  unfolding db_list_attachments_def by (intro calm_intros)

lemma calm_db_fetch_attachment [calm_intros]: "calm (db_fetch_attachment a)"
  unfolding db_fetch_attachment_def by (intro calm_intros)

lemma calm_db_purge_attachment [calm_intros]: "calm (db_purge_attachment a)"
  unfolding db_purge_attachment_def by (intro calm_intros)

lemma calm_db_list_attachments_for_vault [calm_intros]: "calm (db_list_attachments_for_vault a)"
  unfolding db_list_attachments_for_vault_def by (intro calm_intros)

lemma calm_db_update_attachment_storage_key [calm_intros]: "calm (db_update_attachment_storage_key a b)"
  unfolding db_update_attachment_storage_key_def by (intro calm_intros)

lemma calm_db_storage_used [calm_intros]: "calm (db_storage_used a)"
  unfolding db_storage_used_def by (intro calm_intros)

lemma calm_db_issue_attachment_claim [calm_intros]: "calm (db_issue_attachment_claim a b c d e)"
  unfolding db_issue_attachment_claim_def by (intro calm_intros)

lemma calm_db_consume_attachment_claim [calm_intros]: "calm (db_consume_attachment_claim a)"
  unfolding db_consume_attachment_claim_def by (intro calm_intros)

lemma calm_db_append_transparency_entry [calm_intros]: "calm (db_append_transparency_entry a b c)"
  unfolding db_append_transparency_entry_def by (intro calm_intros)

lemma calm_db_list_transparency_entries [calm_intros]: "calm (db_list_transparency_entries a)"
  unfolding db_list_transparency_entries_def by (intro calm_intros)


section \<open>DbPeople\<close>

lemma calm_row_to_buddy [calm_intros]: "calm (row_to_buddy a)"
  unfolding row_to_buddy_def by (intro calm_intros)

lemma calm_db_invite_buddy [calm_intros]: "calm (db_invite_buddy a)"
  unfolding db_invite_buddy_def by (intro calm_intros)

lemma calm_db_confirm_buddy [calm_intros]: "calm (db_confirm_buddy a)"
  unfolding db_confirm_buddy_def by (intro calm_intros)

lemma calm_db_record_buddy_response [calm_intros]: "calm (db_record_buddy_response a b)"
  unfolding db_record_buddy_response_def by (intro calm_intros)

lemma calm_db_list_buddies [calm_intros]: "calm (db_list_buddies a)"
  unfolding db_list_buddies_def by (intro calm_intros)

lemma calm_db_fetch_buddy [calm_intros]: "calm (db_fetch_buddy a)"
  unfolding db_fetch_buddy_def by (intro calm_intros)

lemma calm_db_revoke_buddy [calm_intros]: "calm (db_revoke_buddy a)"
  unfolding db_revoke_buddy_def by (intro calm_intros)

lemma calm_db_invite_co_steward [calm_intros]: "calm (db_invite_co_steward a b c d)"
  unfolding db_invite_co_steward_def by (intro calm_intros)

lemma calm_db_confirm_co_steward [calm_intros]: "calm (db_confirm_co_steward a b c)"
  unfolding db_confirm_co_steward_def by (intro calm_intros)

lemma calm_db_sign_in_co_steward [calm_intros]: "calm (db_sign_in_co_steward a b)"
  unfolding db_sign_in_co_steward_def by (intro calm_intros)

lemma calm_db_lookup_co_steward_salt [calm_intros]: "calm (db_lookup_co_steward_salt a)"
  unfolding db_lookup_co_steward_salt_def by (intro calm_intros)

lemma calm_db_list_co_stewards [calm_intros]: "calm (db_list_co_stewards a)"
  unfolding db_list_co_stewards_def by (intro calm_intros)

lemma calm_db_co_steward_count [calm_intros]: "calm (db_co_steward_count a)"
  unfolding db_co_steward_count_def by (intro calm_intros)

lemma calm_db_fetch_co_steward [calm_intros]: "calm (db_fetch_co_steward a)"
  unfolding db_fetch_co_steward_def by (intro calm_intros)

lemma calm_db_revoke_co_steward [calm_intros]: "calm (db_revoke_co_steward a)"
  unfolding db_revoke_co_steward_def by (intro calm_intros)

lemma calm_db_touch_co_steward_view [calm_intros]: "calm (db_touch_co_steward_view a)"
  unfolding db_touch_co_steward_view_def by (intro calm_intros)

lemma calm_db_create_co_steward_session [calm_intros]: "calm (db_create_co_steward_session a b c d)"
  unfolding db_create_co_steward_session_def by (intro calm_intros)

lemma calm_db_co_steward_for_session [calm_intros]: "calm (db_co_steward_for_session a)"
  unfolding db_co_steward_for_session_def by (intro calm_intros)


section \<open>DbSignals\<close>

lemma calm_row_to_signal_subscription [calm_intros]: "calm (row_to_signal_subscription a)"
  unfolding row_to_signal_subscription_def by (intro calm_intros)

lemma calm_db_upsert_signal_subscription [calm_intros]: "calm (db_upsert_signal_subscription a b c d)"
  unfolding db_upsert_signal_subscription_def by (intro calm_intros)

lemma calm_db_list_signal_subscriptions [calm_intros]: "calm (db_list_signal_subscriptions a)"
  unfolding db_list_signal_subscriptions_def by (intro calm_intros)

lemma calm_row_to_signal [calm_intros]: "calm (row_to_signal a)"
  unfolding row_to_signal_def by (intro calm_intros)

lemma calm_db_record_signal [calm_intros]: "calm (db_record_signal a b c)"
  unfolding db_record_signal_def by (intro calm_intros)

lemma calm_db_list_recent_signals [calm_intros]: "calm (db_list_recent_signals a b)"
  unfolding db_list_recent_signals_def by (intro calm_intros)

lemma calm_db_list_principal_activity [calm_intros]: "calm (db_list_principal_activity a b)"
  unfolding db_list_principal_activity_def by (intro calm_intros)

lemma calm_db_create_apple_shortcut_sub [calm_intros]: "calm (db_create_apple_shortcut_sub a b c)"
  unfolding db_create_apple_shortcut_sub_def by (intro calm_intros)

lemma calm_db_fetch_apple_shortcut_sub [calm_intros]: "calm (db_fetch_apple_shortcut_sub a)"
  unfolding db_fetch_apple_shortcut_sub_def by (intro calm_intros)

lemma calm_db_touch_apple_shortcut_sub [calm_intros]: "calm (db_touch_apple_shortcut_sub a)"
  unfolding db_touch_apple_shortcut_sub_def by (intro calm_intros)

lemma calm_db_create_bank_dormancy_sub [calm_intros]: "calm (db_create_bank_dormancy_sub a b c)"
  unfolding db_create_bank_dormancy_sub_def by (intro calm_intros)

lemma calm_db_fetch_bank_dormancy_sub [calm_intros]: "calm (db_fetch_bank_dormancy_sub a)"
  unfolding db_fetch_bank_dormancy_sub_def by (intro calm_intros)

lemma calm_db_fetch_bank_dormancy_sub_by_webhook [calm_intros]: "calm (db_fetch_bank_dormancy_sub_by_webhook a)"
  unfolding db_fetch_bank_dormancy_sub_by_webhook_def by (intro calm_intros)

lemma calm_db_touch_bank_dormancy_sub [calm_intros]: "calm (db_touch_bank_dormancy_sub a b)"
  unfolding db_touch_bank_dormancy_sub_def by (intro calm_intros)

lemma calm_db_delete_bank_dormancy_sub [calm_intros]: "calm (db_delete_bank_dormancy_sub a)"
  unfolding db_delete_bank_dormancy_sub_def by (intro calm_intros)

lemma calm_db_list_bank_dormancy_subs_with_recent_ping [calm_intros]: "calm (db_list_bank_dormancy_subs_with_recent_ping a b)"
  unfolding db_list_bank_dormancy_subs_with_recent_ping_def by (intro calm_intros)

lemma calm_db_arm_duress [calm_intros]: "calm (db_arm_duress a b c d)"
  unfolding db_arm_duress_def by (intro calm_intros)

lemma calm_db_fetch_duress [calm_intros]: "calm (db_fetch_duress a)"
  unfolding db_fetch_duress_def by (intro calm_intros)

lemma calm_db_delete_duress [calm_intros]: "calm (db_delete_duress a)"
  unfolding db_delete_duress_def by (intro calm_intros)

lemma calm_db_trigger_duress [calm_intros]: "calm (db_trigger_duress a b)"
  unfolding db_trigger_duress_def by (intro calm_intros)

lemma calm_db_principal_in_duress [calm_intros]: "calm (db_principal_in_duress a)"
  unfolding db_principal_in_duress_def by (intro calm_intros)


section \<open>DbKeys\<close>

lemma calm_db_list_vault_contacts [calm_intros]: "calm (db_list_vault_contacts a)"
  unfolding db_list_vault_contacts_def by (intro calm_intros)

lemma calm_db_create_vault_contact [calm_intros]: "calm (db_create_vault_contact a b c d e f)"
  unfolding db_create_vault_contact_def by (intro calm_intros)

lemma calm_db_update_vault_contact [calm_intros]: "calm (db_update_vault_contact a b c d e f g)"
  unfolding db_update_vault_contact_def by (intro calm_intros)

lemma calm_db_delete_vault_contact [calm_intros]: "calm (db_delete_vault_contact a b)"
  unfolding db_delete_vault_contact_def by (intro calm_intros)

lemma calm_db_fetch_principal_by_email [calm_intros]: "calm (db_fetch_principal_by_email a)"
  unfolding db_fetch_principal_by_email_def by (intro calm_intros)

lemma calm_db_create_webauthn_challenge [calm_intros]: "calm (db_create_webauthn_challenge a b c)"
  unfolding db_create_webauthn_challenge_def by (intro calm_intros)

lemma calm_db_consume_webauthn_challenge [calm_intros]: "calm (db_consume_webauthn_challenge a b)"
  unfolding db_consume_webauthn_challenge_def by (intro calm_intros)

lemma calm_db_expire_webauthn_challenges [calm_intros]: "calm db_expire_webauthn_challenges"
  unfolding db_expire_webauthn_challenges_def by (intro calm_intros)

lemma calm_db_store_passkey [calm_intros]: "calm (db_store_passkey a b c d e f)"
  unfolding db_store_passkey_def by (intro calm_intros)

lemma calm_db_list_passkeys_for_principal [calm_intros]: "calm (db_list_passkeys_for_principal a)"
  unfolding db_list_passkeys_for_principal_def by (intro calm_intros)

lemma calm_db_get_passkey_by_credential_id [calm_intros]: "calm (db_get_passkey_by_credential_id a)"
  unfolding db_get_passkey_by_credential_id_def by (intro calm_intros)

lemma calm_db_get_passkeys_for_authentication [calm_intros]: "calm (db_get_passkeys_for_authentication a)"
  unfolding db_get_passkeys_for_authentication_def by (intro calm_intros)

lemma calm_db_update_passkey_after_auth [calm_intros]: "calm (db_update_passkey_after_auth a b c)"
  unfolding db_update_passkey_after_auth_def by (intro calm_intros)

lemma calm_db_delete_passkey [calm_intros]: "calm (db_delete_passkey a b)"
  unfolding db_delete_passkey_def by (intro calm_intros)

lemma calm_db_upsert_zk_envelope [calm_intros]: "calm (db_upsert_zk_envelope a b c d)"
  unfolding db_upsert_zk_envelope_def by (intro calm_intros)

lemma calm_db_get_zk_envelopes_for_vault [calm_intros]: "calm (db_get_zk_envelopes_for_vault a)"
  unfolding db_get_zk_envelopes_for_vault_def by (intro calm_intros)

lemma calm_db_upsert_zk_recovery_envelope [calm_intros]: "calm (db_upsert_zk_recovery_envelope a b c d e)"
  unfolding db_upsert_zk_recovery_envelope_def by (intro calm_intros)

lemma calm_db_get_zk_recovery_envelope [calm_intros]: "calm (db_get_zk_recovery_envelope a)"
  unfolding db_get_zk_recovery_envelope_def by (intro calm_intros)

lemma calm_db_upsert_principal_recovery [calm_intros]: "calm (db_upsert_principal_recovery a b c)"
  unfolding db_upsert_principal_recovery_def by (intro calm_intros)

lemma calm_db_get_principal_recovery [calm_intros]: "calm (db_get_principal_recovery a)"
  unfolding db_get_principal_recovery_def by (intro calm_intros)

lemma calm_db_get_principal_recovery_by_email [calm_intros]: "calm (db_get_principal_recovery_by_email a)"
  unfolding db_get_principal_recovery_by_email_def by (intro calm_intros)

lemma calm_db_count_passkeys_for_principal [calm_intros]: "calm (db_count_passkeys_for_principal a)"
  unfolding db_count_passkeys_for_principal_def by (intro calm_intros)

lemma calm_db_count_zk_vaults_for_principal [calm_intros]: "calm (db_count_zk_vaults_for_principal a)"
  unfolding db_count_zk_vaults_for_principal_def by (intro calm_intros)

lemma calm_db_upsert_principal_recovery_key [calm_intros]: "calm (db_upsert_principal_recovery_key a b c d e f)"
  unfolding db_upsert_principal_recovery_key_def by (intro calm_intros)

lemma calm_db_get_principal_recovery_key [calm_intros]: "calm (db_get_principal_recovery_key a)"
  unfolding db_get_principal_recovery_key_def by (intro calm_intros)

lemma calm_db_get_principal_recovery_key_by_email [calm_intros]: "calm (db_get_principal_recovery_key_by_email a)"
  unfolding db_get_principal_recovery_key_by_email_def by (intro calm_intros)

lemma calm_db_upsert_vault_prk_envelope [calm_intros]: "calm (db_upsert_vault_prk_envelope a b c d)"
  unfolding db_upsert_vault_prk_envelope_def by (intro calm_intros)

lemma calm_db_get_vault_prk_envelope [calm_intros]: "calm (db_get_vault_prk_envelope a)"
  unfolding db_get_vault_prk_envelope_def by (intro calm_intros)

lemma calm_db_upsert_zk_letter_heir_envelope [calm_intros]: "calm (db_upsert_zk_letter_heir_envelope a b c d e f)"
  unfolding db_upsert_zk_letter_heir_envelope_def by (intro calm_intros)

lemma calm_db_get_zk_letter_heir_envelope [calm_intros]: "calm (db_get_zk_letter_heir_envelope a)"
  unfolding db_get_zk_letter_heir_envelope_def by (intro calm_intros)


section \<open>ApiErrors\<close>

lemma calm_api [calm_intros]: "calm m \<Longrightarrow> calm (api m)"
  by (simp add: api_def calm_map_err)

lemma calm_bearer [calm_intros]: "calm (bearer a)"
  unfolding bearer_def by (intro calm_intros)

lemma calm_current_principal [calm_intros]: "calm (current_principal a b)"
  unfolding current_principal_def by (intro calm_intros)

lemma calm_current_co_steward [calm_intros]: "calm (current_co_steward a b)"
  unfolding current_co_steward_def by (intro calm_intros)


section \<open>Pipeline\<close>

lemma calm_issue_for_attachment [calm_intros]: "calm (issue_for_attachment a b c d)"
  unfolding issue_for_attachment_def by (intro calm_intros)

lemma calm_deliver_letter [calm_intros]: "calm (deliver_letter a b c d)"
  unfolding deliver_letter_def by (intro calm_intros)

lemma calm_perform_release [calm_intros]: "calm (perform_release a b c d)"
  unfolding perform_release_def by (intro calm_intros)

lemma calm_spawn_release_elapse [calm_intros]: "calm (spawn_release_elapse a b c d)"
  unfolding spawn_release_elapse_def by (intro calm_intros)

lemma calm_begin_release_with_cool [calm_intros]: "calm (begin_release_with_cool a b c d)"
  unfolding begin_release_with_cool_def by (intro calm_intros)

lemma calm_begin_release [calm_intros]: "calm (begin_release a b c)"
  unfolding begin_release_def by (intro calm_intros)

lemma calm_elapse_release [calm_intros]: "calm (elapse_release a b c d)"
  unfolding elapse_release_def by (intro calm_intros)

lemma calm_release_elapse_tick [calm_intros]: "calm (release_elapse_tick a)"
  unfolding release_elapse_tick_def by (intro calm_intros)

lemma calm_fire_timer [calm_intros]: "calm (fire_timer A t)"
proof -
  define m where "m = (andthen (modify (\<lambda>w. w\<lparr>timers := remove1 t (timers w)\<rparr>))
      (ignore (elapse_release A (tm_vault t) (tm_event t) (tm_is_drill t))) :: (world, db_error, unit) prog)"
  have "calm m" unfolding m_def by (intro calm_intros)
  moreover have "fire_timer A t w = (if t \<in> set (timers w) \<and> tm_fires_at t \<le> clock w then m w else (Ok (), w))" for w
    by (simp only: fire_timer_def m_def)
  ultimately show ?thesis by (simp add: calm_def)
qed

lemma calm_trigger_event_release [calm_intros]: "calm (trigger_event_release a b c)"
  unfolding trigger_event_release_def by (intro calm_intros)

lemma calm_recipient_change_tick [calm_intros]: "calm recipient_change_tick"
  unfolding recipient_change_tick_def by (intro calm_intros)

lemma calm_scheduled_release_step [calm_intros]: "calm (scheduled_release_step a)"
  unfolding scheduled_release_step_def by (intro calm_intros)

lemma calm_scheduled_release_tick [calm_intros]: "calm scheduled_release_tick"
  unfolding scheduled_release_tick_def by (intro calm_intros)


section \<open>Retention\<close>

lemma calm_purge_one_attachment [calm_intros]: "calm (purge_one_attachment a b)"
  unfolding purge_one_attachment_def by (intro calm_intros)

lemma calm_purge_letter [calm_intros]: "calm (purge_letter a b)"
  unfolding purge_letter_def by (intro calm_intros)

lemma calm_purge_principal_ciphertext [calm_intros]: "calm (purge_principal_ciphertext a b)"
  unfolding purge_principal_ciphertext_def by (intro calm_intros)

lemma calm_expire_and_delete [calm_intros]: "calm (expire_and_delete a b)"
  unfolding expire_and_delete_def by (intro calm_intros)

lemma calm_delete_account_data [calm_intros]: "calm (delete_account_data a b)"
  unfolding delete_account_data_def by (intro calm_intros)

lemma calm_retention_tick [calm_intros]: "calm (retention_tick a)"
  unfolding retention_tick_def by (intro calm_intros)


section \<open>RouteBase\<close>

lemma calm_parse_or_bad_request [calm_intros]: "calm (parse_or_bad_request a b)"
  unfolding parse_or_bad_request_def by (intro calm_intros)

lemma calm_crypt [calm_intros]: "calm m \<Longrightarrow> calm (crypt m)"
  by (simp add: crypt_def calm_map_err)

lemma calm_blob [calm_intros]: "calm m \<Longrightarrow> calm (blob m)"
  by (simp add: blob_def calm_map_err)

lemma calm_owned_vault [calm_intros]: "calm (owned_vault a b c)"
  unfolding owned_vault_def by (intro calm_intros)

lemma calm_owned_letter [calm_intros]: "calm (owned_letter a b c d)"
  unfolding owned_letter_def by (intro calm_intros)

lemma calm_validate_letter_kind [calm_intros]: "calm (validate_letter_kind a)"
  unfolding validate_letter_kind_def by (intro calm_intros)

lemma calm_validate_release_mode [calm_intros]: "calm (validate_release_mode a b)"
  unfolding validate_release_mode_def by (intro calm_intros)

lemma calm_check_schedule [calm_intros]: "calm (check_schedule a b)"
  unfolding check_schedule_def by (intro calm_intros)

lemma calm_check_authoring [calm_intros]: "calm (check_authoring a)"
  unfolding check_authoring_def by (intro calm_intros)

lemma calm_check_sealable [calm_intros]: "calm (check_sealable a)"
  unfolding check_sealable_def by (intro calm_intros)

lemma calm_check_letter_quota [calm_intros]: "calm (check_letter_quota a b)"
  unfolding check_letter_quota_def by (intro calm_intros)


section \<open>RouteAccount\<close>

lemma calm_parse_plan_param [calm_intros]: "calm (parse_plan_param a)"
  unfolding parse_plan_param_def by (intro calm_intros)

lemma calm_signup [calm_intros]: "calm (signup a b)"
  unfolding signup_def by (intro calm_intros)

lemma calm_signin [calm_intros]: "calm (signin a b)"
  unfolding signin_def by (intro calm_intros)

lemma calm_magic_link_verify [calm_intros]: "calm (magic_link_verify a b)"
  unfolding magic_link_verify_def by (intro calm_intros)

lemma calm_signout [calm_intros]: "calm (signout a b)"
  unfolding signout_def by (intro calm_intros)

lemma calm_get_subscription [calm_intros]: "calm (get_subscription a b)"
  unfolding get_subscription_def by (intro calm_intros)

lemma calm_get_usage [calm_intros]: "calm (get_usage a b)"
  unfolding get_usage_def by (intro calm_intros)

lemma calm_request_account_deletion [calm_intros]: "calm (request_account_deletion a b)"
  unfolding request_account_deletion_def by (intro calm_intros)

lemma calm_cancel_account_deletion [calm_intros]: "calm (cancel_account_deletion a b)"
  unfolding cancel_account_deletion_def by (intro calm_intros)

lemma calm_get_activity [calm_intros]: "calm (get_activity a b)"
  unfolding get_activity_def by (intro calm_intros)

lemma calm_list_transparency_log [calm_intros]: "calm list_transparency_log"
  unfolding list_transparency_log_def by (intro calm_intros)


section \<open>RouteVault\<close>

lemma calm_resolve_storage_region [calm_intros]: "calm (resolve_storage_region a b)"
  unfolding resolve_storage_region_def by (intro calm_intros)

lemma calm_create_vault [calm_intros]: "calm (create_vault a b c)"
  unfolding create_vault_def by (intro calm_intros)

lemma calm_list_vaults [calm_intros]: "calm (list_vaults a b)"
  unfolding list_vaults_def by (intro calm_intros)

lemma calm_get_vault [calm_intros]: "calm (get_vault a b c)"
  unfolding get_vault_def by (intro calm_intros)

lemma calm_update_vault [calm_intros]: "calm (update_vault a b c d)"
  unfolding update_vault_def by (intro calm_intros)

lemma calm_move_attachment [calm_intros]: "calm (move_attachment a b c)"
  unfolding move_attachment_def by (intro calm_intros)

lemma calm_move_vault_region [calm_intros]: "calm (move_vault_region a b c d)"
  unfolding move_vault_region_def by (intro calm_intros)

lemma calm_list_vault_contacts [calm_intros]: "calm (list_vault_contacts a b c)"
  unfolding list_vault_contacts_def by (intro calm_intros)

lemma calm_create_vault_contact [calm_intros]: "calm (create_vault_contact a b c d)"
  unfolding create_vault_contact_def by (intro calm_intros)

lemma calm_update_vault_contact [calm_intros]: "calm (update_vault_contact a b c d e)"
  unfolding update_vault_contact_def by (intro calm_intros)

lemma calm_delete_vault_contact [calm_intros]: "calm (delete_vault_contact a b c d)"
  unfolding delete_vault_contact_def by (intro calm_intros)


section \<open>RouteLetter\<close>

lemma calm_seal_letter [calm_intros]: "calm (seal_letter a b c d)"
  unfolding seal_letter_def by (intro calm_intros)

lemma calm_list_letters [calm_intros]: "calm (list_letters a b c)"
  unfolding list_letters_def by (intro calm_intros)

lemma calm_get_letter [calm_intros]: "calm (get_letter a b c d)"
  unfolding get_letter_def by (intro calm_intros)

lemma calm_update_letter [calm_intros]: "calm (update_letter a b c d e)"
  unfolding update_letter_def by (intro calm_intros)

lemma calm_purge_and_delete [calm_intros]: "calm (purge_and_delete a b)"
  unfolding purge_and_delete_def by (intro calm_intros)

lemma calm_delete_letter_handler [calm_intros]: "calm (delete_letter_handler a b c d)"
  unfolding delete_letter_handler_def by (intro calm_intros)

lemma calm_export_letter [calm_intros]: "calm (export_letter a b c d e)"
  unfolding export_letter_def by (intro calm_intros)


section \<open>RouteZk\<close>

lemma calm_store_heir_envelope [calm_intros]: "calm (store_heir_envelope a b c)"
  unfolding store_heir_envelope_def by (intro calm_intros)

lemma calm_check_zk_schedule [calm_intros]: "calm (check_zk_schedule a b)"
  unfolding check_zk_schedule_def by (intro calm_intros)

lemma calm_check_zk_quota [calm_intros]: "calm (check_zk_quota a b)"
  unfolding check_zk_quota_def by (intro calm_intros)

lemma calm_seal_zk_letter [calm_intros]: "calm (seal_zk_letter a b c d)"
  unfolding seal_zk_letter_def by (intro calm_intros)

lemma calm_get_zk_letter_ciphertext [calm_intros]: "calm (get_zk_letter_ciphertext a b c d)"
  unfolding get_zk_letter_ciphertext_def by (intro calm_intros)


section \<open>RouteUpload\<close>

lemma calm_or_bad [calm_intros]: "calm (or_bad a b)"
  unfolding or_bad_def by (intro calm_intros)

lemma calm_read_field [calm_intros]: "calm (read_field a b c)"
  unfolding read_field_def by (intro calm_intros)

lemma calm_read_form [calm_intros]: "calm (read_form A fs form)"
  by (induction fs arbitrary: form) (simp_all add: calm_intros)
lemma calm_check_storage_quota [calm_intros]: "calm (check_storage_quota a b c)"
  unfolding check_storage_quota_def by (intro calm_intros)

lemma calm_seal_file [calm_intros]: "calm (seal_file a b c d e)"
  unfolding seal_file_def by (intro calm_intros)

lemma calm_seal_letter_multipart [calm_intros]: "calm (seal_letter_multipart a b c d)"
  unfolding seal_letter_multipart_def by (intro calm_intros)


section \<open>RouteRelease\<close>

lemma calm_force_release [calm_intros]: "calm (force_release a b c)"
  unfolding force_release_def by (intro calm_intros)

lemma calm_cancel_release [calm_intros]: "calm (cancel_release a b c)"
  unfolding cancel_release_def by (intro calm_intros)

lemma calm_run_drill [calm_intros]: "calm (run_drill a b c)"
  unfolding run_drill_def by (intro calm_intros)

lemma calm_claim_release [calm_intros]: "calm (claim_release a b)"
  unfolding claim_release_def by (intro calm_intros)

lemma calm_claim_attachment [calm_intros]: "calm (claim_attachment a b)"
  unfolding claim_attachment_def by (intro calm_intros)


section \<open>RouteSignals\<close>

lemma calm_record_on_vaults [calm_intros]: "calm (record_on_vaults a b c)"
  unfolding record_on_vaults_def by (intro calm_intros)

lemma calm_post_heartbeat [calm_intros]: "calm (post_heartbeat a b c)"
  unfolding post_heartbeat_def by (intro calm_intros)

lemma calm_upsert_signal_subscription [calm_intros]: "calm (upsert_signal_subscription a b c d)"
  unfolding upsert_signal_subscription_def by (intro calm_intros)

lemma calm_list_signal_subscriptions [calm_intros]: "calm (list_signal_subscriptions a b c)"
  unfolding list_signal_subscriptions_def by (intro calm_intros)

lemma calm_apple_icloud_enrol [calm_intros]: "calm (apple_icloud_enrol a b c)"
  unfolding apple_icloud_enrol_def by (intro calm_intros)

lemma calm_i64_sub [calm_intros]: "\<not> debug_assertions A \<Longrightarrow> calm (i64_sub A a b)"
  by (simp add: i64_sub_def calm_intros)

lemma calm_i64_abs [calm_intros]: "\<not> debug_assertions A \<Longrightarrow> calm (i64_abs A a)"
  by (simp add: i64_abs_def calm_intros)

lemma calm_apple_icloud_ping [calm_intros]: "\<not> debug_assertions A \<Longrightarrow> calm (apple_icloud_ping A b)"
  unfolding apple_icloud_ping_def by (intro calm_intros)

lemma calm_microsoft_observe [calm_intros]: "calm (microsoft_observe a b c)"
  unfolding microsoft_observe_def by (intro calm_intros)

lemma calm_bank_dormancy_enrol [calm_intros]: "calm (bank_dormancy_enrol a b)"
  unfolding bank_dormancy_enrol_def by (intro calm_intros)

lemma calm_get_bank_signal_status [calm_intros]: "calm (get_bank_signal_status a b)"
  unfolding get_bank_signal_status_def by (intro calm_intros)

lemma calm_revoke_bank_signal [calm_intros]: "calm (revoke_bank_signal a b)"
  unfolding revoke_bank_signal_def by (intro calm_intros)

lemma calm_bank_dormancy_webhook [calm_intros]: "calm (bank_dormancy_webhook a b)"
  unfolding bank_dormancy_webhook_def by (intro calm_intros)

lemma calm_arm_duress [calm_intros]: "calm (arm_duress a b c)"
  unfolding arm_duress_def by (intro calm_intros)

lemma calm_get_duress [calm_intros]: "calm (get_duress a b)"
  unfolding get_duress_def by (intro calm_intros)

lemma calm_revoke_duress [calm_intros]: "calm (revoke_duress a b)"
  unfolding revoke_duress_def by (intro calm_intros)

lemma calm_duress_release_vault [calm_intros]: "calm (duress_release_vault a)"
  unfolding duress_release_vault_def by (intro calm_intros)

lemma calm_duress_webhook [calm_intros]: "calm (duress_webhook a)"
  unfolding duress_webhook_def by (intro calm_intros)


section \<open>RoutePeople\<close>

lemma calm_invite_buddy [calm_intros]: "calm (invite_buddy a b c)"
  unfolding invite_buddy_def by (intro calm_intros)

lemma calm_list_buddies [calm_intros]: "calm (list_buddies a b)"
  unfolding list_buddies_def by (intro calm_intros)

lemma calm_revoke_buddy [calm_intros]: "calm (revoke_buddy a b c)"
  unfolding revoke_buddy_def by (intro calm_intros)

lemma calm_confirm_buddy [calm_intros]: "calm (confirm_buddy a b)"
  unfolding confirm_buddy_def by (intro calm_intros)

lemma calm_bump_attestation [calm_intros]: "calm (bump_attestation a)"
  unfolding bump_attestation_def by (intro calm_intros)

lemma calm_respond_buddy [calm_intros]: "calm (respond_buddy a b)"
  unfolding respond_buddy_def by (intro calm_intros)

lemma calm_invite_co_steward [calm_intros]: "calm (invite_co_steward a b c)"
  unfolding invite_co_steward_def by (intro calm_intros)

lemma calm_list_co_stewards [calm_intros]: "calm (list_co_stewards a b)"
  unfolding list_co_stewards_def by (intro calm_intros)

lemma calm_revoke_co_steward [calm_intros]: "calm (revoke_co_steward a b c)"
  unfolding revoke_co_steward_def by (intro calm_intros)

lemma calm_confirm_co_steward [calm_intros]: "calm (confirm_co_steward a b c)"
  unfolding confirm_co_steward_def by (intro calm_intros)

lemma calm_sign_in_co_steward [calm_intros]: "calm (sign_in_co_steward a b c)"
  unfolding sign_in_co_steward_def by (intro calm_intros)

lemma calm_co_steward_dashboard [calm_intros]: "calm (co_steward_dashboard a b)"
  unfolding co_steward_dashboard_def by (intro calm_intros)

lemma calm_authorise_postmortem [calm_intros]: "calm (authorise_postmortem a b c)"
  unfolding authorise_postmortem_def by (intro calm_intros)

lemma calm_admin_letter [calm_intros]: "calm (admin_letter a)"
  unfolding admin_letter_def by (intro calm_intros)

lemma calm_co_steward_admin_letters [calm_intros]: "calm (co_steward_admin_letters a b)"
  unfolding co_steward_admin_letters_def by (intro calm_intros)

lemma calm_co_steward_update_recipient [calm_intros]: "calm (co_steward_update_recipient a b c d)"
  unfolding co_steward_update_recipient_def by (intro calm_intros)

lemma calm_co_steward_cancel_recipient_change [calm_intros]: "calm (co_steward_cancel_recipient_change a b c)"
  unfolding co_steward_cancel_recipient_change_def by (intro calm_intros)

lemma calm_co_steward_release_event_letter [calm_intros]: "calm (co_steward_release_event_letter a b c)"
  unfolding co_steward_release_event_letter_def by (intro calm_intros)


section \<open>Passkey\<close>

lemma calm_or_bad_request [calm_intros]: "calm (or_bad_request a b)"
  unfolding or_bad_request_def by (intro calm_intros)

lemma calm_or_internal [calm_intros]: "calm (or_internal a)"
  unfolding or_internal_def by (intro calm_intros)

lemma calm_passkey_register_options [calm_intros]: "calm (passkey_register_options a b c d)"
  unfolding passkey_register_options_def by (intro calm_intros)

lemma calm_generate_recovery_code [calm_intros]: "calm (generate_recovery_code a)"
  unfolding generate_recovery_code_def by (intro calm_intros)

lemma calm_passkey_register_verify [calm_intros]: "calm (passkey_register_verify a b c)"
  unfolding passkey_register_verify_def by (intro calm_intros)

lemma calm_passkey_authenticate_options [calm_intros]: "calm (passkey_authenticate_options a b)"
  unfolding passkey_authenticate_options_def by (intro calm_intros)

lemma calm_passkey_authenticate_verify [calm_intros]: "calm (passkey_authenticate_verify a b c d)"
  unfolding passkey_authenticate_verify_def by (intro calm_intros)

lemma calm_check_recovery_code [calm_intros]: "calm (check_recovery_code a b c)"
  unfolding check_recovery_code_def by (intro calm_intros)

lemma calm_passkey_recovery_validate [calm_intros]: "calm (passkey_recovery_validate a b c)"
  unfolding passkey_recovery_validate_def by (intro calm_intros)

lemma calm_b64url_decode_or_bad [calm_intros]: "calm (b64url_decode_or_bad a b)"
  unfolding b64url_decode_or_bad_def by (intro calm_intros)

lemma calm_store_recovery_key [calm_intros]: "calm (store_recovery_key a b c)"
  unfolding store_recovery_key_def by (intro calm_intros)

lemma calm_get_recovery_key [calm_intros]: "calm (get_recovery_key a b)"
  unfolding get_recovery_key_def by (intro calm_intros)

lemma calm_store_vault_prk_envelope [calm_intros]: "calm (store_vault_prk_envelope a b c d e)"
  unfolding store_vault_prk_envelope_def by (intro calm_intros)

lemma calm_get_vault_prk_envelope [calm_intros]: "calm (get_vault_prk_envelope a b c)"
  unfolding get_vault_prk_envelope_def by (intro calm_intros)

lemma calm_recovery_letter [calm_intros]: "calm (recovery_letter a b)"
  unfolding recovery_letter_def by (intro calm_intros)

lemma calm_recovery_vault [calm_intros]: "calm (recovery_vault a b)"
  unfolding recovery_vault_def by (intro calm_intros)

lemma calm_recovery_redeem [calm_intros]: "calm (recovery_redeem a b c d)"
  unfolding recovery_redeem_def by (intro calm_intros)

lemma calm_list_passkeys [calm_intros]: "calm (list_passkeys a b)"
  unfolding list_passkeys_def by (intro calm_intros)

lemma calm_delete_passkey [calm_intros]: "calm (delete_passkey a b c)"
  unfolding delete_passkey_def by (intro calm_intros)

lemma calm_store_zk_envelope [calm_intros]: "calm (store_zk_envelope a b c d)"
  unfolding store_zk_envelope_def by (intro calm_intros)

lemma calm_get_zk_envelopes [calm_intros]: "calm (get_zk_envelopes a b c)"
  unfolding get_zk_envelopes_def by (intro calm_intros)


section \<open>Aggregator\<close>

lemma calm_observe_buddy [calm_intros]: "calm (observe_buddy a b c)"
  unfolding observe_buddy_def by (intro calm_intros)

lemma calm_or_default [calm_intros]: "calm m \<Longrightarrow> calm (or_default m)"
  unfolding or_default_def by (intro calm_intros)

lemma calm_observe_bank [calm_intros]: "calm (observe_bank a b c d)"
  unfolding observe_bank_def by (intro calm_intros)

lemma calm_observations [calm_intros]: "calm (observations a b c d)"
  unfolding observations_def by (intro calm_intros)

lemma calm_enter_cooling_off [calm_intros]: "calm (enter_cooling_off a)"
  unfolding enter_cooling_off_def by (intro calm_intros)

lemma calm_apply_evaluation [calm_intros]: "calm (apply_evaluation a b)"
  unfolding apply_evaluation_def by (intro calm_intros)

lemma calm_aggregate_vault [calm_intros]: "calm (aggregate_vault a b c)"
  unfolding aggregate_vault_def by (intro calm_intros)


section \<open>The server\<close>

lemma answer_calm: "calm m \<Longrightarrow> fst (answer m w) \<noteq> Dropped"
  by (cases "m w"; cases "fst (m w)") (simp_all add: answer_def calm_def, metis fst_conv)

lemma calm_auth: "fst (serve_auth A W h r w) \<noteq> Dropped"
  by (cases r) (simp_all only: serve_auth.simps answer_calm calm_intros not_False_eq_True)

lemma calm_vault: "fst (serve_vault A W h r w) \<noteq> Dropped"
  by (cases r) (simp_all only: serve_vault.simps answer_calm calm_intros not_False_eq_True)

lemma calm_letter: "fst (serve_letter A W h r w) \<noteq> Dropped"
  by (cases r) (simp_all only: serve_letter.simps answer_calm calm_intros not_False_eq_True)

lemma calm_signal: "\<not> debug_assertions A \<Longrightarrow> fst (serve_signal A W h r w) \<noteq> Dropped"
  by (cases r) (simp_all only: serve_signal.simps answer_calm calm_intros not_False_eq_True)

lemma calm_people: "fst (serve_people A W h r w) \<noteq> Dropped"
  by (cases r) (simp_all only: serve_people.simps answer_calm calm_intros not_False_eq_True)

lemma calm_account: "fst (serve_account A W h r w) \<noteq> Dropped"
  by (cases r) (simp_all only: serve_account.simps answer_calm calm_intros not_False_eq_True)

lemma calm_serve: "\<not> debug_assertions A \<Longrightarrow> fst (serve A W h r w) \<noteq> Dropped"
  by (cases r) (simp_all only: serve.simps calm_auth calm_vault calm_letter calm_signal
      calm_people calm_account not_False_eq_True)

end
