(* ===== verification/GatewayProps.thy ===== *)
theory GatewayProps
  imports Gateway SystemProps RateLimitProps WebProps NoPanic
begin

text \<open>
  Properties of the HTTP service: its routes, its refinement of the server and the limiter, a
  burst against a reference that counts, and the headers of every answer.
\<close>

section \<open>Routes\<close>

lemmas in_table = build_router_def list.set insert_iff simp_thms

lemma auth_registered: "auth_route r \<in> set build_router"
  by (cases r) (simp_all only: auth_route.simps in_table)

lemma vault_registered: "vault_route r \<in> set build_router"
  by (cases r) (simp_all only: vault_route.simps in_table)

lemma letter_registered: "letter_route r \<in> set build_router"
  by (cases r) (simp_all only: letter_route.simps in_table)

lemma signal_registered: "signal_route r \<in> set build_router"
  by (cases r) (simp_all only: signal_route.simps in_table)

lemma people_registered: "people_route r \<in> set build_router"
  by (cases r) (simp_all only: people_route.simps in_table)

lemma account_registered: "account_route r \<in> set build_router"
  by (cases r) (simp_all only: account_route.simps in_table)

lemma page_registered: "page_route p \<in> set build_router"
  by (cases p) (simp_all only: page_route.simps in_table)

lemmas registered = auth_registered vault_registered letter_registered signal_registered
  people_registered account_registered page_registered

lemma route_registered: "route r \<in> set build_router"
  by (cases r) (simp_all only: route.simps registered)


text \<open>Every entry of the table is the route of a request or of a page.\<close>

lemma router_entries:
  "build_router = map (case_sum route page_route)
    [Inr GetHealth,
     Inr GetLivez,
     Inr GetReadyz,
     Inr GetMetrics,
     Inl (AuthRequest (PostSignup undefined)),
     Inl (AuthRequest (PostSignin undefined)),
     Inl (AuthRequest PostSignout),
     Inl (AuthRequest (PostMagicLinkVerify undefined)),
     Inl (AuthRequest (PostPasskeyRegisterOptions undefined)),
     Inl (AuthRequest (PostPasskeyRegisterVerify undefined)),
     Inl (AuthRequest (PostPasskeyAuthenticateOptions undefined)),
     Inl (AuthRequest (PostPasskeyAuthenticateVerify undefined undefined)),
     Inl (AuthRequest (PostRecoveryValidate undefined undefined)),
     Inl (AuthRequest (PostRecoveryRedeem undefined undefined)),
     Inl (AuthRequest GetPlans),
     Inr GetWarrantCanary,
     Inl (AuthRequest GetTransparencyLog),
     Inl (VaultRequest GetVaults),
     Inl (VaultRequest (PostVaults undefined)),
     Inl (VaultRequest (GetVault undefined)),
     Inl (VaultRequest (PatchVault undefined undefined)),
     Inl (VaultRequest (PostVaultRegion undefined undefined)),
     Inl (LetterRequest (GetLetters undefined)),
     Inl (LetterRequest (PostLetter undefined undefined)),
     Inl (LetterRequest (PostLetterMultipart undefined undefined)),
     Inl (LetterRequest (PostLetterExport undefined undefined undefined)),
     Inl (LetterRequest (GetLetter undefined undefined)),
     Inl (LetterRequest (PatchLetter undefined undefined undefined)),
     Inl (LetterRequest (DeleteLetter undefined undefined)),
     Inl (LetterRequest (PostZkLetter undefined undefined)),
     Inl (LetterRequest (GetZkCiphertext undefined undefined)),
     Inl (VaultRequest (GetZkEnvelopes undefined)),
     Inl (VaultRequest (PostZkEnvelope undefined undefined)),
     Inl (VaultRequest (GetPrkEnvelope undefined)),
     Inl (VaultRequest (PostPrkEnvelope undefined undefined undefined)),
     Inl (VaultRequest (PostForceRelease undefined)),
     Inl (VaultRequest (PostCancel undefined)),
     Inl (VaultRequest (PostDrills undefined)),
     Inl (VaultRequest (GetSignalSubscriptions undefined)),
     Inl (VaultRequest (PostSignalSubscription undefined undefined)),
     Inl (SignalRequest (PostHeartbeat undefined)),
     Inl (SignalRequest (PostAppleEnrol undefined)),
     Inl (SignalRequest (PostApplePing undefined)),
     Inl (SignalRequest (PostMicrosoftObserve undefined)),
     Inl (PeopleRequest GetCoStewards),
     Inl (PeopleRequest (PostCoSteward undefined)),
     Inl (PeopleRequest (DeleteCoSteward undefined)),
     Inl (PeopleRequest (PostCoStewardConfirm undefined undefined)),
     Inl (PeopleRequest (PostCoStewardSignIn undefined undefined)),
     Inl (PeopleRequest GetCoStewardDashboard),
     Inl (PeopleRequest GetCoStewardLetters),
     Inl (PeopleRequest (PostLetterRecipient undefined undefined)),
     Inl (PeopleRequest (PostLetterRelease undefined)),
     Inl (PeopleRequest (PostRecipientChangeCancel undefined)),
     Inl (PeopleRequest GetBuddies),
     Inl (PeopleRequest (PostBuddy undefined)),
     Inl (PeopleRequest (DeleteBuddy undefined)),
     Inl (PeopleRequest (PostBuddyConfirm undefined)),
     Inl (PeopleRequest (PostBuddyResponse undefined undefined)),
     Inl (AccountRequest GetSubscription),
     Inl (AccountRequest GetUsage),
     Inl (AccountRequest GetActivity),
     Inl (AccountRequest GetPasskeys),
     Inl (AccountRequest (DeletePasskey undefined)),
     Inl (AccountRequest GetRecoveryKey),
     Inl (AccountRequest (PostRecoveryKey undefined)),
     Inl (AccountRequest DeleteMe),
     Inl (AccountRequest PostCancelDeletion),
     Inl (LetterRequest (GetClaim undefined)),
     Inl (LetterRequest (GetClaimAttachment undefined)),
     Inl (VaultRequest (GetContacts undefined)),
     Inl (VaultRequest (PostContact undefined undefined)),
     Inl (VaultRequest (PutContact undefined undefined undefined)),
     Inl (VaultRequest (DeleteContact undefined undefined)),
     Inl (SignalRequest GetBankSignal),
     Inl (SignalRequest PostBankSignal),
     Inl (SignalRequest DeleteBankSignal),
     Inl (SignalRequest (PostBankWebhook undefined)),
     Inl (SignalRequest GetDuress),
     Inl (SignalRequest (PostDuress undefined)),
     Inl (SignalRequest DeleteDuress),
     Inl (SignalRequest (PostDuressWebhook undefined)),
     Inr GetClaimPage,
     Inr GetRoot,
     Inr GetApp,
     Inr GetAppSlash,
     Inr (GetAppRest undefined)]"
  by (simp only: list.map sum.case route.simps auth_route.simps vault_route.simps letter_route.simps
      signal_route.simps people_route.simps account_route.simps page_route.simps build_router_def)

lemma map_case_sum_range: "set (map (case_sum f g) ts) \<subseteq> range f \<union> range g"
  by (auto split: sum.splits)

lemma router_range: "set build_router \<subseteq> range route \<union> range page_route"
  unfolding router_entries by (rule map_case_sum_range)

text \<open>
  The routes. No method and path is registered twice, which axum refuses at the start, and
  the registered routes are exactly those of the requests the server handles and of the pages.
\<close>

theorem routes_are_handled:
  "distinct build_router \<and> set build_router = range route \<union> range page_route"
proof
  show "distinct build_router" by code_simp
  show "set build_router = range route \<union> range page_route"
    by (rule equalityI [OF router_range]) (use route_registered page_registered in auto)
qed

section \<open>Refinement\<close>

text \<open>What a step does to the state of the server: nothing, or what the request does to it.\<close>

lemma dispatch_world: "snd (dispatch A W F rq w) = w \<or> (\<exists>r. snd (dispatch A W F rq w) = snd (serve A W (hr_auth rq) r w))"
proof (cases "fw_target F rq")
  case (ToHandler r)
  then have "snd (dispatch A W F rq w) = snd (serve A W (hr_auth rq) r w)"
    by (simp add: dispatch_def split: prod.split reply.split)
  then show ?thesis by blast
qed (simp_all add: dispatch_def)

lemma runs_dispatch: "runs A W w (snd (dispatch A W F rq w))"
  using dispatch_world [of A W F rq w] one_request [of A W w] by (auto simp: runs_def)

lemma gateway_of_limited:
  "snd (rate_limited A W F rq g) =
     (case rate_limit_middleware (gw_limiter g) (gw_now g) (hr_path rq) (hr_peer rq) of
        (TooManyRequests n, L) \<Rightarrow> g\<lparr>gw_limiter := L\<rparr>
      | (PassOn, L) \<Rightarrow> g\<lparr>gw_limiter := L, gw_world := snd (dispatch A W F rq (gw_world g))\<rparr>)"
  by (simp add: rate_limited_def split: prod.split verdict.split)

lemma gateway_of_serve:
  "snd (http_serve A W F rq g) =
     (case fw_cors F rq of Some _ \<Rightarrow> g | None \<Rightarrow> snd (rate_limited A W F rq g))"
  by (simp add: http_serve_def hardened_def split: option.split prod.split)

text \<open>The service refines the server and the limiter: what their runs have reached.\<close>

definition refines :: "app \<Rightarrow> webauthn \<Rightarrow> nat \<Rightarrow> int \<Rightarrow> world \<Rightarrow> gateway \<Rightarrow> bool" where
  "refines A W n t0 w0 g \<longleftrightarrow> runs A W w0 (gw_world g)
     \<and> (\<exists>rs. gw_limiter g = snd (serve_all (new_limiter n) rs)
          \<and> sorted (map fst rs) \<and> set (map fst rs) \<subseteq> {t0 .. gw_now g})"

lemma serve_all_snoc:
  "snd (serve_all L (rs @ [(t, path, ip)])) = snd (rate_limit_middleware (snd (serve_all L rs)) t path ip)"
proof (induction L rs rule: serve_all.induct)
  case (2 L t' path' ip' rs)
  obtain v L' where m: "rate_limit_middleware L t' path' ip' = (v, L')" by fastforce
  have "snd (serve_all L (x # xs)) = snd (serve_all (snd (rate_limit_middleware L (fst x) (fst (snd x)) (snd (snd x)))) xs)" for x xs
    by (cases x) (simp split: prod.split)
  with 2 [OF m [symmetric]] m show ?case by (simp only: append_Cons fst_conv snd_conv)
qed (simp split: prod.split)

lemma refines_limiter:
  assumes "refines A W n t0 w0 g" and "t0 \<le> gw_now g" and "runs A W (gw_world g) w"
  shows "refines A W n t0 w0
    (g\<lparr>gw_limiter := snd (rate_limit_middleware (gw_limiter g) (gw_now g) path ip), gw_world := w\<rparr>)"
proof -
  obtain rs where rs: "gw_limiter g = snd (serve_all (new_limiter n) rs)" "sorted (map fst rs)"
      "set (map fst rs) \<subseteq> {t0 .. gw_now g}"
    using assms(1) by (auto simp: refines_def)
  let ?rs = "rs @ [(gw_now g, path, ip)]"
  have "snd (rate_limit_middleware (gw_limiter g) (gw_now g) path ip) = snd (serve_all (new_limiter n) ?rs)"
    by (simp only: serve_all_snoc rs(1))
  moreover have "sorted (map fst ?rs)" "set (map fst ?rs) \<subseteq> {t0 .. gw_now g}"
    using rs(2,3) assms(2) by (auto simp: sorted_append)
  moreover have "runs A W w0 w" using assms(1,3) unfolding refines_def runs_def by (meson rtranclp_trans)
  moreover have "gw_now (g\<lparr>gw_limiter := L, gw_world := w\<rparr>) = gw_now g" for L by simp
  ultimately show ?thesis unfolding refines_def by (intro conjI exI [of _ ?rs]) simp_all
qed

lemma refines_world:
  "refines A W n t0 w0 g \<Longrightarrow> runs A W (gw_world g) w \<Longrightarrow> gw_now g \<le> t \<Longrightarrow>
    refines A W n t0 w0 (g\<lparr>gw_world := w, gw_now := t\<rparr>)"
  unfolding refines_def runs_def by fastforce

lemma refines_step:
  assumes "http_step A W F g g'" and "refines A W n t0 w0 g \<and> t0 \<le> gw_now g"
  shows "refines A W n t0 w0 g' \<and> t0 \<le> gw_now g'"
  using assms
proof (induction rule: http_step.induct)
  case (request g rq)
  let ?L = "snd (rate_limit_middleware (gw_limiter g) (gw_now g) (hr_path rq) (hr_peer rq))"
  have "refines A W n t0 w0 (g\<lparr>gw_limiter := ?L, gw_world := w\<rparr>)" if "runs A W (gw_world g) w" for w
    using request that by (intro refines_limiter) simp_all
  from this [of "gw_world g"] this [OF runs_dispatch [of A W "gw_world g" F rq]]
  have "refines A W n t0 w0 (snd (rate_limited A W F rq g)) \<and> gw_now (snd (rate_limited A W F rq g)) = gw_now g"
    by (cases "rate_limit_middleware (gw_limiter g) (gw_now g) (hr_path rq) (hr_peer rq)")
      (simp add: gateway_of_limited runs_def split: verdict.split)
  with request show ?case by (simp add: gateway_of_serve split: option.split)
next
  case (worker wk g)
  then show ?case using refines_world [of A W n t0 w0 g _ "gw_now g"] one_pass [of wk A W] by fastforce
next
  case (timer t g)
  have "runs A W (gw_world g) (worker_pass A (ReleaseTimer t) (gw_world g))"
    unfolding runs_def by (rule r_into_rtranclp) (rule server_step.timer [OF timer(1,2)])
  with timer show ?case using refines_world [of A W n t0 w0 g _ "gw_now g"] by simp
next
  case (time g t m)
  have "runs A W (gw_world g) ((gw_world g)\<lparr>clock := t\<rparr>)"
    unfolding runs_def by (rule r_into_rtranclp) (rule server_step.time [OF time(1)])
  with time show ?case using refines_world [of A W n t0 w0 g _ m] by simp
qed

lemma http_runs_refines:
  assumes "http_runs A W F (new_gateway n t0 w0) g"
  shows "refines A W n t0 w0 g \<and> t0 \<le> gw_now g"
  using assms unfolding http_runs_def
proof (induction rule: rtranclp_induct)
  case base
  have "gw_limiter (new_gateway n t0 w0) = snd (serve_all (new_limiter n) [])" by (simp add: new_gateway_def)
  then show ?case unfolding refines_def runs_def by (auto simp: new_gateway_def intro: exI [of _ "[]"])
qed (rule refines_step)


section \<open>A burst\<close>

text \<open>
  The reference: a count of the requests each address may still send. There is no token and
  no time in it; a refusal asks for the time in which one token comes back.
\<close>

fun http_all :: "app \<Rightarrow> webauthn \<Rightarrow> framework \<Rightarrow> http_request list \<Rightarrow> gateway \<Rightarrow> response option list \<times> gateway" where
  "http_all A W F [] g = ([], g)"
| "http_all A W F (rq # rqs) g =
     (case http_serve A W F rq g of (r, g1) \<Rightarrow> case http_all A W F rqs g1 of (rs, g2) \<Rightarrow> (r # rs, g2))"

definition budget_spent :: "(ip_addr \<Rightarrow> nat) \<Rightarrow> http_request \<Rightarrow> bool" where
  "budget_spent left rq = (case hr_peer rq of None \<Rightarrow> False | Some ip \<Rightarrow> limited (hr_path rq) \<and> left ip = 0)"

definition spend :: "(ip_addr \<Rightarrow> nat) \<Rightarrow> http_request \<Rightarrow> ip_addr \<Rightarrow> nat" where
  "spend left rq = (case hr_peer rq of None \<Rightarrow> left
     | Some ip \<Rightarrow> if limited (hr_path rq) then left(ip := left ip - 1) else left)"

definition one_token_seconds :: "nat \<Rightarrow> nat" where
  "one_token_seconds n = max (f32_as_u32 (f32_ceil (f32_div (Fin 1) (refill_per_sec (new_limiter n))))) 1"

fun counting :: "app \<Rightarrow> webauthn \<Rightarrow> framework \<Rightarrow> nat \<Rightarrow> (ip_addr \<Rightarrow> nat) \<Rightarrow> http_request list \<Rightarrow> world
    \<Rightarrow> response option list \<times> world" where
  "counting A W F n left [] w = ([], w)"
| "counting A W F n left (rq # rqs) w =
     (case fw_cors F rq of
        Some r \<Rightarrow> apfst ((#) (Some (fw_outer F rq r))) (counting A W F n left rqs w)
      | None \<Rightarrow>
          if budget_spent left rq
          then apfst ((#) (Some (fw_outer F rq (security_headers (hr_path rq)
                 (too_many_requests (one_token_seconds n)))))) (counting A W F n left rqs w)
          else (case dispatch A W F rq w of (r, w') \<Rightarrow>
            apfst ((#) (map_option (fw_outer F rq \<circ> security_headers (hr_path rq)) r))
              (counting A W F n (spend left rq) rqs w')))"

lemma check_refill: "refill_per_sec (snd (check_ip L t ip)) = refill_per_sec L"
  by (simp add: check_ip_def Let_def)

lemma frozen_verdict:
  assumes f: "frozen n t left L" and refill: "refill_per_sec L = refill_per_sec (new_limiter n)"
  shows "fst (rate_limit_middleware L t (hr_path rq) (hr_peer rq)) =
      (if budget_spent left rq then TooManyRequests (one_token_seconds n) else PassOn)"
    and "frozen n t (if budget_spent left rq then left else spend left rq)
      (snd (rate_limit_middleware L t (hr_path rq) (hr_peer rq)))"
    and "refill_per_sec (snd (rate_limit_middleware L t (hr_path rq) (hr_peer rq))) = refill_per_sec (new_limiter n)"
proof -
  have check: "fst (check_ip L t ip) = (if left ip = 0 then Inl (one_token_seconds n) else Inr ())" for ip
    using frozen_step(1) [OF f, of ip] frozen_refilled [OF f, of ip]
    by (auto simp: check_ip_def Let_def refill one_token_seconds_def f32_sub_def split: if_splits)
  have "left(ip := left ip - 1) = left" if "left ip = 0" for ip using that by auto
  with frozen_step(2) [OF f] have fz: "frozen n t left (snd (check_ip L t ip))" if "left ip = 0" for ip
    using that by metis
  note mw = frozen_middleware [OF f] budget_spent_def spend_def check
  show "fst (rate_limit_middleware L t (hr_path rq) (hr_peer rq)) =
      (if budget_spent left rq then TooManyRequests (one_token_seconds n) else PassOn)"
    by (simp add: mw split: option.split)
  show "frozen n t (if budget_spent left rq then left else spend left rq)
      (snd (rate_limit_middleware L t (hr_path rq) (hr_peer rq)))"
    using f fz frozen_step(2) [OF f] by (simp add: mw split: option.split)
  show "refill_per_sec (snd (rate_limit_middleware L t (hr_path rq) (hr_peer rq))) = refill_per_sec (new_limiter n)"
    by (simp add: mw check_refill refill split: option.split)
qed

lemma http_serve_step:
  assumes "fw_cors F rq = None"
    and "fst (rate_limit_middleware (gw_limiter g) (gw_now g) (hr_path rq) (hr_peer rq)) = v"
  shows "http_serve A W F rq g =
    (let L = snd (rate_limit_middleware (gw_limiter g) (gw_now g) (hr_path rq) (hr_peer rq));
         harden = fw_outer F rq \<circ> security_headers (hr_path rq)
     in case v of TooManyRequests k \<Rightarrow> (Some (harden (too_many_requests k)), g\<lparr>gw_limiter := L\<rparr>)
        | PassOn \<Rightarrow> (map_option harden (fst (dispatch A W F rq (gw_world g))),
                    g\<lparr>gw_limiter := L, gw_world := snd (dispatch A W F rq (gw_world g))\<rparr>))"
  using assms
  by (cases "rate_limit_middleware (gw_limiter g) (gw_now g) (hr_path rq) (hr_peer rq)")
    (auto simp: http_serve_def hardened_def rate_limited_def option.map_comp comp_def
      split: verdict.split prod.split)

lemma burst_counts:
  assumes "frozen n (gw_now g) left (gw_limiter g)"
    and "refill_per_sec (gw_limiter g) = refill_per_sec (new_limiter n)"
  shows "apsnd gw_world (http_all A W F rqs g) = counting A W F n left rqs (gw_world g)"
  using assms
proof (induction rqs arbitrary: g left)
  case (Cons rq rqs)
  let ?m = "rate_limit_middleware (gw_limiter g) (gw_now g) (hr_path rq) (hr_peer rq)"
  have all: "apsnd gw_world (http_all A W F (rq # rqs) g) =
      apfst ((#) (fst (http_serve A W F rq g))) (apsnd gw_world (http_all A W F rqs (snd (http_serve A W F rq g))))"
    by (simp add: apfst_def apsnd_def split: prod.split)
  show ?case
  proof (cases "fw_cors F rq")
    case (Some r)
    then have "http_serve A W F rq g = (Some (fw_outer F rq r), g)" by (simp add: http_serve_def)
    with Some all Cons.IH [OF Cons.prems] show ?thesis by simp
  next
    case None
    note v = frozen_verdict [OF Cons.prems, of rq]
    show ?thesis
    proof (cases "budget_spent left rq")
      case True
      let ?g = "g\<lparr>gw_limiter := snd ?m\<rparr>"
      have "http_serve A W F rq g = (Some (fw_outer F rq (security_headers (hr_path rq)
          (too_many_requests (one_token_seconds n)))), ?g)"
        using http_serve_step [OF None v(1)] True by simp
      moreover have "apsnd gw_world (http_all A W F rqs ?g) = counting A W F n left rqs (gw_world g)"
        using Cons.IH [of ?g left] v(2,3) True by simp
      ultimately show ?thesis using None True all by simp
    next
      case False
      let ?d = "dispatch A W F rq (gw_world g)"
      let ?g = "g\<lparr>gw_limiter := snd ?m, gw_world := snd ?d\<rparr>"
      have "http_serve A W F rq g = (map_option (fw_outer F rq \<circ> security_headers (hr_path rq)) (fst ?d), ?g)"
        using http_serve_step [OF None v(1)] False by simp
      moreover have "apsnd gw_world (http_all A W F rqs ?g) = counting A W F n (spend left rq) rqs (snd ?d)"
        using Cons.IH [of ?g "spend left rq"] v(2,3) False by simp
      ultimately show ?thesis using None False all by (simp add: case_prod_unfold)
    qed
  qed
qed simp

text \<open>
  C31: A burst. Requests that reach a fresh service at one instant are answered, and act on the
  server, exactly as if the limiter counted: the first \<open>n\<close> requests of an address other than
  those for the health endpoints go to the router, each later one gets 429 with the seconds to
  the next token, hardened like any answer, and does not touch the state. What CORS answers and
  requests without an address do not count.
\<close>

theorem burst_equals_counting:
  assumes "0 < n" and "n < 2 ^ 24"
  shows "apsnd gw_world (http_all A W F rqs (new_gateway n t w)) = counting A W F n (\<lambda>_. n) rqs w"
  using burst_counts [of n "new_gateway n t w" "\<lambda>_. n"] frozen_new [OF assms]
  by (simp add: new_gateway_def)

section \<open>Answers\<close>


section \<open>Witnesses\<close>

text \<open>A framework that knows one path of the API and asks the health endpoint otherwise.\<close>

definition sample_framework :: framework where
  "sample_framework =
     \<lparr>fw_cors = (\<lambda>rq. if hr_method rq = ''OPTIONS'' then Some livez else None),
      fw_outer = (\<lambda>rq r. r\<lparr>rs_headers := rs_headers r @ [(''x-request-id'', ''1'')]\<rparr>),
      fw_target = (\<lambda>rq. if hr_path rq = ''/v1/auth/signin'' then ToHandler (AuthRequest (PostSignin ''p''))
        else ToPage GetHealth),
      fw_success = (\<lambda>r w. livez), fw_json = (\<lambda>j. []), fw_db = (\<lambda>w. True), fw_spa = Map.empty,
      fw_heir = []\<rparr>"

definition signin_request :: http_request where
  "signin_request = \<lparr>hr_method = ''POST'', hr_path = ''/v1/auth/signin'', hr_peer = Some 1,
     hr_auth = None, hr_body = []\<rparr>"

definition claim_request :: http_request where
  "claim_request = \<lparr>hr_method = ''GET'', hr_path = ''/claim'', hr_peer = Some 1,
     hr_auth = None, hr_body = []\<rparr>"

definition health_request :: http_request where
  "health_request = claim_request\<lparr>hr_path := ''/health''\<rparr>"

lemma sample_steps:
  "http_runs sample_app W sample_framework (new_gateway 2 0 sample_world)
     (snd (http_serve sample_app W sample_framework signin_request (new_gateway 2 0 sample_world)))"
  unfolding http_runs_def by (rule r_into_rtranclp) (rule http_step.request)


theorem burst_equals_counting_witness:
  "\<exists>W. map (map_option rs_status) (fst (http_all sample_app W sample_framework
      [claim_request, health_request, claim_request] (new_gateway 1 0 sample_world)))
    = [Some 200, Some 200, Some 429]"
proof -
  obtain W :: webauthn where "W = W" by blast
  let ?rqs = "[claim_request, health_request, claim_request]"
  have "apsnd gw_world (http_all sample_app W sample_framework ?rqs (new_gateway 1 0 sample_world)) =
      counting sample_app W sample_framework 1 (\<lambda>_. 1) ?rqs sample_world"
    by (rule burst_equals_counting) simp_all
  then have "fst (http_all sample_app W sample_framework ?rqs (new_gateway 1 0 sample_world)) =
      fst (counting sample_app W sample_framework 1 (\<lambda>_. 1) ?rqs sample_world)"
    by (metis fst_apsnd)
  also have "map (map_option rs_status) \<dots> = [Some 200, Some 200, Some 429]"
    by (simp add: health_request_def claim_request_def sample_framework_def spend_def budget_spent_def limited_def dispatch_def
        security_headers_def health_def json_response_def too_many_requests_def)
  finally show ?thesis by (rule exI)
qed


end
