(* ===== verification/BlobContract.thy ===== *)
theory BlobContract
  imports Blob
begin

text \<open>
  The contract of \<open>BlobStore\<close> (src/crates/blob-store/src/lib.rs) as a locale, and its proof
  for the store the process runs with, whichever of the three backends that is: the
  identifiers drawn by \<open>put\<close> are new, so no object is ever overwritten, a stored object
  is found under its key, and deleting one object leaves every other in place. Two keys may
  name one object (a bare key and the key with the default region), which \<open>same\<close> describes.
\<close>

section \<open>Keys\<close>

lemma hex_digits_length [simp]: "length (hex_digits k u) = k"
  by (simp add: hex_digits_def)

lemma hex_digit_inj: "a < 16 \<Longrightarrow> b < 16 \<Longrightarrow> hex_digit a = hex_digit b \<Longrightarrow> a = b"
proof -
  assume "a < 16" "b < 16"
  moreover have "\<forall>a \<in> {0 ..< 16 :: nat}. \<forall>b \<in> {0 ..< 16}. hex_digit a = hex_digit b \<longrightarrow> a = b"
    by (simp add: hex_digit_def atLeastLessThan_nat_numeral)
  ultimately show "hex_digit a = hex_digit b \<Longrightarrow> a = b" by simp
qed

lemma hex_digit_mod: "hex_digit n = hex_digit (n mod 16)"
  by (simp add: hex_digit_def)

lemma digits_determine: "\<forall>i < k. u div 16 ^ i mod 16 = v div 16 ^ i mod 16 \<Longrightarrow> u mod 16 ^ k = v mod (16 ^ k :: nat)"
proof (induction k)
  case (Suc k)
  then have "u mod 16 ^ k = v mod 16 ^ k" and "u div 16 ^ k mod 16 = v div 16 ^ k mod 16" by simp_all
  then show ?case by (simp add: mod_mult2_eq power_Suc2 del: power_Suc)
qed simp

lemma hex_digits_inj:
  assumes "hex_digits k u = hex_digits k v" and "u < 16 ^ k" and "v < 16 ^ k"
  shows "u = v"
proof -
  have "u div 16 ^ i mod 16 = v div 16 ^ i mod 16" if i: "i < k" for i
  proof -
    from i have "k - Suc (k - Suc i) = i" and "k - Suc i < k" by simp_all
    then have "hex_digits k u ! (k - Suc i) = hex_digit (u div 16 ^ i)"
        "hex_digits k v ! (k - Suc i) = hex_digit (v div 16 ^ i)"
      by (simp_all add: hex_digits_def)
    with assms(1) have "hex_digit (u div 16 ^ i mod 16) = hex_digit (v div 16 ^ i mod 16)"
      by (metis hex_digit_mod)
    then show ?thesis by (rule hex_digit_inj [rotated 2]) simp_all
  qed
  then have "u mod 16 ^ k = v mod 16 ^ k" by (intro digits_determine) simp
  with assms(2,3) show ?thesis by simp
qed

lemma uuid_string_inj:
  assumes "uuid_string u = uuid_string v" and "u < 2 ^ 128" and "v < 2 ^ 128"
  shows "u = v"
proof -
  define a where "a = hex_digits 32 u"
  define b where "b = hex_digits 32 v"
  have l: "length a = 32" "length b = 32" by (simp_all add: a_def b_def)
  have "take 8 a = take 8 b" "take 4 (drop 8 a) = take 4 (drop 8 b)"
      "take 4 (drop 12 a) = take 4 (drop 12 b)" "take 4 (drop 16 a) = take 4 (drop 16 b)"
      "drop 20 a = drop 20 b"
    using assms(1) l unfolding uuid_string_def Let_def a_def [symmetric] b_def [symmetric]
    by (simp_all add: append_eq_append_conv)
  moreover have split_up: "d = take 8 d @ take 4 (drop 8 d) @ take 4 (drop 12 d) @ take 4 (drop 16 d) @ drop 20 d" for d :: string
  proof -
    have "drop 16 d = take 4 (drop 16 d) @ drop 20 d"
      using append_take_drop_id [of 4 "drop 16 d"] by simp
    moreover have "drop 12 d = take 4 (drop 12 d) @ drop 16 d"
      using append_take_drop_id [of 4 "drop 12 d"] by simp
    moreover have "drop 8 d = take 4 (drop 8 d) @ drop 12 d"
      using append_take_drop_id [of 4 "drop 8 d"] by simp
    ultimately show ?thesis by (metis append_take_drop_id)
  qed
  ultimately have "a = b" by (metis split_up)
  then show ?thesis using hex_digits_inj [of 32 u v] assms(2,3) by (simp add: a_def b_def)
qed

text \<open>The characters of an identifier: hexadecimal digits and hyphens.\<close>

definition id_char :: "char \<Rightarrow> bool" where
  "id_char c \<longleftrightarrow> c \<in> set ''0123456789abcdef-''"

lemma hex_digit_char: "id_char (hex_digit n)"
proof -
  have "n mod 16 < length ''0123456789abcdef''" by simp
  then have "hex_digit n \<in> set ''0123456789abcdef''" unfolding hex_digit_def by (rule nth_mem)
  then show ?thesis unfolding id_char_def by auto
qed

lemma hex_digits_chars: "list_all id_char (hex_digits k u)"
  by (simp add: hex_digits_def list_all_iff hex_digit_char)

lemma uuid_string_chars: "list_all id_char (uuid_string u)"
proof -
  have "list_all id_char (take n xs)" "list_all id_char (drop n xs)" if "list_all id_char xs" for n xs
    using that by (auto simp: list_all_iff dest: in_set_takeD in_set_dropD)
  then show ?thesis using hex_digits_chars [of 32 u]
    by (simp add: uuid_string_def Let_def id_char_def)
qed

lemma id_char_safe: "id_char c \<Longrightarrow> is_ascii_alphanumeric c \<or> c = CHR ''-''"
  by (auto simp: id_char_def is_ascii_alphanumeric_def)

lemma id_char_colon: "\<not> id_char CHR '':''"
  by (simp add: id_char_def)

lemma split_once_none: "c \<notin> set s \<Longrightarrow> split_once c s = None"
  by (induction s) auto

lemma split_once_hit: "c \<notin> set a \<Longrightarrow> split_once c (a @ c # b) = Some (a, b)"
  by (induction a) auto

lemma uuid_no_colon: "CHR '':'' \<notin> set (uuid_string u)"
  using uuid_string_chars [of u] id_char_colon by (auto simp: list_all_iff)

lemma parse_bare [simp]: "parse_key (uuid_string u) = (None, uuid_string u)"
  by (simp add: parse_key_def split_once_none uuid_no_colon)

text \<open>A key of the router parses back to its region and identifier.\<close>

lemma parse_routed: "CHR '':'' \<notin> set region \<Longrightarrow> parse_key (region @ CHR '':'' # k) = (Some region, k)"
  by (simp add: parse_key_def split_once_hit)

lemma uuid_length [simp]: "length (uuid_string u) = 36"
  by (simp add: uuid_string_def Let_def)

lemma path_for_uuid:
  "path_for (uuid_string u) = take 2 (uuid_string u) @ ''/'' @ take 2 (drop 2 (uuid_string u)) @ ''/''
     @ uuid_string u @ ''.blob''"
proof -
  have "filter (\<lambda>c. is_ascii_alphanumeric c \<or> c = CHR ''-'') (uuid_string u) = uuid_string u"
    using uuid_string_chars [of u] id_char_safe by (auto simp: filter_id_conv list_all_iff)
  then show ?thesis by (simp add: path_for_def Let_def str_get_def unwrap_or_def)
qed

lemma path_for_inj: "path_for (uuid_string u) = path_for (uuid_string v) \<Longrightarrow> uuid_string u = uuid_string v"
  by (simp add: path_for_uuid)

lemma object_key_inj: "object_key p a = object_key p b \<Longrightarrow> a = b"
  by (auto simp: object_key_def split: if_splits)

section \<open>The contract\<close>

locale object_store =
  fixes put :: "string \<Rightarrow> bytes \<Rightarrow> (world, blob_error, string) prog"
    and get :: "string \<Rightarrow> (world, blob_error, bytes) prog"
    and del :: "string \<Rightarrow> (world, blob_error, unit) prog"
    and contents :: "world \<Rightarrow> string \<Rightarrow> bytes option"
    and same :: "string \<Rightarrow> string \<Rightarrow> bool"
    and sound :: "nat \<Rightarrow> world \<Rightarrow> bool"
  assumes get_reads: "get k w = (Ok b, w') \<longleftrightarrow> contents w k = Some b \<and> w' = w"
    and get_keeps: "snd (get k w) = w"
    and put_new: "sound (Suc n) w \<Longrightarrow> put r b w = (Ok k, w') \<Longrightarrow> contents w k = None"
    and put_stores: "sound (Suc n) w \<Longrightarrow> put r b w = (Ok k, w') \<Longrightarrow>
        contents w' j = (if same j k then Some b else contents w j)"
    and put_sound: "sound (Suc n) w \<Longrightarrow> put r b w = (Ok k, w') \<Longrightarrow> sound n w'"
    and del_removes: "sound n w \<Longrightarrow> del k w = (Ok u, w') \<Longrightarrow>
        contents w' j = (if same j k then None else contents w j)"
    and del_sound: "sound n w \<Longrightarrow> del k w = (Ok u, w') \<Longrightarrow> sound n w'"
    and same_refl: "same k k"
    and same_contents: "same j k \<Longrightarrow> contents w j = contents w k"
begin

lemma put_get: "sound (Suc n) w \<Longrightarrow> put r b w = (Ok k, w') \<Longrightarrow> get k w' = (Ok b, w')"
  by (simp add: get_reads put_stores same_refl)

text \<open>Storing never changes what another key gives.\<close>

lemma put_keeps:
  assumes "sound (Suc n) w" "put r b w = (Ok k, w')" "contents w j = Some c"
  shows "contents w' j = Some c"
proof -
  have "\<not> same j k" using put_new [OF assms(1,2)] same_contents [of j k w] assms(3) by auto
  then show ?thesis using assms by (simp add: put_stores)
qed

lemma del_get: "sound n w \<Longrightarrow> del k w = (Ok u, w') \<Longrightarrow> get k w' \<noteq> (Ok b, w')"
  by (simp add: get_reads del_removes same_refl)

lemma del_keeps: "sound n w \<Longrightarrow> del k w = (Ok u, w') \<Longrightarrow> \<not> same j k \<Longrightarrow> contents w' j = contents w j"
  by (simp add: del_removes)

text \<open>Deleting is idempotent.\<close>

lemma del_twice: "sound n w \<Longrightarrow> del k w = (Ok u, w') \<Longrightarrow> del k w' = (Ok u', w'') \<Longrightarrow> contents w'' = contents w'"
  using del_sound [of n w k u w'] by (auto simp: fun_eq_iff del_removes)

text \<open>A copy to another place, and then the deletion of the source: the copy stays.\<close>

lemma relocate:
  assumes "sound (Suc n) w" and "contents w k = Some b" and "put r b w = (Ok k', w1)"
    and "del k w1 = (Ok u, w2)"
  shows "contents w2 k' = Some b" and "sound n w2"
    and "contents w j = Some c \<Longrightarrow> \<not> same j k \<Longrightarrow> contents w2 j = Some c"
proof -
  note s1 = put_sound [OF assms(1,3)]
  have ne: "\<not> same k' k" using put_new [OF assms(1,3)] same_contents [of k' k w] assms(2) by auto
  have "contents w1 k' = Some b" using put_stores [OF assms(1,3)] by (simp add: same_refl)
  with ne show "contents w2 k' = Some b" using del_removes [OF s1 assms(4)] by simp
  show "sound n w2" using del_sound [OF s1 assms(4)] .
  show "contents w2 j = Some c" if "contents w j = Some c" "\<not> same j k"
    using del_keeps [OF s1 assms(4) that(2)] put_keeps [OF assms(1,3) that(1)] by simp
qed

end

section \<open>The process's store meets it\<close>

text \<open>Where a key's object is, if its region is served.\<close>

definition locate :: "app \<Rightarrow> string \<Rightarrow> (string \<times> string) option" where
  "locate A key = (case blob_backend A of
       LocalFilesystemStore \<Rightarrow> Some (local_location key)
     | S3Store prefix \<Rightarrow> Some ([], object_key prefix (snd (parse_key key)))
     | RegionRouter stores d \<Rightarrow> (let region = unwrap_or d (fst (parse_key key)) in
         map_option (\<lambda>prefix. (region, object_key prefix (snd (parse_key key)))) (map_of stores region)))"

definition contents_of :: "app \<Rightarrow> world \<Rightarrow> string \<Rightarrow> bytes option" where
  "contents_of A w key = (case locate A key of None \<Rightarrow> None | Some l \<Rightarrow> blobs w l)"

definition same_object :: "app \<Rightarrow> string \<Rightarrow> string \<Rightarrow> bool" where
  "same_object A j k \<longleftrightarrow> locate A j = locate A k"

text \<open>
  Region names have no colon, there are identifiers left, and no object lies at the place of
  an identifier that is still to be drawn.
\<close>

definition regions_ok :: "app \<Rightarrow> bool" where
  "regions_ok A \<longleftrightarrow> (case blob_backend A of
     RegionRouter stores d \<Rightarrow> \<forall>p \<in> set stores. CHR '':'' \<notin> set (fst p) | _ \<Rightarrow> True)"

definition keys_for :: "app \<Rightarrow> uuid \<Rightarrow> string set" where
  "keys_for A u = (case blob_backend A of
     RegionRouter stores d \<Rightarrow> insert (uuid_string u) ((\<lambda>p. fst p @ '':'' @ uuid_string u) ` set stores)
   | _ \<Rightarrow> {uuid_string u})"

definition store_sound :: "app \<Rightarrow> nat \<Rightarrow> world \<Rightarrow> bool" where
  "store_sound A n w \<longleftrightarrow> regions_ok A \<and> next_uuid w + n \<le> 2 ^ 128 \<and>
     (\<forall>u k. next_uuid w \<le> u \<longrightarrow> u < 2 ^ 128 \<longrightarrow> k \<in> keys_for A u \<longrightarrow> contents_of A w k = None)"

lemma router_map_of: "regions_ok A \<Longrightarrow> blob_backend A = RegionRouter stores d \<Longrightarrow>
    map_of stores r = Some p \<Longrightarrow> CHR '':'' \<notin> set r \<and> (r, p) \<in> set stores"
  by (auto simp: regions_ok_def dest!: map_of_SomeD)

text \<open>What \<open>put\<close> does: one new object, at the place of the identifier drawn.\<close>

lemma blob_putE:
  assumes "blob_put A r b w = (Ok k, w')" and "regions_ok A"
  obtains l where "k \<in> keys_for A (next_uuid w)" "locate A k = Some l"
    "w' = w\<lparr>next_uuid := Suc (next_uuid w), blobs := (blobs w)(l \<mapsto> b)\<rparr>"
proof (cases "blob_backend A")
  case LocalFilesystemStore
  then show ?thesis using assms that [of "local_location (uuid_string (next_uuid w))"]
    by (auto simp: blob_put_def local_put_def run locate_def keys_for_def local_location_def Let_def)
next
  case (S3Store p)
  then show ?thesis using assms that [of "([], object_key p (uuid_string (next_uuid w)))"]
    by (auto simp: blob_put_def s3_put_def put_id_def run locate_def keys_for_def Let_def)
next
  case (RegionRouter stores d)
  then obtain p where p: "map_of stores r = Some p" and k: "k = r @ '':'' @ uuid_string (next_uuid w)"
      and w': "w' = w\<lparr>next_uuid := Suc (next_uuid w),
        blobs := (blobs w)((r, object_key p (uuid_string (next_uuid w))) \<mapsto> b)\<rparr>"
    using assms(1) by (auto simp: blob_put_def router_put_def store_for_def put_id_def run ok_or_def
        Let_def split: option.splits)
  note m = router_map_of [OF assms(2) RegionRouter p]
  show ?thesis
  proof (rule that)
    show "k \<in> keys_for A (next_uuid w)" using m k RegionRouter by (force simp: keys_for_def)
    show "locate A k = Some (r, object_key p (uuid_string (next_uuid w)))"
      using m k p RegionRouter by (simp add: locate_def parse_routed Let_def unwrap_or_def)
    show "w' = w\<lparr>next_uuid := Suc (next_uuid w),
        blobs := (blobs w)((r, object_key p (uuid_string (next_uuid w))) \<mapsto> b)\<rparr>" by (rule w')
  qed
qed

lemma blob_get_eq:
  "blob_get A k w = (Ok b, w') \<longleftrightarrow> contents_of A w k = Some b \<and> w' = w"
  by (auto simp: blob_get_def contents_of_def locate_def local_get_def s3_get_def router_get_def
      get_id_def store_for_def run ok_or_def Let_def split: blob_backend.splits option.splits prod.splits)

lemma blob_get_keeps: "snd (blob_get A k w) = w"
  by (auto simp: blob_get_def local_get_def s3_get_def router_get_def
      get_id_def store_for_def run ok_or_def Let_def split: blob_backend.splits option.splits prod.splits)

lemma blob_deleteE:
  assumes "blob_delete A k w = (Ok u, w')"
  obtains l where "locate A k = Some l" "w' = w\<lparr>blobs := (blobs w)(l := None)\<rparr>"
  using assms by (cases "blob_backend A")
    (auto simp: blob_delete_def locate_def local_delete_def s3_delete_def router_delete_def
      delete_id_def store_for_def run ok_or_def Let_def split: option.splits prod.splits)

text \<open>Identifiers still to be drawn name other objects.\<close>

lemma keys_for_bare: "k \<in> keys_for A u \<Longrightarrow> (\<forall>s d. blob_backend A \<noteq> RegionRouter s d) \<Longrightarrow> k = uuid_string u"
  by (cases "blob_backend A") (simp_all add: keys_for_def)

lemma keys_for_parse: "k \<in> keys_for A u \<Longrightarrow> regions_ok A \<Longrightarrow> snd (parse_key k) = uuid_string u"
  by (cases "blob_backend A") (auto simp: keys_for_def regions_ok_def parse_routed)

lemma locate_id:
  assumes "locate A j = Some l" "locate A k = Some l" "\<forall>s. blob_backend A \<noteq> LocalFilesystemStore"
  shows "snd (parse_key j) = snd (parse_key k)"
proof (cases "blob_backend A")
  case (S3Store p)
  with assms(1,2) show ?thesis by (auto simp: locate_def dest: object_key_inj)
next
  case (RegionRouter stores d)
  then obtain p q where
    "map_of stores (unwrap_or d (fst (parse_key j))) = Some p"
    "l = (unwrap_or d (fst (parse_key j)), object_key p (snd (parse_key j)))"
    "map_of stores (unwrap_or d (fst (parse_key k))) = Some q"
    "l = (unwrap_or d (fst (parse_key k)), object_key q (snd (parse_key k)))"
    using assms(1,2) by (auto simp: locate_def Let_def)
  then show ?thesis by (metis object_key_inj option.inject prod.inject)
qed (use assms in simp)

lemma locate_new:
  assumes "j \<in> keys_for A u" "k \<in> keys_for A v" "locate A j = Some l" "locate A k = Some l"
    and "regions_ok A"
  shows "uuid_string u = uuid_string v"
proof (cases "blob_backend A = LocalFilesystemStore")
  case True
  then have "j = uuid_string u" "k = uuid_string v" using assms(1,2) by (auto intro: keys_for_bare)
  with assms(3,4) True have "path_for (uuid_string u) = path_for (uuid_string v)"
    by (auto simp: locate_def local_location_def)
  then show ?thesis by (rule path_for_inj)
next
  case False
  then have "snd (parse_key j) = snd (parse_key k)" by (intro locate_id [OF assms(3,4)]) simp
  with assms show ?thesis by (simp add: keys_for_parse)
qed

interpretation process_store: object_store "blob_put A" "blob_get A" "blob_delete A"
    "contents_of A" "same_object A" "store_sound A" for A
proof
  fix w w' r b k j n u
  show "(blob_get A k w = (Ok b, w')) = (contents_of A w k = Some b \<and> w' = w)" by (rule blob_get_eq)
  show "snd (blob_get A k w) = w" by (rule blob_get_keeps)
  show "same_object A k k" by (simp add: same_object_def)
  show "same_object A j k \<Longrightarrow> contents_of A w j = contents_of A w k"
    by (simp add: same_object_def contents_of_def)
  show "contents_of A w k = None"
    if s: "store_sound A (Suc n) w" and p: "blob_put A r b w = (Ok k, w')"
  proof -
    have ok: "regions_ok A" and room: "next_uuid w < 2 ^ 128"
      and free: "\<And>v i. next_uuid w \<le> v \<Longrightarrow> v < 2 ^ 128 \<Longrightarrow> i \<in> keys_for A v \<Longrightarrow> contents_of A w i = None"
      using s by (auto simp: store_sound_def)
    obtain l where "k \<in> keys_for A (next_uuid w)" using blob_putE [OF p ok] .
    from free [OF order_refl room this] show ?thesis .
  qed
  show "contents_of A w' j = (if same_object A j k then Some b else contents_of A w j)"
    if s: "store_sound A (Suc n) w" and p: "blob_put A r b w = (Ok k, w')"
  proof -
    have ok: "regions_ok A" using s by (simp add: store_sound_def)
    obtain l where "locate A k = Some l" "w' = w\<lparr>next_uuid := Suc (next_uuid w), blobs := (blobs w)(l \<mapsto> b)\<rparr>"
      using blob_putE [OF p ok] .
    then show ?thesis by (simp add: contents_of_def same_object_def split: option.split)
  qed
  show "store_sound A n w'"
    if s: "store_sound A (Suc n) w" and p: "blob_put A r b w = (Ok k, w')"
  proof -
    have ok: "regions_ok A" and room: "next_uuid w + Suc n \<le> 2 ^ 128"
      and free: "\<And>v i. next_uuid w \<le> v \<Longrightarrow> v < 2 ^ 128 \<Longrightarrow> i \<in> keys_for A v \<Longrightarrow> contents_of A w i = None"
      using s by (auto simp: store_sound_def)
    obtain l where k: "k \<in> keys_for A (next_uuid w)" "locate A k = Some l"
      and w': "w' = w\<lparr>next_uuid := Suc (next_uuid w), blobs := (blobs w)(l \<mapsto> b)\<rparr>"
      using blob_putE [OF p ok] .
    have "contents_of A w' i = None"
      if v: "Suc (next_uuid w) \<le> v" "v < 2 ^ 128" "i \<in> keys_for A v" for v i
    proof -
      have "locate A i \<noteq> Some l"
      proof
        assume "locate A i = Some l"
        then have "uuid_string v = uuid_string (next_uuid w)"
          by (intro locate_new [OF v(3) k(1) _ k(2) ok])
        then show False using uuid_string_inj [of v "next_uuid w"] v(1,2) room by simp
      qed
      then show ?thesis using free [of v i] v unfolding w' by (auto simp: contents_of_def split: option.splits)
    qed
    with ok room show ?thesis unfolding store_sound_def w' by simp
  qed
  show "contents_of A w' j = (if same_object A j k then None else contents_of A w j)"
    if d: "blob_delete A k w = (Ok u, w')"
  proof -
    obtain l where "locate A k = Some l" "w' = w\<lparr>blobs := (blobs w)(l := None)\<rparr>"
      using blob_deleteE [OF d] .
    then show ?thesis by (simp add: contents_of_def same_object_def split: option.split)
  qed
  show "store_sound A n w'" if s: "store_sound A n w" and d: "blob_delete A k w = (Ok u, w')"
  proof -
    obtain l where "w' = w\<lparr>blobs := (blobs w)(l := None)\<rparr>" using blob_deleteE [OF d] .
    then show ?thesis using s by (auto simp: store_sound_def contents_of_def split: option.splits)
  qed
qed

end
