(* ===== verification/PipelineFacts.thy ===== *)
theory PipelineFacts
  imports Pipeline
begin

text \<open>
  Facts about the release pipeline: rows that parse, the two conditional updates on a
  vault's state, the closed form of a delivery, and what a release does to the tables.
\<close>

section \<open>Rows that parse\<close>

definition vault_row_ok :: "vault_row \<Rightarrow> bool" where
  "vault_row_ok r \<longleftrightarrow> va_tier r \<in> range tier_as_db_str \<and> va_state r \<in> range vault_state_as_db_str
     \<and> va_storage_region r \<in> range region_as_aws_str"

lemma state_in_range:
  "''ACTIVE'' \<in> range vault_state_as_db_str" "''COOLING_OFF'' \<in> range vault_state_as_db_str"
  "''RELEASING'' \<in> range vault_state_as_db_str" "''RELEASED'' \<in> range vault_state_as_db_str"
  using rangeI [of vault_state_as_db_str Active] rangeI [of vault_state_as_db_str CoolingOff]
    rangeI [of vault_state_as_db_str Releasing] rangeI [of vault_state_as_db_str Released]
  by simp_all

definition vault_of_row :: "vault_row \<Rightarrow> vault" where
  "vault_of_row r =
     \<lparr>v_id = va_id r, v_principal_id = va_principal_id r, v_name = va_name r,
      v_tier = projr (tier_from_db_str (va_tier r)),
      v_state = projr (vault_state_from_db_str (va_state r)),
      v_cooling_off_seconds = va_cooling_off_seconds r,
      v_storage_region = projr (region_from_aws_str (va_storage_region r)),
      v_last_attestation_at = va_last_attestation_at r,
      v_cooling_off_started_at = va_cooling_off_started_at r,
      v_released_at = va_released_at r, v_created_at = va_created_at r\<rparr>"

lemma row_to_vault_ok:
  "vault_row_ok r \<Longrightarrow> row_to_vault vault_columns r w = (Ok (vault_of_row r), w)"
proof -
  assume "vault_row_ok r"
  then obtain t s g where e: "va_tier r = tier_as_db_str t" "va_state r = vault_state_as_db_str s"
    "va_storage_region r = region_as_aws_str g"
    by (auto simp: vault_row_ok_def)
  have c: "row_get vault_columns c v = ret v" for c and v :: 'c
    by (cases c) (simp_all add: row_get_def vault_columns_def)
  have m: "c \<in> set vault_columns" for c
    by (cases c) (simp_all add: vault_columns_def)
  have d: "try_domain (Inr x) = ret x" for x :: 'd
    by (simp add: try_domain_def map_err_def fun_eq_iff)
  show ?thesis
    by (simp add: row_to_vault_def c m d e vault_of_row_def)
qed

lemma row_to_vault_read: "snd (row_to_vault cols r w) = w"
  by (simp add: row_to_vault_def bind_step try_domain_def map_err_def of_sum_def split: sum.split)

text \<open>The state column of the vault \<open>v\<close>.\<close>

definition state_of :: "world \<Rightarrow> vault_id \<Rightarrow> string option" where
  "state_of w v = map_option va_state (sql_first (\<lambda>r. va_id r = v) (vaults w))"

definition vaults_ok :: "world \<Rightarrow> bool" where
  "vaults_ok w \<longleftrightarrow> keyed va_id (vaults w) \<and> (\<forall>r \<in> set (vaults w). vault_row_ok r)"

lemma vaults_ok_cong: "vaults w = vaults w' \<Longrightarrow> vaults_ok w = vaults_ok w'"
  by (simp add: vaults_ok_def)

lemma collect_vaults:
  "list_all vault_row_ok rs \<Longrightarrow> collect (row_to_vault vault_columns) rs w = (Ok (map vault_of_row rs), w)"
  by (induction rs) (simp_all add: bind_step row_to_vault_ok)

lemma list_vaults_app:
  "vaults_ok w \<Longrightarrow> db_list_vaults i w =
     (Ok (map vault_of_row (order_by va_created_at (sql_select (\<lambda>r. va_principal_id r = i) (vaults w)))), w)"
  unfolding db_list_vaults_def bind_gets by (rule collect_vaults) (auto simp: vaults_ok_def list_all_iff)

lemma vaults_ok_update:
  assumes "vaults_ok w" and "\<And>r. va_id (f r) = va_id r" and "\<And>r. vault_row_ok r \<Longrightarrow> vault_row_ok (f r)"
    and "vaults w' = sql_update P f (vaults w)"
  shows "vaults_ok w'"
  using assms by (auto simp: vaults_ok_def keyed_update)

section \<open>The conditional updates\<close>

lemma claim_release_app:
  "db_claim_vault_for_release v w =
     (Ok (sql_count (\<lambda>r. va_id r = v \<and> va_state r = ''COOLING_OFF'') (vaults w) = 1),
      w\<lparr>vaults := sql_update (\<lambda>r. va_id r = v \<and> va_state r = ''COOLING_OFF'')
                    (\<lambda>r. r\<lparr>va_state := ''RELEASING''\<rparr>) (vaults w)\<rparr>)"
  by (simp add: db_claim_vault_for_release_def bind_step)

lemma claim_cooling_app:
  "db_claim_vault_cooling_off v s w =
     (Ok (sql_count (\<lambda>r. va_id r = v \<and> va_state r = vault_state_as_db_str s) (vaults w) = 1),
      w\<lparr>vaults := sql_update (\<lambda>r. va_id r = v \<and> va_state r = vault_state_as_db_str s)
                    (\<lambda>r. r\<lparr>va_state := ''COOLING_OFF'', va_cooling_off_started_at := Some (clock w)\<rparr>)
                    (vaults w)\<rparr>)"
  by (simp add: db_claim_vault_cooling_off_def bind_step)

lemma state_of_Some_iff:
  "keyed va_id (vaults w) \<Longrightarrow>
   state_of w v = Some s \<longleftrightarrow> (\<exists>r \<in> set (vaults w). va_id r = v \<and> va_state r = s)"
proof
  assume k: "keyed va_id (vaults w)" and "\<exists>r \<in> set (vaults w). va_id r = v \<and> va_state r = s"
  then obtain r where "r \<in> set (vaults w)" "va_id r = v" "va_state r = s" by blast
  then show "state_of w v = Some s"
    using keyed_first [OF k, of r] by (simp add: state_of_def)
next
  assume "state_of w v = Some s"
  then show "\<exists>r \<in> set (vaults w). va_id r = v \<and> va_state r = s"
    using sql_first_Some by (fastforce simp: state_of_def)
qed

lemma claim_release_wins_iff:
  assumes "keyed va_id (vaults w)"
  shows "fst (db_claim_vault_for_release v w) = Ok (state_of w v = Some ''COOLING_OFF'')"
  by (simp add: claim_release_app sql_count_keyed [OF assms] state_of_Some_iff [OF assms])

lemma claim_cooling_wins_iff:
  assumes "keyed va_id (vaults w)"
  shows "fst (db_claim_vault_cooling_off v s w) = Ok (state_of w v = Some (vault_state_as_db_str s))"
  by (simp add: claim_cooling_app sql_count_keyed [OF assms] state_of_Some_iff [OF assms])

text \<open>An update of the state column under a condition on the state column.\<close>

lemma state_of_update:
  assumes "\<And>r. va_id (f r) = va_id r"
  shows "state_of (w\<lparr>vaults := sql_update (\<lambda>r. va_id r = v \<and> P r) f (vaults w)\<rparr>) u =
    map_option (\<lambda>r. va_state (if va_id r = v \<and> P r then f r else r))
      (sql_first (\<lambda>r. va_id r = u) (vaults w))"
proof -
  have "sql_first (\<lambda>r. va_id r = u) (sql_update (\<lambda>r. va_id r = v \<and> P r) f (vaults w)) =
    map_option (\<lambda>r. if va_id r = v \<and> P r then f r else r) (sql_first (\<lambda>r. va_id r = u) (vaults w))"
    by (rule sql_first_update) (simp add: assms)
  then show ?thesis by (simp add: state_of_def option.map_comp comp_def)
qed

lemma claim_release_state:
  "state_of (snd (db_claim_vault_for_release v w)) u =
    (if u = v \<and> state_of w v = Some ''COOLING_OFF'' then Some ''RELEASING'' else state_of w u)"
proof (cases "sql_first (\<lambda>r. va_id r = u) (vaults w)")
  case None
  then show ?thesis
    by (auto simp: claim_release_app state_of_update) (simp_all add: state_of_def)
next
  case (Some r)
  then have "va_id r = u" using sql_first_Some by fast
  then show ?thesis
    using Some by (auto simp: claim_release_app state_of_update) (simp_all add: state_of_def)
qed

lemma claim_cooling_state:
  "state_of (snd (db_claim_vault_cooling_off v s w)) u =
    (if u = v \<and> state_of w v = Some (vault_state_as_db_str s) then Some ''COOLING_OFF'' else state_of w u)"
proof (cases "sql_first (\<lambda>r. va_id r = u) (vaults w)")
  case None
  then show ?thesis
    by (auto simp: claim_cooling_app state_of_update) (simp_all add: state_of_def)
next
  case (Some r)
  then have "va_id r = u" using sql_first_Some by fast
  then show ?thesis
    using Some by (auto simp: claim_cooling_app state_of_update) (simp_all add: state_of_def)
qed

lemma claim_release_keyed [simp]:
  "keyed va_id (vaults (snd (db_claim_vault_for_release v w))) = keyed va_id (vaults w)"
  by (simp add: claim_release_app keyed_update)

section \<open>Delivery\<close>

definition token_at :: "app \<Rightarrow> nat \<Rightarrow> string" where
  "token_at A p = b64url A (map (os_rng A) [p ..< p + 32])"

definition claim_for :: "app \<Rightarrow> release_event_id \<Rightarrow> letter_meta \<Rightarrow> world \<Rightarrow> release_claim_row" where
  "claim_for A e l w =
     \<lparr>cl_token_hash = hash_token A (token_at A (rng_pos w)), cl_release_event_id = e,
      cl_letter_id = lm_id l, cl_recipient_email = lm_recipient_email l,
      cl_expires_at = clock w + days 30, cl_claimed_at = None\<rparr>"

fun att_claims ::
  "app \<Rightarrow> release_event_id \<Rightarrow> string \<Rightarrow> instant \<Rightarrow> nat \<Rightarrow> attachment list \<Rightarrow> attachment_claim_row list" where
  "att_claims A e rcpt t p [] = []"
| "att_claims A e rcpt t p (a # as) =
     \<lparr>ac_token_hash = hash_token A (token_at A p), ac_release_event_id = e,
      ac_attachment_id = at_id a, ac_recipient_email = rcpt,
      ac_expires_at = t + days 30, ac_claimed_at = None\<rparr> # att_claims A e rcpt t (p + 32) as"

fun att_tokens :: "app \<Rightarrow> nat \<Rightarrow> attachment list \<Rightarrow> (string \<times> string) list" where
  "att_tokens A p [] = []"
| "att_tokens A p (a # as) = (at_original_filename a, token_at A p) # att_tokens A (p + 32) as"

definition attachments_of :: "letter_id \<Rightarrow> world \<Rightarrow> attachment list" where
  "attachments_of l w = map row_to_attachment
     (order_by ar_sealed_at (sql_select (\<lambda>r. ar_letter_id r = l) (attachments w)))"

definition deliver_effect :: "app \<Rightarrow> release_event_id \<Rightarrow> bool \<Rightarrow> letter_meta \<Rightarrow> world \<Rightarrow> world" where
  "deliver_effect A e is_drill l w =
     (let as = attachments_of (lm_id l) w; p = rng_pos w + 32 in
      w\<lparr>release_claims := release_claims w @ [claim_for A e l w],
        attachment_claims := attachment_claims w
          @ att_claims A e (lm_recipient_email l) (clock w) p as,
        rng_pos := p + 32 * length as,
        outbox := outbox w @ [ReleaseNotice (lm_recipient_email l) (lm_title l)
          (claim_url A (token_at A (rng_pos w))) is_drill
          (map (\<lambda>(f, t). (f, attachment_url A t)) (att_tokens A p as))]\<rparr>)"

lemma issue_for_attachment_app:
  "issue_for_attachment A e rcpt a w =
    (if hash_token A (token_at A (rng_pos w)) \<notin> ac_token_hash ` set (attachment_claims w)
        \<and> e \<in> ev_id ` set (release_events w) \<and> at_id a \<in> ar_id ` set (attachments w)
     then (Ok (at_original_filename a, token_at A (rng_pos w)),
           w\<lparr>rng_pos := rng_pos w + 32, attachment_claims := attachment_claims w @
              [\<lparr>ac_token_hash = hash_token A (token_at A (rng_pos w)), ac_release_event_id = e,
                ac_attachment_id = at_id a, ac_recipient_email = rcpt,
                ac_expires_at = clock w + days 30, ac_claimed_at = None\<rparr>]\<rparr>)
     else (Err (Sqlx ''release_attachment_claim''), w\<lparr>rng_pos := rng_pos w + 32\<rparr>))"
  by (simp add: issue_for_attachment_def run db_issue_attachment_claim_def token_at_def)

lemma issue_attachments_Ok:
  "collect (issue_for_attachment A e rcpt) as w = (Ok links, w') \<Longrightarrow>
   links = att_tokens A (rng_pos w) as \<and>
   w' = w\<lparr>attachment_claims := attachment_claims w @ att_claims A e rcpt (clock w) (rng_pos w) as,
          rng_pos := rng_pos w + 32 * length as\<rparr>"
proof (induction as arbitrary: w links)
  case Nil
  then show ?case by simp
next
  case (Cons a as)
  let ?w1 = "w\<lparr>rng_pos := rng_pos w + 32, attachment_claims := attachment_claims w @
     [\<lparr>ac_token_hash = hash_token A (token_at A (rng_pos w)), ac_release_event_id = e,
       ac_attachment_id = at_id a, ac_recipient_email = rcpt,
       ac_expires_at = clock w + days 30, ac_claimed_at = None\<rparr>]\<rparr>"
  from Cons.prems obtain ls where
    h: "issue_for_attachment A e rcpt a w = (Ok (at_original_filename a, token_at A (rng_pos w)), ?w1)"
    and ls: "collect (issue_for_attachment A e rcpt) as ?w1 = (Ok ls, w')"
    and links: "links = (at_original_filename a, token_at A (rng_pos w)) # ls"
    unfolding collect.simps bind_eq_Ok issue_for_attachment_app [of A e rcpt a w]
    by (simp split: if_splits) blast
  show ?case
    using Cons.IH [OF ls] links by (simp add: algebra_simps)
qed

lemma deliver_letter_Ok:
  assumes "deliver_letter A e l is_drill w = (Ok (), w')"
  shows "w' = deliver_effect A e is_drill l w"
proof -
  let ?w1 = "w\<lparr>rng_pos := rng_pos w + 32, release_claims := release_claims w @ [claim_for A e l w]\<rparr>"
  from assms obtain links w2 where
    c: "collect (issue_for_attachment A e (lm_recipient_email l)) (attachments_of (lm_id l) w) ?w1 = (Ok links, w2)"
    and w': "w' = w2\<lparr>outbox := outbox w2 @ [ReleaseNotice (lm_recipient_email l) (lm_title l)
        (claim_url A (token_at A (rng_pos w))) is_drill
        (map (\<lambda>(f, t). (f, attachment_url A t)) links)]\<rparr>"
    by (auto simp: deliver_letter_def bind_step andthen_step db_issue_release_claim_def
        db_list_attachments_def attachments_of_def claim_for_def token_at_def
        split: prod.splits outcome.splits if_splits)
  show ?thesis
    using issue_attachments_Ok [OF c] by (simp add: w' deliver_effect_def Let_def)
qed

subsection \<open>Whatever happens, a delivery touches claims, tokens and mail only\<close>

definition delivery_only :: "world \<Rightarrow> world \<Rightarrow> bool" where
  "delivery_only w w' \<longleftrightarrow> (\<exists>rc ac p ob.
     w' = w\<lparr>release_claims := rc, attachment_claims := ac, rng_pos := p, outbox := ob\<rparr>)"

lemma delivery_only_refl [simp]: "delivery_only w w"
  unfolding delivery_only_def
  by (rule exI [of _ "release_claims w"], rule exI [of _ "attachment_claims w"],
      rule exI [of _ "rng_pos w"], rule exI [of _ "outbox w"]) simp

lemma delivery_only_upd [simp]:
  assumes "delivery_only w w'"
  shows "delivery_only w (w'\<lparr>rng_pos := q\<rparr>)" "delivery_only w (w'\<lparr>outbox := b\<rparr>)"
    "delivery_only w (w'\<lparr>release_claims := r\<rparr>)" "delivery_only w (w'\<lparr>attachment_claims := a\<rparr>)"
proof -
  obtain rc ac p ob where w':
    "w' = w\<lparr>release_claims := rc, attachment_claims := ac, rng_pos := p, outbox := ob\<rparr>"
    using assms by (auto simp: delivery_only_def)
  have "w'\<lparr>rng_pos := q\<rparr> = w\<lparr>release_claims := rc, attachment_claims := ac, rng_pos := q, outbox := ob\<rparr>"
    "w'\<lparr>outbox := b\<rparr> = w\<lparr>release_claims := rc, attachment_claims := ac, rng_pos := p, outbox := b\<rparr>"
    "w'\<lparr>release_claims := r\<rparr> = w\<lparr>release_claims := r, attachment_claims := ac, rng_pos := p, outbox := ob\<rparr>"
    "w'\<lparr>attachment_claims := a\<rparr> = w\<lparr>release_claims := rc, attachment_claims := a, rng_pos := p, outbox := ob\<rparr>"
    by (simp_all add: w')
  then show "delivery_only w (w'\<lparr>rng_pos := q\<rparr>)" "delivery_only w (w'\<lparr>outbox := b\<rparr>)"
    "delivery_only w (w'\<lparr>release_claims := r\<rparr>)" "delivery_only w (w'\<lparr>attachment_claims := a\<rparr>)"
    unfolding delivery_only_def by blast+
qed

lemma delivery_only_sel:
  assumes "delivery_only w w'"
  shows "vaults w' = vaults w" "letters w' = letters w" "release_events w' = release_events w"
    "clock w' = clock w" "attachments w' = attachments w" "principals w' = principals w"
    "timers w' = timers w" "metrics w' = metrics w" "recipient_changes w' = recipient_changes w"
    "transparency w' = transparency w" "subscriptions w' = subscriptions w" "blobs w' = blobs w"
  using assms by (auto simp: delivery_only_def)

lemma keeps_issue [keeps_intros]: "keeps (delivery_only w) (issue_for_attachment A e rcpt a)"
  by (rule keepsI) (simp add: issue_for_attachment_app)

lemma keeps_token [keeps_intros]: "keeps (delivery_only w) (random_token A)"
  by (rule keepsI) simp

lemma keeps_issue_claim [keeps_intros]: "keeps (delivery_only w) (db_issue_release_claim e l rcpt h ttl)"
  by (rule keepsI) (simp add: db_issue_release_claim_def run)

lemma keeps_list_attachments [keeps_intros]: "keeps I (db_list_attachments l)"
  by (simp add: db_list_attachments_def)

lemma keeps_notify [keeps_intros]: "keeps (delivery_only w) (notify n)"
  by (rule keepsI) simp

lemma keeps_deliver [keeps_intros]: "keeps (delivery_only w) (deliver_letter A e l is_drill)"
  unfolding deliver_letter_def by (intro keeps_intros)

lemma deliver_frame: "delivery_only w (snd (for_each (\<lambda>l. deliver_letter A e l is_drill) ls w))"
  by (rule keepsD [OF keeps_for_each [OF keeps_deliver]]) simp

section \<open>Performing a release\<close>

definition signal_letters :: "vault_id \<Rightarrow> world \<Rightarrow> letter_meta list" where
  "signal_letters v w = map row_to_letter_meta (order_by le_sealed_at (sql_select
     (\<lambda>r. le_vault_id r = v \<and> le_release_mode r \<in> set [''SIGNAL_OR_SCHEDULED'', ''SIGNAL_ONLY''])
     (letters w)))"

lemma deliver_all_Ok:
  "for_each (\<lambda>l. deliver_letter A e l is_drill) ls w = (Ok (), w') \<Longrightarrow>
   w' = fold (deliver_effect A e is_drill) ls w"
  by (induction ls arbitrary: w) (auto simp: andthen_eq_Ok dest: deliver_letter_Ok)

definition claim_view :: "release_claim_row \<Rightarrow> letter_id \<times> string \<times> release_event_id \<times> instant \<times> instant option" where
  "claim_view c = (cl_letter_id c, cl_recipient_email c, cl_release_event_id c, cl_expires_at c, cl_claimed_at c)"

lemma deliver_effect_clock [simp]: "clock (deliver_effect A e d l w) = clock w"
  by (simp add: deliver_effect_def Let_def)

lemma deliver_effect_claims [simp]:
  "release_claims (deliver_effect A e d l w) = release_claims w @ [claim_for A e l w]"
  by (simp add: deliver_effect_def Let_def)

lemma claim_view_for: "claim_view (claim_for A e l w) =
    (lm_id l, lm_recipient_email l, e, clock w + days 30, None)"
  by (simp add: claim_view_def claim_for_def)

lemma deliver_all_claims:
  "\<exists>new. release_claims (fold (deliver_effect A e d) ls w) = release_claims w @ new \<and>
     map claim_view new = map (\<lambda>l. (lm_id l, lm_recipient_email l, e, clock w + days 30, None)) ls"
proof (induction ls arbitrary: w)
  case Nil
  then show ?case by simp
next
  case (Cons l ls)
  obtain new where n: "release_claims (fold (deliver_effect A e d) ls (deliver_effect A e d l w)) =
      release_claims (deliver_effect A e d l w) @ new"
    and m: "map claim_view new = map (\<lambda>l. (lm_id l, lm_recipient_email l, e, clock w + days 30, None)) ls"
    using Cons.IH [of "deliver_effect A e d l w"] by auto
  show ?case
    by (rule exI [of _ "claim_for A e l w # new"])
      (simp add: n m claim_view_for)
qed

text \<open>Setting the state of a vault whose row parses.\<close>

lemma set_vault_state_app:
  "db_set_vault_state v st c rel w = (
    let f = (\<lambda>r. r\<lparr>va_state := vault_state_as_db_str st,
                  va_cooling_off_started_at := coalesce c (va_cooling_off_started_at r),
                  va_released_at := coalesce rel (va_released_at r)\<rparr>);
        w' = w\<lparr>vaults := sql_update (\<lambda>r. va_id r = v) f (vaults w)\<rparr>
    in (case sql_first (\<lambda>r. va_id r = v) (vaults w) of
          None \<Rightarrow> (Err row_not_found, w')
        | Some r \<Rightarrow> row_to_vault vault_columns (f r) w'))"
  by (simp add: db_set_vault_state_def run Let_def split: option.split)

lemma set_vault_state_Ok:
  assumes "vaults_ok w" "sql_first (\<lambda>r. va_id r = v) (vaults w) = Some r"
  shows "\<exists>x. db_set_vault_state v st c rel w = (Ok x, w\<lparr>vaults := sql_update (\<lambda>r. va_id r = v)
    (\<lambda>r. r\<lparr>va_state := vault_state_as_db_str st,
            va_cooling_off_started_at := coalesce c (va_cooling_off_started_at r),
            va_released_at := coalesce rel (va_released_at r)\<rparr>) (vaults w)\<rparr>)"
proof -
  have "vault_row_ok r" using assms sql_first_Some by (fastforce simp: vaults_ok_def)
  then have "vault_row_ok (r\<lparr>va_state := vault_state_as_db_str st,
      va_cooling_off_started_at := coalesce c (va_cooling_off_started_at r),
      va_released_at := coalesce rel (va_released_at r)\<rparr>)"
    by (simp add: vault_row_ok_def)
  then show ?thesis
    using assms(2) by (simp add: set_vault_state_app Let_def row_to_vault_ok)
qed

lemma mark_released_app: "db_mark_release_released e w = (Ok (), w\<lparr>release_events :=
    sql_update (\<lambda>r. ev_id r = e) (\<lambda>r. r\<lparr>ev_released_at := Some (clock w)\<rparr>) (release_events w)\<rparr>)"
  by (simp add: db_mark_release_released_def run)

text \<open>A log entry whose error is ignored: one more entry, or none.\<close>

definition logged :: "string \<Rightarrow> principal_id option \<Rightarrow> vault_id option \<Rightarrow> world \<Rightarrow> transparency_row list" where
  "logged k i v w = transparency (snd (db_append_transparency_entry k i v w))"

lemma log_app: "ignore (db_append_transparency_entry k i v) w = (Ok (), w\<lparr>transparency := logged k i v w\<rparr>)"
  by (simp add: logged_def run db_append_transparency_entry_def)

text \<open>The part of \<open>perform_release\<close> after the deliveries, on a parsed vault.\<close>

definition finish_release :: "vault_id \<Rightarrow> release_event_id \<Rightarrow> bool \<Rightarrow> unit db_prog" where
  "finish_release v e is_drill =
     bind now (\<lambda>t.
     bind (db_set_vault_state v Released None (Some t)) (\<lambda>_.
     andthen (db_mark_release_released e)
     (andthen (ignore (db_append_transparency_entry
                (if is_drill then ''DRILL_COMPLETED'' else ''RELEASED'') None (Some v)))
     (andthen (metrics_inc ReleasesCompletedTotal)
     (if is_drill
      then bind (db_set_vault_state v Active None None) (\<lambda>_. metrics_inc DrillsCompletedTotal)
      else ret ())))))"

lemma perform_release_split:
  "perform_release A v e d = bind (db_list_letters_for_signal_release v) (\<lambda>ls.
     andthen (for_each (\<lambda>l. deliver_letter A e l d) ls) (finish_release v e d))"
  by (simp add: perform_release_def finish_release_def)

definition finish_row :: "bool \<Rightarrow> instant \<Rightarrow> vault_row \<Rightarrow> vault_row" where
  "finish_row is_drill t r =
     r\<lparr>va_state := (if is_drill then ''ACTIVE'' else ''RELEASED''), va_released_at := Some t\<rparr>"

lemma sql_update_twice:
  "(\<And>r. P (f r) = P r) \<Longrightarrow> sql_update P g (sql_update P f t) = sql_update P (\<lambda>r. g (f r)) t"
  by (induction t) auto

lemma sql_update_cong: "(\<And>r. P r \<Longrightarrow> f r = g r) \<Longrightarrow> sql_update P f t = sql_update P g t"
  by (induction t) auto

lemma finish_release_Ok:
  assumes ok: "vaults_ok w" and v: "sql_first (\<lambda>r. va_id r = v) (vaults w) = Some r"
  shows "\<exists>w'. finish_release v e d w = (Ok (), w') \<and>
    vaults w' = sql_update (\<lambda>r. va_id r = v) (finish_row d (clock w)) (vaults w) \<and>
    release_events w' = sql_update (\<lambda>r. ev_id r = e) (\<lambda>r. r\<lparr>ev_released_at := Some (clock w)\<rparr>) (release_events w) \<and>
    release_claims w' = release_claims w \<and> attachment_claims w' = attachment_claims w \<and>
    outbox w' = outbox w \<and> letters w' = letters w \<and> timers w' = timers w \<and> clock w' = clock w"
proof -
  let ?f = "\<lambda>r. r\<lparr>va_state := ''RELEASED'', va_cooling_off_started_at := va_cooling_off_started_at r,
    va_released_at := Some (clock w)\<rparr>"
  let ?w1 = "w\<lparr>vaults := sql_update (\<lambda>r. va_id r = v) ?f (vaults w)\<rparr>"
  obtain x where s1: "db_set_vault_state v Released None (Some (clock w)) w = (Ok x, ?w1)"
    using set_vault_state_Ok [OF ok v, of Released None "Some (clock w)"] by auto
  have ok1: "vaults_ok u" if "vaults u = sql_update (\<lambda>r. va_id r = v) ?f (vaults w)" for u
    by (rule vaults_ok_update [OF ok _ _ that]) (simp_all add: vault_row_ok_def state_in_range)
  have v1: "sql_first (\<lambda>r. va_id r = v) (sql_update (\<lambda>r. va_id r = v) ?f (vaults w)) = Some (?f r)"
    using v sql_first_Some [OF v] by (subst sql_first_update) simp_all
  define k where "k = (if d then ''DRILL_COMPLETED'' else ''RELEASED'')"
  define w2 where "w2 = snd (andthen (db_mark_release_released e)
      (andthen (ignore (db_append_transparency_entry k None (Some v)))
        (metrics_inc ReleasesCompletedTotal)) ?w1)"
  have w2: "vaults w2 = vaults ?w1" "clock w2 = clock w" "release_claims w2 = release_claims w"
    "attachment_claims w2 = attachment_claims w" "outbox w2 = outbox w" "letters w2 = letters w"
    "timers w2 = timers w"
    "release_events w2 = sql_update (\<lambda>r. ev_id r = e) (\<lambda>r. r\<lparr>ev_released_at := Some (clock w)\<rparr>) (release_events w)"
    by (simp_all add: w2_def andthen_step mark_released_app log_app)
  have fin: "finish_release v e d w =
      (if d then bind (db_set_vault_state v Active None None) (\<lambda>_. metrics_inc DrillsCompletedTotal)
       else ret ()) w2"
    unfolding finish_release_def k_def [symmetric] w2_def
    by (simp only: bind_step andthen_step s1 now_app mark_released_app log_app metrics_app
        prod.case outcome.case snd_conv)
  show ?thesis
  proof (cases d)
    case False
    then show ?thesis
      unfolding fin by (auto simp: w2 finish_row_def intro!: sql_update_cong)
  next
    case True
    obtain y where s2: "db_set_vault_state v Active None None w2 = (Ok y, w2\<lparr>vaults := sql_update (\<lambda>r. va_id r = v)
      (\<lambda>r. r\<lparr>va_state := ''ACTIVE'', va_cooling_off_started_at := va_cooling_off_started_at r,
              va_released_at := va_released_at r\<rparr>) (vaults w2)\<rparr>)"
      using set_vault_state_Ok [of w2 v "?f r" Active None None] ok1 [of w2] v1 by (auto simp: w2)
    then show ?thesis
      using True unfolding fin
      by (simp add: bind_step s2 w2 sql_update_twice)
        (auto simp: finish_row_def intro!: sql_update_cong)
  qed
qed

lemma list_signal_letters_app:
  "db_list_letters_for_signal_release v w = (Ok (signal_letters v w), w)"
  by (simp add: db_list_letters_for_signal_release_def signal_letters_def)

text \<open>Whatever the outcome: the deliveries alone when one of them fails, else the whole release.\<close>

lemma perform_release_cases:
  fixes A w v e d
  defines "w1 \<equiv> snd (for_each (\<lambda>l. deliver_letter A e l d) (signal_letters v w) w)"
  assumes "vaults_ok w" and "sql_first (\<lambda>r. va_id r = v) (vaults w) = Some r"
  shows "(\<exists>x. perform_release A v e d w = (Err x, w1)) \<or> (\<exists>x. perform_release A v e d w = (Panic x, w1)) \<or>
    (w1 = fold (deliver_effect A e d) (signal_letters v w) w \<and>
     (\<exists>w'. perform_release A v e d w = (Ok (), w') \<and>
      vaults w' = sql_update (\<lambda>r. va_id r = v) (finish_row d (clock w)) (vaults w) \<and>
      release_events w' = sql_update (\<lambda>r. ev_id r = e) (\<lambda>r. r\<lparr>ev_released_at := Some (clock w)\<rparr>) (release_events w) \<and>
      release_claims w' = release_claims w1 \<and> attachment_claims w' = attachment_claims w1 \<and>
      outbox w' = outbox w1 \<and> letters w' = letters w \<and> timers w' = timers w \<and> clock w' = clock w))"
proof -
  have fr: "delivery_only w w1" unfolding w1_def by (rule deliver_frame)
  obtain o1 where run1: "for_each (\<lambda>l. deliver_letter A e l d) (signal_letters v w) w = (o1, w1)"
    unfolding w1_def by (metis prod.collapse)
  have split: "perform_release A v e d w = (case (o1, w1) of (Ok x, s') \<Rightarrow> finish_release v e d s'
      | (Err e, s') \<Rightarrow> (Err e, s') | (Panic p, s') \<Rightarrow> (Panic p, s'))"
    by (simp add: perform_release_split bind_step list_signal_letters_app andthen_step run1)
  show ?thesis
  proof (cases o1)
    case (Ok u)
    then have "w1 = fold (deliver_effect A e d) (signal_letters v w) w"
      using deliver_all_Ok run1 by fastforce
    moreover have "vaults_ok w1" using assms(2) fr by (simp add: vaults_ok_def delivery_only_sel)
    ultimately show ?thesis
      using finish_release_Ok [of w1 v r e d] assms(3) Ok fr by (simp add: split delivery_only_sel)
  qed (simp_all add: split)
qed

section \<open>Deliveries succeed when the tokens are new\<close>

definition token_hash :: "app \<Rightarrow> world \<Rightarrow> nat \<Rightarrow> bytes" where
  "token_hash A w i = hash_token A (token_at A (rng_pos w + 32 * i))"

definition used_hashes :: "world \<Rightarrow> bytes set" where
  "used_hashes w = cl_token_hash ` set (release_claims w) \<union> ac_token_hash ` set (attachment_claims w)"

definition fresh_tokens :: "app \<Rightarrow> world \<Rightarrow> nat \<Rightarrow> bool" where
  "fresh_tokens A w n \<longleftrightarrow>
     (\<forall>i < n. token_hash A w i \<notin> used_hashes w \<and> (\<forall>j < i. token_hash A w i \<noteq> token_hash A w j))"

lemma fresh_first: "fresh_tokens A w (Suc n) \<Longrightarrow> token_hash A w 0 \<notin> used_hashes w"
  by (simp add: fresh_tokens_def)

text \<open>Using up the first token, whether for a letter or for an attachment.\<close>

lemma fresh_tokens_step:
  assumes f: "fresh_tokens A w (Suc n)" and p: "rng_pos w' = rng_pos w + 32"
    and c: "used_hashes w' \<subseteq> insert (token_hash A w 0) (used_hashes w)"
  shows "fresh_tokens A w' n"
  unfolding fresh_tokens_def
proof (intro allI impI)
  fix i assume i: "i < n"
  have shift: "token_hash A w' j = token_hash A w (Suc j)" for j
    using p by (simp add: token_hash_def add.assoc)
  have new: "token_hash A w (Suc i) \<notin> used_hashes w"
    "\<forall>j < Suc i. token_hash A w (Suc i) \<noteq> token_hash A w j"
    using f i by (simp_all add: fresh_tokens_def)
  then have "token_hash A w (Suc i) \<noteq> token_hash A w 0" by blast
  then show "token_hash A w' i \<notin> used_hashes w' \<and> (\<forall>j < i. token_hash A w' i \<noteq> token_hash A w' j)"
    using new c by (auto simp: shift)
qed

lemma issue_attachments_total:
  assumes "fresh_tokens A w (length as + n)" "e \<in> ev_id ` set (release_events w)"
    "at_id ` set as \<subseteq> ar_id ` set (attachments w)"
  shows "\<exists>links w'. collect (issue_for_attachment A e rcpt) as w = (Ok links, w') \<and> fresh_tokens A w' n"
  using assms
proof (induction as arbitrary: w)
  case Nil
  then show ?case by simp
next
  case (Cons a as)
  let ?w1 = "w\<lparr>rng_pos := rng_pos w + 32, attachment_claims := attachment_claims w @
     [\<lparr>ac_token_hash = hash_token A (token_at A (rng_pos w)), ac_release_event_id = e,
       ac_attachment_id = at_id a, ac_recipient_email = rcpt,
       ac_expires_at = clock w + days 30, ac_claimed_at = None\<rparr>]\<rparr>"
  have f: "fresh_tokens A w (Suc (length as + n))" using Cons.prems(1) by simp
  have "issue_for_attachment A e rcpt a w = (Ok (at_original_filename a, token_at A (rng_pos w)), ?w1)"
    using fresh_first [OF f] Cons.prems(2,3)
    by (simp add: issue_for_attachment_app token_hash_def used_hashes_def)
  moreover have "fresh_tokens A ?w1 (length as + n)"
    by (rule fresh_tokens_step [OF f]) (auto simp: used_hashes_def token_hash_def)
  then obtain links w' where "collect (issue_for_attachment A e rcpt) as ?w1 = (Ok links, w')"
    "fresh_tokens A w' n"
    using Cons.IH [of ?w1] Cons.prems(2,3) by auto
  ultimately show ?case by (simp add: bind_step)
qed

lemma deliver_letter_total:
  assumes f: "fresh_tokens A w (Suc (length (attachments_of (lm_id l) w) + n))"
    and e: "e \<in> ev_id ` set (release_events w)" and l: "lm_id l \<in> le_id ` set (letters w)"
  shows "\<exists>w'. deliver_letter A e l d w = (Ok (), w') \<and> fresh_tokens A w' n \<and> delivery_only w w'"
proof -
  let ?w1 = "w\<lparr>rng_pos := rng_pos w + 32, release_claims := release_claims w @ [claim_for A e l w]\<rparr>"
  have ids: "at_id ` set (attachments_of (lm_id l) w) \<subseteq> ar_id ` set (attachments w)"
    by (auto simp: attachments_of_def row_to_attachment_def)
  have "fresh_tokens A ?w1 (length (attachments_of (lm_id l) w) + n)"
    by (rule fresh_tokens_step [OF f]) (auto simp: used_hashes_def token_hash_def claim_for_def)
  then obtain links w2 where c:
    "collect (issue_for_attachment A e (lm_recipient_email l)) (attachments_of (lm_id l) w) ?w1 = (Ok links, w2)"
    and f2: "fresh_tokens A w2 n"
    using issue_attachments_total [of A ?w1 "attachments_of (lm_id l) w" n e "lm_recipient_email l"] e ids
    by auto
  have first: "hash_token A (token_at A (rng_pos w)) \<notin> cl_token_hash ` set (release_claims w)"
    using fresh_first [OF f] by (simp add: token_hash_def used_hashes_def)
  have "\<exists>w'. deliver_letter A e l d w = (Ok (), w') \<and> (\<exists>ns. w' = w2\<lparr>outbox := ns\<rparr>)"
    using c first e l
    by (auto simp: deliver_letter_def bind_step andthen_step db_issue_release_claim_def
        db_list_attachments_def attachments_of_def claim_for_def token_at_def)
  then obtain w' ns where w': "deliver_letter A e l d w = (Ok (), w')" "w' = w2\<lparr>outbox := ns\<rparr>" by blast
  have "fresh_tokens A w' n"
    using f2 by (simp add: w'(2) fresh_tokens_def token_hash_def used_hashes_def)
  moreover have "delivery_only w w'"
    using keepsD [OF keeps_deliver, of w w A e l d] by (simp add: w'(1))
  ultimately show ?thesis using w'(1) by blast
qed

definition tokens_needed :: "letter_meta list \<Rightarrow> world \<Rightarrow> nat" where
  "tokens_needed ls w = sum_list (map (\<lambda>l. Suc (length (attachments_of (lm_id l) w))) ls)"

lemma deliver_all_total:
  assumes "fresh_tokens A w (tokens_needed ls w)" "e \<in> ev_id ` set (release_events w)"
    "lm_id ` set ls \<subseteq> le_id ` set (letters w)"
  shows "\<exists>w'. for_each (\<lambda>l. deliver_letter A e l d) ls w = (Ok (), w')"
  using assms
proof (induction ls arbitrary: w)
  case Nil
  then show ?case by simp
next
  case (Cons l ls)
  have "fresh_tokens A w (Suc (length (attachments_of (lm_id l) w) + tokens_needed ls w))"
    using Cons.prems(1) by (simp add: tokens_needed_def)
  then obtain w1 where w1: "deliver_letter A e l d w = (Ok (), w1)"
    and f: "fresh_tokens A w1 (tokens_needed ls w)" and o: "delivery_only w w1"
    using deliver_letter_total [of A w l "tokens_needed ls w" e d] Cons.prems(2,3) by auto
  have "tokens_needed ls w1 = tokens_needed ls w"
    using o by (simp add: tokens_needed_def attachments_of_def delivery_only_sel)
  then show ?case
    using Cons.IH [of w1] f Cons.prems(2,3) o by (auto simp: andthen_step w1 delivery_only_sel)
qed

end
