(* ===== verification/ReleaseProps.thy ===== *)
theory ReleaseProps
  imports PipelineFacts Samples
begin

text \<open>
  Properties of the release pipeline: a release is claimed once, delivers exactly the
  signal letters of its vault, and is abandoned when the vault left COOLING_OFF; the poll
  loop never fires before a deadline; a failed delivery leaves the vault in RELEASING.
\<close>

section \<open>Rows of one vault\<close>

definition rows_of :: "vault_id \<Rightarrow> world \<Rightarrow> vault_row list" where
  "rows_of u w = filter (\<lambda>r. va_id r = u) (vaults w)"

lemma filter_update_other:
  assumes "\<And>r. P r \<Longrightarrow> \<not> Q r" "\<And>r. P r \<Longrightarrow> \<not> Q (f r)"
  shows "filter Q (sql_update P f t) = filter Q t"
  using assms by (induction t) auto

lemma state_of_rows: "state_of w v = (case rows_of v w of [] \<Rightarrow> None | r # _ \<Rightarrow> Some (va_state r))"
proof -
  have "sql_first (\<lambda>r. va_id r = v) t = (case filter (\<lambda>r. va_id r = v) t of [] \<Rightarrow> None | r # _ \<Rightarrow> Some r)" for t :: "vault_row list"
    by (induction t) auto
  then show ?thesis
    by (cases "filter (\<lambda>r. va_id r = v) (vaults w)") (simp_all add: state_of_def rows_of_def)
qed

definition keeps_rows :: "vault_id \<Rightarrow> (world, 'e, 'a) prog \<Rightarrow> bool" where
  "keeps_rows u m \<longleftrightarrow> (\<forall>c. keeps (\<lambda>w. rows_of u w = c) m)"

lemma keeps_rowsD: "keeps_rows u m \<Longrightarrow> rows_of u (snd (m w)) = rows_of u w"
  by (simp add: keeps_rows_def keeps_def)

lemma keeps_rowsI: "(\<And>w. rows_of u (snd (m w)) = rows_of u w) \<Longrightarrow> keeps_rows u m"
  by (simp add: keeps_rows_def keeps_def)

lemma keeps_rows_vaults: "(\<And>w. vaults (snd (m w)) = vaults w) \<Longrightarrow> keeps_rows u m"
  by (simp add: keeps_rows_def keeps_def rows_of_def)

lemma keeps_rows_bind: "keeps_rows u m \<Longrightarrow> (\<And>x. keeps_rows u (f x)) \<Longrightarrow> keeps_rows u (bind m f)"
  by (auto simp: keeps_rows_def intro!: keeps_bind)

lemma keeps_rows_andthen: "keeps_rows u m \<Longrightarrow> keeps_rows u n \<Longrightarrow> keeps_rows u (andthen m n)"
  by (simp add: andthen_def keeps_rows_bind)

lemma keeps_rows_for_each: "(\<And>x. x \<in> set xs \<Longrightarrow> keeps_rows u (f x)) \<Longrightarrow> keeps_rows u (for_each f xs)"
  by (induction xs) (simp_all add: keeps_rows_andthen keeps_rows_vaults [where m = "ret ()"])

lemma keeps_rows_if: "(b \<Longrightarrow> keeps_rows u m) \<Longrightarrow> (\<not> b \<Longrightarrow> keeps_rows u n) \<Longrightarrow> keeps_rows u (if b then m else n)"
  by simp

lemma keeps_rows_ignore: "keeps_rows u m \<Longrightarrow> keeps_rows u (ignore m)"
  by (simp add: keeps_rows_def keeps_ignore)

lemma keeps_rows_prims:
  "keeps_rows u (ret x)" "keeps_rows u now" "keeps_rows u (gets g)" "keeps_rows u (metrics_inc k)"
  "keeps_rows u (db_append_transparency_entry s i v)" "keeps_rows u (db_mark_release_released e)"
  "keeps_rows u (db_list_letters_for_signal_release x2)"
  by (rule keeps_rows_vaults;
      simp add: db_append_transparency_entry_def db_list_letters_for_signal_release_def
        mark_released_app bind_step)+

lemma keeps_rows_deliver: "keeps_rows u (deliver_letter A e l d)"
proof (rule keeps_rows_vaults)
  fix w
  have "delivery_only w (snd (deliver_letter A e l d w))"
    by (rule keepsD [OF keeps_deliver]) simp
  then show "vaults (snd (deliver_letter A e l d w)) = vaults w"
    by (simp add: delivery_only_sel)
qed

lemma row_to_vault_world: "row_to_vault cols r w = (x, w') \<Longrightarrow> w' = w"
  using row_to_vault_read [of cols r w] by simp

lemma keeps_rows_set_state:
  assumes "u \<noteq> v" shows "keeps_rows u (db_set_vault_state v st c rel)"
proof (rule keeps_rowsI)
  fix w :: world
  have "filter (\<lambda>r. va_id r = u) (sql_update (\<lambda>r. va_id r = v)
      (\<lambda>r. r\<lparr>va_state := vault_state_as_db_str st,
        va_cooling_off_started_at := coalesce c (va_cooling_off_started_at r),
        va_released_at := coalesce rel (va_released_at r)\<rparr>) (vaults w)) = filter (\<lambda>r. va_id r = u) (vaults w)"
    using assms by (intro filter_update_other) auto
  then show "rows_of u (snd (db_set_vault_state v st c rel w)) = rows_of u w"
    by (simp add: set_vault_state_app Let_def rows_of_def row_to_vault_read split: option.split)
qed

lemma keeps_rows_claim:
  assumes "u \<noteq> v" shows "keeps_rows u (db_claim_vault_for_release v)"
proof (rule keeps_rowsI)
  fix w :: world
  have "filter (\<lambda>r. va_id r = u) (sql_update (\<lambda>r. va_id r = v \<and> va_state r = ''COOLING_OFF'')
      (\<lambda>r. r\<lparr>va_state := ''RELEASING''\<rparr>) (vaults w)) = filter (\<lambda>r. va_id r = u) (vaults w)"
    using assms by (intro filter_update_other) auto
  then show "rows_of u (snd (db_claim_vault_for_release v w)) = rows_of u w"
    by (simp add: claim_release_app rows_of_def)
qed

lemma keeps_rows_perform: "u \<noteq> v \<Longrightarrow> keeps_rows u (perform_release A v e d)"
  unfolding perform_release_def
  by (intro keeps_rows_bind keeps_rows_andthen keeps_rows_for_each keeps_rows_if keeps_rows_ignore
      keeps_rows_deliver keeps_rows_set_state keeps_rows_prims; assumption)

section \<open>The claim\<close>

lemma claim_release_lost:
  assumes "keyed va_id (vaults w)" "state_of w v \<noteq> Some ''COOLING_OFF''"
  shows "db_claim_vault_for_release v w = (Ok False, w)"
proof -
  have none: "\<not> (va_id r = v \<and> va_state r = ''COOLING_OFF'')" if "r \<in> set (vaults w)" for r
    using assms that by (auto simp: state_of_Some_iff)
  have "sql_update (\<lambda>r. va_id r = v \<and> va_state r = ''COOLING_OFF'')
      (\<lambda>r. r\<lparr>va_state := ''RELEASING''\<rparr>) (vaults w) = vaults w"
    by (rule sql_update_none) (use none in blast)
  moreover have "sql_count (\<lambda>r. va_id r = v \<and> va_state r = ''COOLING_OFF'') (vaults w) = 0"
    using none by (simp add: sql_count_def filter_empty_conv)
  ultimately show ?thesis by (simp add: claim_release_app)
qed

lemma claim_release_lost_all:
  assumes "keyed va_id (vaults w)" "state_of w v \<noteq> Some ''COOLING_OFF''"
  shows "collect (\<lambda>_. db_claim_vault_for_release v) xs w = (Ok (replicate (length xs) False), w)"
  by (induction xs) (simp_all add: bind_step claim_release_lost [OF assms])

text \<open>C1: A release is claimed exactly once. Of any number of workers (the request's own
timer, the poll loops of all replicas) that try the COOLING_OFF to RELEASING update on a
vault, in sequence, the first wins when the vault is cooling off and every other one loses;
when it is not, all of them lose.\<close>

theorem release_claimed_once:
  assumes "keyed va_id (vaults w)"
  shows "fst (collect (\<lambda>_. db_claim_vault_for_release v) (replicate (Suc n) worker) w) =
    Ok ((state_of w v = Some ''COOLING_OFF'') # replicate n False)"
proof -
  let ?w1 = "snd (db_claim_vault_for_release v w)"
  have "db_claim_vault_for_release v w = (Ok (state_of w v = Some ''COOLING_OFF''), ?w1)"
    using claim_release_wins_iff [OF assms, of v] by (metis prod.collapse)
  moreover have "collect (\<lambda>_. db_claim_vault_for_release v) (replicate n worker) ?w1 =
      (Ok (replicate n False), ?w1)"
    using claim_release_lost_all [of ?w1 v "replicate n worker"] assms
    by (simp add: claim_release_state)
  ultimately show ?thesis by (simp add: bind_Ok)
qed

theorem release_claimed_once_witness:
  "fst (collect (\<lambda>_. db_claim_vault_for_release (VaultId 7)) (replicate (Suc 1) ())
      (empty_world\<lparr>vaults := [sample_vault ''COOLING_OFF'']\<rparr>)) = Ok [True, False]"
proof -
  let ?w = "empty_world\<lparr>vaults := [sample_vault ''COOLING_OFF'']\<rparr>"
  have "keyed va_id (vaults ?w)" by (simp add: keyed_def)
  then have "fst (collect (\<lambda>_. db_claim_vault_for_release (VaultId 7)) (replicate (Suc 1) ()) ?w) =
      Ok ((state_of ?w (VaultId 7) = Some ''COOLING_OFF'') # replicate 1 False)"
    by (rule release_claimed_once)
  then show ?thesis by (simp add: state_of_def sample_vault_def)
qed

section \<open>The release\<close>

lemma state_of_first: "state_of w v = Some s \<Longrightarrow> \<exists>r. sql_first (\<lambda>r. va_id r = v) (vaults w) = Some r \<and> va_state r = s"
  by (auto simp: state_of_def)

definition claimed :: "vault_id \<Rightarrow> world \<Rightarrow> world" where
  "claimed v w = snd (db_claim_vault_for_release v w)"

lemma claimed_sel [simp]:
  "letters (claimed v w) = letters w" "release_events (claimed v w) = release_events w"
  "release_claims (claimed v w) = release_claims w" "attachment_claims (claimed v w) = attachment_claims w"
  "attachments (claimed v w) = attachments w" "clock (claimed v w) = clock w" "rng_pos (claimed v w) = rng_pos w"
  "timers (claimed v w) = timers w" "outbox (claimed v w) = outbox w"
  by (simp_all add: claimed_def claim_release_app)

lemma claimed_ok: "vaults_ok w \<Longrightarrow> vaults_ok (claimed v w)"
  by (rule vaults_ok_update [where f = "\<lambda>r. r\<lparr>va_state := ''RELEASING''\<rparr>"])
    (simp_all add: claimed_def claim_release_app vault_row_ok_def state_in_range)

lemma elapse_claimed:
  assumes "vaults_ok w" "state_of w v = Some ''COOLING_OFF''"
  shows "elapse_release A v e d w = perform_release A v e d (claimed v w)"
    and "state_of (claimed v w) v = Some ''RELEASING''"
proof -
  have k: "keyed va_id (vaults w)" using assms(1) by (simp add: vaults_ok_def)
  have "db_claim_vault_for_release v w = (Ok True, claimed v w)"
    using claim_release_wins_iff [OF k, of v] assms(2) by (metis claimed_def prod.collapse)
  then show "elapse_release A v e d w = perform_release A v e d (claimed v w)"
    by (simp add: elapse_release_def bind_step)
  show "state_of (claimed v w) v = Some ''RELEASING''"
    using assms(2) by (simp add: claimed_def claim_release_state)
qed

lemma finish_state:
  assumes "vaults w' = sql_update (\<lambda>r. va_id r = v) (finish_row d t) (vaults w)" "state_of w v \<noteq> None"
  shows "state_of w' v = Some (if d then ''ACTIVE'' else ''RELEASED'')"
proof -
  obtain r where r: "sql_first (\<lambda>r. va_id r = v) (vaults w) = Some r"
    using assms(2) by (auto simp: state_of_def)
  have "sql_first (\<lambda>r. va_id r = v) (vaults w') = Some (finish_row d t r)"
    unfolding assms(1) by (subst sql_first_update) (use r sql_first_Some [OF r] in \<open>auto simp: finish_row_def\<close>)
  then show ?thesis by (simp add: state_of_def finish_row_def)
qed

lemma elapse_lost:
  assumes "keyed va_id (vaults w)" "state_of w v \<noteq> Some ''COOLING_OFF''"
  shows "elapse_release A v e d w = (Ok (), w)"
  by (simp add: elapse_release_def bind_step claim_release_lost [OF assms])

lemma elapse_delivers:
  assumes "vaults_ok w" and "state_of w v = Some ''COOLING_OFF''"
    and "e \<in> ev_id ` set (release_events w)"
    and "fresh_tokens A w (tokens_needed (signal_letters v w) w)"
  shows "\<exists>w' new. elapse_release A v e is_drill w = (Ok (), w')
    \<and> state_of w' v = Some (if is_drill then ''ACTIVE'' else ''RELEASED'')
    \<and> release_events w' = sql_update (\<lambda>r. ev_id r = e) (\<lambda>r. r\<lparr>ev_released_at := Some (clock w)\<rparr>)
        (release_events w)
    \<and> release_claims w' = release_claims w @ new
    \<and> map claim_view new =
        map (\<lambda>l. (lm_id l, lm_recipient_email l, e, clock w + days 30, None)) (signal_letters v w)"
proof -
  let ?c = "claimed v w"
  have ls: "signal_letters v ?c = signal_letters v w"
    by (simp add: signal_letters_def)
  have "fresh_tokens A ?c (tokens_needed (signal_letters v w) ?c)"
    using assms(4) by (simp add: fresh_tokens_def token_hash_def used_hashes_def tokens_needed_def attachments_of_def)
  moreover have "lm_id ` set (signal_letters v w) \<subseteq> le_id ` set (letters ?c)"
    by (auto simp: signal_letters_def row_to_letter_meta_def)
  ultimately obtain w1 where w1: "for_each (\<lambda>l. deliver_letter A e l is_drill) (signal_letters v w) ?c = (Ok (), w1)"
    using deliver_all_total [of A ?c "signal_letters v w" e is_drill] assms(3) by auto
  then have w1': "w1 = fold (deliver_effect A e is_drill) (signal_letters v w) ?c"
    by (rule deliver_all_Ok)
  obtain r where r: "sql_first (\<lambda>r. va_id r = v) (vaults ?c) = Some r"
    using elapse_claimed(2) [OF assms(1,2)] by (auto simp: state_of_def)
  have fr: "delivery_only ?c w1"
    using deliver_frame [of ?c A e is_drill "signal_letters v w"] w1 by simp
  have "vaults_ok w1" "sql_first (\<lambda>r. va_id r = v) (vaults w1) = Some r"
    using claimed_ok [OF assms(1)] fr r by (simp_all add: vaults_ok_def delivery_only_sel)
  from finish_release_Ok [OF this, of e is_drill] obtain w' where
    fin: "finish_release v e is_drill w1 = (Ok (), w')"
    and v': "vaults w' = sql_update (\<lambda>r. va_id r = v) (finish_row is_drill (clock w1)) (vaults w1)"
    and ev': "release_events w' = sql_update (\<lambda>r. ev_id r = e) (\<lambda>r. r\<lparr>ev_released_at := Some (clock w1)\<rparr>) (release_events w1)"
    and cl': "release_claims w' = release_claims w1"
    by blast
  have run: "elapse_release A v e is_drill w = (Ok (), w')"
    by (simp add: elapse_claimed(1) [OF assms(1,2)] perform_release_split bind_step
        list_signal_letters_app andthen_step ls w1 fin)
  have "state_of w1 v \<noteq> None"
    using r fr by (simp add: state_of_def delivery_only_sel)
  then have "state_of w' v = Some (if is_drill then ''ACTIVE'' else ''RELEASED'')"
    by (rule finish_state [OF v'])
  moreover obtain new where "release_claims w1 = release_claims w @ new"
    "map claim_view new = map (\<lambda>l. (lm_id l, lm_recipient_email l, e, clock w + days 30, None)) (signal_letters v w)"
    using deliver_all_claims [of A e is_drill "signal_letters v w" ?c] by (auto simp: w1')
  ultimately show ?thesis
    using run ev' cl' fr by (auto simp: delivery_only_sel)
qed

text \<open>C2: A release whose cooling-off elapsed delivers: the vault ends RELEASED (a drill returns
it to ACTIVE), the event is closed, and the claims issued are exactly one for each letter of
the vault whose mode fires on a signal, in order, addressed to its current recipient,
bound to this event, unclaimed and valid for thirty days. (The random tokens needed must be
new, which the primary key of the claim tables enforces.)\<close>

theorem release_delivers:
  assumes "vaults_ok w" and "state_of w v = Some ''COOLING_OFF''"
    and "e \<in> ev_id ` set (release_events w)"
    and "fresh_tokens A w (tokens_needed (signal_letters v w) w)"
  shows "\<exists>w' new. elapse_release A v e is_drill w = (Ok (), w')
    \<and> state_of w' v = Some (if is_drill then ''ACTIVE'' else ''RELEASED'')
    \<and> release_events w' = sql_update (\<lambda>r. ev_id r = e) (\<lambda>r. r\<lparr>ev_released_at := Some (clock w)\<rparr>)
        (release_events w)
    \<and> release_claims w' = release_claims w @ new
    \<and> map claim_view new =
        map (\<lambda>l. (lm_id l, lm_recipient_email l, e, clock w + days 30, None)) (signal_letters v w)"
  by (rule elapse_delivers [OF assms])

lemma sample_ok: "vaults_ok sample_world"
  using rangeI [of tier_as_db_str HonestOperator] rangeI [of region_as_aws_str EuCentral1] state_in_range
  by (simp add: vaults_ok_def keyed_def vault_row_ok_def sample_defs)

lemma sample_signal_letters: "signal_letters (VaultId 7) sample_world =
    [row_to_letter_meta (sample_letter 2 ''SIGNAL_ONLY'')]"
  by (simp add: signal_letters_def sample_defs sql_select_def order_by_def)

lemma sample_tokens: "fresh_tokens sample_app sample_world 1"
  by (simp add: fresh_tokens_def used_hashes_def sample_defs)

theorem release_delivers_witness:
  "\<exists>w' new. elapse_release sample_app (VaultId 7) (ReleaseEventId 3) False sample_world = (Ok (), w')
    \<and> state_of w' (VaultId 7) = Some (if False then ''ACTIVE'' else ''RELEASED'')
    \<and> release_events w' = sql_update (\<lambda>r. ev_id r = ReleaseEventId 3)
        (\<lambda>r. r\<lparr>ev_released_at := Some (clock sample_world)\<rparr>) (release_events sample_world)
    \<and> release_claims w' = release_claims sample_world @ new
    \<and> map claim_view new =
        map (\<lambda>l. (lm_id l, lm_recipient_email l, ReleaseEventId 3, clock sample_world + days 30, None))
          (signal_letters (VaultId 7) sample_world)"
proof (rule release_delivers [OF sample_ok])
  show "state_of sample_world (VaultId 7) = Some ''COOLING_OFF''"
    by (simp add: state_of_def sample_defs)
  show "ReleaseEventId 3 \<in> ev_id ` set (release_events sample_world)"
    by (simp add: sample_defs)
  have "attachments_of l sample_world = []" for l
    by (simp add: attachments_of_def sample_defs sql_select_def order_by_def)
  then show "fresh_tokens sample_app sample_world
      (tokens_needed (signal_letters (VaultId 7) sample_world) sample_world)"
    using sample_tokens by (simp add: sample_signal_letters tokens_needed_def)
qed

section \<open>Timers of old requests\<close>

lemma list_due_app:
  assumes "keyed va_id (vaults w)"
    and "\<forall>r \<in> set (release_events w). ev_vault_id r = v \<and> open_event r \<longrightarrow> \<not> elapsed (ev_cooling_off_ends_at r) (clock w)"
  shows "\<exists>due. db_list_due_releases (clock w) w = (Ok due, w) \<and> v \<notin> fst ` set due"
  using assms(2) by (force simp: db_list_due_releases_def)

text \<open>C5: A stale timer. The timer of a release request carries no check that its event is still open.
When it fires while the vault is in cooling-off again on account of another event, it takes the
vault through the release, at once, issuing the claims of every signal letter under its own event,
although no open event of the vault is due and the poll loop would leave the vault alone. A drill's
timer in the same way ends the cooling-off of a real release.\<close>

theorem stale_timer_releases_early:
  assumes "vaults_ok w" and "tm \<in> set (timers w)" and "tm_fires_at tm \<le> clock w"
    and "state_of w (tm_vault tm) = Some ''COOLING_OFF''"
    and "tm_event tm \<in> ev_id ` set (release_events w)"
    and "\<forall>r \<in> set (release_events w). ev_vault_id r = tm_vault tm \<and> open_event r \<longrightarrow>
           \<not> elapsed (ev_cooling_off_ends_at r) (clock w)"
    and "fresh_tokens A w (tokens_needed (signal_letters (tm_vault tm) w) w)"
  shows "(\<exists>due. db_list_due_releases (clock w) w = (Ok due, w) \<and> tm_vault tm \<notin> fst ` set due)
    \<and> (\<exists>w' new. fire_timer A tm w = (Ok (), w')
         \<and> state_of w' (tm_vault tm) = Some (if tm_is_drill tm then ''ACTIVE'' else ''RELEASED'')
         \<and> release_claims w' = release_claims w @ new
         \<and> map claim_view new = map (\<lambda>l. (lm_id l, lm_recipient_email l, tm_event tm, clock w + days 30, None))
             (signal_letters (tm_vault tm) w))"
proof
  show "\<exists>due. db_list_due_releases (clock w) w = (Ok due, w) \<and> tm_vault tm \<notin> fst ` set due"
    using assms(1,6) by (intro list_due_app) (simp_all add: vaults_ok_def)
next
  let ?w = "w\<lparr>timers := remove1 tm (timers w)\<rparr>"
  have "vaults_ok ?w" using assms(1) by (simp add: vaults_ok_def)
  moreover have "state_of ?w (tm_vault tm) = Some ''COOLING_OFF''" using assms(4) by (simp add: state_of_def)
  moreover have "signal_letters (tm_vault tm) ?w = signal_letters (tm_vault tm) w" by (simp add: signal_letters_def)
  moreover from this have "fresh_tokens A ?w (tokens_needed (signal_letters (tm_vault tm) ?w) ?w)"
    using assms(7) by (simp add: fresh_tokens_def token_hash_def used_hashes_def tokens_needed_def attachments_of_def)
  ultimately obtain w' new where
    r: "elapse_release A (tm_vault tm) (tm_event tm) (tm_is_drill tm) ?w = (Ok (), w')" and
    "state_of w' (tm_vault tm) = Some (if tm_is_drill tm then ''ACTIVE'' else ''RELEASED'')"
    "release_claims w' = release_claims w @ new"
    "map claim_view new = map (\<lambda>l. (lm_id l, lm_recipient_email l, tm_event tm, clock w + days 30, None))
       (signal_letters (tm_vault tm) w)"
    using elapse_delivers [of ?w "tm_vault tm" "tm_event tm" A "tm_is_drill tm"] assms(5) by auto
  moreover have "fire_timer A tm w = (Ok (), w')"
    using assms(2,3) r by (simp add: fire_timer_def andthen_step ignore_step)
  ultimately show "\<exists>w' new. fire_timer A tm w = (Ok (), w')
         \<and> state_of w' (tm_vault tm) = Some (if tm_is_drill tm then ''ACTIVE'' else ''RELEASED'')
         \<and> release_claims w' = release_claims w @ new
         \<and> map claim_view new = map (\<lambda>l. (lm_id l, lm_recipient_email l, tm_event tm, clock w + days 30, None))
             (signal_letters (tm_vault tm) w)"
    by blast
qed

text \<open>
  The owner forced a release, cancelled it, and forced another with a later deadline; the timer of
  the first one fires.
\<close>

definition first_timer :: timer where
  "first_timer = \<lparr>tm_vault = VaultId 7, tm_event = ReleaseEventId 3, tm_fires_at = 4, tm_is_drill = False\<rparr>"

definition twice_forced :: world where
  "twice_forced = sample_world\<lparr>timers := [first_timer],
     release_events := [sample_event 3 4\<lparr>ev_cancelled_at := Some 2\<rparr>, sample_event 4 5000]\<rparr>"

theorem stale_timer_releases_early_witness:
  "\<exists>w'. fire_timer sample_app first_timer twice_forced = (Ok (), w') \<and> clock twice_forced = 5
     \<and> map ev_cooling_off_ends_at (filter open_event (release_events twice_forced)) = [Some 5000]
     \<and> state_of w' (VaultId 7) = Some ''RELEASED''"
proof -
  have l: "signal_letters (VaultId 7) twice_forced = [row_to_letter_meta (sample_letter 2 ''SIGNAL_ONLY'')]"
    using sample_signal_letters by (simp add: signal_letters_def twice_forced_def)
  have "attachments_of l twice_forced = []" for l
    by (simp add: attachments_of_def twice_forced_def sample_defs sql_select_def order_by_def)
  then have "tokens_needed (signal_letters (VaultId 7) twice_forced) twice_forced = 1"
    by (simp add: l tokens_needed_def)
  moreover have "fresh_tokens sample_app twice_forced 1"
    using sample_tokens by (simp add: fresh_tokens_def token_hash_def used_hashes_def twice_forced_def)
  ultimately have "fresh_tokens sample_app twice_forced (tokens_needed (signal_letters (VaultId 7) twice_forced) twice_forced)"
    by simp
  moreover have "vaults_ok twice_forced" using sample_ok by (simp add: vaults_ok_def twice_forced_def)
  moreover have "state_of twice_forced (VaultId 7) = Some ''COOLING_OFF''"
    by (simp add: state_of_def twice_forced_def sample_defs)
  ultimately show ?thesis
    using stale_timer_releases_early [of twice_forced first_timer sample_app]
    by (auto simp: twice_forced_def first_timer_def sample_world_def sample_event_def open_event_def elapsed_def)
qed

text \<open>A cancelled or already fired release is abandoned: when the vault is not cooling off,
the timer of an old request changes nothing at all.\<close>

theorem release_abandoned:
  assumes "keyed va_id (vaults w)" and "state_of w v \<noteq> Some ''COOLING_OFF''"
  shows "elapse_release A v e is_drill w = (Ok (), w)"
  by (rule elapse_lost [OF assms])

theorem release_abandoned_witness:
  "elapse_release sample_app (VaultId 7) (ReleaseEventId 3) False
     (empty_world\<lparr>vaults := [sample_vault ''ACTIVE'']\<rparr>) =
   (Ok (), empty_world\<lparr>vaults := [sample_vault ''ACTIVE'']\<rparr>)"
  by (rule release_abandoned) (simp_all add: keyed_def state_of_def sample_vault_def)

text \<open>C4: A release that fails while it delivers is stuck: the vault is left in RELEASING, from
where no timer and no pass of the poll loop, at any time, takes it further.\<close>

theorem failed_release_is_stuck:
  assumes "vaults_ok w" and "state_of w v = Some ''COOLING_OFF''"
    and "elapse_release A v e is_drill w = (Err x, w')"
  shows "state_of w' v = Some ''RELEASING''
    \<and> elapse_release A v e2 is_drill2 w' = (Ok (), w')
    \<and> (\<forall>due. db_list_due_releases t w' = (Ok due, w') \<longrightarrow> (v, e2, is_drill2) \<notin> set due)"
proof -
  let ?c = "claimed v w" and ?w1 = "snd (for_each (\<lambda>l. deliver_letter A e l is_drill)
      (signal_letters v (claimed v w)) (claimed v w))"
  obtain r where r: "sql_first (\<lambda>r. va_id r = v) (vaults ?c) = Some r"
    using elapse_claimed(2) [OF assms(1,2)] by (auto simp: state_of_def)
  have "w' = ?w1"
    using perform_release_cases [OF claimed_ok [OF assms(1)] r, of A e is_drill] assms(3)
    by (auto simp: elapse_claimed(1) [OF assms(1,2)])
  then have v': "vaults w' = vaults ?c"
    using deliver_frame by (metis delivery_only_sel(1))
  then have s: "state_of w' v = Some ''RELEASING''"
    using elapse_claimed(2) [OF assms(1,2)] by (simp add: state_of_def)
  have k: "keyed va_id (vaults w')"
    using claimed_ok [OF assms(1)] v' by (simp add: vaults_ok_def)
  have "\<not> (\<exists>q \<in> set (vaults w'). va_id q = v \<and> va_state q = ''COOLING_OFF'')"
    using s state_of_Some_iff [OF k, of v "''COOLING_OFF''"] by simp
  then show ?thesis
    using s by (auto simp: db_list_due_releases_def elapse_lost [OF k])
qed

text \<open>Two letters and a hash that maps every token to the same bytes: the second claim fails.\<close>

definition colliding_app :: app where
  "colliding_app = sample_app\<lparr>sha256 := (\<lambda>_. [0])\<rparr>"

definition two_letters :: world where
  "two_letters = sample_world\<lparr>letters := [sample_letter 2 ''SIGNAL_ONLY'', sample_letter 4 ''SIGNAL_ONLY'']\<rparr>"

theorem failed_release_is_stuck_witness:
  "\<exists>w'. elapse_release colliding_app (VaultId 7) (ReleaseEventId 3) False two_letters =
      (Err (Sqlx ''release_claim''), w')
    \<and> state_of w' (VaultId 7) = Some ''RELEASING''
    \<and> elapse_release colliding_app (VaultId 7) (ReleaseEventId 3) False w' = (Ok (), w')
    \<and> (\<forall>due. db_list_due_releases 9 w' = (Ok due, w') \<longrightarrow> (VaultId 7, ReleaseEventId 3, False) \<notin> set due)"
proof -
  have ok: "vaults_ok two_letters"
    using sample_ok by (simp add: two_letters_def vaults_ok_def)
  have st: "state_of two_letters (VaultId 7) = Some ''COOLING_OFF''"
    by (simp add: two_letters_def state_of_def sample_defs)
  have ls: "signal_letters (VaultId 7) (claimed (VaultId 7) two_letters) =
      map row_to_letter_meta [sample_letter 2 ''SIGNAL_ONLY'', sample_letter 4 ''SIGNAL_ONLY'']"
    by (simp add: signal_letters_def two_letters_def sample_defs sql_select_def order_by_def)
  have run: "fst (for_each (\<lambda>l. deliver_letter colliding_app (ReleaseEventId 3) l False)
      (signal_letters (VaultId 7) (claimed (VaultId 7) two_letters)) (claimed (VaultId 7) two_letters))
      = Err (Sqlx ''release_claim'')"
    unfolding ls
    by (simp add: andthen_step bind_step deliver_letter_def db_issue_release_claim_def
        db_list_attachments_def row_to_letter_meta_def hash_token_def colliding_app_def
        two_letters_def sample_defs sql_select_def order_by_def)
  then obtain w' where w': "for_each (\<lambda>l. deliver_letter colliding_app (ReleaseEventId 3) l False)
      (signal_letters (VaultId 7) (claimed (VaultId 7) two_letters)) (claimed (VaultId 7) two_letters)
      = (Err (Sqlx ''release_claim''), w')"
    by (metis prod.collapse)
  then have e: "elapse_release colliding_app (VaultId 7) (ReleaseEventId 3) False two_letters =
      (Err (Sqlx ''release_claim''), w')"
    by (simp add: elapse_claimed(1) [OF ok st] perform_release_split bind_step list_signal_letters_app
        andthen_step)
  then show ?thesis
    using failed_release_is_stuck [OF ok st e] by blast
qed

section \<open>The poll loop\<close>

lemma db_list_due_app: "db_list_due_releases t w = (Ok due, w') \<Longrightarrow> (v, e, d) \<in> set due \<Longrightarrow>
    \<exists>r \<in> set (release_events w). ev_id r = e \<and> ev_vault_id r = v \<and> open_event r
      \<and> elapsed (ev_cooling_off_ends_at r) t"
  by (auto simp: db_list_due_releases_def)

lemma keeps_rows_poll:
  assumes "v \<notin> fst ` set due"
  shows "keeps_rows v (for_each (\<lambda>(v, e, d). bind (db_claim_vault_for_release v)
    (\<lambda>won. if won then ignore (perform_release A v e d) else ret ())) due)"
proof (rule keeps_rows_for_each)
  fix x assume x: "x \<in> set due"
  obtain u e d where xx: "x = (u, e, d)" using prod_cases3 by blast
  have "v \<noteq> u" using x assms unfolding xx by force
  then show "keeps_rows v ((\<lambda>(v, e, d). bind (db_claim_vault_for_release v)
      (\<lambda>won. if won then ignore (perform_release A v e d) else ret ())) x)"
    unfolding xx prod.case
    by (intro keeps_rows_bind keeps_rows_if keeps_rows_ignore keeps_rows_claim keeps_rows_perform keeps_rows_prims)
qed

text \<open>C3: The poll loop never releases early: a vault none of whose open release events has an
elapsed deadline is not touched by a pass, whatever else the pass releases.\<close>

theorem poll_respects_deadlines:
  assumes "\<forall>r \<in> set (release_events w). ev_vault_id r = v \<and> open_event r
    \<longrightarrow> \<not> elapsed (ev_cooling_off_ends_at r) (clock w)"
  shows "rows_of v (snd (release_elapse_tick A w)) = rows_of v w"
proof -
  obtain due where due: "db_list_due_releases (clock w) w = (Ok due, w)"
    by (simp add: db_list_due_releases_def)
  have "v \<notin> fst ` set due"
    using db_list_due_app [OF due] assms by force
  then show ?thesis
    using keeps_rowsD [OF keeps_rows_poll] by (simp add: release_elapse_tick_def bind_step due)
qed

theorem poll_respects_deadlines_witness:
  "rows_of (VaultId 7) (snd (release_elapse_tick sample_app (sample_world\<lparr>clock := 3\<rparr>))) =
   rows_of (VaultId 7) (sample_world\<lparr>clock := 3\<rparr>)"
  by (rule poll_respects_deadlines) (simp add: sample_defs)

end
