(* ===== verification/LivenessProps.thy ===== *)
theory LivenessProps
  imports NoPanic SystemProps ReleaseProps
begin

text \<open>
  The server answers and the poll loop makes progress: no request and no worker but the
  aggregator panics, and one pass of the poll loop takes every due vault out of COOLING_OFF.
\<close>

section \<open>No panic\<close>


section \<open>The poll loop\<close>

lemma decoded_range:
  "tier_from_db_str s = Inr t \<Longrightarrow> s \<in> range tier_as_db_str"
  "vault_state_from_db_str s = Inr st \<Longrightarrow> s \<in> range vault_state_as_db_str"
  "region_from_aws_str s = Inr g \<Longrightarrow> s \<in> range region_as_aws_str"
  by (auto simp: tier_from_db_str_def vault_state_from_db_str_def region_from_aws_str_def image_iff
      split: if_splits intro: exI tier_as_db_str.simps [symmetric] vault_state_as_db_str.simps [symmetric]
      region_as_aws_str.simps [symmetric])

lemma consistent_vaults_ok: "consistent w \<Longrightarrow> vaults_ok w"
  by (auto simp: consistent_def keys_ok_def enums_ok_def vaults_ok_def fresh_keyed_def vault_parses_def
      vault_row_ok_def parses_def dest: decoded_range)

definition poll_one :: "app \<Rightarrow> vault_id \<times> release_event_id \<times> bool \<Rightarrow> unit db_prog" where
  "poll_one A = (\<lambda>(v, e, is_drill). bind (db_claim_vault_for_release v) (\<lambda>won.
     if won then ignore (perform_release A v e is_drill) else ret ()))"

abbreviation moved_on :: "string option \<Rightarrow> bool" where
  "moved_on s \<equiv> s \<in> Some ` {''RELEASING'', ''RELEASED'', ''ACTIVE''}"

lemma perform_moves_on:
  assumes "vaults_ok w" "state_of w v = Some ''RELEASING''"
  shows "moved_on (state_of (snd (perform_release A v e d w)) v)"
proof -
  obtain r where r: "sql_first (\<lambda>r. va_id r = v) (vaults w) = Some r"
    using assms(2) by (auto simp: state_of_def)
  let ?w1 = "snd (for_each (\<lambda>l. deliver_letter A e l d) (signal_letters v w) w)"
  have same: "state_of ?w1 v = Some ''RELEASING''"
    using assms(2) delivery_only_sel(1) [OF deliver_frame [of w A e d "signal_letters v w"]]
    by (simp add: state_of_def)
  have fin: "moved_on (state_of w' v)"
    if "vaults w' = sql_update (\<lambda>r. va_id r = v) (finish_row d (clock w)) (vaults w)" for w'
    using finish_state [OF that] assms(2) by simp
  from perform_release_cases [OF assms(1) r, of A e d] same show ?thesis
    by (elim disjE exE conjE) (simp_all add: fin [simplified])
qed

lemma poll_one_runs: "\<exists>w'. poll_one A x w = (Ok (), w')"
proof -
  obtain v e d where x: "x = (v, e, d)" by (cases x)
  have "\<exists>w'. ignore (perform_release A v e d) s = (Ok (), w')" for s
    using calmD [OF calm_perform_release, of A v e d s]
    by (cases "perform_release A v e d s"; cases "fst (perform_release A v e d s)") (simp_all add: ignore_step)
  then show ?thesis
    by (simp add: x poll_one_def bind_step claim_release_app) blast
qed

lemma poll_one_keeps: "consistent w \<Longrightarrow> poll_one A x w = (Ok (), w') \<Longrightarrow> consistent w'"
proof -
  assume c: "consistent w" and p: "poll_one A x w = (Ok (), w')"
  have "keeps (sys_inv w) (poll_one A x)"
    unfolding poll_one_def by (intro keeps_intros inv_intros)
  from keepsD' [OF this p consistent_refl [OF c]] show "consistent w'" by (rule sys_inv_consistent)
qed

lemma poll_one_moves:
  assumes "consistent w" "poll_one A (u, e, d) w = (Ok (), w')"
    and "moved_on (state_of w v) \<or> state_of w v = Some ''COOLING_OFF''"
  shows "moved_on (state_of w' v) \<or> u \<noteq> v \<and> state_of w' v = state_of w v"
proof (cases "u = v")
  case False
  have "keeps_rows v (poll_one A (u, e, d))"
    unfolding poll_one_def prod.case using False
    by (intro keeps_rows_bind keeps_rows_if keeps_rows_ignore keeps_rows_claim keeps_rows_perform keeps_rows_prims) auto
  from keeps_rowsD [OF this, of w] assms(2) show ?thesis using False by (simp add: state_of_rows)
next
  case True
  have ok: "vaults_ok w" using assms(1) by (rule consistent_vaults_ok)
  then have k: "keyed va_id (vaults w)" by (simp add: vaults_ok_def)
  show ?thesis
  proof (cases "state_of w v = Some ''COOLING_OFF''")
    case co: True
    have "db_claim_vault_for_release v w = (Ok True, claimed v w)"
      unfolding claimed_def by (rule prod_eqI) (simp_all add: claim_release_wins_iff [OF k] co)
    then have "(ignore (perform_release A v e d) :: unit db_prog) (claimed v w) = (Ok (), w')"
      using assms(2) \<open>u = v\<close> by (simp add: poll_one_def bind_step)
    then have "w' = snd (perform_release A v e d (claimed v w))"
      by (metis snd_ignore snd_conv)
    then show ?thesis
      using perform_moves_on [OF claimed_ok [OF ok] elapse_claimed(2) [OF ok co]] by simp
  next
    case False
    with claim_release_lost [OF k False] assms(2,3) \<open>u = v\<close> show ?thesis
      by (simp add: poll_one_def bind_step)
  qed
qed

lemma poll_all_moves:
  assumes "consistent w" "moved_on (state_of w v) \<or> state_of w v = Some ''COOLING_OFF'' \<and> v \<in> fst ` set due"
  shows "\<exists>w'. for_each (poll_one A) due w = (Ok (), w') \<and> moved_on (state_of w' v)"
  using assms
proof (induction due arbitrary: w)
  case Nil
  then show ?case by auto
next
  case (Cons x due)
  obtain w1 where w1: "poll_one A x w = (Ok (), w1)" using poll_one_runs by blast
  have c1: "consistent w1" using poll_one_keeps [OF Cons.prems(1) w1] .
  have "moved_on (state_of w1 v) \<or> state_of w1 v = Some ''COOLING_OFF'' \<and> v \<in> fst ` set due"
    using poll_one_moves [of w A "fst x" "fst (snd x)" "snd (snd x)" w1 v] Cons.prems w1 by auto
  from Cons.IH [OF c1 this] show ?case by (simp add: andthen_step w1)
qed

text \<open>
  C20: The poll loop makes progress. One pass ends without an error, and every vault that is
  cooling off and has an open release event with an elapsed deadline has then left COOLING_OFF:
  it is RELEASED, ACTIVE again after a drill, or RELEASING when its delivery failed. A failing
  release does not keep the pass from the vaults after it.
\<close>

theorem due_release_is_taken:
  assumes "consistent w" and "r \<in> set (release_events w)" and "open_event r"
    and "elapsed (ev_cooling_off_ends_at r) (clock w)"
    and "state_of w (ev_vault_id r) = Some ''COOLING_OFF''"
  shows "\<exists>w'. release_elapse_tick A w = (Ok (), w')
    \<and> state_of w' (ev_vault_id r) \<in> Some ` {''RELEASED'', ''ACTIVE'', ''RELEASING''}"
proof -
  obtain due where due: "db_list_due_releases (clock w) w = (Ok due, w)"
    by (simp add: db_list_due_releases_def)
  have k: "keyed va_id (vaults w)" using consistent_vaults_ok [OF assms(1)] by (simp add: vaults_ok_def)
  have "ev_vault_id r \<in> fst ` set due"
    using due assms(2-5) by (force simp: db_list_due_releases_def state_of_Some_iff [OF k])
  with poll_all_moves [OF assms(1), of "ev_vault_id r" due A] assms(5) show ?thesis
    by (auto simp: release_elapse_tick_def bind_step due poll_one_def)
qed

section \<open>Witnesses\<close>


theorem due_release_is_taken_witness:
  "\<exists>w'. release_elapse_tick sample_app sample_world = (Ok (), w')
    \<and> state_of w' (VaultId 7) \<in> Some ` {''RELEASED'', ''ACTIVE'', ''RELEASING''}"
  using due_release_is_taken [OF sample_consistent, of "sample_event 3 4"]
  by (simp add: sample_defs open_event_def elapsed_def state_of_def)

end
