(* ===== verification/ErasureProps.thy ===== *)
theory ErasureProps
  imports Retention BlobContract LivenessProps
begin

text \<open>
  What the account-deletion sweep of src/crates/beacon-api/src/scheduler.rs erases and what it
  leaves: a relation between the state before and after the purge of a set of letters, closed
  under composition, that every step of the purge meets.
\<close>

section \<open>Erasing letters\<close>

definition erase :: "letter_row \<Rightarrow> letter_row" where
  "erase r = r\<lparr>le_ciphertext := [], le_drill_ciphertext := Some [], le_nonce := [], le_drill_nonce := Some []\<rparr>"

definition attached :: "world \<Rightarrow> letter_id set \<Rightarrow> attachment_row set" where
  "attached w L = {a \<in> set (attachments w). ar_letter_id a \<in> L}"

text \<open>The state after \<open>D\<close> of the attachments and the contents of the letters \<open>L\<close> are gone.\<close>

definition purged :: "app \<Rightarrow> attachment_row set \<Rightarrow> letter_id set \<Rightarrow> world \<Rightarrow> world \<Rightarrow> bool" where
  "purged A D L w w' \<longleftrightarrow>
     (\<exists>b. w' = w\<lparr>letters := sql_update (\<lambda>r. le_id r \<in> L) erase (letters w),
            attachments := sql_delete (\<lambda>a. ar_id a \<in> ar_id ` D) (attachments w),
            attachment_claims := sql_delete (\<lambda>c. ac_attachment_id c \<in> ar_id ` D) (attachment_claims w),
            blobs := b\<rparr>)
     \<and> (\<forall>k. contents_of A w' k =
           (if \<exists>a \<in> D. same_object A k (ar_storage_key a) then None else contents_of A w k))"

lemma erase_again: "sql_update (\<lambda>r. le_id r \<in> M) erase (sql_update (\<lambda>r. le_id r \<in> L) erase t) =
    sql_update (\<lambda>r. le_id r \<in> L \<union> M) erase t"
  by (auto simp: sql_update_def erase_def)

lemma purged_refl: "purged A {} {} w w"
  by (auto simp: purged_def sql_delete_False sql_update_none intro: exI [of _ "blobs w"])

lemma purged_trans:
  assumes "purged A D L w w1" and "purged A E M w1 w2"
  shows "purged A (D \<union> E) (L \<union> M) w w2"
proof -
  obtain b1 where w1: "w1 = w\<lparr>letters := sql_update (\<lambda>r. le_id r \<in> L) erase (letters w),
            attachments := sql_delete (\<lambda>a. ar_id a \<in> ar_id ` D) (attachments w),
            attachment_claims := sql_delete (\<lambda>c. ac_attachment_id c \<in> ar_id ` D) (attachment_claims w),
            blobs := b1\<rparr>"
    using assms(1) by (auto simp: purged_def)
  obtain b2 where w2: "w2 = w1\<lparr>letters := sql_update (\<lambda>r. le_id r \<in> M) erase (letters w1),
            attachments := sql_delete (\<lambda>a. ar_id a \<in> ar_id ` E) (attachments w1),
            attachment_claims := sql_delete (\<lambda>c. ac_attachment_id c \<in> ar_id ` E) (attachment_claims w1),
            blobs := b2\<rparr>"
    using assms(2) by (auto simp: purged_def)
  have "w2 = w\<lparr>letters := sql_update (\<lambda>r. le_id r \<in> L \<union> M) erase (letters w),
            attachments := sql_delete (\<lambda>a. ar_id a \<in> ar_id ` (D \<union> E)) (attachments w),
            attachment_claims := sql_delete (\<lambda>c. ac_attachment_id c \<in> ar_id ` (D \<union> E)) (attachment_claims w),
            blobs := b2\<rparr>"
    by (simp add: w2 w1 erase_again sql_delete_twice image_Un)
  moreover have "contents_of A w2 k =
      (if \<exists>a \<in> D \<union> E. same_object A k (ar_storage_key a) then None else contents_of A w k)" for k
    using assms by (auto simp: purged_def)
  ultimately show ?thesis unfolding purged_def by blast
qed

lemma blob_delete_fails: "blob_delete A k w = (r, w') \<Longrightarrow> (\<And>u. r \<noteq> Ok u) \<Longrightarrow> (\<exists>e. r = Err e) \<and> w' = w \<and> locate A k = None"
  by (auto simp: blob_delete_def locate_def local_delete_def s3_delete_def router_delete_def
      delete_id_def store_for_def run ok_or_def Let_def split: blob_backend.splits option.splits prod.splits)

lemma delete_object:
  "\<exists>b. ignore (blob_delete A k) w = (Ok () :: (api_error, unit) outcome, w\<lparr>blobs := b\<rparr>)
     \<and> (\<forall>j. contents_of A (w\<lparr>blobs := b\<rparr>) j = (if same_object A j k then None else contents_of A w j))"
proof (cases "\<exists>u. fst (blob_delete A k w) = Ok u")
  case True
  then obtain u w' where d: "blob_delete A k w = (Ok u, w')" by (metis prod.collapse)
  obtain l where l: "locate A k = Some l" "w' = w\<lparr>blobs := (blobs w)(l := None)\<rparr>" by (rule blob_deleteE [OF d])
  have "contents_of A w' j = (if same_object A j k then None else contents_of A w j)" for j
    using l by (simp add: contents_of_def same_object_def split: option.split)
  moreover from d have "ignore (blob_delete A k) w = (Ok () :: (api_error, unit) outcome, w')" by (rule ignore_Ok)
  ultimately show ?thesis using l(2) by blast
next
  case False
  then obtain e where d: "blob_delete A k w = (Err e, w)" "locate A k = None"
    using blob_delete_fails [of A k w] by (cases "blob_delete A k w") fastforce
  have "w = w\<lparr>blobs := blobs w\<rparr>" by simp
  moreover have "contents_of A w j = (if same_object A j k then None else contents_of A w j)" for j
    using d(2) by (simp add: contents_of_def same_object_def split: option.split)
  moreover from d(1) have "ignore (blob_delete A k) w = (Ok () :: (api_error, unit) outcome, w)" by (rule ignore_Err)
  ultimately show ?thesis by metis
qed

text \<open>One attachment, by its row.\<close>

lemma purge_one:
  assumes "keyed ar_id (attachments w)" and "a \<in> set (attachments w)"
  shows "\<exists>w'. purge_one_attachment A (row_to_attachment a) w = (Ok (), w') \<and> purged A {a} {} w w'"
proof -
  let ?w = "w\<lparr>attachments := sql_delete (\<lambda>r. ar_id r = ar_id a) (attachments w),
      attachment_claims := sql_delete (\<lambda>r. ac_attachment_id r = ar_id a) (attachment_claims w)\<rparr>"
  obtain b where b: "ignore (blob_delete A (ar_storage_key a)) ?w = (Ok () :: (api_error, unit) outcome, ?w\<lparr>blobs := b\<rparr>)"
      "\<forall>j. contents_of A (?w\<lparr>blobs := b\<rparr>) j = (if same_object A j (ar_storage_key a) then None else contents_of A ?w j)"
    using delete_object by blast
  have "db_purge_attachment (ar_id a) w = (Ok (Some (ar_storage_key a)), ?w)"
    using keyed_first [OF assms] by (simp add: db_purge_attachment_def bind_gets andthen_step)
  then have "purge_one_attachment A (row_to_attachment a) w = (Ok (), ?w\<lparr>blobs := b\<rparr>)"
    using b(1) by (simp add: purge_one_attachment_def row_to_attachment_def bind_step api_step)
  moreover have "purged A {a} {} w (?w\<lparr>blobs := b\<rparr>)"
    using b(2) by (auto simp: purged_def sql_update_none contents_of_def split: option.split)
  ultimately show ?thesis by blast
qed

text \<open>The loops of the purge: over the attachments of a letter, over letters, over vaults.\<close>

lemma purged_keeps:
  assumes "purged A D L w w'"
  shows "keyed ar_id (attachments w) \<Longrightarrow> keyed ar_id (attachments w')"
    and "attachments w' = sql_delete (\<lambda>a. ar_id a \<in> ar_id ` D) (attachments w)"
    and "vaults w' = vaults w" and "letters w' = sql_update (\<lambda>r. le_id r \<in> L) erase (letters w)"
  using assms by (auto simp: purged_def keyed_delete)

lemma purge_attachments:
  assumes "keyed ar_id (attachments w)" and "distinct as" and "set as \<subseteq> set (attachments w)"
  shows "\<exists>w'. for_each (purge_one_attachment A) (map row_to_attachment as) w = (Ok (), w') \<and> purged A (set as) {} w w'"
  using assms
proof (induction as arbitrary: w)
  case (Cons a as)
  obtain w1 where w1: "purge_one_attachment A (row_to_attachment a) w = (Ok (), w1)" "purged A {a} {} w w1"
    using purge_one [OF Cons.prems(1), of a A] Cons.prems(3) by auto
  have "set as \<subseteq> set (attachments w1)"
    using Cons.prems keyed_unique [OF Cons.prems(1)] by (fastforce simp: purged_keeps(2) [OF w1(2)])
  then obtain w2 where w2: "for_each (purge_one_attachment A) (map row_to_attachment as) w1 = (Ok (), w2)"
      "purged A (set as) {} w1 w2"
    using Cons.IH [OF purged_keeps(1) [OF w1(2) Cons.prems(1)]] Cons.prems(2) by auto
  then have "for_each (purge_one_attachment A) (map row_to_attachment (a # as)) w = (Ok (), w2)"
    by (simp add: andthen_step w1(1))
  with purged_trans [OF w1(2) w2(2)] show ?case by auto
qed (simp add: purged_refl)

definition erased :: "app \<Rightarrow> letter_id set \<Rightarrow> world \<Rightarrow> world \<Rightarrow> bool" where
  "erased A L w w' \<longleftrightarrow> purged A (attached w L) L w w'"

lemma erased_trans:
  assumes "keyed ar_id (attachments w)" and "erased A L w w1" and "erased A M w1 w2"
  shows "erased A (L \<union> M) w w2"
proof -
  note p = assms(2,3) [unfolded erased_def]
  have "ar_id a \<in> ar_id ` attached w L \<longleftrightarrow> ar_letter_id a \<in> L" if "a \<in> set (attachments w)" for a
    using keyed_unique [OF assms(1) that] that by (auto simp: attached_def)
  then have "attached w1 M = {a \<in> attached w M. ar_letter_id a \<notin> L}"
    unfolding attached_def purged_keeps(2) [OF p(1)] by auto
  then have "attached w L \<union> attached w1 M = attached w (L \<union> M)" by (auto simp: attached_def)
  with purged_trans [OF p] show ?thesis by (simp add: erased_def)
qed

lemma purge_one_letter:
  assumes "keyed ar_id (attachments w)"
  shows "\<exists>w'. purge_letter A l w = (Ok (), w') \<and> erased A {lm_id l} w w'"
proof -
  let ?as = "order_by ar_sealed_at (sql_select (\<lambda>r. ar_letter_id r = lm_id l) (attachments w))"
  have "distinct ?as" using keyed_distinct [OF assms] by (simp add: distinct_order_by sql_select_def)
  then obtain w1 where w1: "for_each (purge_one_attachment A) (map row_to_attachment ?as) w = (Ok (), w1)"
      "purged A (set ?as) {} w w1"
    using purge_attachments [OF assms, of ?as] by auto
  have "set ?as = attached w {lm_id l}" by (auto simp: attached_def)
  let ?w = "w1\<lparr>letters := sql_update (\<lambda>r. le_id r = lm_id l) erase (letters w1)\<rparr>"
  have u: "db_purge_letter_ciphertext (lm_id l) w1 = (Ok (), ?w)"
    by (simp add: db_purge_letter_ciphertext_def bind_step erase_def [abs_def])
  have "purged A {} {lm_id l} w1 ?w"
    by (auto simp: purged_def sql_delete_False contents_of_def split: option.split intro: exI [of _ "blobs w1"])
  with purged_trans [OF w1(2)] \<open>set ?as = attached w {lm_id l}\<close> have "erased A {lm_id l} w ?w"
    by (fastforce simp: erased_def)
  moreover have "purge_letter A l w = (Ok (), ?w)"
    by (simp add: purge_letter_def db_list_attachments_def bind_step api_step andthen_step w1(1) u)
  ultimately show ?thesis by blast
qed

lemma erased_refl: "erased A {} w w"
  by (simp add: erased_def attached_def purged_refl)

lemma erased_keys: "erased A L w w' \<Longrightarrow> keyed ar_id (attachments w) \<Longrightarrow> keyed ar_id (attachments w')"
  by (auto simp: erased_def dest: purged_keeps(1))

text \<open>A loop whose every round erases some letters, determined by identifiers that stay.\<close>

lemma erase_loop:
  assumes "\<And>x v. x \<in> set xs \<Longrightarrow> keyed ar_id (attachments v) \<Longrightarrow> same_letters w v \<Longrightarrow>
      \<exists>v'. f x v = (Ok (), v') \<and> erased A (L x) v v'"
    and "\<And>M v v'. erased A M v v' \<Longrightarrow> same_letters v v'" and "\<And>v. same_letters v v"
    and "\<And>u v v'. same_letters u v \<Longrightarrow> same_letters v v' \<Longrightarrow> same_letters u v'"
    and "keyed ar_id (attachments w)"
  shows "\<exists>w'. for_each f xs w = (Ok (), w') \<and> erased A (\<Union>x \<in> set xs. L x) w w'"
  using assms(1,5)
proof (induction xs arbitrary: w)
  case (Cons x xs)
  obtain w1 where w1: "f x w = (Ok (), w1)" "erased A (L x) w w1" using Cons.prems assms(3) by fastforce
  have k: "keyed ar_id (attachments w1)" by (rule erased_keys [OF w1(2) Cons.prems(2)])
  have "\<exists>v'. f y v = (Ok (), v') \<and> erased A (L y) v v'"
    if "y \<in> set xs" "keyed ar_id (attachments v)" "same_letters w1 v" for y v
    using Cons.prems(1) [of y v] that assms(4) [OF assms(2) [OF w1(2)] that(3)] by simp
  from Cons.IH [OF this k] obtain w2 where "for_each f xs w1 = (Ok (), w2)" "erased A (\<Union>x \<in> set xs. L x) w1 w2"
    by auto
  with w1 erased_trans [OF Cons.prems(2) w1(2)] show ?case by (auto simp: andthen_step)
qed (simp add: erased_refl)

definition letters_in :: "world \<Rightarrow> vault_id \<Rightarrow> letter_id set" where
  "letters_in w v = le_id ` {r \<in> set (letters w). le_vault_id r = v}"

lemma purge_letters:
  assumes "keyed ar_id (attachments w)"
  shows "\<exists>w'. for_each (purge_letter A) ls w = (Ok (), w') \<and> erased A (lm_id ` set ls) w w'"
  using erase_loop [of ls "\<lambda>_ _. True" w "purge_letter A" A "\<lambda>l. {lm_id l}"] purge_one_letter assms
  by (simp add: UNION_singleton_eq_range)

lemma purge_vault:
  assumes "keyed ar_id (attachments w)"
  shows "\<exists>w'. bind (api (db_list_letters v)) (\<lambda>ls. for_each (purge_letter A) ls) w = (Ok (), w')
    \<and> erased A (letters_in w v) w w'"
proof -
  let ?ls = "map row_to_letter_meta (order_by le_sealed_at (sql_select (\<lambda>r. le_vault_id r = v) (letters w)))"
  have "lm_id ` set ?ls = letters_in w v" by (auto simp: letters_in_def row_to_letter_meta_def image_iff)
  moreover have "bind (api (db_list_letters v)) (\<lambda>ls. for_each (purge_letter A) ls) w = for_each (purge_letter A) ?ls w"
    by (simp add: db_list_letters_def bind_step api_step)
  ultimately show ?thesis using purge_letters [OF assms, of A ?ls] by metis
qed

definition placed :: "world \<Rightarrow> (letter_id \<times> vault_id) list" where
  "placed w = map (\<lambda>r. (le_id r, le_vault_id r)) (letters w)"

lemma erased_placed: "erased A L w w' \<Longrightarrow> placed w' = placed w"
  using purged_keeps(4) [of A "attached w L" L w w'] by (auto simp: erased_def placed_def sql_update_def erase_def)

lemma placed_letters: "placed w = placed w' \<Longrightarrow> letters_in w = letters_in w'"
proof -
  have "letters_in w v = fst ` {p \<in> set (placed w). snd p = v}" for w v
    by (force simp: letters_in_def placed_def)
  then show "placed w = placed w' \<Longrightarrow> letters_in w = letters_in w'" by (simp add: fun_eq_iff)
qed

definition letters_of :: "world \<Rightarrow> principal_id \<Rightarrow> letter_id set" where
  "letters_of w i = (\<Union>v \<in> {v \<in> set (vaults w). va_principal_id v = i}. letters_in w (va_id v))"

lemma purge_principal:
  assumes "consistent w"
  shows "\<exists>w'. purge_principal_ciphertext A i w = (Ok (), w') \<and> erased A (letters_of w i) w w'"
proof -
  have k: "keyed ar_id (attachments w)" using assms by (simp add: consistent_def keys_ok_def fresh_keyed_def)
  let ?f = "\<lambda>vault. bind (api (db_list_letters (v_id vault))) (\<lambda>ls. for_each (purge_letter A) ls)"
  let ?vs = "map vault_of_row (order_by va_created_at (sql_select (\<lambda>r. va_principal_id r = i) (vaults w)))"
  have "\<exists>w'. for_each ?f ?vs w = (Ok (), w') \<and> erased A (\<Union>x \<in> set ?vs. letters_in w (v_id x)) w w'"
    using purge_vault placed_letters erased_placed k
    by (intro erase_loop [where same_letters = "\<lambda>v v'. placed v = placed v'"]) (metis+)
  moreover have "(\<Union>x \<in> set ?vs. letters_in w (v_id x)) = letters_of w i"
    by (auto simp: letters_of_def vault_of_row_def)
  moreover have "purge_principal_ciphertext A i w = for_each ?f ?vs w"
    using list_vaults_app [OF consistent_vaults_ok [OF assms], of i]
    by (simp add: purge_principal_ciphertext_def bind_step api_step)
  ultimately show ?thesis by simp
qed



end
