(* ===== verification/DuressProps.thy ===== *)
theory DuressProps
  imports ErasureProps Aggregator RouteSignals
begin

text \<open>
  The covert duress signal: what it does to the dead-man's switch of its principal, in the
  mode that freezes it and in the mode that releases at once.
\<close>

section \<open>Freezing\<close>

definition in_duress :: "world \<Rightarrow> principal_id \<Rightarrow> bool" where
  "in_duress w i \<longleftrightarrow> (\<exists>r \<in> set (duress_signals w). du_principal_id r = i \<and> du_triggered_at r \<noteq> None)"

definition cooling :: "world \<Rightarrow> vault_id set" where
  "cooling w = va_id ` {r \<in> set (vaults w). va_state r = ''COOLING_OFF''}"

lemma in_duress_app: "db_principal_in_duress i w = (Ok (in_duress w i), w)"
  by (auto simp: db_principal_in_duress_def in_duress_def sql_first_None)

lemma pure_collect_signals: "keeps I (collect row_to_signal rs)"
  by (intro keeps_intros) (auto simp: row_to_signal_def intro!: keeps_intros simp: try_domain_def)

lemma reads_observations: "keeps I (observations A t vault subs)"
  unfolding observations_def observe_buddy_def observe_bank_def or_default_def db_list_recent_signals_def
    db_list_bank_dormancy_subs_with_recent_ping_def
  by (intro keeps_intros pure_collect_signals)

lemma other_state: "st \<noteq> CoolingOff \<Longrightarrow> vault_state_as_db_str st \<noteq> ''COOLING_OFF''"
  by (cases st) simp_all

lemma append_snd: "snd (db_append_transparency_entry k i v w) = w\<lparr>transparency := logged k i v w\<rparr>"
  by (metis log_app snd_ignore snd_conv)

lemma frozen_apply:
  assumes "in_duress w (v_principal_id vault)"
  shows "release_events (snd (apply_evaluation vault st w)) = release_events w
    \<and> outbox (snd (apply_evaluation vault st w)) = outbox w
    \<and> cooling (snd (apply_evaluation vault st w)) \<subseteq> cooling w
    \<and> duress_signals (snd (apply_evaluation vault st w)) = duress_signals w"
proof (cases "st = v_state vault \<or> st = CoolingOff")
  case True
  then show ?thesis by (auto simp: apply_evaluation_def enter_cooling_off_def bind_step in_duress_app assms)
next
  case False
  let ?I = "\<lambda>s. release_events s = release_events w \<and> outbox s = outbox w \<and> cooling s \<subseteq> cooling w
    \<and> duress_signals s = duress_signals w"
  have "keeps ?I (db_set_vault_state (v_id vault) st None None)"
    unfolding db_set_vault_state_def
    by (intro keeps_bind keeps_ok_or; rule keepsI)
      (use False other_state [of st] in \<open>auto simp: update_returning_def row_to_vault_read cooling_def\<close>)
  moreover have "keeps ?I (db_append_transparency_entry k i v)" for k i v
    by (rule keepsI) (simp add: append_snd cooling_def)
  ultimately have "keeps ?I (apply_evaluation vault st)"
    using False by (auto simp: apply_evaluation_def intro!: keeps_intros)
  from keepsD [OF this, of w] show ?thesis by simp
qed

text \<open>
  C9: The freeze. While a triggered duress signal of the principal stands, whatever the signals of a
  vault say, a round of the aggregator on it opens no release, sends nothing, takes no vault into
  the cooling-off state, and leaves the duress signal as it is.
\<close>

theorem duress_freezes_the_switch:
  assumes "in_duress w (v_principal_id vault)"
  shows "let w' = snd (aggregate_vault A t vault w) in
      release_events w' = release_events w \<and> outbox w' = outbox w
      \<and> cooling w' \<subseteq> cooling w \<and> in_duress w' (v_principal_id vault)"
proof -
  let ?I = "\<lambda>s. s = w"
  have subs: "keeps ?I (db_list_signal_subscriptions (v_id vault))"
    unfolding db_list_signal_subscriptions_def row_to_signal_subscription_def
    by (intro keeps_intros)
  obtain r where r: "db_list_signal_subscriptions (v_id vault) w = (r, w)"
    using keepsD [OF subs, of w] by (metis prod.collapse)
  have "snd (aggregate_vault A t vault w) = w \<or> (\<exists>st. snd (aggregate_vault A t vault w) = snd (apply_evaluation vault st w))"
  proof (cases r)
    case (Ok xs)
    obtain q where q: "observations A t vault xs w = (q, w)"
      using keepsD [OF reads_observations, of ?I w A t vault xs] by (metis prod.collapse)
    show ?thesis by (cases q) (auto simp: aggregate_vault_def bind_step r q Ok)
  qed (simp_all add: aggregate_vault_def bind_step r)
  then show ?thesis
    using assms frozen_apply [OF assms] by (elim disjE exE) (simp_all add: Let_def in_duress_def)
qed

section \<open>Releasing at once\<close>

text \<open>What the webhook does to a watchable vault, and the event it opens.\<close>

definition cool :: "instant \<Rightarrow> vault_row \<Rightarrow> vault_row" where
  "cool t r = r\<lparr>va_state := ''COOLING_OFF'', va_cooling_off_started_at := Some t\<rparr>"

definition opened_for :: "instant \<Rightarrow> vault_row \<Rightarrow> release_event_row \<Rightarrow> bool" where
  "opened_for t r e \<longleftrightarrow> ev_vault_id e = va_id r \<and> open_event e \<and> \<not> ev_is_drill e
     \<and> ev_cooling_off_ends_at e = Some (t + seconds (va_cooling_off_seconds r))"

lemma release_one:
  assumes "keyed va_id (vaults w)" and "r \<in> set (vaults w)" and "vault_row_ok r"
    and "va_principal_id r \<in> pr_id ` set (principals w)"
  shows "\<exists>w' e. duress_release_vault (vault_of_row r) w = (Ok (), w') \<and> opened_for (clock w) r e
    \<and> vaults w' = map (\<lambda>x. if x = r then cool (clock w) x else x) (vaults w)
    \<and> release_events w' = release_events w @ [e]
    \<and> principals w' = principals w \<and> clock w' = clock w \<and> duress_signals w' = duress_signals w"
proof -
  let ?v = "vault_of_row r"
  obtain st where st: "va_state r = vault_state_as_db_str st" using assms(3) by (auto simp: vault_row_ok_def)
  have v: "v_id ?v = va_id r" "vault_state_as_db_str (v_state ?v) = va_state r"
      "v_principal_id ?v = va_principal_id r" "v_cooling_off_seconds ?v = va_cooling_off_seconds r"
    by (simp_all add: vault_of_row_def st)
  have only: "va_id x = va_id r \<and> va_state x = va_state r \<longleftrightarrow> x = r" if "x \<in> set (vaults w)" for x
    using keyed_unique [OF assms(1) that assms(2)] by auto
  let ?vs = "map (\<lambda>x. if x = r then cool (clock w) x else x) (vaults w)"
  have upd: "sql_update (\<lambda>x. va_id x = va_id r \<and> va_state x = va_state r)
      (\<lambda>x. x\<lparr>va_state := ''COOLING_OFF'', va_cooling_off_started_at := Some (clock w)\<rparr>) (vaults w) = ?vs"
    using only by (auto simp: sql_update_def cool_def)
  have one: "sql_count (\<lambda>x. va_id x = va_id r \<and> va_state x = va_state r) (vaults w) = 1"
    using assms(2) by (auto simp: sql_count_keyed [OF assms(1)])
  let ?w1 = "w\<lparr>vaults := ?vs\<rparr>"
  have claim: "db_claim_vault_cooling_off (v_id ?v) (v_state ?v) w = (Ok True, ?w1)"
    by (simp only: claim_cooling_app v upd one simp_thms)
  have claimed: "attempt (db_claim_vault_cooling_off (v_id ?v) (v_state ?v)) w =
      (Ok (Inr True), ?w1)"
    by (simp only: attempt_step claim prod.case outcome.case)
  have vs: "va_id r \<in> va_id ` set ?vs" using assms(2) by (force simp: cool_def)
  define e where "e = \<lparr>ev_id = ReleaseEventId (next_uuid w), ev_vault_id = va_id r,
      ev_reason = release_reason_as_db_str SignalTrigger, ev_triggered_at = clock w, ev_released_at = None,
      ev_cancelled_at = None, ev_is_drill = False,
      ev_cooling_off_ends_at = Some (clock w + seconds (va_cooling_off_seconds r))\<rparr>"
  have event: "ignore (db_create_release_event_with_deadline (v_id ?v) SignalTrigger False
        (clock w + seconds (v_cooling_off_seconds ?v))) (?w1\<lparr>outbox := ob\<rparr>) =
      (Ok () :: (api_error, _) outcome, ?w1\<lparr>outbox := ob, next_uuid := Suc (next_uuid w), release_events := release_events w @ [e]\<rparr>)" for ob
    using vs by (simp add: v db_create_release_event_with_deadline_def insert_release_event_def run insert_row_def
        Let_def e_def)
  obtain q where who: "attempt (db_fetch_principal (v_principal_id ?v)) ?w1 = (Ok q :: (api_error, _) outcome, ?w1)"
    by (cases "sql_first (\<lambda>x. pr_id x = v_principal_id ?v) (principals w)")
      (auto simp: db_fetch_principal_def run)
  obtain ob where told: "(case q of Inr p \<Rightarrow> notify (CoolingOffStarted (p_primary_email p) (v_name ?v)
      (clock ?w1 + seconds (v_cooling_off_seconds ?v))) | Inl _ \<Rightarrow> ret ()) ?w1 = (Ok () :: (api_error, _) outcome, ?w1\<lparr>outbox := ob\<rparr>)"
  proof (cases q)
    case (Inl x)
    show ?thesis by (rule that [of "outbox w"]) (simp add: Inl)
  next
    case (Inr p)
    show ?thesis by (rule that [of "outbox w @ [CoolingOffStarted (p_primary_email p) (v_name ?v)
        (clock w + seconds (v_cooling_off_seconds ?v))]"]) (simp add: Inr)
  qed
  have "duress_release_vault ?v w = (ignore (db_append_transparency_entry ''DURESS_RELEASE_TRIGGERED''
      (Some (v_principal_id ?v)) (Some (v_id ?v)))) (?w1\<lparr>outbox := ob, next_uuid := Suc (next_uuid w),
        release_events := release_events w @ [e]\<rparr>)"
    using told event [of ob] unfolding duress_release_vault_def
    by (simp add: bind_step claimed who andthen_step Let_def)
  moreover have "opened_for (clock w) r e" by (simp add: opened_for_def open_event_def e_def)
  ultimately show ?thesis by (fastforce simp: log_app)
qed

lemma cool_keeps [simp]: "va_id (cool t r) = va_id r"
  by (simp add: cool_def)

lemma release_all:
  assumes "keyed va_id (vaults w)" and "set rs \<subseteq> set (vaults w)" and "distinct rs"
    and "\<forall>r \<in> set rs. vault_row_ok r \<and> va_principal_id r \<in> pr_id ` set (principals w)"
  shows "\<exists>w' es. for_each duress_release_vault (map vault_of_row rs) w = (Ok (), w')
    \<and> list_all2 (opened_for (clock w)) rs es
    \<and> vaults w' = map (\<lambda>x. if x \<in> set rs then cool (clock w) x else x) (vaults w)
    \<and> release_events w' = release_events w @ es \<and> duress_signals w' = duress_signals w"
  using assms
proof (induction rs arbitrary: w)
  case (Cons r rs)
  obtain w1 e where w1: "duress_release_vault (vault_of_row r) w = (Ok (), w1)" "opened_for (clock w) r e"
      "vaults w1 = map (\<lambda>x. if x = r then cool (clock w) x else x) (vaults w)"
      "release_events w1 = release_events w @ [e]" "principals w1 = principals w" "clock w1 = clock w"
      "duress_signals w1 = duress_signals w"
    using release_one [OF Cons.prems(1), of r] Cons.prems(2,4) by auto
  have "map va_id (vaults w1) = map va_id (vaults w)" unfolding w1(3) by simp
  then have k: "keyed va_id (vaults w1)" using Cons.prems(1) by (simp add: keyed_def)
  have "x \<noteq> cool (clock w) r" if "x \<in> set rs" for x
    using keyed_unique [OF Cons.prems(1), of x r] Cons.prems(2,3) that by (metis cool_keeps distinct.simps(2) list.set_intros subsetD)
  then have fresh: "cool (clock w) r \<notin> set rs" by blast
  have "set rs \<subseteq> set (vaults w1)" using Cons.prems(2,3) unfolding w1(3) by auto
  then obtain w2 es where w2: "for_each duress_release_vault (map vault_of_row rs) w1 = (Ok (), w2)"
      "list_all2 (opened_for (clock w)) rs es"
      "vaults w2 = map (\<lambda>x. if x \<in> set rs then cool (clock w) x else x) (vaults w1)"
      "release_events w2 = release_events w1 @ es" "duress_signals w2 = duress_signals w1"
    using Cons.IH [OF k] Cons.prems(3,4) w1(5,6) by auto
  have "vaults w2 = map (\<lambda>x. if x \<in> set (r # rs) then cool (clock w) x else x) (vaults w)"
    using fresh Cons.prems(3) unfolding w2(3) w1(3) by auto
  then show ?case using w1 w2
    by (intro exI [of _ w2] exI [of _ "e # es"]) (simp add: andthen_step)
qed simp

lemma watchable_row: "vault_row_ok r \<Longrightarrow>
    v_state (vault_of_row r) \<in> set watchable \<longleftrightarrow> va_state r \<in> {''ACTIVE'', ''SUSPICIOUS'', ''ALERT''}"
proof -
  assume "vault_row_ok r"
  then obtain st where st: "va_state r = vault_state_as_db_str st" by (auto simp: vault_row_ok_def)
  have "v_state (vault_of_row r) = st" by (cases st) (simp_all add: vault_of_row_def st vault_state_from_db_str_def)
  then show ?thesis by (cases st) (simp_all add: watchable_def st)
qed

text \<open>
  C10: The duress webhook. It answers the same whatever identifier it is given. An identifier that is
  not armed changes nothing. One that is marks its principal as in duress; in the freeze mode it touches
  no vault and no release, and in the release mode it takes exactly the vaults of the principal
  that are active, suspicious or on alert into cooling-off, each with a fresh open release
  event whose deadline is the cooling-off period of the vault from now.
\<close>

theorem duress_webhook_effect:
  assumes "consistent w"
  shows "fst (duress_webhook u w) = Ok ()
    \<and> (let w' = snd (duress_webhook u w) in
       case sql_first (\<lambda>r. du_webhook_id r = u) (duress_signals w) of
         None \<Rightarrow> w' = w
       | Some d \<Rightarrow> in_duress w' (du_principal_id d)
           \<and> (let rs = order_by va_created_at (filter (\<lambda>r. du_panic_mode d = ''release''
                  \<and> va_principal_id r = du_principal_id d
                  \<and> va_state r \<in> {''ACTIVE'', ''SUSPICIOUS'', ''ALERT''}) (vaults w)) in
              vaults w' = map (\<lambda>x. if x \<in> set rs then cool (clock w) x else x) (vaults w)
              \<and> (\<exists>es. release_events w' = release_events w @ es \<and> list_all2 (opened_for (clock w)) rs es)))"
proof (cases "sql_first (\<lambda>r. du_webhook_id r = u) (duress_signals w)")
  case None
  then have "db_trigger_duress u (clock w) w = (Ok None, w)"
    by (simp add: db_trigger_duress_def update_returning_def sql_first_None sql_update_none)
  then have "duress_webhook u w = (Ok (), w)" by (simp add: duress_webhook_def bind_step attempt_step)
  with None show ?thesis by simp
next
  case (Some d)
  let ?set = "\<lambda>r. r\<lparr>du_triggered_at := coalesce (du_triggered_at r) (Some (clock w)), du_last_alert_at := Some (clock w)\<rparr>"
  let ?w1 = "w\<lparr>duress_signals := sql_update (\<lambda>r. du_webhook_id r = u) ?set (duress_signals w)\<rparr>"
  have trig: "db_trigger_duress u (clock w) w = (Ok (Some (?set d)), ?w1)"
    using Some by (simp add: db_trigger_duress_def update_returning_def)
  obtain ob where told: "(case du_alert_email (?set d) of Some email \<Rightarrow> notify (DuressAlert email) | None \<Rightarrow> ret ()) ?w1
      = (Ok () :: (api_error, unit) outcome, ?w1\<lparr>outbox := ob\<rparr>)"
  proof (cases "du_alert_email d")
    case None
    show ?thesis by (rule that [of "outbox w"]) (simp add: None)
  next
    case (Some e)
    show ?thesis by (rule that [of "outbox w @ [DuressAlert e]"]) (simp add: Some)
  qed
  let ?w2 = "?w1\<lparr>outbox := ob, transparency := logged ''DURESS_TRIGGERED'' (Some (du_principal_id d)) None (?w1\<lparr>outbox := ob\<rparr>)\<rparr>"
  have "d \<in> set (duress_signals w)" "du_webhook_id d = u" using sql_first_Some [OF Some] by simp_all
  then have "?set d \<in> set (duress_signals ?w2)" by force
  moreover have "du_triggered_at (?set d) \<noteq> None" by (cases "du_triggered_at d") simp_all
  ultimately have dur: "duress_signals w' = duress_signals ?w2 \<Longrightarrow> in_duress w' (du_principal_id d)" for w' :: world
    unfolding in_duress_def by (intro bexI [of _ "?set d"]) simp_all
  let ?rs = "order_by va_created_at (filter (\<lambda>r. va_principal_id r = du_principal_id d
                  \<and> va_state r \<in> {''ACTIVE'', ''SUSPICIOUS'', ''ALERT''}) (vaults w))"
  have run: "duress_webhook u w = (if du_panic_mode d = ''release''
      then for_each duress_release_vault (map vault_of_row ?rs) ?w2 else (Ok (), ?w2))"
  proof -
    have ok: "vaults_ok ?w2" using consistent_vaults_ok [OF assms] by (simp add: vaults_ok_def)
    let ?vs = "order_by va_created_at (sql_select (\<lambda>r. va_principal_id r = du_principal_id d) (vaults w))"
    have listed: "attempt (db_list_vaults (du_principal_id d)) ?w2 = (Ok (Inr (map vault_of_row ?vs)) :: (api_error, _) outcome, ?w2)"
      using list_vaults_app [OF ok] by (simp add: attempt_step)
    have "filter (\<lambda>r. v_state (vault_of_row r) \<in> set watchable) ?vs =
        filter (\<lambda>r. va_state r \<in> {''ACTIVE'', ''SUSPICIOUS'', ''ALERT''}) ?vs"
      using ok watchable_row by (intro filter_cong refl) (simp add: vaults_ok_def)
    also have "\<dots> = ?rs" by (simp add: order_by_def sql_select_def filter_sort conj_commute)
    finally have picked: "filter (\<lambda>v. v_state v \<in> set watchable) (map vault_of_row ?vs) = map vault_of_row ?rs"
      by (simp add: filter_map comp_def)
    have "attempt (db_trigger_duress u (clock w)) w = (Ok (Inr (Some (?set d))) :: (api_error, _) outcome, ?w1)"
      by (simp add: attempt_step trig)
    then have "duress_webhook u w = (if du_panic_mode d = ''release''
        then bind (attempt (db_list_vaults (du_principal_id d))) (\<lambda>vs. case vs of
            Inr vs' \<Rightarrow> for_each duress_release_vault (filter (\<lambda>v. v_state v \<in> set watchable) vs')
          | Inl _ \<Rightarrow> ret ()) ?w2
        else (Ok (), ?w2))"
      using told unfolding duress_webhook_def by (simp add: bind_step andthen_step log_app)
    then show ?thesis using picked by (simp only: bind_step listed prod.case outcome.case sum.case)
  qed
  show ?thesis
  proof (cases "du_panic_mode d = ''release''")
    case False
    then show ?thesis using run dur [of ?w2] by (simp add: Some Let_def order_by_def)
  next
    case True
    have owner: "va_principal_id r \<in> pr_id ` set (principals w)" if "r \<in> set (vaults w)" for r
    proof -
      have "va_principal_id ` set (vaults w) \<subseteq> pr_id ` set (principals w)"
        using assms by (simp only: consistent_def refs_ok_def)
      with that show ?thesis by (simp add: image_subset_iff)
    qed
    have ok: "keyed va_id (vaults w)" "\<forall>r \<in> set (vaults w). vault_row_ok r"
      using consistent_vaults_ok [OF assms] by (simp_all add: vaults_ok_def)
    have sub: "set ?rs \<subseteq> set (vaults w)" by auto
    have "keyed va_id (vaults ?w2)" "distinct ?rs" "set ?rs \<subseteq> set (vaults ?w2)"
      "\<forall>r \<in> set ?rs. vault_row_ok r \<and> va_principal_id r \<in> pr_id ` set (principals ?w2)"
    proof -
      show "keyed va_id (vaults ?w2)" "set ?rs \<subseteq> set (vaults ?w2)" using ok sub by simp_all
      show "distinct ?rs" using keyed_distinct [OF ok(1)] by (simp add: distinct_order_by)
      have "r \<in> set (vaults w) \<Longrightarrow> vault_row_ok r \<and> va_principal_id r \<in> pr_id ` set (principals ?w2)" for r
        using ok(2) owner [of r] by simp
      with sub show "\<forall>r \<in> set ?rs. vault_row_ok r \<and> va_principal_id r \<in> pr_id ` set (principals ?w2)"
        by blast
    qed
    note started = release_all [OF this(1,3,2,4)]
    have same: "vaults ?w2 = vaults w" "release_events ?w2 = release_events w" "clock ?w2 = clock w" by simp_all
    from started [unfolded same] obtain w' es where w': "for_each duress_release_vault (map vault_of_row ?rs) ?w2 = (Ok (), w')"
      "list_all2 (opened_for (clock w)) ?rs es"
      "vaults w' = map (\<lambda>x. if x \<in> set ?rs then cool (clock w) x else x) (vaults w)"
      "release_events w' = release_events w @ es" "duress_signals w' = duress_signals ?w2"
      by blast
    then show ?thesis using run dur [of w'] True by (simp add: Some Let_def del: set_order_by)
  qed
qed

section \<open>Witnesses\<close>

text \<open>The sample principal with a vault on alert and an armed signal, in each mode.\<close>

definition armed :: "string \<Rightarrow> instant option \<Rightarrow> world" where
  "armed mode triggered = sample_world\<lparr>vaults := [sample_vault ''ALERT''], release_events := [],
     duress_signals := [\<lparr>du_principal_id = PrincipalId 0, du_webhook_id = 9, du_alert_email = None,
       du_armed_at = 0, du_triggered_at = triggered, du_last_alert_at = None, du_panic_mode = mode\<rparr>]\<rparr>"

lemma armed_consistent: "consistent (armed mode triggered)"
  by (simp add: armed_def consistent_def keys_ok_def refs_ok_def enums_ok_def sample_defs fresh_keyed_def keyed_def
      vault_parses_def parses_def tier_from_db_str_def vault_state_from_db_str_def
      region_from_aws_str_def letter_kind_check_def release_mode_from_db_str_def)

theorem duress_freezes_the_switch_witness:
  "cooling (snd (aggregate_vault sample_app 5 (vault_of_row (sample_vault ''ALERT'')) (armed ''freeze'' (Some 1)))) = {}"
proof -
  let ?w = "armed ''freeze'' (Some 1)" and ?v = "vault_of_row (sample_vault ''ALERT'')"
  have "in_duress ?w (v_principal_id ?v)" by (simp add: in_duress_def armed_def vault_of_row_def sample_vault_def)
  from duress_freezes_the_switch [OF this, of sample_app 5]
  have "cooling (snd (aggregate_vault sample_app 5 ?v ?w)) \<subseteq> cooling ?w" by (simp add: Let_def)
  moreover have "cooling ?w = {}" by (simp add: cooling_def armed_def sample_vault_def)
  ultimately show ?thesis by simp
qed

theorem duress_webhook_effect_witness:
  "map va_state (vaults (snd (duress_webhook 9 (armed ''release'' None)))) = [''COOLING_OFF'']
    \<and> map ev_cooling_off_ends_at (release_events (snd (duress_webhook 9 (armed ''release'' None)))) = [Some (5 + seconds 3600)]"
proof -
  let ?w = "armed ''release'' None"
  let ?v = "sample_vault ''ALERT''"
  have v: "vaults ?w = [?v]" "clock ?w = 5" "release_events ?w = []" "va_state ?v = ''ALERT''"
      "va_principal_id ?v = PrincipalId 0" "va_cooling_off_seconds ?v = 3600"
    by (simp_all add: armed_def sample_vault_def sample_world_def)
  have one: "order_by va_created_at [?v] = [?v]" by (simp add: order_by_def)
  have d: "sql_first (\<lambda>r. du_webhook_id r = 9) (duress_signals ?w) = Some (hd (duress_signals ?w))"
      "du_panic_mode (hd (duress_signals ?w)) = ''release''" "du_principal_id (hd (duress_signals ?w)) = PrincipalId 0"
    by (simp_all add: armed_def)
  obtain es where "vaults (snd (duress_webhook 9 ?w)) = [cool 5 ?v]"
      "release_events (snd (duress_webhook 9 ?w)) = es" "list_all2 (opened_for 5) [?v] es"
    using duress_webhook_effect [OF armed_consistent, of 9 "''release''" None] d
    by (simp add: Let_def v one) 
  then show ?thesis by (auto simp: list_all2_Cons1 opened_for_def cool_def v(6))
qed

end
