(* ===== verification/AggregatorProps.thy ===== *)
theory AggregatorProps
  imports Aggregator PipelineFacts Samples
begin

text \<open>
  Properties of the signal aggregator: what the tick does on a database with a watched
  vault, and how far the default weights can take a vault.
\<close>

section \<open>The query\<close>

lemma row_to_vault_watch:
  assumes "vault_row_ok r"
  shows "row_to_vault watch_columns r w = (Panic ''ColumnNotFound'', w)"
proof -
  obtain t s g where e: "va_tier r = tier_as_db_str t" "va_state r = vault_state_as_db_str s"
    "va_storage_region r = region_as_aws_str g"
    using assms by (auto simp: vault_row_ok_def)
  have c: "row_get watch_columns c v = ret v" if "c \<noteq> ColStorageRegion" for c and v :: 'c
    using that by (cases c) (simp_all add: row_get_def watch_columns_def)
  have n: "row_get watch_columns ColStorageRegion v = panic ''ColumnNotFound''" for v :: 'c
    by (simp add: row_get_def watch_columns_def)
  have d: "try_domain (Inr x) = ret x" for x :: 'd
    by (simp add: try_domain_def map_err_def fun_eq_iff)
  show ?thesis
    by (simp add: row_to_vault_def c n d e) (simp add: bind_step)
qed

text \<open>C25: The signal aggregator cannot run: its query does not select \<open>storage_region\<close>, which the
row conversion reads, so the tick panics as soon as one vault is in a watched state (ACTIVE,
SUSPICIOUS or ALERT), having changed nothing.\<close>

theorem aggregator_tick_panics:
  assumes "\<forall>r \<in> set (vaults w). vault_row_ok r"
    and "\<exists>r \<in> set (vaults w). va_state r \<in> {''ACTIVE'', ''SUSPICIOUS'', ''ALERT''}"
  shows "aggregator_tick A w = (Panic ''ColumnNotFound'', w)"
proof -
  obtain r rs where sel: "sql_select (\<lambda>r. va_state r \<in> set (map vault_state_as_db_str [Active, Suspicious, Alert]))
      (vaults w) = r # rs"
    using assms(2) by (cases "sql_select (\<lambda>r. va_state r \<in> set (map vault_state_as_db_str [Active, Suspicious, Alert])) (vaults w)")
      (auto simp: sql_select_def filter_empty_conv)
  then have "r \<in> set (vaults w)"
    by (metis (no_types, lifting) list.set_intros(1) mem_Collect_eq set_sql_select)
  then have "row_to_vault watch_columns r w = (Panic ''ColumnNotFound'', w)"
    using assms(1) row_to_vault_watch by blast
  then show ?thesis
    unfolding aggregator_tick_def db_list_vaults_in_states_def bind_step [of "bind _ _"]
      bind_gets sel collect.simps by (simp add: bind_step)
qed

theorem aggregator_tick_panics_witness:
  "aggregator_tick sample_app (empty_world\<lparr>vaults := [sample_vault ''ACTIVE'']\<rparr>) =
   (Panic ''ColumnNotFound'', empty_world\<lparr>vaults := [sample_vault ''ACTIVE'']\<rparr>)"
  using rangeI [of tier_as_db_str HonestOperator] rangeI [of region_as_aws_str EuCentral1] state_in_range
  by (intro aggregator_tick_panics) (simp_all add: vault_row_ok_def sample_vault_def)

section \<open>Default weights\<close>

definition default_weights :: "signal_subscription list \<Rightarrow> bool" where
  "default_weights subs \<longleftrightarrow> (\<forall>s \<in> set subs. sn_weight s = default_weight (sn_source s))"

lemma weight_for_default:
  "default_weights subs \<Longrightarrow> weight_for subs src = Some weight \<Longrightarrow> weight = default_weight src"
  by (auto simp: default_weights_def weight_for_def find_Some_iff)

lemma observe_reading:
  assumes "weight = Fin q" "0 \<le> q" "q * m \<le> b" "exact b"
    and "c = NaN \<or> (\<exists>x. c = Fin x \<and> x \<le> m)"
  shows "reading b (observe_if_positive src c weight)"
proof (cases "f32_gt c (f32_lit 0)")
  case True
  then obtain x where x: "c = Fin x" "x \<le> m" "0 < x" using assms(5) by auto
  have "reading b [\<lparr>so_source = src, so_contribution = c, so_weight = weight\<rparr>]"
    by (rule readingI [where w = q and c = x and m = m]) (use assms x in auto)
  then show ?thesis using True by (simp add: observe_if_positive_def)
qed (simp add: observe_if_positive_def)

lemma staleness_le_1: "staleness A t l = NaN \<or> (\<exists>x. staleness A t l = Fin x \<and> x \<le> 1)"
  using f32_clamp_range [of 0 1] unfolding staleness_def by fastforce

lemma heartbeat_reading:
  assumes "default_weights subs"
  shows "reading (5 / 16) (observe_heartbeat A t vault subs)"
proof (cases "weight_for subs Heartbeat")
  case (Some weight)
  have w: "weight = Fin (10066330 / 2 ^ 25)"
    using weight_for_default [OF assms Some] lit_eqs(1) by simp
  have "reading (5 / 16) (observe_if_positive Heartbeat (staleness A t (v_last_attestation_at vault)) weight)"
    by (rule observe_reading [OF w, where m = 1]) (use exact_consts staleness_le_1 in auto)
  then show ?thesis by (simp add: observe_heartbeat_def Some)
qed (simp add: observe_heartbeat_def)

text \<open>Buddy observations as the response handler records them.\<close>

definition buddy_signals_recorded :: "world \<Rightarrow> bool" where
  "buddy_signals_recorded w \<longleftrightarrow> (\<forall>s \<in> set (signals w).
     sg_source s = ''BUDDY_ATTESTATION'' \<longrightarrow> sg_contribution s \<in> release_contribution ` {Well, Worried, UnableToReach})"

lemma release_contribution_bound: "\<exists>x. release_contribution r = Fin x \<and> x \<le> 11744051 / 2 ^ 25"
proof -
  have "(13421773 :: rat) / 2 ^ 26 \<le> 11744051 / 2 ^ 25" by simp
  then show ?thesis
    using lit_eqs(2,4) by (cases r) (metis release_contribution.simps(1) f32_lit_0 zero_le_divide_iff
      zero_le_numeral zero_le_power, metis release_contribution.simps(2), metis release_contribution.simps(3) order_refl)
qed

lemma foldl_max_bound:
  "\<forall>c \<in> set cs. \<exists>x. c = Fin x \<and> x \<le> (m :: rat) \<Longrightarrow> a \<le> m \<Longrightarrow> \<exists>x. foldl f32_max (Fin a) cs = Fin x \<and> x \<le> m"
proof (induction cs arbitrary: a)
  case (Cons c cs)
  then obtain x where x: "c = Fin x" "x \<le> m" by auto
  then show ?case using Cons.IH [of "max a x"] Cons.prems by (auto simp: f32_max_def max_def)
qed simp

lemma collect_signals:
  "collect row_to_signal rows w = (Ok sigs, w') \<Longrightarrow> w' = w \<and> (\<forall>s \<in> set sigs. \<exists>r \<in> set rows.
     sg_source r = signal_source_as_db_str (si_source s) \<and> si_contribution s = sg_contribution r)"
proof (induction rows arbitrary: sigs w)
  case Nil
  then show ?case by simp
next
  case (Cons r rows)
  from Cons.prems obtain s ss u where
    h: "row_to_signal r w = (Ok s, u)" and t: "collect row_to_signal rows u = (Ok ss, w')" and e: "sigs = s # ss"
    by (auto simp: bind_eq_Ok)
  obtain src where src: "signal_source_from_db_str (sg_source r) = Inr src"
    using h by (cases "signal_source_from_db_str (sg_source r)") (simp_all add: row_to_signal_def bind_step)
  then have "u = w" "si_source s = src" "si_contribution s = sg_contribution r"
    using h by (auto simp: row_to_signal_def bind_step)
  moreover have "sg_source r = signal_source_as_db_str src"
    using src signal_source_enum.of_str_iff by simp
  ultimately show ?case using Cons.IH [OF t [unfolded \<open>u = w\<close>]] e by auto
qed

lemma buddy_reading:
  assumes "default_weights subs" "buddy_signals_recorded w"
    and "observe_buddy t vault subs w = (Ok obs, w')"
  shows "reading (5 / 64) obs \<and> w' = w"
proof (cases "weight_for subs BuddyAttestation")
  case (Some weight)
  from assms(3) obtain sigs where c: "collect row_to_signal (order_by_desc sg_observed_at
      (sql_select (\<lambda>r. sg_vault_id r = v_id vault \<and> t - days 30 \<le> sg_observed_at r) (signals w))) w = (Ok sigs, w')"
    and obs: "obs = observe_if_positive BuddyAttestation (foldl f32_max (f32_lit 0)
        (map si_contribution (filter (\<lambda>s. si_source s = BuddyAttestation) sigs))) weight"
    by (auto simp: observe_buddy_def Some db_list_recent_signals_def bind_eq_Ok)
  have b: "\<exists>x. si_contribution s = Fin x \<and> x \<le> 11744051 / 2 ^ 25"
    if s: "s \<in> set sigs" "si_source s = BuddyAttestation" for s :: signal
  proof -
    obtain r where r: "r \<in> set (order_by_desc sg_observed_at (sql_select
        (\<lambda>r. sg_vault_id r = v_id vault \<and> t - days 30 \<le> sg_observed_at r) (signals w)))"
      and src: "sg_source r = signal_source_as_db_str (si_source s)"
      and co: "si_contribution s = sg_contribution r"
      using collect_signals [OF c] s(1) by blast
    have "r \<in> set (signals w)" using r by (simp only: set_order_by set_sql_select mem_Collect_eq)
    moreover have "sg_source r = ''BUDDY_ATTESTATION''"
      unfolding src s(2) by (rule signal_source_as_db_str.simps)
    ultimately have "si_contribution s \<in> release_contribution ` {Well, Worried, UnableToReach}"
      using assms(2) unfolding co buddy_signals_recorded_def by blast
    then obtain resp where "si_contribution s = release_contribution resp" by blast
    then show ?thesis using release_contribution_bound [of resp] by simp
  qed
  have m: "\<exists>x. foldl f32_max (Fin 0) (map si_contribution (filter (\<lambda>s. si_source s = BuddyAttestation) sigs))
      = Fin x \<and> x \<le> 11744051 / 2 ^ 25"
    by (rule foldl_max_bound) (use b in auto)
  have w: "weight = Fin (13421773 / 2 ^ 26)"
    using weight_for_default [OF assms(1) Some] lit_eqs(2) by simp
  have "reading (5 / 64) obs"
    unfolding obs f32_lit_0
    by (rule observe_reading [OF w, where m = "11744051 / 2 ^ 25"]) (use exact_consts m in auto)
  then show ?thesis using collect_signals [OF c] by simp
qed (use assms(3) in \<open>simp add: observe_buddy_def\<close>)

lemma bank_reading:
  assumes "default_weights subs" "observe_bank A t vault subs w = (Ok obs, w')"
  shows "reading (1 / 4) obs"
proof (cases "weight_for subs Cdr")
  case (Some weight)
  have w: "weight = Fin (1 / 4)"
    using weight_for_default [OF assms(1) Some] lit_eqs(3) by simp
  have "reading (1 / 4) (observe_if_positive Cdr (staleness A t (v_last_attestation_at vault)) weight)"
    by (rule observe_reading [OF w, where m = 1]) (use exact_consts staleness_le_1 in auto)
  moreover have "obs = [] \<or> obs = observe_if_positive Cdr (staleness A t (v_last_attestation_at vault)) weight"
    using assms(2) by (auto simp: observe_bank_def Some bind_eq_Ok Let_def split: if_splits)
  ultimately show ?thesis by auto
qed (use assms(2) in \<open>simp add: observe_bank_def\<close>)

lemma below_threshold:
  assumes "ts_score s = Fin y" "y \<le> 1 / 2" "c \<in> {Active, Suspicious}"
  shows "evaluate c s (f32_lit (7 / 10)) m \<in> {Active, Suspicious}"
  using assms lit_eqs(6) by (auto simp: evaluate_def should_alert_def Let_def)

text \<open>C26: The default configuration cannot raise the alarm. With every subscription at its default
weight and buddy observations as the response handler records them, whatever the vault's
silence, no observation the aggregator can build takes an ACTIVE or SUSPICIOUS vault to ALERT
at the default threshold 0.7: the score stays at or below one half.\<close>

theorem default_weights_never_alert:
  assumes "default_weights subs" and "buddy_signals_recorded w"
    and "observations A t vault subs w = (Ok obs, w')"
    and "v_state vault \<in> {Active, Suspicious}"
  shows "evaluate (v_state vault) (score obs) (f32_lit (7 / 10)) min_classes \<in> {Active, Suspicious}"
proof -
  obtain buddy bank u where b: "observe_buddy t vault subs w = (Ok buddy, u)"
    and k: "observe_bank A t vault subs u = (Ok bank, w')"
    and obs: "obs = observe_heartbeat A t vault subs @ buddy @ bank"
    using assms(3) by (auto simp: observations_def bind_eq_Ok)
  obtain y where "ts_score (score obs) = Fin y" "y \<le> 1 / 2"
    using default_score_bounds(2) [OF heartbeat_reading [OF assms(1)]] buddy_reading [OF assms(1,2) b]
      bank_reading [OF assms(1) k] obs by blast
  then show ?thesis using below_threshold assms(4) by blast
qed

definition silent_vault :: vault where
  "silent_vault = vault_of_row (sample_vault ''ACTIVE'')"

theorem default_weights_never_alert_witness:
  "evaluate (v_state silent_vault)
     (score (observe_heartbeat sample_app 500000000 silent_vault
        [\<lparr>sn_vault_id = VaultId 7, sn_source = Heartbeat, sn_weight = default_weight Heartbeat, sn_enabled = True\<rparr>]))
     (f32_lit (7 / 10)) 1 \<in> {Active, Suspicious}"
proof (rule default_weights_never_alert [where w = empty_world and w' = empty_world])
  let ?subs = "[\<lparr>sn_vault_id = VaultId 7, sn_source = Heartbeat, sn_weight = default_weight Heartbeat, sn_enabled = True\<rparr>]"
  show "default_weights ?subs" by (simp add: default_weights_def)
  show "buddy_signals_recorded empty_world" by (simp add: buddy_signals_recorded_def empty_world_def)
  show "observations sample_app 500000000 silent_vault ?subs empty_world =
      (Ok (observe_heartbeat sample_app 500000000 silent_vault ?subs), empty_world)"
    by (simp add: observations_def observe_buddy_def observe_bank_def weight_for_def)
  show "v_state silent_vault \<in> {Active, Suspicious}"
    by (simp add: silent_vault_def vault_of_row_def sample_vault_def vault_state_from_db_str_def)
qed

end
