(* ===== verification/OneShot.thy ===== *)
theory OneShot
  imports Pipeline Samples
begin

text \<open>
  Single-use tokens. Magic links, release claims, attachment claims, held letters and
  recipient changes are all consumed by one conditional \<open>UPDATE\<close>; the interface
  \<open>one_shot\<close> states what such a statement promises, and derives that in any history of
  attempts and other operations a token is honoured at most once.
\<close>

section \<open>The interface\<close>

datatype 'k event = Take 'k | Other "world \<Rightarrow> world"

text \<open>How often a history of events honours the token \<open>k\<close>.\<close>

fun honoured :: "('k \<Rightarrow> 'r option db_prog) \<Rightarrow> 'k \<Rightarrow> 'k event list \<Rightarrow> world \<Rightarrow> nat" where
  "honoured take_tok k [] w = 0"
| "honoured take_tok k (Other f # es) w = honoured take_tok k es (f w)"
| "honoured take_tok k (Take j # es) w =
     (if j = k \<and> (case fst (take_tok j w) of Ok (Some _) \<Rightarrow> True | _ \<Rightarrow> False) then 1 else 0)
     + honoured take_tok k es (snd (take_tok j w))"

definition allowed :: "(world \<Rightarrow> world) set \<Rightarrow> 'k event list \<Rightarrow> bool" where
  "allowed fs es \<longleftrightarrow> (\<forall>ev \<in> set es. case ev of Take _ \<Rightarrow> True | Other f \<Rightarrow> f \<in> fs)"

locale one_shot =
  fixes take_tok :: "'k \<Rightarrow> 'r option db_prog"
    and spent :: "'k \<Rightarrow> world \<Rightarrow> bool"
    and others :: "(world \<Rightarrow> world) set"
  assumes take_spends: "take_tok k w = (Ok (Some r), w') \<Longrightarrow> spent k w'"
    and spent_refuses: "spent k w \<Longrightarrow> fst (take_tok k w) = Ok None"
    and take_keeps: "spent k w \<Longrightarrow> spent k (snd (take_tok j w))"
    and others_keep: "f \<in> others \<Longrightarrow> spent k w \<Longrightarrow> spent k (f w)"
begin

lemma spent_never_honoured: "allowed others es \<Longrightarrow> spent k w \<Longrightarrow> honoured take_tok k es w = 0"
proof (induction es arbitrary: w)
  case (Cons ev es)
  then show ?case
    using spent_refuses take_keeps others_keep by (cases ev) (auto simp: allowed_def)
qed simp

lemma at_most_once: "allowed others es \<Longrightarrow> honoured take_tok k es w \<le> 1"
proof (induction es arbitrary: w)
  case (Cons ev es)
  have es: "allowed others es" using Cons.prems by (simp add: allowed_def)
  show ?case
  proof (cases ev)
    case (Take j)
    show ?thesis
    proof (cases "j = k \<and> (case fst (take_tok j w) of Ok (Some _) \<Rightarrow> True | _ \<Rightarrow> False)")
      case True
      then obtain r where "take_tok k w = (Ok (Some r), snd (take_tok k w))"
        by (auto split: outcome.splits option.splits) (metis prod.collapse)
      then have "spent k (snd (take_tok k w))" by (rule take_spends)
      then show ?thesis using True Take spent_never_honoured [OF es] by auto
    next
      case False
      then show ?thesis using Take Cons.IH [OF es] by auto
    qed
  next
    case (Other f)
    then show ?thesis using Cons.IH [OF es] by simp
  qed
qed simp

end

section \<open>A statement that stamps a row once\<close>

text \<open>
  The shape four of the five share: \<open>UPDATE t SET used = now() WHERE key = k AND live\<close>.
\<close>

definition exhausted :: "('r \<Rightarrow> 'k) \<Rightarrow> (world \<Rightarrow> 'r \<Rightarrow> bool) \<Rightarrow> (world \<Rightarrow> 'r list) \<Rightarrow> 'k \<Rightarrow> world \<Rightarrow> bool" where
  "exhausted key live tbl k w \<longleftrightarrow> k \<in> key ` set (tbl w) \<and> (\<forall>r \<in> set (tbl w). key r = k \<longrightarrow> \<not> live w r)"

lemma exhausted_first:
  "exhausted key live tbl k w \<Longrightarrow> sql_first (\<lambda>r. key r = k \<and> live w r) (tbl w) = None"
  by (auto simp: exhausted_def sql_first_None)

text \<open>
  A table stamped by a conditional update: what the statement and the operations around it
  promise. It gives a single-use token.
\<close>

locale stamping =
  fixes key :: "'r \<Rightarrow> 'k"
    and live :: "world \<Rightarrow> 'r \<Rightarrow> bool"
    and tbl :: "world \<Rightarrow> 'r list"
    and stamp :: "world \<Rightarrow> 'r \<Rightarrow> 'r"
    and take_tok :: "'k \<Rightarrow> 's option db_prog"
    and others :: "(world \<Rightarrow> world) set"
  assumes key_stamp: "key (stamp w r) = key r"
    and stamp_dead: "\<not> live w' (stamp w r)"
    and take_tbl: "tbl (snd (take_tok j w)) = sql_update (\<lambda>r. key r = j \<and> live w r) (stamp w) (tbl w)"
    and take_live: "live (snd (take_tok j w)) r = live w r"
    and take_none: "sql_first (\<lambda>r. key r = k \<and> live w r) (tbl w) = None \<Longrightarrow> fst (take_tok k w) = Ok None"
    and others_tbl: "f \<in> others \<Longrightarrow> set (tbl (f w)) = set (tbl w) \<or>
      (\<exists>r. tbl (f w) = tbl w @ [r] \<and> key r \<notin> key ` set (tbl w))"
    and others_live: "f \<in> others \<Longrightarrow> live (f w) r \<Longrightarrow> live w r"
begin

lemma taken_rows:
  assumes "r' \<in> set (tbl (snd (take_tok j w)))"
  obtains r where "r \<in> set (tbl w)" "key r' = key r" "live (snd (take_tok j w)) r' \<longleftrightarrow> live w r \<and> key r \<noteq> j"
proof -
  from assms obtain r where r: "r \<in> set (tbl w)" "r' = (if key r = j \<and> live w r then stamp w r else r)"
    unfolding take_tbl by (auto simp: sql_update_def)
  then show thesis
    using that [of r] by (cases "key r = j \<and> live w r") (auto simp: key_stamp stamp_dead take_live)
qed

lemma taken_keys: "key ` set (tbl (snd (take_tok j w))) = key ` set (tbl w)"
proof -
  have "map key (tbl (snd (take_tok j w))) = map key (tbl w)"
    unfolding take_tbl by (rule map_sql_update) (rule key_stamp)
  then show ?thesis by (metis set_map)
qed

lemma exhausted_taken: "exhausted key live tbl k w \<Longrightarrow> exhausted key live tbl k (snd (take_tok j w))"
  unfolding exhausted_def taken_keys by (metis taken_rows)

lemma taken_exhausted:
  assumes "k \<in> key ` set (tbl w)"
  shows "exhausted key live tbl k (snd (take_tok k w))"
  unfolding exhausted_def taken_keys using assms by (metis taken_rows)

end

sublocale stamping \<subseteq> one_shot take_tok "exhausted key live tbl" others
proof
  fix k j r w w' f
  show "exhausted key live tbl k w'" if t: "take_tok k w = (Ok (Some r), w')"
  proof -
    have "sql_first (\<lambda>r. key r = k \<and> live w r) (tbl w) \<noteq> None"
      using take_none [of k w] t by force
    then have "k \<in> key ` set (tbl w)"
      by (auto simp: sql_first_None)
    then show ?thesis using taken_exhausted t by (metis snd_conv)
  qed
  show "exhausted key live tbl k w \<Longrightarrow> fst (take_tok k w) = Ok None"
    by (rule take_none) (rule exhausted_first)
  show "exhausted key live tbl k w \<Longrightarrow> exhausted key live tbl k (snd (take_tok j w))"
    by (rule exhausted_taken)
  show "exhausted key live tbl k (f w)" if "f \<in> others" "exhausted key live tbl k w"
    using others_tbl [OF that(1), of w] others_live [OF that(1)] that(2)
    unfolding exhausted_def by (elim disjE exE conjE) auto
qed

section \<open>Interpretations\<close>

text \<open>The operations around: they leave the table alone while time passes, or add a row.\<close>

definition quiet :: "(world \<Rightarrow> 'r list) \<Rightarrow> (world \<Rightarrow> world) set" where
  "quiet tbl = {f. \<forall>w. clock w \<le> clock (f w) \<and> tbl (f w) = tbl w}"

definition effects :: "('a \<Rightarrow> (world, 'e, 'b) prog) \<Rightarrow> (world \<Rightarrow> world) set" where
  "effects m = range (\<lambda>a w. snd (m a w))"

subsection \<open>Magic links\<close>

definition link_live :: "world \<Rightarrow> magic_link_row \<Rightarrow> bool" where
  "link_live w r \<longleftrightarrow> ml_consumed_at r = None \<and> clock w < ml_expires_at r"

definition link_others :: "(world \<Rightarrow> world) set" where
  "link_others = quiet magic_links \<union> effects (\<lambda>(i, h, ttl). db_create_magic_link i h ttl)"

interpretation magic_link: stamping ml_token_hash link_live magic_links
  "\<lambda>w r. r\<lparr>ml_consumed_at := Some (clock w)\<rparr>" db_consume_magic_link link_others
proof
  fix f w r
  assume "f \<in> link_others"
  then show "set (magic_links (f w)) = set (magic_links w) \<or>
      (\<exists>r. magic_links (f w) = magic_links w @ [r] \<and> ml_token_hash r \<notin> ml_token_hash ` set (magic_links w))"
    "link_live (f w) r \<Longrightarrow> link_live w r"
    by (auto simp: link_others_def quiet_def effects_def db_create_magic_link_def bind_step link_live_def
        dest: order.strict_trans1 split: if_splits)
qed (simp_all add: db_consume_magic_link_def bind_step link_live_def)

subsection \<open>Release claims\<close>

definition claim_live :: "world \<Rightarrow> release_claim_row \<Rightarrow> bool" where
  "claim_live w r \<longleftrightarrow> cl_claimed_at r = None \<and> clock w < cl_expires_at r"

definition claim_others :: "(world \<Rightarrow> world) set" where
  "claim_others = quiet release_claims \<union> effects (\<lambda>(e, l, rcpt, h, ttl). db_issue_release_claim e l rcpt h ttl)"

interpretation release_claim: stamping cl_token_hash claim_live release_claims
  "\<lambda>w r. r\<lparr>cl_claimed_at := Some (clock w)\<rparr>" db_consume_release_claim claim_others
proof
  fix f w r
  assume "f \<in> claim_others"
  then show "set (release_claims (f w)) = set (release_claims w) \<or>
      (\<exists>r. release_claims (f w) = release_claims w @ [r] \<and> cl_token_hash r \<notin> cl_token_hash ` set (release_claims w))"
    "claim_live (f w) r \<Longrightarrow> claim_live w r"
    by (auto simp: claim_others_def quiet_def effects_def db_issue_release_claim_def bind_step claim_live_def
        dest: order.strict_trans1 split: if_splits)
qed (simp_all add: db_consume_release_claim_def bind_step claim_live_def split: option.split)

subsection \<open>Attachment claims\<close>

definition att_claim_live :: "world \<Rightarrow> attachment_claim_row \<Rightarrow> bool" where
  "att_claim_live w r \<longleftrightarrow> ac_claimed_at r = None \<and> clock w < ac_expires_at r"

definition att_claim_others :: "(world \<Rightarrow> world) set" where
  "att_claim_others = quiet attachment_claims
     \<union> effects (\<lambda>(e, a, rcpt, h, ttl). db_issue_attachment_claim e a rcpt h ttl)"

interpretation attachment_claim: stamping ac_token_hash att_claim_live attachment_claims
  "\<lambda>w r. r\<lparr>ac_claimed_at := Some (clock w)\<rparr>" db_consume_attachment_claim att_claim_others
proof
  fix f w r
  assume "f \<in> att_claim_others"
  then show "set (attachment_claims (f w)) = set (attachment_claims w) \<or>
      (\<exists>r. attachment_claims (f w) = attachment_claims w @ [r]
        \<and> ac_token_hash r \<notin> ac_token_hash ` set (attachment_claims w))"
    "att_claim_live (f w) r \<Longrightarrow> att_claim_live w r"
    by (auto simp: att_claim_others_def quiet_def effects_def db_issue_attachment_claim_def bind_step
        att_claim_live_def dest: order.strict_trans1 split: if_splits)
qed (simp_all add: db_consume_attachment_claim_def bind_step att_claim_live_def split: option.split)

subsection \<open>Held letters\<close>

definition event_live :: "world \<Rightarrow> letter_row \<Rightarrow> bool" where
  "event_live w r \<longleftrightarrow> le_release_mode r = ''EVENT_ON_DEMAND'' \<and> le_event_released_at r = None"

text \<open>The boolean result of \<open>mark_letter_event_released\<close>, as an option.\<close>

definition take_event :: "letter_id \<Rightarrow> unit option db_prog" where
  "take_event l = bind (db_mark_letter_event_released l) (\<lambda>won. ret (if won then Some () else None))"

interpretation held_letter: stamping le_id event_live letters
  "\<lambda>w r. r\<lparr>le_event_released_at := Some (clock w)\<rparr>" take_event "quiet letters"
proof
  fix k w
  assume "sql_first (\<lambda>r. le_id r = k \<and> event_live w r) (letters w) = None"
  then show "fst (take_event k w) = Ok None"
    by (auto simp: take_event_def db_mark_letter_event_released_def bind_step event_live_def
        sql_count_def sql_first_None filter_empty_conv)
qed (auto simp: take_event_def db_mark_letter_event_released_def bind_step event_live_def quiet_def)

subsection \<open>Recipient changes\<close>

interpretation recipient_change: stamping rc_id "\<lambda>_. change_pending" recipient_changes
  "\<lambda>w r. r\<lparr>rc_applied_at := Some (clock w)\<rparr>" db_apply_recipient_change
  "quiet recipient_changes"
proof
  fix f and w :: world and r :: recipient_change_row
  assume "f \<in> quiet recipient_changes"
  then show "set (recipient_changes (f w)) = set (recipient_changes w) \<or>
      (\<exists>r. recipient_changes (f w) = recipient_changes w @ [r] \<and> rc_id r \<notin> rc_id ` set (recipient_changes w))"
    by (simp add: quiet_def)
qed (simp_all add: db_apply_recipient_change_def bind_step change_pending_def split: option.split)

section \<open>Properties\<close>

text \<open>C6: A magic link signs in at most once, in any sequence of attempts with it and with other
links, links being created, time passing and operations on other tables.\<close>

theorem magic_link_at_most_once:
  assumes "allowed link_others es"
  shows "honoured db_consume_magic_link h es w \<le> 1"
  by (rule magic_link.at_most_once [OF assms])

theorem magic_link_at_most_once_witness:
  "honoured db_consume_magic_link [1] [Take [1], Other (\<lambda>w. w\<lparr>clock := clock w + 1\<rparr>), Take [1]]
     (empty_world\<lparr>magic_links := [\<lparr>ml_token_hash = [1], ml_principal_id = PrincipalId 0,
        ml_expires_at = 9, ml_consumed_at = None\<rparr>]\<rparr>) \<le> 1"
  by (rule magic_link_at_most_once) (simp add: allowed_def link_others_def quiet_def)

text \<open>C7: A recipient's claim of a letter is honoured at most once.\<close>

theorem release_claim_at_most_once:
  assumes "allowed claim_others es"
  shows "honoured db_consume_release_claim h es w \<le> 1"
  by (rule release_claim.at_most_once [OF assms])

theorem release_claim_at_most_once_witness:
  "honoured db_consume_release_claim [1] [Take [1], Take [2], Take [1]]
     (sample_world\<lparr>release_claims := [\<lparr>cl_token_hash = [1], cl_release_event_id = ReleaseEventId 3,
        cl_letter_id = LetterId 2, cl_recipient_email = ''r'', cl_expires_at = 9, cl_claimed_at = None\<rparr>]\<rparr>) \<le> 1"
  by (rule release_claim_at_most_once) (simp add: allowed_def)

text \<open>A claim of an attachment is honoured at most once.\<close>

theorem attachment_claim_at_most_once:
  assumes "allowed att_claim_others es"
  shows "honoured db_consume_attachment_claim h es w \<le> 1"
  by (rule attachment_claim.at_most_once [OF assms])

theorem attachment_claim_at_most_once_witness:
  "honoured db_consume_attachment_claim [1] [Take [1], Take [1]] sample_world \<le> 1"
  by (rule attachment_claim_at_most_once) (simp add: allowed_def)

text \<open>A recipient change is applied at most once, and never after it was cancelled: once a change
is applied or cancelled, applying it again changes no letter and returns nothing.\<close>

theorem recipient_change_settled:
  assumes "\<forall>r \<in> set (recipient_changes w). rc_id r = c \<longrightarrow> \<not> change_pending r"
  shows "db_apply_recipient_change c w = (Ok None, w)"
proof -
  have "sql_first (\<lambda>r. rc_id r = c \<and> change_pending r) (recipient_changes w) = None"
    using assms by (auto simp: sql_first_None)
  moreover have "sql_update (\<lambda>r. rc_id r = c \<and> change_pending r) f (recipient_changes w) = recipient_changes w" for f
    by (rule sql_update_none) (use assms in blast)
  ultimately show ?thesis by (simp add: db_apply_recipient_change_def bind_step)
qed

theorem recipient_change_settled_witness:
  "db_apply_recipient_change 5 (sample_world\<lparr>recipient_changes := [\<lparr>rc_id = 5, rc_letter_id = LetterId 2,
      rc_co_steward_id = CoStewardId 0, rc_old_email = ''r'', rc_new_email = ''s'', rc_requested_at = 0,
      rc_effective_at = 1, rc_applied_at = None, rc_cancelled_at = Some 1\<rparr>]\<rparr>) =
   (Ok None, sample_world\<lparr>recipient_changes := [\<lparr>rc_id = 5, rc_letter_id = LetterId 2,
      rc_co_steward_id = CoStewardId 0, rc_old_email = ''r'', rc_new_email = ''s'', rc_requested_at = 0,
      rc_effective_at = 1, rc_applied_at = None, rc_cancelled_at = Some 1\<rparr>]\<rparr>)"
  by (rule recipient_change_settled) (simp add: change_pending_def)

end
