(* ===== verification/LetterProps.thy ===== *)
theory LetterProps
  imports ReleaseProps OneShot
begin

text \<open>
  Properties of the letters around a release: held recipient changes, letters released on
  an event, and time capsules.
\<close>

section \<open>Recipient changes wait for their hold\<close>

text \<open>
  Where a letter's row may come from: the row itself, or a row redirected by a change that
  was pending with its hold elapsed.
\<close>

inductive redirected :: "world \<Rightarrow> letter_row \<Rightarrow> letter_row \<Rightarrow> bool" for w0 :: world where
  same: "redirected w0 r r"
| redirect: "redirected w0 r r' \<Longrightarrow> c \<in> set (recipient_changes w0) \<Longrightarrow> change_pending c \<Longrightarrow>
    rc_effective_at c \<le> clock w0 \<Longrightarrow> rc_letter_id c = le_id r \<Longrightarrow>
    redirected w0 r (r'\<lparr>le_recipient_email := rc_new_email c\<rparr>)"

lemma redirected_id: "redirected w0 r r' \<Longrightarrow> le_id r' = le_id r"
  by (induction rule: redirected.induct) auto

definition tick_inv :: "world \<Rightarrow> world \<Rightarrow> bool" where
  "tick_inv w0 w \<longleftrightarrow> (\<forall>c \<in> set (recipient_changes w). change_pending c \<longrightarrow> c \<in> set (recipient_changes w0))
     \<and> list_all2 (redirected w0) (letters w0) (letters w)"

lemma list_all2_sql_update:
  assumes "list_all2 R xs ys" "\<And>x y. R x y \<Longrightarrow> P y \<Longrightarrow> R x (f y)"
  shows "list_all2 R xs (sql_update P f ys)"
  using assms by (induction rule: list_all2_induct) auto

lemma apply_change_inv:
  assumes inv: "tick_inv w0 w" and key: "keyed rc_id (recipient_changes w0)"
    and due: "c0 \<in> set (recipient_changes w0)" "rc_id c0 = c" "rc_effective_at c0 \<le> clock w0"
  shows "tick_inv w0 (snd (db_apply_recipient_change c w))"
proof -
  let ?stamp = "\<lambda>r. r\<lparr>rc_applied_at := Some (clock w)\<rparr>"
  let ?w1 = "w\<lparr>recipient_changes := sql_update (\<lambda>r. rc_id r = c \<and> change_pending r) ?stamp (recipient_changes w)\<rparr>"
  have pend: "\<forall>q \<in> set (recipient_changes ?w1). change_pending q \<longrightarrow> q \<in> set (recipient_changes w0)"
    using inv by (auto simp: tick_inv_def change_pending_def)
  show ?thesis
  proof (cases "sql_first (\<lambda>r. rc_id r = c \<and> change_pending r) (recipient_changes w)")
    case None
    then show ?thesis
      using pend inv by (simp add: db_apply_recipient_change_def bind_step tick_inv_def)
  next
    case (Some q)
    then have q: "q \<in> set (recipient_changes w)" "rc_id q = c" "change_pending q"
      using sql_first_Some [OF Some] by auto
    then have q0: "q \<in> set (recipient_changes w0)" using inv by (simp add: tick_inv_def)
    then have "q = c0" using keyed_unique [OF key q0 due(1)] q(2) due(2) by simp
    then have step: "redirected w0 x (y\<lparr>le_recipient_email := rc_new_email q\<rparr>)"
      if "redirected w0 x y" "le_id y = rc_letter_id q" for x y
      using redirected.redirect [OF that(1) q0 q(3)] due(3) redirected_id [OF that(1)] that(2) by simp
    have "list_all2 (redirected w0) (letters w0)
        (sql_update (\<lambda>r. le_id r = rc_letter_id q) (\<lambda>r. r\<lparr>le_recipient_email := rc_new_email q\<rparr>) (letters w))"
      using inv step by (intro list_all2_sql_update) (auto simp: tick_inv_def)
    then show ?thesis
      using pend by (simp add: db_apply_recipient_change_def bind_step Some tick_inv_def)
  qed
qed

lemma tick_inv_log: "tick_inv w0 w \<Longrightarrow> tick_inv w0 (w\<lparr>transparency := t\<rparr>)"
  by (simp add: tick_inv_def)

lemma recipient_change_loop:
  assumes key: "keyed rc_id (recipient_changes w0)"
    and due: "\<forall>c \<in> set cs. \<exists>c0 \<in> set (recipient_changes w0). rc_id c0 = c \<and> rc_effective_at c0 \<le> clock w0"
  shows "keeps (tick_inv w0) (for_each (\<lambda>c. bind (db_apply_recipient_change c) (\<lambda>applied.
       case applied of
         None \<Rightarrow> ret ()
       | Some _ \<Rightarrow> ignore (db_append_transparency_entry ''RECIPIENT_CHANGE_APPLIED'' None None))) cs)"
  using due
proof (induction cs)
  case Nil
  show ?case by (simp only: for_each.simps keeps_ret)
next
  case (Cons c cs)
  have a: "keeps (tick_inv w0) (db_apply_recipient_change c)"
    using Cons.prems apply_change_inv [OF _ key] by (intro keepsI) auto
  have l: "keeps (tick_inv w0) (ignore (db_append_transparency_entry k i v))" for k i v
    by (rule keepsI) (simp add: log_app tick_inv_log)
  have "keeps (tick_inv w0) (bind (db_apply_recipient_change c) (\<lambda>applied. case applied of
       None \<Rightarrow> ret () | Some _ \<Rightarrow> ignore (db_append_transparency_entry ''RECIPIENT_CHANGE_APPLIED'' None None)))"
    by (intro keeps_bind a keeps_case_option keeps_ret l)
  then show ?case using Cons by (simp add: keeps_andthen)
qed



section \<open>Letters held for an event\<close>

lemma sql_update_ball:
  "(\<And>r. r \<in> set t \<Longrightarrow> P r \<Longrightarrow> Q (f r)) \<Longrightarrow> (\<And>r. r \<in> set t \<Longrightarrow> \<not> P r \<Longrightarrow> Q r) \<Longrightarrow>
   \<forall>r \<in> set (sql_update P f t). Q r"
  by auto

lemma api_Ok: "api m w = (Ok x, w') \<longleftrightarrow> m w = (Ok x, w')"
  by (simp add: api_def map_err_Ok_iff)

lemma create_release_event_letters: "letters (snd (insert_release_event v reason d t w)) = letters w"
  by (simp add: insert_release_event_def bind_step andthen_step Let_def)

lemma deliver_letters: "letters (snd (deliver_letter A e l d w)) = letters w"
  using keepsD [OF keeps_deliver, of w w A e l d] by (simp add: delivery_only_sel)

lemma mark_event_app: "db_mark_letter_event_released l w =
    (Ok (sql_count (\<lambda>r. le_id r = l \<and> event_live w r) (letters w) = 1),
     w\<lparr>letters := sql_update (\<lambda>r. le_id r = l \<and> event_live w r)
        (\<lambda>r. r\<lparr>le_event_released_at := Some (clock w)\<rparr>) (letters w)\<rparr>)"
  by (simp add: db_mark_letter_event_released_def bind_step event_live_def)

lemma trigger_Ok_marks:
  assumes "trigger_event_release A v l w = (Ok (), w')"
  shows "\<exists>u. letters w' = letters (snd (db_mark_letter_event_released l u)) \<and>
     fst (db_mark_letter_event_released l u) = Ok True"
proof -
  have same: "u2 = u" if "db_fetch_letter_meta l u = (Ok m, u2)" for m u u2
    using that by (auto simp: db_fetch_letter_meta_def bind_eq_Ok ok_or_def split: option.splits)
  from assms obtain u0 u1 where m: "db_mark_letter_event_released l u0 = (Ok True, u1)"
    and rest: "bind (api (db_fetch_letter_meta l)) (\<lambda>letter.
      bind (api (db_create_release_event v Scheduled False)) (\<lambda>release.
      andthen (api (deliver_letter A (re_id release) letter False))
     (andthen (api (db_mark_release_released (re_id release)))
     (andthen (ignore (db_append_transparency_entry ''CO_STEWARD_EVENT_RELEASE'' None (Some v)))
      (metrics_inc ReleasesCompletedTotal))))) u1 = (Ok (), w')"
    by (auto simp: trigger_event_release_def bind_eq_Ok andthen_eq_Ok api_Ok reject_if_def split: if_splits)
  from rest obtain letter u2 ev u3 u4 where f: "db_fetch_letter_meta l u1 = (Ok letter, u2)"
    and c: "db_create_release_event v Scheduled False u2 = (Ok ev, u3)"
    and d: "deliver_letter A (re_id ev) letter False u3 = (Ok (), u4)"
    and e: "letters w' = letters u4"
    by (auto simp: bind_eq_Ok andthen_eq_Ok api_Ok mark_released_app log_app)
  have "letters w' = letters u1"
    using same [OF f] deliver_letters [of A "re_id ev" letter False u3]
      create_release_event_letters [of v Scheduled False None u2] c d e
    by (simp add: db_create_release_event_def)
  then show ?thesis using m by (intro exI [of _ u0]) simp
qed

lemma trigger_refused:
  assumes "\<forall>r \<in> set (letters w). le_id r = l \<longrightarrow> \<not> event_live w r"
    and "\<forall>r \<in> set (recipient_changes w). rc_letter_id r = l \<longrightarrow> \<not> change_pending r"
  shows "trigger_event_release A v l w =
    (Err (Conflict ''Letter is not a held event Letter, or has already been released''), w)"
proof -
  have none: "sql_select (\<lambda>r. rc_letter_id r = l \<and> change_pending r) (recipient_changes w) = []"
    using assms(2) by (auto simp: sql_select_def filter_empty_conv)
  have "db_mark_letter_event_released l w = (Ok False, w)"
  proof -
    have "sql_count (\<lambda>r. le_id r = l \<and> event_live w r) (letters w) = 0"
      using assms(1) by (auto simp: sql_count_def filter_empty_conv)
    moreover have "sql_update (\<lambda>r. le_id r = l \<and> event_live w r) f (letters w) = letters w" for f
      by (rule sql_update_none) (use assms(1) in blast)
    ultimately show ?thesis by (simp add: mark_event_app)
  qed
  then show ?thesis
    by (simp add: trigger_event_release_def db_fetch_pending_recipient_change_def none order_by_desc_def
        bind_step api_step andthen_step)
qed

text \<open>A held letter fires once: after a trigger on a letter has succeeded, every further trigger
on it is a conflict that issues nothing and changes nothing, as long as the letter table stays
as the first trigger left it and no recipient change of the letter is pending.\<close>

theorem event_letter_fires_once:
  assumes "trigger_event_release A v l w = (Ok (), w')" and "letters w2 = letters w'"
    and "\<forall>r \<in> set (recipient_changes w2). rc_letter_id r = l \<longrightarrow> \<not> change_pending r"
  shows "trigger_event_release A v2 l w2 =
    (Err (Conflict ''Letter is not a held event Letter, or has already been released''), w2)"
proof (rule trigger_refused [OF _ assms(3)])
  obtain u where "letters w' = letters (snd (db_mark_letter_event_released l u))"
    using trigger_Ok_marks [OF assms(1)] by blast
  then have "letters w2 = sql_update (\<lambda>r. le_id r = l \<and> event_live u r)
      (\<lambda>r. r\<lparr>le_event_released_at := Some (clock u)\<rparr>) (letters u)"
    using assms(2) by (simp add: mark_event_app)
  moreover have "\<forall>r \<in> set (sql_update (\<lambda>r. le_id r = l \<and> event_live u r)
      (\<lambda>r. r\<lparr>le_event_released_at := Some (clock u)\<rparr>) (letters u)). le_id r = l \<longrightarrow> \<not> event_live w2 r"
    by (rule sql_update_ball) (auto simp: event_live_def)
  ultimately show "\<forall>r \<in> set (letters w2). le_id r = l \<longrightarrow> \<not> event_live w2 r"
    by simp
qed

definition held_world :: world where
  "held_world = sample_world\<lparr>letters := [sample_letter 2 ''EVENT_ON_DEMAND'']\<rparr>"

theorem event_letter_fires_once_witness:
  "\<exists>w'. trigger_event_release sample_app (VaultId 7) (LetterId 2) held_world = (Ok (), w')
    \<and> trigger_event_release sample_app (VaultId 7) (LetterId 2) w' =
        (Err (Conflict ''Letter is not a held event Letter, or has already been released''), w')"
proof -
  have fst: "fst (trigger_event_release sample_app (VaultId 7) (LetterId 2) held_world) = Ok ()"
    and rc: "recipient_changes (snd (trigger_event_release sample_app (VaultId 7) (LetterId 2) held_world)) = []"
    by (simp_all add: trigger_event_release_def db_fetch_pending_recipient_change_def sql_select_def
        order_by_desc_def order_by_def bind_step api_step andthen_step mark_event_app event_live_def
        sql_count_def db_fetch_letter_meta_def db_create_release_event_def insert_release_event_def
        deliver_letter_def db_issue_release_claim_def db_list_attachments_def mark_released_app log_app
        row_to_letter_meta_def row_to_release_event_def Let_def held_world_def sample_defs)
  obtain w' where w': "trigger_event_release sample_app (VaultId 7) (LetterId 2) held_world = (Ok (), w')"
    using fst by (metis prod.collapse)
  then show ?thesis
    using event_letter_fires_once [OF w' refl] rc by simp
qed

section \<open>Time capsules\<close>

lemma fetch_vault_app:
  assumes "vaults_ok w" "sql_first (\<lambda>r. va_id r = v) (vaults w) = Some r"
  shows "db_fetch_vault v w = (Ok (vault_of_row r), w)"
proof -
  have "vault_row_ok r" using assms sql_first_Some by (fastforce simp: vaults_ok_def)
  then show ?thesis
    using assms(2) by (simp add: db_fetch_vault_def row_to_vault_ok)
qed

lemma insert_event_app:
  assumes "v \<in> va_id ` set (vaults u)"
  shows "\<exists>ev u2. insert_release_event v reason d ends u = (Ok ev, u2) \<and> vaults u2 = vaults u
    \<and> letters u2 = letters u \<and> release_claims u2 = release_claims u
    \<and> attachment_claims u2 = attachment_claims u \<and> clock u2 = clock u"
  using assms by (simp add: insert_release_event_def bind_step andthen_step Let_def)

lemma begin_release_app:
  assumes ok: "vaults_ok w" and st: "state_of w v = Some ''ACTIVE''"
  shows "\<exists>x w'. begin_release v reason d w = (Ok x, w') \<and> letters w' = letters w
    \<and> release_claims w' = release_claims w \<and> attachment_claims w' = attachment_claims w
    \<and> vaults w' = vaults (snd (db_claim_vault_cooling_off v Active w))
    \<and> state_of w' v = Some ''COOLING_OFF''"
proof -
  obtain r where r: "sql_first (\<lambda>r. va_id r = v) (vaults w) = Some r"
    using st by (auto simp: state_of_def)
  have k: "keyed va_id (vaults w)" using ok by (simp add: vaults_ok_def)
  have st': "state_of (snd (db_claim_vault_cooling_off v Active w)) v = Some ''COOLING_OFF''"
    using st by (simp add: claim_cooling_state)
  define u where "u = snd (db_claim_vault_cooling_off v Active w)"
  have won: "db_claim_vault_cooling_off v Active w = (Ok True, u)"
    using claim_cooling_wins_iff [OF k, of v Active] st by (simp add: prod_eq_iff u_def)
  have rest: "letters u = letters w" "release_claims u = release_claims w"
    "attachment_claims u = attachment_claims w"
    by (simp_all add: u_def claim_cooling_app)
  have "v \<in> va_id ` set (vaults u)"
    using st' unfolding u_def by (auto simp: state_of_def dest!: sql_first_Some)
  from insert_event_app [OF this] obtain ev u2 where
    ev: "insert_release_event v reason d (Some (clock w + seconds (max (v_cooling_off_seconds (vault_of_row r)) 1))) u = (Ok ev, u2)"
    and u2: "vaults u2 = vaults u" "letters u2 = letters u" "release_claims u2 = release_claims u"
      "attachment_claims u2 = attachment_claims u"
    by blast
  have run: "begin_release v reason d w = begin_release_with_cool v reason d (v_cooling_off_seconds (vault_of_row r)) w"
    by (simp add: begin_release_def bind_step api_step fetch_vault_app [OF ok r])
  show ?thesis
    unfolding run begin_release_with_cool_def db_create_release_event_with_deadline_def
    using st' rest u2
    by (simp add: bind_step api_step andthen_step Let_def won ev log_app
        spawn_release_elapse_def state_of_def)
qed

lemma claims_of_release:
  assumes ok: "vaults_ok w" and run: "elapse_release A v e d w = (Ok (), w')"
    and c: "c \<in> set (release_claims w')"
  shows "c \<in> set (release_claims w) \<or> cl_letter_id c \<in> lm_id ` set (signal_letters v w)"
proof (cases "state_of w v = Some ''COOLING_OFF''")
  case True
  let ?w1 = "snd (for_each (\<lambda>l. deliver_letter A e l d) (signal_letters v (claimed v w)) (claimed v w))"
  obtain r where r: "sql_first (\<lambda>r. va_id r = v) (vaults (claimed v w)) = Some r"
    using elapse_claimed(2) [OF ok True] by (auto simp: state_of_def)
  have sl: "signal_letters v (claimed v w) = signal_letters v w" by (simp add: signal_letters_def)
  have "?w1 = fold (deliver_effect A e d) (signal_letters v w) (claimed v w)"
    "release_claims w' = release_claims ?w1"
    using perform_release_cases [OF claimed_ok [OF ok] r, of A e d] run
    by (auto simp: elapse_claimed(1) [OF ok True] sl)
  moreover obtain new where
    "release_claims (fold (deliver_effect A e d) (signal_letters v w) (claimed v w)) = release_claims w @ new"
    and m: "map claim_view new = map (\<lambda>l. (lm_id l, lm_recipient_email l, e, clock w + days 30, None)) (signal_letters v w)"
    using deliver_all_claims [of A e d "signal_letters v w" "claimed v w"] by auto
  ultimately have "release_claims w' = release_claims w @ new" by simp
  moreover have "cl_letter_id q \<in> lm_id ` set (signal_letters v w)" if "q \<in> set new" for q
  proof -
    have "claim_view q \<in> set (map claim_view new)" using that by simp
    then show ?thesis unfolding m by (auto simp: claim_view_def)
  qed
  ultimately show ?thesis using c by auto
next
  case False
  then show ?thesis
    using elapse_lost [of w v A e d] ok run c by (simp add: vaults_ok_def)
qed

definition signal_mode :: "string \<Rightarrow> bool" where
  "signal_mode m \<longleftrightarrow> m \<in> set [''SIGNAL_OR_SCHEDULED'', ''SIGNAL_ONLY'']"

lemma signal_letters_mode:
  "l \<in> lm_id ` set (signal_letters v w) \<Longrightarrow> \<exists>q \<in> set (letters w). le_id q = l \<and> signal_mode (le_release_mode q)"
  unfolding signal_letters_def set_map set_order_by set_sql_select signal_mode_def [symmetric]
  by (auto simp: row_to_letter_meta_def)

definition row_subscribed :: "world \<Rightarrow> principal_id \<Rightarrow> bool" where
  "row_subscribed w i \<longleftrightarrow> (\<exists>s. sql_first (\<lambda>r. su_principal_id r = i) (subscriptions w) = Some s \<and> su_state s = ''ACTIVE'')"


definition capsule_world :: world where
  "capsule_world = empty_world\<lparr>clock := 5, vaults := [sample_vault ''ACTIVE''],
     letters := [(sample_letter 2 ''SCHEDULED_ONLY'')\<lparr>le_scheduled_release_at := Some 4\<rparr>],
     subscriptions := [\<lparr>su_id = SubscriptionId 9, su_principal_id = PrincipalId 0,
       su_plan_id = ''draft_v1'', su_state = ''ACTIVE'', su_started_at = 0, su_trial_end_at = None,
       su_current_period_end = None, su_canceled_at = None, su_retention_until = None,
       su_extra_storage_bytes = 0\<rparr>]\<rparr>"


end
