(* ===== verification/Migrations.thy ===== *)
theory Migrations
  imports Schema
begin

text \<open>
  The embedded migration runner of src/crates/beacon-db/src/lib.rs (\<open>EMBEDDED_MIGRATIONS\<close>,
  \<open>migrate_locked\<close>, \<open>verify_migrations\<close>). The state is the set of tables of the schema and the
  names recorded in \<open>schema_migrations\<close>. Running the SQL of a migration is a parameter
  \<open>run_sql\<close>, from its name and the tables to the tables afterwards or an error; each runs in
  a transaction, so an error leaves the tables. The advisory lock serialises the runners,
  which is the order of the steps here.
\<close>

section \<open>The runner\<close>

record db_schema =
  tables :: "string list"
  schema_migrations :: "string list option"

type_synonym 'a mig_prog = "(db_schema, db_error, 'a) prog"

definition EMBEDDED_MIGRATIONS :: "string list" where
  "EMBEDDED_MIGRATIONS =
     [''0001_init'', ''0002_buddies_signals_drills'', ''0003_attachments'',
      ''0004_account_deletion'', ''0005_pricing_tiers'', ''0006_letter_categories'',
      ''0007_co_stewards'', ''0008_storage_addon.sql'', ''0009_stripe_billing.sql'',
      ''0010_time_capsule'', ''0011_durable_release_deadlines'', ''0012_co_steward_postmortem'',
      ''0013_tos'', ''0014_vault_contacts'', ''0015_media_playlist_kind'', ''0016_bank_dormancy'',
      ''0017_vault_storage_region'']"

definition applied :: "db_schema \<Rightarrow> string list" where
  "applied s = (case schema_migrations s of None \<Rightarrow> [] | Some ns \<Rightarrow> ns)"

definition record_applied :: "string \<Rightarrow> db_schema \<Rightarrow> db_schema" where
  "record_applied name s = s\<lparr>schema_migrations := Some (applied s @ [name])\<rparr>"

text \<open>A table whose presence tells that the migration was run by hand before the runner existed.\<close>

definition detected_by :: "string \<Rightarrow> string option" where
  "detected_by name =
     (if name = ''0001_init'' then Some ''principal''
      else if name = ''0002_buddies_signals_drills'' then Some ''buddy''
      else if name = ''0003_attachments'' then Some ''attachment'' else None)"

definition detected :: "string \<Rightarrow> db_schema \<Rightarrow> bool" where
  "detected name s = (case detected_by name of None \<Rightarrow> False | Some t \<Rightarrow> t \<in> set (tables s))"

text \<open>One round of the loop: whether the migration was applied now.\<close>

definition migrate_one ::
  "(string \<Rightarrow> string list \<Rightarrow> db_error + string list) \<Rightarrow> string \<Rightarrow> bool mig_prog" where
  "migrate_one run_sql name =
     bind (gets (\<lambda>s. name \<in> set (applied s))) (\<lambda>already.
     if already then ret False
     else bind (gets (detected name)) (\<lambda>found.
       if found then andthen (modify (record_applied name)) (ret False)
       else bind (gets tables) (\<lambda>ts.
         bind (of_sum (run_sql name ts)) (\<lambda>ts'.
         andthen (modify (\<lambda>s. record_applied name (s\<lparr>tables := ts'\<rparr>))) (ret True)))))"

fun migrate_all ::
  "(string \<Rightarrow> string list \<Rightarrow> db_error + string list) \<Rightarrow> string list \<Rightarrow> nat \<Rightarrow> nat mig_prog" where
  "migrate_all run_sql [] applied_count = ret applied_count"
| "migrate_all run_sql (name # names) applied_count =
     bind (migrate_one run_sql name) (\<lambda>ran.
     migrate_all run_sql names (if ran then applied_count + 1 else applied_count))"

definition migrate :: "(string \<Rightarrow> string list \<Rightarrow> db_error + string list) \<Rightarrow> nat mig_prog" where
  "migrate run_sql =
     andthen (modify (\<lambda>s. s\<lparr>schema_migrations := Some (applied s)\<rparr>))
       (migrate_all run_sql EMBEDDED_MIGRATIONS 0)"

definition verify_migrations :: "unit mig_prog" where
  "verify_migrations =
     bind (gets schema_migrations) (\<lambda>tracking.
     case tracking of
       None \<Rightarrow> throw (MigrationPending (hd EMBEDDED_MIGRATIONS))
     | Some done \<Rightarrow>
         for_each (\<lambda>name. reject_if (name \<notin> set done) (MigrationPending name)) EMBEDDED_MIGRATIONS)"

section \<open>Lemmas\<close>

lemma applied_record [simp]: "applied (record_applied n s) = applied s @ [n]"
  by (simp add: record_applied_def applied_def)

lemma schema_run: "bind m f s = (case m s of (Ok x, s') \<Rightarrow> f x s' | (Err e, s') \<Rightarrow> (Err e, s') | (Panic p, s') \<Rightarrow> (Panic p, s'))"
  by (simp add: bind_def)

lemma migrate_one_eq:
  "migrate_one run_sql name s =
     (if name \<in> set (applied s) then (Ok False, s)
      else if detected name s then (Ok False, record_applied name s)
      else case run_sql name (tables s) of
          Inl e \<Rightarrow> (Err e, s)
        | Inr ts' \<Rightarrow> (Ok True, record_applied name (s\<lparr>tables := ts'\<rparr>)))"
  by (simp add: migrate_one_def schema_run andthen_def of_sum_def split: sum.split)

lemma applied_tables [simp]: "applied (s\<lparr>tables := ts\<rparr>) = applied s"
  by (simp add: applied_def)

lemma recorded [simp]: "schema_migrations (record_applied n s) = Some (applied s @ [n])"
  by (simp add: record_applied_def)

lemma migrate_one_cases:
  assumes "migrate_one run_sql name s = (Ok b, s')"
  shows "set (applied s) \<subseteq> set (applied s')"
    and "schema_migrations s \<noteq> None \<Longrightarrow> schema_migrations s' \<noteq> None"
    and "name \<in> set (applied s')"
  using assms by (auto simp: migrate_one_eq split: if_splits sum.splits)

lemma migrate_all_done:
  assumes "migrate_all run_sql names n s = (Ok k, s')"
  shows "set names \<subseteq> set (applied s') \<and> set (applied s) \<subseteq> set (applied s')
    \<and> (schema_migrations s \<noteq> None \<longrightarrow> schema_migrations s' \<noteq> None)"
  using assms
proof (induction names arbitrary: n s)
  case (Cons name names)
  from Cons.prems obtain b s1 where one: "migrate_one run_sql name s = (Ok b, s1)"
    and rest: "migrate_all run_sql names (if b then n + 1 else n) s1 = (Ok k, s')"
    by (auto simp: bind_eq_Ok)
  from Cons.IH [OF rest] migrate_one_cases [OF one] show ?case by auto
qed simp

lemma migrate_all_again:
  "set names \<subseteq> set (applied s) \<Longrightarrow> migrate_all run_sql names n s = (Ok n, s)"
  by (induction names arbitrary: n) (simp_all add: migrate_one_eq schema_run)

lemma verify_all:
  assumes "schema_migrations s = Some done"
  shows "set names \<subseteq> set done \<Longrightarrow>
    for_each (\<lambda>name. reject_if (name \<notin> set done) (MigrationPending name)) names s = (Ok (), s)"
  by (induction names) (simp_all add: andthen_def)

lemma tables_bounded:
  assumes "\<And>n ts ts'. run_sql n ts = Inr ts' \<Longrightarrow> set ts' \<subseteq> set ts \<union> set (creates n)"
    and "t \<notin> set (tables s)" and "\<forall>n \<in> set names. t \<notin> set (creates n)"
  shows "t \<notin> set (tables (snd (migrate_all run_sql names k s)))"
  using assms(2,3)
proof (induction names arbitrary: k s)
  case (Cons name names)
  have one: "t \<notin> set (tables (snd (migrate_one run_sql name s)))"
    using Cons.prems assms(1) [of name "tables s"]
    by (auto simp: migrate_one_eq record_applied_def split: sum.splits)
  show ?case
  proof (cases "migrate_one run_sql name s")
    case (Pair r s1)
    with one Cons show ?thesis by (cases r) (simp_all add: schema_run)
  qed
qed simp

lemma migrated_is_verified:
  assumes "migrate run_sql s = (Ok n, s')"
  shows "verify_migrations s' = (Ok (), s')" and "migrate run_sql' s' = (Ok 0, s')"
proof -
  from assms have all: "set EMBEDDED_MIGRATIONS \<subseteq> set (applied s')" and some: "schema_migrations s' \<noteq> None"
    by (auto simp: migrate_def andthen_eq_Ok dest!: migrate_all_done)
  from some obtain names where names: "schema_migrations s' = Some names" by blast
  then have "applied s' = names" and same: "s'\<lparr>schema_migrations := Some (applied s')\<rparr> = s'"
    by (simp_all add: applied_def)
  with all names show "verify_migrations s' = (Ok (), s')"
    by (simp add: verify_migrations_def verify_all)
  show "migrate run_sql' s' = (Ok 0, s')"
    by (simp add: migrate_def andthen_def schema_run same migrate_all_again [OF all])
qed

section \<open>Properties\<close>

text \<open>Migrating is idempotent and is what the boot check asks for: after a successful run the
verification passes and a second run applies nothing and changes nothing.\<close>

theorem migrate_then_verified:
  assumes "migrate run_sql s = (Ok n, s')"
  shows "verify_migrations s' = (Ok (), s') \<and> migrate run_sql s' = (Ok 0, s')"
  using migrated_is_verified [OF assms] by blast

text \<open>The tables each migration file creates (\<open>CREATE TABLE\<close> in migrations/*.sql).\<close>

definition creates :: "string \<Rightarrow> string list" where
  "creates name = (case map_of
     [(''0001_init'', [''principal'', ''auth_identity'', ''magic_link'', ''session'', ''subscription'',
         ''vault'', ''letter'', ''heartbeat'', ''release_event'', ''release_claim'', ''transparency_entry'']),
      (''0002_buddies_signals_drills'',
         [''buddy'', ''signal_subscription'', ''signal'', ''apple_shortcut_subscription'']),
      (''0003_attachments'', [''attachment'', ''release_attachment_claim'']),
      (''0007_co_stewards'', [''co_steward'']),
      (''0008_storage_addon.sql'', [''storage_addon_grant'']),
      (''0009_stripe_billing.sql'', [''stripe_webhook_event'']),
      (''0012_co_steward_postmortem'', [''letter_recipient_change'']),
      (''0014_vault_contacts'', [''vault_contact'']),
      (''0016_bank_dormancy'', [''bank_dormancy_subscription''])] name of
       None \<Rightarrow> [] | Some ts \<Rightarrow> ts)"

text \<open>The duress and passkey tables are never created by the runner: the files 0018 to 0023 are
not embedded, so a database it migrates has none of the tables that the duress, passkey,
recovery and Private Vault statements use.\<close>

theorem embedded_set_is_incomplete:
  assumes "\<And>n ts ts'. run_sql n ts = Inr ts' \<Longrightarrow> set ts' \<subseteq> set ts \<union> set (creates n)"
    and "t \<in> {''duress_signal'', ''principal_passkey'', ''webauthn_challenge'', ''zk_key_envelope'',
      ''zk_recovery_envelope'', ''principal_recovery'', ''principal_recovery_key'',
      ''vault_prk_envelope'', ''zk_letter_heir_envelope''}"
    and "t \<notin> set (tables s)"
  shows "t \<notin> set (tables (snd (migrate run_sql s)))"
proof -
  have "list_all (\<lambda>n. list_all (\<lambda>t. t \<notin> set (creates n))
      [''duress_signal'', ''principal_passkey'', ''webauthn_challenge'', ''zk_key_envelope'',
      ''zk_recovery_envelope'', ''principal_recovery'', ''principal_recovery_key'',
      ''vault_prk_envelope'', ''zk_letter_heir_envelope'']) EMBEDDED_MIGRATIONS"
    by code_simp
  then have "\<forall>n \<in> set EMBEDDED_MIGRATIONS. t \<notin> set (creates n)"
    using assms(2) by (simp only: list_all_iff) auto
  moreover have "t \<notin> set (tables (s\<lparr>schema_migrations := Some (applied s)\<rparr>))" using assms(3) by simp
  ultimately have "t \<notin> set (tables (snd (migrate_all run_sql EMBEDDED_MIGRATIONS 0
      (s\<lparr>schema_migrations := Some (applied s)\<rparr>))))"
    using tables_bounded [where creates = creates, OF assms(1)] by blast
  then show ?thesis by (simp add: migrate_def andthen_def schema_run)
qed

definition sample_run_sql :: "string \<Rightarrow> string list \<Rightarrow> db_error + string list" where
  "sample_run_sql n ts = Inr (ts @ creates n)"

lemma migrate_then_verified_witness:
  "\<exists>n s'. migrate sample_run_sql \<lparr>tables = [], schema_migrations = None\<rparr> = (Ok n, s')
     \<and> verify_migrations s' = (Ok (), s') \<and> migrate sample_run_sql s' = (Ok 0, s')"
proof -
  have total: "\<exists>n s'. migrate_all sample_run_sql ns k s = (Ok n, s')" for ns k s
    by (induction ns arbitrary: k s)
      (auto simp: migrate_one_eq schema_run sample_run_sql_def)
  obtain n s' where "migrate sample_run_sql \<lparr>tables = [], schema_migrations = None\<rparr> = (Ok n, s')"
    unfolding migrate_def andthen_def schema_run modify_app prod.case outcome.case using total by blast
  with migrate_then_verified [OF this] show ?thesis by blast
qed

lemma embedded_set_is_incomplete_witness:
  "''duress_signal'' \<notin> set (tables (snd (migrate sample_run_sql \<lparr>tables = [], schema_migrations = None\<rparr>)))"
  by (rule embedded_set_is_incomplete) (auto simp: sample_run_sql_def)

end
