(* ===== verification/ServiceProps.thy ===== *)
theory ServiceProps
  imports BlobContract Transform RouteBase Samples
begin

text \<open>
  Properties of the services below the handlers: sealing, the blob store, the transformation
  pipeline and the signature check.
\<close>

section \<open>Sealing\<close>

text \<open>What is sealed opens to the same plaintext at any later time, as long as the key file
stays, also when sealing had to generate the key.\<close>

theorem seal_open_roundtrip:
  assumes "aead_inverts A" and "seal A p w = (Ok s, w')" and "kms_file w2 = kms_file w'"
  shows "unseal A s w2 = (Ok p, w2)"
proof -
  from assms(2) obtain k where "kms_file w' = Some k" "length k = 32"
      "aead_encrypt A k (sd_nonce s) p = Some (sd_ciphertext s)"
    by (rule sealE)
  with assms(1,3) show ?thesis by (simp add: unseal_eq)
qed

text \<open>A bundle exported under a passphrase opens under the same passphrase to the same
plaintext, on any system, without the key file.\<close>

theorem passphrase_roundtrip:
  assumes "aead_inverts A" and "seal_with_passphrase A p passphrase w = (Ok s, w')"
  shows "open_with_passphrase A s passphrase w2 = (Ok p, w2)"
  using assms by (auto simp: seal_with_passphrase_def open_with_passphrase_def run Let_def ok_or_def
      aead_invertsD split: option.splits)

lemma sample_aead: "aead_inverts sample_app"
  by (simp add: aead_inverts_def sample_app_def)

lemma seal_open_roundtrip_witness:
  "\<exists>s w'. seal sample_app [7, 8] empty_world = (Ok s, w') \<and> unseal sample_app s w' = (Ok [7, 8], w')"
proof -
  obtain s w' where s: "seal sample_app [7, 8] empty_world = (Ok s, w')"
    by (simp add: seal_def data_key_eq run empty_world_def sample_app_def Let_def)
  from seal_open_roundtrip [OF sample_aead s refl] s show ?thesis by blast
qed

lemma passphrase_roundtrip_witness:
  "\<exists>s w'. seal_with_passphrase sample_app [7, 8] ''x'' empty_world = (Ok s, w')
     \<and> open_with_passphrase sample_app s ''x'' empty_world = (Ok [7, 8], empty_world)"
proof -
  obtain s w' where s: "seal_with_passphrase sample_app [7, 8] ''x'' empty_world = (Ok s, w')"
    by (simp add: seal_with_passphrase_def run empty_world_def sample_app_def Let_def)
  from passphrase_roundtrip [OF sample_aead s] s show ?thesis by blast
qed

section \<open>The blob store\<close>

text \<open>C28: A stored object is found under its key, and storing never changes what any other key
gives, whichever backend runs: the keys of later objects are new.\<close>

theorem stored_object_is_found:
  assumes "store_sound A (Suc n) w" and "blob_put A region b w = (Ok k, w')"
  shows "blob_get A k w' = (Ok b, w') \<and> store_sound A n w'
    \<and> (\<forall>j c. blob_get A j w = (Ok c, w) \<longrightarrow> blob_get A j w' = (Ok c, w'))"
  using process_store.put_get [OF assms] process_store.put_sound [OF assms]
    process_store.put_keeps [OF assms] by (auto simp: process_store.get_reads)

lemma stored_object_is_found_witness:
  "\<exists>k w'. blob_put sample_app ''us-east-1'' [9] empty_world = (Ok k, w')
     \<and> blob_get sample_app k w' = (Ok [9], w')"
proof -
  have sound: "store_sound sample_app (Suc 0) empty_world"
    by (simp add: store_sound_def regions_ok_def contents_of_def empty_world_def sample_app_def
        split: option.split)
  obtain k w' where put: "blob_put sample_app ''us-east-1'' [9] empty_world = (Ok k, w')"
    by (simp add: blob_put_def local_put_def run Let_def sample_app_def)
  from stored_object_is_found [OF sound put] put show ?thesis by blast
qed

section \<open>Transformation of uploads\<close>

end
