(* ===== verification/AccountProps.thy ===== *)
theory AccountProps
  imports SystemProps
begin

text \<open>
  Properties of sessions: what a bearer token stands for over any run of the server, and what
  the session of a Co-Steward is accepted for.
\<close>

section \<open>The row of a session\<close>

lemma session_kept:
  assumes "consistent w" "runs A W w w'" "s \<in> set (sessions w)"
  shows "\<exists>s' \<in> set (sessions w'). session_identity s' = session_identity s \<and> (revoked s \<longrightarrow> revoked s')"
proof -
  have inv: "sys_inv w w'" using runs_inv [OF assms(1,2)] .
  then have "prefix (map session_identity (sessions w)) (map session_identity (sessions w'))"
    and r: "revoked_tokens w \<subseteq> revoked_tokens w'" and k: "keyed se_token_hash (sessions w')"
    by (simp_all add: sys_inv_def extends_def keys_ok_def)
  then have "session_identity s \<in> session_identity ` set (sessions w')"
    using assms(3) set_mono_prefix by fastforce
  then obtain s' where s': "s' \<in> set (sessions w')" "session_identity s' = session_identity s" by auto
  have "revoked s'" if "revoked s"
  proof -
    have "se_token_hash s \<in> revoked_tokens w'" using r that assms(3) by (auto simp: marked_def)
    then obtain x where "x \<in> set (sessions w')" "revoked x" "se_token_hash x = se_token_hash s"
      by (auto simp: marked_def)
    with s' keyed_unique [OF k] show ?thesis by (metis session_identity_def prod.inject)
  qed
  with s' show ?thesis by blast
qed

lemma sessions_keyed: "consistent w \<Longrightarrow> keyed se_token_hash (sessions w)"
  by (simp add: consistent_def keys_ok_def)

lemma bearer_session_principal:
  assumes "keyed se_token_hash (sessions w)" "s \<in> set (sessions w)" "se_token_hash s = hash_token A token"
  shows "session_principal A (Some (''Bearer '' @ token)) w =
    (if revoked s \<or> se_expires_at s \<le> clock w then None else Some (se_principal_id s))"
proof (cases "revoked s \<or> se_expires_at s \<le> clock w")
  case True
  have "sql_first (\<lambda>r. se_token_hash r = hash_token A token \<and> se_revoked_at r = None \<and> clock w < se_expires_at r)
      (sessions w) = None"
    unfolding sql_first_None using True keyed_unique [OF assms(1,2)] assms(3) by (auto simp: revoked_def)
  then show ?thesis unfolding session_principal_def using True by (simp only: option.case strip_prefix_append) simp
next
  case False
  then have "sql_first (\<lambda>r. se_token_hash r = hash_token A token \<and> se_revoked_at r = None \<and> clock w < se_expires_at r)
      (sessions w) = Some s"
    by (intro keyed_first_iff [OF assms(1,2)]) (use assms(3) in \<open>auto simp: revoked_def\<close>)
  then show ?thesis unfolding session_principal_def using False by (simp only: option.case strip_prefix_append) simp
qed

lemma bearer_session_co_steward:
  assumes "keyed se_token_hash (sessions w)" "s \<in> set (sessions w)" "se_token_hash s = hash_token A token"
    and "se_auth_role s = ''CO_STEWARD''" "se_co_steward_id s = Some c" "\<not> revoked s" "clock w < se_expires_at s"
  shows "session_co_steward A (Some (''Bearer '' @ token)) w = Some (c, se_principal_id s)"
proof -
  have "sql_first (\<lambda>r. se_token_hash r = hash_token A token \<and> se_auth_role r = ''CO_STEWARD''
      \<and> se_co_steward_id r \<noteq> None \<and> se_revoked_at r = None \<and> clock w < se_expires_at r) (sessions w) = Some s"
    by (intro keyed_first_iff [OF assms(1,2)]) (use assms(3-) in \<open>auto simp: revoked_def\<close>)
  then show ?thesis unfolding session_co_steward_def by (simp only: option.case strip_prefix_append assms(5))
qed

text \<open>
  C21: The life of a session. Over any run of the server a bearer token stands for the principal
  it was issued to and for nobody else, it is accepted exactly until its row is revoked or its
  time is over, and a token that was revoked or had expired is never accepted again.
\<close>

theorem session_lifecycle:
  assumes "consistent w" and "runs A W w w'" and "s \<in> set (sessions w)"
    and "se_token_hash s = hash_token A token"
  shows "\<exists>s' \<in> set (sessions w'). se_token_hash s' = hash_token A token
    \<and> current_principal A (Some (''Bearer '' @ token)) w' =
       ((if revoked s' \<or> se_expires_at s \<le> clock w' then Err Unauthorised else Ok (se_principal_id s)), w')
    \<and> (revoked s \<or> se_expires_at s \<le> clock w \<longrightarrow>
        current_principal A (Some (''Bearer '' @ token)) w' = (Err Unauthorised, w'))"
proof -
  obtain s' where s': "s' \<in> set (sessions w')" "session_identity s' = session_identity s" "revoked s \<longrightarrow> revoked s'"
    using session_kept [OF assms(1-3)] by blast
  have h: "se_token_hash s' = hash_token A token" "se_expires_at s' = se_expires_at s"
      "se_principal_id s' = se_principal_id s"
    using s'(2) assms(4) by (simp_all add: session_identity_def)
  have inv: "sys_inv w w'" using runs_inv [OF assms(1,2)] .
  then have t: "clock w \<le> clock w'" by (simp add: sys_inv_def extends_def)
  have "current_principal A (Some (''Bearer '' @ token)) w' =
       ((if revoked s' \<or> se_expires_at s \<le> clock w' then Err Unauthorised else Ok (se_principal_id s)), w')"
    unfolding current_principal_eq bearer_session_principal [OF sessions_keyed [OF sys_inv_consistent [OF inv]] s'(1) h(1)]
    by (simp add: h)
  with s'(1,3) h(1) t show ?thesis by (intro bexI [of _ s']) auto
qed

section \<open>Co-Steward sessions\<close>

lemma sign_in_stores:
  assumes "sign_in_co_steward A email passphrase w = (Ok resp, w1)"
  shows "\<exists>s \<in> set (sessions w1). se_token_hash s = hash_token A (ccr_session_token resp)
    \<and> se_auth_role s = ''CO_STEWARD'' \<and> se_co_steward_id s = Some (ccr_co_steward_id resp)
    \<and> se_expires_at s = clock w1 + hours 24"
  using assms
  by (auto simp: sign_in_co_steward_def Let_def run api_step db_lookup_co_steward_salt_def
      db_sign_in_co_steward_def db_create_co_steward_session_def ok_or_def
      split: option.splits if_splits)

text \<open>
  C22: A Co-Steward can act as the principal. The token that a Co-Steward gets at sign-in passes
  the guard of the Co-Steward routes and also the guard of the principal's own routes, as that
  principal, for 24 hours in any run in which the token itself is not signed out, even when the
  Co-Steward is revoked meanwhile: \<open>principal_for_session\<close> does not look at \<open>auth_role\<close>, and
  revoking a Co-Steward leaves its sessions alone.
\<close>

theorem co_steward_acts_as_principal:
  assumes "consistent w" and "sign_in_co_steward A email passphrase w = (Ok resp, w1)"
    and "runs A W w1 w2" and "clock w2 < clock w1 + hours 24"
    and "hash_token A (ccr_session_token resp) \<notin> revoked_tokens w2"
  shows "\<exists>pid. current_co_steward A (Some (''Bearer '' @ ccr_session_token resp)) w2 =
      (Ok (ccr_co_steward_id resp, pid), w2)
    \<and> current_principal A (Some (''Bearer '' @ ccr_session_token resp)) w2 = (Ok pid, w2)"
proof -
  have ok1: "consistent w1"
    using keepsD' [OF kept_sign_in_co_steward assms(2) consistent_refl [OF assms(1)]] by (rule sys_inv_consistent)
  have ok2: "consistent w2" using runs_inv [OF ok1 assms(3)] by (rule sys_inv_consistent)
  obtain s where s: "s \<in> set (sessions w1)" "se_token_hash s = hash_token A (ccr_session_token resp)"
      "se_auth_role s = ''CO_STEWARD''" "se_co_steward_id s = Some (ccr_co_steward_id resp)"
      "se_expires_at s = clock w1 + hours 24"
    using sign_in_stores [OF assms(2)] by blast
  obtain s' where s': "s' \<in> set (sessions w2)" "session_identity s' = session_identity s"
    using session_kept [OF ok1 assms(3) s(1)] by blast
  then have h: "se_token_hash s' = hash_token A (ccr_session_token resp)" "se_auth_role s' = ''CO_STEWARD''"
      "se_co_steward_id s' = Some (ccr_co_steward_id resp)" "se_expires_at s' = clock w1 + hours 24"
    using s by (simp_all add: session_identity_def)
  have live: "\<not> revoked s'" using assms(5) s'(1) h(1) by (auto simp: marked_def image_iff)
  have "session_co_steward A (Some (''Bearer '' @ ccr_session_token resp)) w2 =
      Some (ccr_co_steward_id resp, se_principal_id s')"
    using bearer_session_co_steward [OF sessions_keyed [OF ok2] s'(1) h(1-3) live] h(4) assms(4) by simp
  moreover have "session_principal A (Some (''Bearer '' @ ccr_session_token resp)) w2 = Some (se_principal_id s')"
    using bearer_session_principal [OF sessions_keyed [OF ok2] s'(1) h(1)] h(4) assms(4) live by simp
  ultimately show ?thesis by (simp add: current_principal_eq current_co_steward_eq)
qed

section \<open>Witnesses\<close>

definition my_session :: session_row where
  "my_session = \<lparr>se_token_hash = as_bytes ''t'', se_principal_id = PrincipalId 0, se_co_steward_id = None,
     se_auth_role = ''PRINCIPAL'', se_expires_at = 100, se_revoked_at = None\<rparr>"

definition signed_in :: world where
  "signed_in = sample_world\<lparr>sessions := [my_session]\<rparr>"

lemma signed_in_ok: "consistent signed_in"
  using sample_consistent
  by (simp add: signed_in_def my_session_def consistent_def keys_ok_def refs_ok_def enums_ok_def sample_defs keyed_def)

theorem session_lifecycle_witness:
  "current_principal sample_app (Some (''Bearer '' @ ''t'')) (signed_in\<lparr>clock := 200\<rparr>) =
    (Err Unauthorised, signed_in\<lparr>clock := 200\<rparr>)"
proof -
  fix W :: webauthn
  have "server_step sample_app W signed_in (signed_in\<lparr>clock := 200\<rparr>)"
    by (rule server_step.time) (simp add: signed_in_def sample_world_def)
  then have r: "runs sample_app W signed_in (signed_in\<lparr>clock := 200\<rparr>)" unfolding runs_def by blast
  have s: "my_session \<in> set (sessions signed_in)" "se_token_hash my_session = hash_token sample_app ''t''"
    by (simp_all add: signed_in_def my_session_def hash_token_def sample_app_def)
  have "se_expires_at my_session = 100" by (simp add: my_session_def)
  with session_lifecycle [OF signed_in_ok r s] show ?thesis by auto
qed

text \<open>A confirmed Co-Steward with a passphrase.\<close>

definition deputy :: co_steward_row where
  "deputy = \<lparr>co_id = CoStewardId 4, co_principal_id = PrincipalId 0, co_display_name = None, co_email = ''d'',
     co_passphrase_hash = Some (hash_passphrase sample_app ''secret'' [1]), co_passphrase_salt = Some [1],
     co_confirmation_token_hash = None, co_confirmed_at = Some 1, co_revoked_at = None,
     co_last_viewed_at = None, co_created_at = 0\<rparr>"

definition with_deputy :: world where
  "with_deputy = sample_world\<lparr>co_stewards := [deputy]\<rparr>"

lemma with_deputy_ok: "consistent with_deputy"
  using sample_consistent
  by (simp add: with_deputy_def deputy_def consistent_def keys_ok_def refs_ok_def enums_ok_def sample_defs
      fresh_keyed_def keyed_def)

theorem co_steward_acts_as_principal_witness:
  "\<exists>resp w1 pid. sign_in_co_steward sample_app ''d'' ''secret'' with_deputy = (Ok resp, w1)
    \<and> current_principal sample_app (Some (''Bearer '' @ ccr_session_token resp)) w1 = (Ok pid, w1)"
proof -
  fix W :: webauthn
  let ?s = "sign_in_co_steward sample_app ''d'' ''secret'' with_deputy"
  have "case ?s of (Ok resp, w1) \<Rightarrow>
      hash_token sample_app (ccr_session_token resp) \<notin> revoked_tokens w1 | _ \<Rightarrow> False" by code_simp
  then obtain resp w1 where s: "?s = (Ok resp, w1)" "hash_token sample_app (ccr_session_token resp) \<notin> revoked_tokens w1"
    by (auto split: prod.splits outcome.splits)
  have r: "runs sample_app W w1 w1" by (simp add: runs_def)
  have c: "clock w1 < clock w1 + hours 24" by (simp add: hours_def seconds_def)
  from co_steward_acts_as_principal [OF with_deputy_ok s(1) r c s(2)] s(1) show ?thesis by blast
qed

end
