(* ===== verification/Cli.thy ===== *)
theory Cli
  imports Web RouteLetter RouteAccount
begin

text \<open>
  The command-line client, src/crates/paschal-cli/src/main.rs: the commands, the session file
  \<open>~/.paschal/state.json\<close>, the requests each command sends and the lines it prints. The JSON
  library, the reason phrases of HTTP and the network are parameters, a record \<open>cli_lib\<close>; the
  network acts on a remote state of any type. The parsing of the arguments by clap is left out:
  a command is its parsed value.
\<close>

section \<open>Commands\<close>

definition DEFAULT_BEACON :: string where
  "DEFAULT_BEACON = ''http://127.0.0.1:8080''"

datatype vault_cmd =
  VaultCreate string "32 word option"
| VaultList
| VaultGet string

datatype letter_cmd =
  LetterSeal string string string "string option" "string option" "string option" "string option"
| LetterUpload string string string "string option" "string list"
| LetterList string

datatype buddy_cmd =
  BuddyInvite string "string option" "string option" "32 word"
| BuddyList
| BuddyConfirm string
| BuddyRespond string string
| BuddyRevoke string

datatype sub_cmd = SubGet

datatype account_cmd = AccountDelete | AccountCancelDeletion

datatype cmd =
  Signup string "string option" string
| VaultCmd vault_cmd
| LetterCmd letter_cmd
| HeartbeatCmd
| ForceRelease string
| Cancel string
| Drill string
| BuddyCmd buddy_cmd
| Subscription sub_cmd
| AccountCmd account_cmd
| MicrosoftObserve string
| Status

section \<open>JSON\<close>

text \<open>
  Indexing a document (\<open>v["k"]\<close>) gives null where there is no such member, and the last of equal
  keys counts.
\<close>

fun json_index :: "json \<Rightarrow> string \<Rightarrow> json" where
  "json_index (JObj kvs) k = unwrap_or JNull (map_of (rev kvs) k)"
| "json_index _ k = JNull"

fun as_str :: "json \<Rightarrow> string option" where
  "as_str (JStr s) = Some s"
| "as_str _ = None"

fun as_array :: "json \<Rightarrow> json list option" where
  "as_array (JArr xs) = Some xs"
| "as_array _ = None"

fun as_bool :: "json \<Rightarrow> bool option" where
  "as_bool (JBool b) = Some b"
| "as_bool _ = None"

text \<open>\<open>body["k"] = x\<close> on an object, and an optional text in \<open>json!\<close>.\<close>

fun json_set :: "string \<Rightarrow> json \<Rightarrow> json \<Rightarrow> json" where
  "json_set k x (JObj kvs) = JObj (filter (\<lambda>kv. fst kv \<noteq> k) kvs @ [(k, x)])"
| "json_set k x j = j"

definition json_opt :: "string option \<Rightarrow> json" where
  "json_opt x = (case x of None \<Rightarrow> JNull | Some s \<Rightarrow> JStr s)"

definition json_i32 :: "32 word \<Rightarrow> json" where
  "json_i32 n = JNum (dec (sint n))"

section \<open>Requests and the environment\<close>

datatype form_part =
  FormText string string
| FormFile string string string bytes

datatype payload = NoBody | JsonBody json | FormBody "form_part list"

record http_request =
  rq_method :: string
  rq_url :: string
  rq_bearer :: "string option"
  rq_payload :: payload

text \<open>
  \<open>cl_send\<close> is the network: an error text when the request could not be made, else the status
  and the text of the answer.
\<close>

record 'r cli_lib =
  cl_send :: "http_request \<Rightarrow> 'r \<Rightarrow> (string + nat \<times> string) \<times> 'r"
  cl_parse :: "string \<Rightarrow> string + json"
  cl_show :: "json \<Rightarrow> string"
  cl_pretty :: "json \<Rightarrow> string"
  cl_reason :: "nat \<Rightarrow> string"
  cl_builds :: bool

text \<open>
  The world of a run: the environment variables, the files, the message of the I/O error a path
  gives (if it gives one), whether the disk takes no more bytes, the standard streams, the
  requests sent so far and the remote state.
\<close>

record 'r cli_world =
  cw_userprofile :: "string option"
  cw_home :: "string option"
  cw_files :: "string \<Rightarrow> bytes option"
  cw_fault :: "string \<Rightarrow> string option"
  cw_full :: bool
  cw_stdin :: bytes
  cw_stdout :: "string list"
  cw_sent :: "http_request list"
  cw_remote :: 'r

text \<open>An \<open>anyhow\<close> error is its chain of messages, the outermost context first.\<close>

type_synonym ('r, 'a) cli_prog = "('r cli_world, string list, 'a) prog"

definition with_context :: "string \<Rightarrow> ('r, 'a) cli_prog \<Rightarrow> ('r, 'a) cli_prog" where
  "with_context msg m = map_err (\<lambda>chain. msg # chain) m"

definition println :: "string \<Rightarrow> ('r, unit) cli_prog" where
  "println l = modify (\<lambda>w. w\<lparr>cw_stdout := cw_stdout w @ [l]\<rparr>)"

section \<open>Paths and files\<close>

text \<open>\<open>PathBuf::push\<close> of a relative component.\<close>

definition path_push :: "string \<Rightarrow> string \<Rightarrow> string" where
  "path_push p c = (if p = [] \<or> last p = CHR ''/'' then p @ c else p @ ''/'' @ c)"

fun parts :: "string \<Rightarrow> string list" where
  "parts [] = [[]]"
| "parts (c # s) = (if c = CHR ''/'' then [] # parts s
     else case parts s of p # ps \<Rightarrow> (c # p) # ps | [] \<Rightarrow> [[c]])"

text \<open>\<open>Path::file_name\<close>: the last component, unless the path ends at a root or in \<open>..\<close>.\<close>

definition file_name :: "string \<Rightarrow> string option" where
  "file_name p = (case rev (filter (\<lambda>c. c \<noteq> [] \<and> c \<noteq> ''.'') (parts p)) of
       [] \<Rightarrow> None
     | c # _ \<Rightarrow> if c = ''..'' then None else Some c)"

definition to_str :: "string \<Rightarrow> string option" where
  "to_str s = (if utf8_valid (as_bytes s) then Some s else None)"

text \<open>\<open>fs::read\<close> and \<open>fs::read_to_string\<close>.\<close>

definition fs_read :: "string \<Rightarrow> ('r, bytes) cli_prog" where
  "fs_read p = bind (gets (\<lambda>w. (cw_fault w p, cw_files w p))) (\<lambda>x. case x of
       (Some e, _) \<Rightarrow> throw [e]
     | (None, None) \<Rightarrow> throw [''No such file or directory (os error 2)'']
     | (None, Some bs) \<Rightarrow> ret bs)"

definition fs_read_to_string :: "string \<Rightarrow> ('r, string) cli_prog" where
  "fs_read_to_string p = bind (fs_read p) (\<lambda>bs.
     ok_or [''stream did not contain valid UTF-8''] (from_utf8 bs))"

definition fs_check :: "string \<Rightarrow> ('r, unit) cli_prog" where
  "fs_check p = bind (gets (\<lambda>w. cw_fault w p)) (\<lambda>x. case x of Some e \<Rightarrow> throw [e] | None \<Rightarrow> ret ())"

text \<open>\<open>File::create\<close>, which truncates, \<open>write_all\<close> and \<open>rename\<close>.\<close>

definition fs_create :: "string \<Rightarrow> ('r, unit) cli_prog" where
  "fs_create p = andthen (fs_check p) (modify (\<lambda>w. w\<lparr>cw_files := (cw_files w)(p \<mapsto> [])\<rparr>))"

definition fs_write_all :: "string \<Rightarrow> bytes \<Rightarrow> ('r, unit) cli_prog" where
  "fs_write_all p bs = bind (gets cw_full) (\<lambda>full.
     if full then throw [''No space left on device (os error 28)'']
     else modify (\<lambda>w. w\<lparr>cw_files := (cw_files w)(p \<mapsto> bs)\<rparr>))"

definition fs_rename :: "string \<Rightarrow> string \<Rightarrow> ('r, unit) cli_prog" where
  "fs_rename p q = andthen (fs_check q) (modify (\<lambda>w. w\<lparr>cw_files := (cw_files w)(q := cw_files w p, p := None)\<rparr>))"

section \<open>The local state\<close>

record local_state =
  ls_beacon :: string
  ls_principal_id :: "string option"
  ls_session_token :: "string option"
  ls_email :: "string option"
  ls_last_magic_token :: "string option"

definition default_state :: local_state where
  "default_state = \<lparr>ls_beacon = [], ls_principal_id = None, ls_session_token = None,
     ls_email = None, ls_last_magic_token = None\<rparr>"

text \<open>The derived \<open>Serialize\<close> and \<open>Deserialize\<close>: an object or an array of the five fields.\<close>

definition state_to_json :: "local_state \<Rightarrow> json" where
  "state_to_json st = JObj
    [(''beacon'', JStr (ls_beacon st)),
     (''principal_id'', json_opt (ls_principal_id st)),
     (''session_token'', json_opt (ls_session_token st)),
     (''email'', json_opt (ls_email st)),
     (''last_magic_token'', json_opt (ls_last_magic_token st))]"

definition opt_string :: "json \<Rightarrow> string option option" where
  "opt_string j = (case j of JNull \<Rightarrow> Some None | JStr s \<Rightarrow> Some (Some s) | _ \<Rightarrow> None)"

definition opt_field :: "(string \<times> json) list \<Rightarrow> string \<Rightarrow> string option option" where
  "opt_field kvs k = (case filter (\<lambda>kv. fst kv = k) kvs of
       [] \<Rightarrow> Some None
     | [kv] \<Rightarrow> opt_string (snd kv)
     | _ \<Rightarrow> None)"

definition build_state ::
  "string option \<Rightarrow> string option option \<Rightarrow> string option option \<Rightarrow> string option option
     \<Rightarrow> string option option \<Rightarrow> local_state option" where
  "build_state b p s e m = (case (b, p, s, e, m) of
       (Some b, Some p, Some s, Some e, Some m) \<Rightarrow>
         Some \<lparr>ls_beacon = b, ls_principal_id = p, ls_session_token = s, ls_email = e,
           ls_last_magic_token = m\<rparr>
     | _ \<Rightarrow> None)"

fun state_of_json :: "json \<Rightarrow> local_state option" where
  "state_of_json (JObj kvs) =
     build_state (case opt_field kvs ''beacon'' of Some (Some b) \<Rightarrow> Some b | _ \<Rightarrow> None)
       (opt_field kvs ''principal_id'') (opt_field kvs ''session_token'') (opt_field kvs ''email'')
       (opt_field kvs ''last_magic_token'')"
| "state_of_json (JArr [b, p, s, e, m]) =
     build_state (as_str b) (opt_string p) (opt_string s) (opt_string e) (opt_string m)"
| "state_of_json _ = None"

definition state_dir :: "('r, string) cli_prog" where
  "state_dir = bind (gets (\<lambda>w. case cw_userprofile w of Some h \<Rightarrow> Some h | None \<Rightarrow> cw_home w)) (\<lambda>home.
     bind (ok_or [''HOME / USERPROFILE not set''] home) (\<lambda>h. ret (path_push h ''.paschal'')))"

definition state_path :: "('r, string) cli_prog" where
  "state_path = bind state_dir (\<lambda>p. ret (path_push p ''state.json''))"

definition load_state :: "'r cli_lib \<Rightarrow> ('r, local_state) cli_prog" where
  "load_state L = bind state_path (\<lambda>path.
     bind (gets (\<lambda>w. cw_files w path)) (\<lambda>present.
     if present = None then ret default_state
     else bind (fs_read_to_string path) (\<lambda>raw.
       bind (case cl_parse L raw of Inl e \<Rightarrow> throw [e] | Inr j \<Rightarrow> ret j) (\<lambda>j.
       ok_or [''invalid state''] (state_of_json j)))))"

text \<open>\<open>state.json\<close> with the extension \<open>json.tmp\<close> is \<open>state.json.tmp\<close>.\<close>

definition save_state :: "'r cli_lib \<Rightarrow> local_state \<Rightarrow> ('r, unit) cli_prog" where
  "save_state L st = bind state_dir (\<lambda>dir.
     andthen (fs_check dir)
     (bind state_path (\<lambda>path.
      let tmp = path @ ''.tmp'' in
      andthen (fs_create tmp)
      (andthen (fs_write_all tmp (as_bytes (cl_pretty L (state_to_json st))))
        (fs_rename tmp path)))))"

section \<open>Requests\<close>

definition http_client :: "'r cli_lib \<Rightarrow> ('r, unit) cli_prog" where
  "http_client L = (if cl_builds L then ret () else panic ''reqwest client builder'')"

definition send :: "'r cli_lib \<Rightarrow> http_request \<Rightarrow> ('r, nat \<times> string) cli_prog" where
  "send L rq = (\<lambda>w.
     let w' = w\<lparr>cw_sent := cw_sent w @ [rq], cw_remote := snd (cl_send L rq (cw_remote w))\<rparr> in
     case fst (cl_send L rq (cw_remote w)) of Inl e \<Rightarrow> (Err [e], w') | Inr resp \<Rightarrow> (Ok resp, w'))"

definition not_signed_in :: string where
  "not_signed_in = ''not signed in '' @ em_dash @ '' run `paschal signup` first''"

definition authed_request ::
  "'r cli_lib \<Rightarrow> local_state \<Rightarrow> string \<Rightarrow> string \<Rightarrow> json option \<Rightarrow> ('r, nat \<times> string) cli_prog" where
  "authed_request L st m url body =
     bind (ok_or [not_signed_in] (ls_session_token st)) (\<lambda>token.
     send L \<lparr>rq_method = m, rq_url = url, rq_bearer = Some token,
       rq_payload = (case body of None \<Rightarrow> NoBody | Some b \<Rightarrow> JsonBody b)\<rparr>)"

definition post_json :: "'r cli_lib \<Rightarrow> string \<Rightarrow> json \<Rightarrow> ('r, nat \<times> string) cli_prog" where
  "post_json L url body = andthen (http_client L)
     (send L \<lparr>rq_method = ''POST'', rq_url = url, rq_bearer = None, rq_payload = JsonBody body\<rparr>)"

definition is_success :: "nat \<Rightarrow> bool" where
  "is_success status \<longleftrightarrow> 200 \<le> status \<and> status < 300"

definition ok_json :: "'r cli_lib \<Rightarrow> nat \<times> string \<Rightarrow> ('r, json) cli_prog" where
  "ok_json L resp = (case resp of (status, txt) \<Rightarrow>
     if is_success status
     then ret (if txt = [] then JObj []
               else case cl_parse L txt of Inr v \<Rightarrow> v | Inl _ \<Rightarrow> JObj [(''raw'', JStr txt)])
     else throw [dec_digits status @ '' '' @ cl_reason L status @ '': '' @ txt])"

definition beacon_url :: "string \<Rightarrow> string \<Rightarrow> string" where
  "beacon_url beacon path = trim_end_slashes beacon @ path"

text \<open>What the authenticated commands share: load the session, send, read the answer.\<close>

definition call ::
  "'r cli_lib \<Rightarrow> string \<Rightarrow> string \<Rightarrow> string \<Rightarrow> json option \<Rightarrow> ('r, json) cli_prog" where
  "call L beacon m path body =
     bind (load_state L) (\<lambda>st.
     andthen (http_client L)
     (bind (authed_request L st m (beacon_url beacon path) body) (ok_json L)))"

definition call_ctx ::
  "'r cli_lib \<Rightarrow> string \<Rightarrow> string \<Rightarrow> string \<Rightarrow> json option \<Rightarrow> string \<Rightarrow> ('r, json) cli_prog" where
  "call_ctx L beacon m path body msg =
     bind (load_state L) (\<lambda>st.
     andthen (http_client L)
     (bind (authed_request L st m (beacon_url beacon path) body) (\<lambda>resp. with_context msg (ok_json L resp))))"

section \<open>Sign-up and vaults\<close>

definition signup_body :: "string \<Rightarrow> string option \<Rightarrow> string \<Rightarrow> json" where
  "signup_body email display_name plan = JObj
     [(''email'', JStr email), (''display_name'', json_opt display_name), (''plan'', JStr plan)]"

definition cmd_signup ::
  "'r cli_lib \<Rightarrow> string \<Rightarrow> string \<Rightarrow> string option \<Rightarrow> string \<Rightarrow> ('r, unit) cli_prog" where
  "cmd_signup L beacon email display_name plan =
     bind (post_json L (beacon_url beacon ''/v1/auth/signup'') (signup_body email display_name plan)) (\<lambda>resp.
     bind (with_context ''signup failed'' (ok_json L resp)) (\<lambda>v.
     bind (ok_or [''server did not return session_token''] (as_str (json_index v ''session_token''))) (\<lambda>session_token.
     let st = \<lparr>ls_beacon = beacon, ls_principal_id = as_str (json_index v ''principal_id''),
                ls_session_token = Some session_token, ls_email = Some email,
                ls_last_magic_token = as_str (json_index v ''magic_token_DEV_ONLY'')\<rparr> in
     andthen (save_state L st)
     (andthen (println ''signed up'')
     (andthen (println (''  email             : '' @ email))
     (andthen (case ls_principal_id st of Some pid \<Rightarrow> println (''  principal_id      : '' @ pid) | None \<Rightarrow> ret ())
     (andthen (println (''  subscription_state: '' @ cl_show L (json_index v ''subscription_state'')))
       (println (''  trial_end_at      : '' @ cl_show L (json_index v ''trial_end_at''))))))))))"

definition vault_body :: "string \<Rightarrow> 32 word option \<Rightarrow> json" where
  "vault_body name cooling =
     (let body = JObj [(''name'', JStr name), (''tier'', JStr ''HONEST_OPERATOR'')] in
      case cooling of Some c \<Rightarrow> json_set ''cooling_off_seconds'' (json_i32 c) body | None \<Rightarrow> body)"

definition cmd_vault_create :: "'r cli_lib \<Rightarrow> string \<Rightarrow> string \<Rightarrow> 32 word option \<Rightarrow> ('r, unit) cli_prog" where
  "cmd_vault_create L beacon name cooling =
     bind (call_ctx L beacon ''POST'' ''/v1/vaults'' (Some (vault_body name cooling)) ''create vault failed'') (\<lambda>v.
     andthen (println ''vault created'')
     (andthen (println (''  id  : '' @ cl_show L (json_index v ''id'')))
       (println (''  name: '' @ cl_show L (json_index v ''name'')))))"

definition tab :: string where
  "tab = [CHR 0x09]"

definition str_or :: "string \<Rightarrow> json \<Rightarrow> string" where
  "str_or d j = unwrap_or d (as_str j)"

definition cmd_vault_list :: "'r cli_lib \<Rightarrow> string \<Rightarrow> ('r, unit) cli_prog" where
  "cmd_vault_list L beacon =
     bind (call L beacon ''GET'' ''/v1/vaults'' None) (\<lambda>v.
     let arr = unwrap_or [] (as_array v) in
     if arr = [] then println ''(no Vaults yet)''
     else for_each (\<lambda>vlt. println (str_or [] (json_index vlt ''id'') @ tab @ str_or [] (json_index vlt ''state'')
            @ tab @ str_or [] (json_index vlt ''name'') @ tab
            @ cl_show L (json_index vlt ''cooling_off_seconds'') @ '' sec'')) arr)"

definition cmd_vault_get :: "'r cli_lib \<Rightarrow> string \<Rightarrow> string \<Rightarrow> ('r, unit) cli_prog" where
  "cmd_vault_get L beacon v =
     bind (call L beacon ''GET'' (''/v1/vaults/'' @ v) None) (\<lambda>j. println (cl_pretty L j))"

section \<open>Letters\<close>

definition read_body :: "string option \<Rightarrow> string option \<Rightarrow> ('r, string) cli_prog" where
  "read_body inl file = (case (inl, file) of
       (Some b, _) \<Rightarrow> ret b
     | (None, Some p) \<Rightarrow> with_context (''read '' @ p) (fs_read_to_string p)
     | (None, None) \<Rightarrow> bind (gets cw_stdin) (\<lambda>input.
         andthen (modify (\<lambda>w. w\<lparr>cw_stdin := []\<rparr>))
           (ok_or [''stream did not contain valid UTF-8''] (from_utf8 input))))"

definition letter_body :: "string \<Rightarrow> string \<Rightarrow> string \<Rightarrow> string option \<Rightarrow> string option \<Rightarrow> json" where
  "letter_body title recipient body drill_body scheduled_release_at =
     (let j = JObj [(''title'', JStr title), (''recipient_email'', JStr recipient), (''body'', JStr body)];
          j = (case drill_body of Some d \<Rightarrow> json_set ''drill_body'' (JStr d) j | None \<Rightarrow> j)
      in case scheduled_release_at of Some s \<Rightarrow> json_set ''scheduled_release_at'' (JStr s) j | None \<Rightarrow> j)"

definition cmd_letter_seal ::
  "'r cli_lib \<Rightarrow> string \<Rightarrow> string \<Rightarrow> string \<Rightarrow> string \<Rightarrow> string option \<Rightarrow> string option
     \<Rightarrow> string option \<Rightarrow> string option \<Rightarrow> ('r, unit) cli_prog" where
  "cmd_letter_seal L beacon v title recipient body_inline body_file drill_body scheduled_release_at =
     bind (read_body body_inline body_file) (\<lambda>body.
     bind (call_ctx L beacon ''POST'' (''/v1/vaults/'' @ v @ ''/letters'')
        (Some (letter_body title recipient body drill_body scheduled_release_at)) ''seal letter failed'') (\<lambda>j.
     andthen (println ''letter sealed'')
     (andthen (println (''  id       : '' @ cl_show L (json_index j ''id'')))
     (andthen (println (''  title    : '' @ cl_show L (json_index j ''title'')))
     (andthen (println (''  recipient: '' @ cl_show L (json_index j ''recipient_email'')))
       (println (''  sealed_at: '' @ cl_show L (json_index j ''sealed_at''))))))))"

text \<open>
  \<open>to_lowercase\<close> as far as the names below tell: the ASCII letters, and the Kelvin sign, the only
  other character whose lower case is an ASCII letter.
\<close>

definition lower_char :: "char \<Rightarrow> char" where
  "lower_char c = (let n = (of_char c :: nat) in if 65 \<le> n \<and> n \<le> 90 then char_of (n + 32) else c)"

fun lower :: "string \<Rightarrow> string" where
  "lower [] = []"
| "lower (c # s) =
     (if take 3 (c # s) = [CHR 0xE2, CHR 0x84, CHR 0xAA] then CHR ''k'' # lower (drop 2 s)
      else lower_char c # lower s)"

definition mime_guess_for :: "string \<Rightarrow> string" where
  "mime_guess_for filename =
     (let ext = lower (after_last CHR ''.'' filename) in
      if ext \<in> {''txt'', ''log''} then ''text/plain''
      else if ext \<in> {''md'', ''markdown''} then ''text/markdown''
      else if ext = ''csv'' then ''text/csv''
      else if ext = ''json'' then ''application/json''
      else if ext = ''xml'' then ''application/xml''
      else if ext \<in> {''html'', ''htm''} then ''text/html''
      else if ext = ''pdf'' then ''application/pdf''
      else if ext \<in> {''jpg'', ''jpeg''} then ''image/jpeg''
      else if ext = ''png'' then ''image/png''
      else if ext = ''gif'' then ''image/gif''
      else if ext = ''webp'' then ''image/webp''
      else ''application/octet-stream'')"

definition file_part :: "string \<Rightarrow> ('r, form_part) cli_prog" where
  "file_part path =
     (let filename = unwrap_or ''file'' (case file_name path of Some n \<Rightarrow> to_str n | None \<Rightarrow> None) in
      bind (with_context (''read '' @ path) (fs_read path)) (\<lambda>bs.
      ret (FormFile ''file'' filename (mime_guess_for filename) bs)))"

definition upload_form :: "string \<Rightarrow> string \<Rightarrow> string option \<Rightarrow> form_part list \<Rightarrow> form_part list" where
  "upload_form title recipient body file_parts =
     [FormText ''title'' title, FormText ''recipient_email'' recipient]
     @ (case body of Some b \<Rightarrow> [FormText ''body'' b] | None \<Rightarrow> []) @ file_parts"

definition print_attachment :: "'r cli_lib \<Rightarrow> json \<Rightarrow> ('r, unit) cli_prog" where
  "print_attachment L a =
     andthen (println (''    - '' @ str_or [] (json_index a ''original_filename'') @ '' ('' @
        cl_show L (json_index a ''original_size'') @ '' bytes -> '' @
        cl_show L (json_index a ''transformed_size'') @ '' bytes, '' @
        str_or [] (json_index a ''transformed_mime'') @ '')''))
     (case as_array (json_index (json_index a ''transformer_notes'') ''notes'') of
        Some notes \<Rightarrow> for_each (\<lambda>n. println (''        * '' @ str_or [] n)) notes
      | None \<Rightarrow> ret ())"

definition cmd_letter_upload ::
  "'r cli_lib \<Rightarrow> string \<Rightarrow> string \<Rightarrow> string \<Rightarrow> string \<Rightarrow> string option \<Rightarrow> string list \<Rightarrow> ('r, unit) cli_prog" where
  "cmd_letter_upload L beacon v title recipient body files =
     bind (load_state L) (\<lambda>st.
     bind (ok_or [not_signed_in] (ls_session_token st)) (\<lambda>token.
     andthen (reject_if (files = [] \<and> body = None) [''at least one --file or --body required''])
     (bind (collect file_part files) (\<lambda>file_parts.
      andthen (http_client L)
      (bind (send L \<lparr>rq_method = ''POST'',
               rq_url = beacon_url beacon (''/v1/vaults/'' @ v @ ''/letters/multipart''),
               rq_bearer = Some token,
               rq_payload = FormBody (upload_form title recipient body file_parts)\<rparr>) (\<lambda>resp.
       bind (with_context ''upload failed'' (ok_json L resp)) (\<lambda>j.
       andthen (println ''letter sealed with attachments'')
       (andthen (println (''  id          : '' @ cl_show L (json_index j ''id'')))
       (andthen (println (''  title       : '' @ cl_show L (json_index j ''title'')))
        (case as_array (json_index j ''attachments'') of
           Some arr \<Rightarrow> andthen (println ''  attachments :'') (for_each (print_attachment L) arr)
         | None \<Rightarrow> ret ()))))))))))"

definition cmd_letter_list :: "'r cli_lib \<Rightarrow> string \<Rightarrow> string \<Rightarrow> ('r, unit) cli_prog" where
  "cmd_letter_list L beacon v =
     bind (call L beacon ''GET'' (''/v1/vaults/'' @ v @ ''/letters'') None) (\<lambda>j.
     for_each (\<lambda>l. println (str_or [] (json_index l ''id'') @ tab @
         str_or [] (json_index l ''recipient_email'') @ tab @ str_or [] (json_index l ''title'')))
       (unwrap_or [] (as_array j)))"

section \<open>Releases and signals\<close>

definition cmd_heartbeat :: "'r cli_lib \<Rightarrow> string \<Rightarrow> ('r, unit) cli_prog" where
  "cmd_heartbeat L beacon =
     bind (call L beacon ''POST'' ''/v1/heartbeats'' (Some (JObj [(''via'', JStr ''CLI'')]))) (\<lambda>v.
     println (''heartbeat received_at = '' @ cl_show L (json_index v ''received_at'')))"

definition cmd_force_release :: "'r cli_lib \<Rightarrow> string \<Rightarrow> string \<Rightarrow> ('r, unit) cli_prog" where
  "cmd_force_release L beacon v =
     bind (call_ctx L beacon ''POST'' (''/v1/vaults/'' @ v @ ''/force-release'') None ''force-release failed'') (\<lambda>j.
     andthen (println ''cooling-off started'')
     (andthen (println (''  release_event_id      : '' @ cl_show L (json_index j ''release_event_id'')))
     (andthen (println (''  cooling_off_started_at: '' @ cl_show L (json_index j ''cooling_off_started_at'')))
       (println (''  cooling_off_ends_at   : '' @ cl_show L (json_index j ''cooling_off_ends_at''))))))"

definition cmd_cancel :: "'r cli_lib \<Rightarrow> string \<Rightarrow> string \<Rightarrow> ('r, unit) cli_prog" where
  "cmd_cancel L beacon v =
     bind (call_ctx L beacon ''POST'' (''/v1/vaults/'' @ v @ ''/cancel'') None ''cancel failed'') (\<lambda>j.
     println (''cancelled '' @ em_dash @ '' vault state is now '' @ cl_show L (json_index j ''state'')))"

definition cmd_drill :: "'r cli_lib \<Rightarrow> string \<Rightarrow> string \<Rightarrow> ('r, unit) cli_prog" where
  "cmd_drill L beacon v =
     bind (call_ctx L beacon ''POST'' (''/v1/vaults/'' @ v @ ''/drills'') None ''drill failed'') (\<lambda>j.
     andthen (println ''drill started'')
     (andthen (println (''  release_event_id      : '' @ cl_show L (json_index j ''release_event_id'')))
     (andthen (println (''  cooling_off_ends_at   : '' @ cl_show L (json_index j ''cooling_off_ends_at'')))
     (andthen (println [])
       (println (''Recipients will receive a notification starting with '' @ quote_word (''Rehearsal '' @ em_dash) @ ''.''))))))"

definition cmd_microsoft_observe :: "'r cli_lib \<Rightarrow> string \<Rightarrow> string \<Rightarrow> ('r, unit) cli_prog" where
  "cmd_microsoft_observe L beacon last_sign_in_at =
     bind (call L beacon ''POST'' ''/v1/signals/microsoft/observe''
       (Some (JObj [(''last_sign_in_at'', JStr last_sign_in_at)]))) (\<lambda>v. println (cl_pretty L v))"

section \<open>Buddies\<close>

definition buddy_body :: "string \<Rightarrow> string option \<Rightarrow> string option \<Rightarrow> 32 word \<Rightarrow> json" where
  "buddy_body email display_name phone prompt_cadence_days = JObj
     [(''email'', JStr email), (''display_name'', json_opt display_name), (''phone'', json_opt phone),
      (''prompt_cadence_days'', json_i32 prompt_cadence_days)]"

definition cmd_buddy_invite ::
  "'r cli_lib \<Rightarrow> string \<Rightarrow> string \<Rightarrow> string option \<Rightarrow> string option \<Rightarrow> 32 word \<Rightarrow> ('r, unit) cli_prog" where
  "cmd_buddy_invite L beacon email display_name phone prompt_cadence_days =
     bind (call_ctx L beacon ''POST'' ''/v1/principals/me/buddies''
        (Some (buddy_body email display_name phone prompt_cadence_days)) ''invite buddy failed'') (\<lambda>v.
     andthen (println ''buddy invited'')
     (andthen (println (''  id          : '' @ cl_show L (json_index (json_index v ''buddy'') ''id'')))
     (andthen (println (''  email       : '' @ cl_show L (json_index (json_index v ''buddy'') ''email'')))
      (case as_str (json_index v ''confirmation_token_DEV_ONLY'') of
         Some tok \<Rightarrow> println (''  confirmation token (dev): '' @ tok)
       | None \<Rightarrow> ret ()))))"

definition cmd_buddy_list :: "'r cli_lib \<Rightarrow> string \<Rightarrow> ('r, unit) cli_prog" where
  "cmd_buddy_list L beacon =
     bind (call L beacon ''GET'' ''/v1/principals/me/buddies'' None) (\<lambda>v.
     for_each (\<lambda>b. println (str_or [] (json_index b ''id'') @ tab @ str_or [] (json_index b ''email'') @ tab
         @ (if unwrap_or False (as_bool (json_index b ''confirmed'')) then ''confirmed'' else ''pending'')
         @ tab @ str_or ''(no response)'' (json_index b ''last_response'')))
       (unwrap_or [] (as_array v)))"

definition cmd_buddy_confirm :: "'r cli_lib \<Rightarrow> string \<Rightarrow> string \<Rightarrow> ('r, unit) cli_prog" where
  "cmd_buddy_confirm L beacon token =
     bind (post_json L (beacon_url beacon ''/v1/buddies/confirm'') (JObj [(''token'', JStr token)])) (\<lambda>resp.
     bind (with_context ''confirm failed'' (ok_json L resp)) (\<lambda>v.
     println (''confirmed: '' @ cl_show L (json_index v ''email''))))"

definition cmd_buddy_respond :: "'r cli_lib \<Rightarrow> string \<Rightarrow> string \<Rightarrow> string \<Rightarrow> ('r, unit) cli_prog" where
  "cmd_buddy_respond L beacon buddy response =
     bind (post_json L (beacon_url beacon (''/v1/buddies/'' @ buddy @ ''/responses''))
        (JObj [(''response'', JStr response)])) (\<lambda>resp.
     bind (with_context ''respond failed'' (ok_json L resp)) (\<lambda>v.
     println (''response recorded: '' @ cl_show L (json_index v ''last_response''))))"

definition cmd_buddy_revoke :: "'r cli_lib \<Rightarrow> string \<Rightarrow> string \<Rightarrow> ('r, unit) cli_prog" where
  "cmd_buddy_revoke L beacon buddy =
     bind (call L beacon ''DELETE'' (''/v1/buddies/'' @ buddy) None) (\<lambda>v.
     println (''revoked: '' @ cl_show L v))"

section \<open>The account\<close>

definition cmd_subscription_get :: "'r cli_lib \<Rightarrow> string \<Rightarrow> ('r, unit) cli_prog" where
  "cmd_subscription_get L beacon =
     bind (call_ctx L beacon ''GET'' ''/v1/principals/me/subscription'' None ''subscription get failed'') (\<lambda>v.
     println (cl_pretty L v))"

definition cmd_account_delete :: "'r cli_lib \<Rightarrow> string \<Rightarrow> ('r, unit) cli_prog" where
  "cmd_account_delete L beacon =
     bind (call_ctx L beacon ''DELETE'' ''/v1/principals/me'' None ''delete request failed'') (\<lambda>v.
     andthen (println ''account deletion requested'')
     (andthen (println (''  scheduled_for: '' @ cl_show L (json_index v ''deletion_scheduled_for'')))
     (andthen (println [])
     (andthen (println ''This is reversible until the scheduled time. Run:'')
       (println ''  paschal account cancel-deletion'')))))"

definition cmd_account_cancel_deletion :: "'r cli_lib \<Rightarrow> string \<Rightarrow> ('r, unit) cli_prog" where
  "cmd_account_cancel_deletion L beacon =
     bind (call L beacon ''POST'' ''/v1/principals/me/cancel-deletion'' None) (\<lambda>v.
     println (''deletion cancelled: '' @ cl_show L v))"

definition cmd_status :: "'r cli_lib \<Rightarrow> string \<Rightarrow> ('r, unit) cli_prog" where
  "cmd_status L beacon =
     bind (load_state L) (\<lambda>st.
     if ls_session_token st = None then println ''not signed in. Run: paschal signup --email you@example.com''
     else andthen (println ''Local state'')
       (andthen (println (''  beacon       : '' @ ls_beacon st))
       (andthen (println (''  email        : '' @ unwrap_or ''?'' (ls_email st)))
       (andthen (println (''  principal_id : '' @ unwrap_or ''?'' (ls_principal_id st)))
       (andthen (println [])
       (andthen (println ''Vaults'')
         (ignore (cmd_vault_list L beacon))))))))"

section \<open>The entry\<close>

fun run_vault_cmd :: "'r cli_lib \<Rightarrow> string \<Rightarrow> vault_cmd \<Rightarrow> ('r, unit) cli_prog" where
  "run_vault_cmd L beacon (VaultCreate name cooling) = cmd_vault_create L beacon name cooling"
| "run_vault_cmd L beacon VaultList = cmd_vault_list L beacon"
| "run_vault_cmd L beacon (VaultGet v) = cmd_vault_get L beacon v"

fun run_letter_cmd :: "'r cli_lib \<Rightarrow> string \<Rightarrow> letter_cmd \<Rightarrow> ('r, unit) cli_prog" where
  "run_letter_cmd L beacon (LetterSeal v title recipient body body_file drill_body due) =
     cmd_letter_seal L beacon v title recipient body body_file drill_body due"
| "run_letter_cmd L beacon (LetterUpload v title recipient body files) =
     cmd_letter_upload L beacon v title recipient body files"
| "run_letter_cmd L beacon (LetterList v) = cmd_letter_list L beacon v"

fun run_buddy_cmd :: "'r cli_lib \<Rightarrow> string \<Rightarrow> buddy_cmd \<Rightarrow> ('r, unit) cli_prog" where
  "run_buddy_cmd L beacon (BuddyInvite email display_name phone cadence) =
     cmd_buddy_invite L beacon email display_name phone cadence"
| "run_buddy_cmd L beacon BuddyList = cmd_buddy_list L beacon"
| "run_buddy_cmd L beacon (BuddyConfirm token) = cmd_buddy_confirm L beacon token"
| "run_buddy_cmd L beacon (BuddyRespond buddy response) = cmd_buddy_respond L beacon buddy response"
| "run_buddy_cmd L beacon (BuddyRevoke buddy) = cmd_buddy_revoke L beacon buddy"

fun run_cmd :: "'r cli_lib \<Rightarrow> string \<Rightarrow> cmd \<Rightarrow> ('r, unit) cli_prog" where
  "run_cmd L beacon (Signup email display_name plan) = cmd_signup L beacon email display_name plan"
| "run_cmd L beacon (VaultCmd c) = run_vault_cmd L beacon c"
| "run_cmd L beacon (LetterCmd c) = run_letter_cmd L beacon c"
| "run_cmd L beacon HeartbeatCmd = cmd_heartbeat L beacon"
| "run_cmd L beacon (ForceRelease v) = cmd_force_release L beacon v"
| "run_cmd L beacon (Cancel v) = cmd_cancel L beacon v"
| "run_cmd L beacon (Drill v) = cmd_drill L beacon v"
| "run_cmd L beacon (BuddyCmd c) = run_buddy_cmd L beacon c"
| "run_cmd L beacon (Subscription SubGet) = cmd_subscription_get L beacon"
| "run_cmd L beacon (AccountCmd AccountDelete) = cmd_account_delete L beacon"
| "run_cmd L beacon (AccountCmd AccountCancelDeletion) = cmd_account_cancel_deletion L beacon"
| "run_cmd L beacon (MicrosoftObserve t) = cmd_microsoft_observe L beacon t"
| "run_cmd L beacon Status = cmd_status L beacon"

section \<open>The sign-up request as the server decodes it\<close>

text \<open>
  The derived \<open>Deserialize\<close> of \<open>SignupReq\<close> in routes.rs: an object, or an array whose last
  element may be missing.
\<close>

definition opt_bool_field :: "(string \<times> json) list \<Rightarrow> string \<Rightarrow> bool option option" where
  "opt_bool_field kvs k = (case filter (\<lambda>kv. fst kv = k) kvs of
       [] \<Rightarrow> Some None
     | [(_, JNull)] \<Rightarrow> Some None
     | [(_, JBool b)] \<Rightarrow> Some (Some b)
     | _ \<Rightarrow> None)"

definition build_signup ::
  "string option \<Rightarrow> string option option \<Rightarrow> string option option \<Rightarrow> bool option option \<Rightarrow> signup_req option" where
  "build_signup e d p t = (case (e, d, p, t) of
       (Some e, Some d, Some p, Some t) \<Rightarrow>
         Some \<lparr>sq_email = e, sq_display_name = d, sq_plan = p, sq_tos_accepted = t\<rparr>
     | _ \<Rightarrow> None)"

fun signup_of_json :: "json \<Rightarrow> signup_req option" where
  "signup_of_json (JObj kvs) =
     build_signup (case opt_field kvs ''email'' of Some (Some e) \<Rightarrow> Some e | _ \<Rightarrow> None)
       (opt_field kvs ''display_name'') (opt_field kvs ''plan'') (opt_bool_field kvs ''tos_accepted'')"
| "signup_of_json (JArr [e, d, p]) = build_signup (as_str e) (opt_string d) (opt_string p) (Some None)"
| "signup_of_json (JArr [e, d, p, t]) = build_signup (as_str e) (opt_string d) (opt_string p)
     (opt_bool_field [([], t)] [])"
| "signup_of_json _ = None"

end
