(* ===== verification/CliProps.thy ===== *)
theory CliProps
  imports Cli App Samples
begin

text \<open>
  The command-line client: the session file is replaced as a whole or not at all, every command
  sends at most one request and to a route the server has, the form of an upload is what the
  server reads, and without an accepted Terms of Service no command ever signs in.
\<close>

section \<open>What programs leave alone\<close>

text \<open>Everything but the standard streams, the requests and the remote side.\<close>

definition idle :: "'r cli_world \<Rightarrow> 'r cli_world \<Rightarrow> bool" where
  "idle w w' \<longleftrightarrow> cw_files w' = cw_files w \<and> cw_fault w' = cw_fault w \<and> cw_full w' = cw_full w
     \<and> cw_userprofile w' = cw_userprofile w \<and> cw_home w' = cw_home w"

lemma idle_refl [simp]: "idle w w"
  by (simp add: idle_def)

lemma idle_trans: "idle u v \<Longrightarrow> idle v w \<Longrightarrow> idle u w"
  by (simp add: idle_def)

named_theorems cli_intros "what the client's primitives preserve"

lemma sent_println [cli_intros]: "keeps (\<lambda>w. cw_sent w = S) (println l)"
  by (simp add: keeps_def println_def)

lemma idle_println [cli_intros]: "keeps (idle w0) (println l)"
  by (simp add: keeps_def println_def idle_def)

lemma keeps_with_context [cli_intros]: "keeps I m \<Longrightarrow> keeps I (with_context msg m)"
  by (simp add: with_context_def keeps_map_err)

lemma keeps_ok_json [cli_intros]: "keeps I (ok_json L resp)"
  by (simp add: ok_json_def keeps_def split: prod.split)

lemma keeps_http_client [cli_intros]: "keeps I (http_client L)"
  by (simp add: http_client_def)

lemma keeps_fs_read [cli_intros]: "keeps I (fs_read p)"
  unfolding fs_read_def by (intro keeps_bind keeps_gets) (auto split: option.split prod.split)

lemma keeps_fs_read_to_string [cli_intros]: "keeps I (fs_read_to_string p)"
  unfolding fs_read_to_string_def by (intro keeps_intros cli_intros)

lemma keeps_fs_check [cli_intros]: "keeps I (fs_check p)"
  unfolding fs_check_def by (intro keeps_bind keeps_gets) (auto split: option.split)

lemma keeps_state_dir [cli_intros]: "keeps I state_dir"
  unfolding state_dir_def by (intro keeps_intros)

lemma keeps_state_path [cli_intros]: "keeps I state_path"
  unfolding state_path_def by (intro keeps_intros cli_intros)

lemma keeps_load_state [cli_intros]: "keeps I (load_state L)"
  unfolding load_state_def by (intro keeps_intros cli_intros)

lemma snd_load_state [simp]: "snd (load_state L w) = w"
  using keeps_load_state [of "\<lambda>v. v = w" L] by (simp add: keeps_def)

lemma sent_files [cli_intros]:
  "keeps (\<lambda>w. cw_sent w = S) (fs_create p)" "keeps (\<lambda>w. cw_sent w = S) (fs_write_all p bs)"
  "keeps (\<lambda>w. cw_sent w = S) (fs_rename p q)"
  unfolding fs_create_def fs_write_all_def fs_rename_def
  by (intro keeps_intros cli_intros keeps_modify; simp)+

lemma sent_save_state [cli_intros]: "keeps (\<lambda>w. cw_sent w = S) (save_state L st)"
  unfolding save_state_def by (intro keeps_intros cli_intros)

lemma sent_read_body [cli_intros]: "keeps (\<lambda>w. cw_sent w = S) (read_body a b)"
  unfolding read_body_def by (cases a; cases b) (auto intro!: keeps_intros cli_intros keeps_modify)

lemma idle_read_body [cli_intros]: "keeps (idle w0) (read_body a b)"
  unfolding read_body_def
  by (cases a; cases b) (auto intro!: keeps_intros cli_intros keeps_modify simp: idle_def)

lemma keeps_file_part [cli_intros]: "keeps I (file_part p)"
  unfolding file_part_def by (intro keeps_intros cli_intros)

lemma sent_print_attachment [cli_intros]: "keeps (\<lambda>w. cw_sent w = S) (print_attachment L a)"
  unfolding print_attachment_def by (intro keeps_intros cli_intros)

lemma idle_print_attachment [cli_intros]: "keeps (idle w0) (print_attachment L a)"
  unfolding print_attachment_def by (intro keeps_intros cli_intros)

lemma idle_send [cli_intros]: "keeps (idle w0) (send L rq)"
  by (simp add: keeps_def send_def idle_def Let_def split: sum.split)

lemma idle_authed [cli_intros]: "keeps (idle w0) (authed_request L st m url b)"
  unfolding authed_request_def by (intro keeps_intros cli_intros)

lemma idle_post_json [cli_intros]: "keeps (idle w0) (post_json L url b)"
  unfolding post_json_def by (intro keeps_intros cli_intros)

lemma idle_call [cli_intros]:
  "keeps (idle w0) (call L beacon m p b)" "keeps (idle w0) (call_ctx L beacon m p b msg)"
  unfolding call_def call_ctx_def by (intro keeps_intros cli_intros)+

section \<open>The session file\<close>

lemma opt_string_json_opt [simp]: "opt_string (json_opt x) = Some x"
  by (simp add: opt_string_def json_opt_def split: option.split)

lemma state_of_to_json [simp]: "state_of_json (state_to_json st) = Some st"
  by (simp add: state_to_json_def opt_field_def build_state_def) (simp add: opt_string_def)

definition state_file :: "'r cli_world \<Rightarrow> string option" where
  "state_file w = map_option (\<lambda>h. path_push (path_push h ''.paschal'') ''state.json'')
     (case cw_userprofile w of Some h \<Rightarrow> Some h | None \<Rightarrow> cw_home w)"

definition state_home :: "'r cli_world \<Rightarrow> string option" where
  "state_home w = map_option (\<lambda>h. path_push h ''.paschal'')
     (case cw_userprofile w of Some h \<Rightarrow> Some h | None \<Rightarrow> cw_home w)"

lemma state_dir_eq: "state_dir w = (case state_home w of
    None \<Rightarrow> (Err [''HOME / USERPROFILE not set''], w) | Some d \<Rightarrow> (Ok d, w))"
  by (simp add: state_dir_def state_home_def bind_def split: option.split)

lemma state_path_eq: "state_path w = (case state_file w of
    None \<Rightarrow> (Err [''HOME / USERPROFILE not set''], w) | Some p \<Rightarrow> (Ok p, w))"
  by (simp add: state_path_def state_dir_eq state_file_def state_home_def bind_def split: option.split)

text \<open>
  C40: Saving the session. When \<open>save_state\<close> succeeds the next \<open>load_state\<close> gives the saved state
  back; when it fails, at whatever step, \<open>state.json\<close> has the contents it had before: the file
  is never torn.
\<close>

theorem save_state_atomic:
  assumes path: "fst (state_path w) = Ok path"
    and text_ok: "utf8_valid (as_bytes (cl_pretty L (state_to_json st)))"
    and reads: "cl_parse L (cl_pretty L (state_to_json st)) = Inr (state_to_json st)"
  shows "case save_state L st w of
      (Ok _, w') \<Rightarrow> fst (load_state L w') = Ok st
    | (_, w') \<Rightarrow> cw_files w' path = cw_files w path"
proof -
  from path obtain d where p: "state_file w = Some path" and d: "state_home w = Some d"
    by (auto simp: state_path_eq state_file_def state_home_def split: option.splits)
  define bs where "bs = as_bytes (cl_pretty L (state_to_json st))"
  have again: "fst (load_state L v) = Ok st"
    if "state_file v = Some path" "cw_files v path = Some bs" "cw_fault v path = None" for v
    using that text_ok reads
    by (simp add: load_state_def state_path_eq bind_def fs_read_to_string_def fs_read_def
        from_utf8_as_bytes bs_def)
  have other: "path \<noteq> path @ ''.tmp''" by simp
  show ?thesis
    using p d other
    by (auto simp: save_state_def bind_def andthen_def state_dir_eq state_path_eq fs_check_def
        fs_create_def fs_write_all_def fs_rename_def Let_def bs_def [symmetric] state_file_def
        state_home_def intro!: again split: option.splits)
qed

text \<open>A library and a machine for the examples: one known document, a home directory.\<close>

definition sample_state :: local_state where
  "sample_state = \<lparr>ls_beacon = ''https://b'', ls_principal_id = None, ls_session_token = Some ''t'',
     ls_email = Some ''a@b'', ls_last_magic_token = None\<rparr>"

definition sample_lib :: "(http_request \<Rightarrow> 'r \<Rightarrow> (string + nat \<times> string) \<times> 'r) \<Rightarrow> 'r cli_lib" where
  "sample_lib net = \<lparr>cl_send = net,
     cl_parse = (\<lambda>t. if t = ''saved'' then Inr (state_to_json sample_state) else Inl ''expected value''),
     cl_show = (\<lambda>_. ''null''), cl_pretty = (\<lambda>_. ''saved''), cl_reason = (\<lambda>_. ''Bad Request''),
     cl_builds = True\<rparr>"

definition sample_machine :: "(string \<Rightarrow> bytes option) \<Rightarrow> 'r \<Rightarrow> 'r cli_world" where
  "sample_machine files r = \<lparr>cw_userprofile = None, cw_home = Some ''/home/ann'', cw_files = files,
     cw_fault = Map.empty, cw_full = False, cw_stdin = [], cw_stdout = [], cw_sent = [], cw_remote = r\<rparr>"

theorem save_state_atomic_witness:
  "\<exists>w'. save_state (sample_lib (\<lambda>_ r. (Inl ''offline'', r))) sample_state (sample_machine Map.empty ()) = (Ok (), w')
     \<and> fst (load_state (sample_lib (\<lambda>_ r. (Inl ''offline'', r))) w') = Ok sample_state"
proof -
  let ?L = "sample_lib (\<lambda>_ r. (Inl ''offline'', r)) :: unit cli_lib"
  let ?w = "sample_machine Map.empty ()"
  have p: "fst (state_path ?w) = Ok ''/home/ann/.paschal/state.json''"
    by (simp add: state_path_eq state_file_def sample_machine_def path_push_def)
  have u: "utf8_valid (as_bytes ''saved'')" by code_simp
  obtain w' where w': "save_state ?L sample_state ?w = (Ok (), w')"
    by (simp add: save_state_def bind_def andthen_def state_dir_eq state_path_eq fs_check_def
        fs_create_def fs_write_all_def fs_rename_def Let_def state_file_def state_home_def
        sample_machine_def)
  with save_state_atomic [OF p, of ?L sample_state] u show ?thesis by (simp add: sample_lib_def)
qed

section \<open>One request per command\<close>

text \<open>
  \<open>asks Q m\<close>: a run of \<open>m\<close> sends nothing, or one request that stands in the relation \<open>Q\<close> to the
  saved session.
\<close>

definition saved_token :: "'r cli_lib \<Rightarrow> 'r cli_world \<Rightarrow> string option" where
  "saved_token L w = (case fst (load_state L w) of Ok st \<Rightarrow> ls_session_token st | _ \<Rightarrow> None)"

definition asks :: "'r cli_lib \<Rightarrow> (string option \<Rightarrow> http_request \<Rightarrow> bool) \<Rightarrow> ('r, 'a) cli_prog \<Rightarrow> bool" where
  "asks L Q m \<longleftrightarrow> (\<forall>w. cw_sent (snd (m w)) = cw_sent w
     \<or> (\<exists>rq. cw_sent (snd (m w)) = cw_sent w @ [rq] \<and> Q (saved_token L w) rq))"

lemma load_state_idle: "idle w w' \<Longrightarrow> fst (load_state L w') = fst (load_state L w)"
proof -
  assume i: "idle w w'"
  then have "state_file w' = state_file w" by (auto simp: idle_def state_file_def split: option.split)
  with i show ?thesis
    by (simp add: load_state_def bind_def state_path_eq idle_def fs_read_to_string_def fs_read_def
        ok_or_def throw_def ret_def split: option.split sum.split)
qed

lemma saved_token_idle: "idle w w' \<Longrightarrow> saved_token L w' = saved_token L w"
  by (simp add: saved_token_def load_state_idle)

lemma asks_bind:
  assumes "asks L Q m" and "\<And>x S. keeps (\<lambda>w. cw_sent w = S) (f x)"
  shows "asks L Q (bind m f)"
proof -
  have "cw_sent (snd (bind m f w)) = cw_sent (snd (m w))" for w
    using assms(2) by (auto simp: bind_def keeps_def split: prod.split outcome.split)
  with assms(1) show ?thesis by (simp add: asks_def)
qed

lemma asks_after:
  assumes "\<And>S. keeps (\<lambda>w. cw_sent w = S) m" and "\<And>w0. keeps (idle w0) m" and "\<And>x. asks L Q (f x)"
  shows "asks L Q (bind m f)"
  unfolding asks_def
proof
  fix w
  obtain r w1 where m: "m w = (r, w1)" by fastforce
  have s: "cw_sent w1 = cw_sent w" using assms(1) [of "cw_sent w"] m by (simp add: keeps_def) (metis snd_conv)
  have i: "idle w w1" using assms(2) [of w] m by (simp add: keeps_def) (metis idle_refl snd_conv)
  show "cw_sent (snd (bind m f w)) = cw_sent w
     \<or> (\<exists>rq. cw_sent (snd (bind m f w)) = cw_sent w @ [rq] \<and> Q (saved_token L w) rq)"
    using assms(3) s saved_token_idle [OF i, of L]
    by (cases r) (auto simp: bind_def m asks_def, metis)
qed

lemma asks_nothing: "(\<And>S. keeps (\<lambda>w. cw_sent w = S) m) \<Longrightarrow> asks L Q m"
  by (simp add: asks_def keeps_def)

text \<open>The request of an authenticated command, and of one that needs no session.\<close>

definition authed :: "string \<Rightarrow> string \<Rightarrow> string option \<Rightarrow> http_request \<Rightarrow> bool" where
  "authed m url tok rq \<longleftrightarrow> rq_method rq = m \<and> rq_url rq = url \<and> rq_bearer rq = tok \<and> tok \<noteq> None"

definition open_request :: "string \<Rightarrow> string \<Rightarrow> string option \<Rightarrow> http_request \<Rightarrow> bool" where
  "open_request m url tok rq \<longleftrightarrow> rq_method rq = m \<and> rq_url rq = url \<and> rq_bearer rq = None"

lemma sent_send: "cw_sent (snd (send L rq w)) = cw_sent w @ [rq]"
  by (simp add: send_def Let_def split: sum.split)

lemma asks_post_json: "asks L (open_request ''POST'' url) (post_json L url b)"
  by (simp add: asks_def post_json_def http_client_def sent_send open_request_def andthen_def bind_def)

lemma asks_load:
  assumes "\<And>st w. fst (load_state L w) = Ok st \<Longrightarrow> cw_sent (snd (f st w)) = cw_sent w
     \<or> (\<exists>rq. cw_sent (snd (f st w)) = cw_sent w @ [rq] \<and> Q (ls_session_token st) rq)"
  shows "asks L Q (bind (load_state L) f)"
  unfolding asks_def
proof
  fix w
  obtain r where r: "load_state L w = (r, w)" using snd_load_state [of L w] by (cases "load_state L w") simp
  show "cw_sent (snd (bind (load_state L) f w)) = cw_sent w
     \<or> (\<exists>rq. cw_sent (snd (bind (load_state L) f w)) = cw_sent w @ [rq] \<and> Q (saved_token L w) rq)"
    using assms [of w] r by (cases r) (simp_all add: bind_def saved_token_def)
qed

lemma sent_authed:
  assumes "\<And>r S. keeps (\<lambda>w. cw_sent w = S) (g r)"
  shows "cw_sent (snd (andthen (http_client L) (bind (authed_request L st m url b) g) w)) = cw_sent w
     \<or> (\<exists>rq. cw_sent (snd (andthen (http_client L) (bind (authed_request L st m url b) g) w)) = cw_sent w @ [rq]
          \<and> authed m url (ls_session_token st) rq)"
proof (cases "ls_session_token st")
  case (Some tok)
  define rq where "rq = \<lparr>rq_method = m, rq_url = url, rq_bearer = Some tok,
    rq_payload = (case b of None \<Rightarrow> NoBody | Some b \<Rightarrow> JsonBody b)\<rparr>"
  have "cw_sent (snd (bind (send L rq) g w)) = cw_sent w @ [rq]"
    using assms sent_send [of L rq w] by (auto simp: bind_def keeps_def split: prod.splits outcome.split)
  then show ?thesis
    by (auto simp: http_client_def authed_request_def Some rq_def [symmetric] andthen_def bind_def authed_def)
      (simp_all add: rq_def)
qed (simp add: http_client_def authed_request_def andthen_def bind_def)

lemma asks_call:
  "asks L (authed m (beacon_url beacon p)) (call L beacon m p b)"
  "asks L (authed m (beacon_url beacon p)) (call_ctx L beacon m p b msg)"
  unfolding call_def call_ctx_def by (intro asks_load sent_authed cli_intros)+

lemma asks_andthen_after:
  assumes "\<And>S. keeps (\<lambda>w. cw_sent w = S) m" and "\<And>w0. keeps (idle w0) m" and "asks L Q n"
  shows "asks L Q (andthen m n)"
  unfolding andthen_def using assms by (rule asks_after)

lemma asks_ignore: "asks L Q m \<Longrightarrow> asks L Q (ignore m)"
  by (simp add: asks_def snd_ignore)

lemma asks_load_then:
  assumes "\<And>st. asks L (\<lambda>_. Q (ls_session_token st)) (f st)"
  shows "asks L Q (bind (load_state L) f)"
  by (rule asks_load) (use assms in \<open>simp add: asks_def\<close>)

text \<open>Where each command goes: the route of the server, the path and whether a session is needed.\<close>

fun cmd_route :: "cmd \<Rightarrow> string \<times> string" where
  "cmd_route (Signup _ _ _) = (''POST'', ''/v1/auth/signup'')"
| "cmd_route (VaultCmd (VaultCreate _ _)) = (''POST'', ''/v1/vaults'')"
| "cmd_route (VaultCmd VaultList) = (''GET'', ''/v1/vaults'')"
| "cmd_route (VaultCmd (VaultGet _)) = (''GET'', ''/v1/vaults/:id'')"
| "cmd_route (LetterCmd (LetterSeal _ _ _ _ _ _ _)) = (''POST'', ''/v1/vaults/:id/letters'')"
| "cmd_route (LetterCmd (LetterUpload _ _ _ _ _)) = (''POST'', ''/v1/vaults/:id/letters/multipart'')"
| "cmd_route (LetterCmd (LetterList _)) = (''GET'', ''/v1/vaults/:id/letters'')"
| "cmd_route HeartbeatCmd = (''POST'', ''/v1/heartbeats'')"
| "cmd_route (ForceRelease _) = (''POST'', ''/v1/vaults/:id/force-release'')"
| "cmd_route (Cancel _) = (''POST'', ''/v1/vaults/:id/cancel'')"
| "cmd_route (Drill _) = (''POST'', ''/v1/vaults/:id/drills'')"
| "cmd_route (BuddyCmd (BuddyInvite _ _ _ _)) = (''POST'', ''/v1/principals/me/buddies'')"
| "cmd_route (BuddyCmd BuddyList) = (''GET'', ''/v1/principals/me/buddies'')"
| "cmd_route (BuddyCmd (BuddyConfirm _)) = (''POST'', ''/v1/buddies/confirm'')"
| "cmd_route (BuddyCmd (BuddyRespond _ _)) = (''POST'', ''/v1/buddies/:id/responses'')"
| "cmd_route (BuddyCmd (BuddyRevoke _)) = (''DELETE'', ''/v1/buddies/:id'')"
| "cmd_route (Subscription SubGet) = (''GET'', ''/v1/principals/me/subscription'')"
| "cmd_route (AccountCmd AccountDelete) = (''DELETE'', ''/v1/principals/me'')"
| "cmd_route (AccountCmd AccountCancelDeletion) = (''POST'', ''/v1/principals/me/cancel-deletion'')"
| "cmd_route (MicrosoftObserve _) = (''POST'', ''/v1/signals/microsoft/observe'')"
| "cmd_route Status = (''GET'', ''/v1/vaults'')"

fun cmd_id :: "cmd \<Rightarrow> string option" where
  "cmd_id (VaultCmd (VaultGet v)) = Some v"
| "cmd_id (LetterCmd (LetterSeal v _ _ _ _ _ _)) = Some v"
| "cmd_id (LetterCmd (LetterUpload v _ _ _ _)) = Some v"
| "cmd_id (LetterCmd (LetterList v)) = Some v"
| "cmd_id (ForceRelease v) = Some v"
| "cmd_id (Cancel v) = Some v"
| "cmd_id (Drill v) = Some v"
| "cmd_id (BuddyCmd (BuddyRespond b _)) = Some b"
| "cmd_id (BuddyCmd (BuddyRevoke b)) = Some b"
| "cmd_id _ = None"

fun needs_session :: "cmd \<Rightarrow> bool" where
  "needs_session (Signup _ _ _) \<longleftrightarrow> False"
| "needs_session (BuddyCmd (BuddyConfirm _)) \<longleftrightarrow> False"
| "needs_session (BuddyCmd (BuddyRespond _ _)) \<longleftrightarrow> False"
| "needs_session _ \<longleftrightarrow> True"

text \<open>A path with its identifier put in the place of the parameter.\<close>

definition fill :: "string \<Rightarrow> string option \<Rightarrow> string" where
  "fill pattern x = concat (map (\<lambda>seg. CHR ''/'' # (if seg = '':id'' then unwrap_or [] x else seg)) (tl (parts pattern)))"

definition cmd_asks :: "string \<Rightarrow> cmd \<Rightarrow> string option \<Rightarrow> http_request \<Rightarrow> bool" where
  "cmd_asks beacon c =
     (if needs_session c then authed else open_request) (fst (cmd_route c))
       (beacon_url beacon (fill (snd (cmd_route c)) (cmd_id c)))"

lemmas fill_simps = fill_def unwrap_or_def

lemmas asks_rules = asks_bind asks_call asks_post_json asks_after asks_nothing asks_ignore
  asks_andthen_after

lemma asks_vault_list: "asks L (authed ''GET'' (beacon_url beacon ''/v1/vaults'')) (cmd_vault_list L beacon)"
  unfolding cmd_vault_list_def by (intro asks_rules keeps_intros cli_intros)

lemma asks_upload:
  "asks L (authed ''POST'' (beacon_url beacon (''/v1/vaults/'' @ v @ ''/letters/multipart'')))
     (cmd_letter_upload L beacon v title recipient body files)"
  unfolding cmd_letter_upload_def
proof (rule asks_load_then, goal_cases)
  case (1 st)
  have sends: "asks L (\<lambda>_. authed m url (Some tok))
      (send L \<lparr>rq_method = m, rq_url = url, rq_bearer = Some tok, rq_payload = p\<rparr>)" for m url tok p
    by (simp add: asks_def sent_send authed_def)
  show ?case
  proof (cases "ls_session_token st")
    case None
    then show ?thesis by (simp add: asks_nothing)
  next
    case (Some tok)
    show ?thesis unfolding Some ok_or_simps bind_ret
      by (intro asks_andthen_after asks_after asks_bind [OF sends] keeps_intros cli_intros)
  qed
qed

lemma asks_status: "asks L (authed ''GET'' (beacon_url beacon ''/v1/vaults'')) (cmd_status L beacon)"
proof -
  have "asks L (authed ''GET'' (beacon_url beacon ''/v1/vaults''))
     (if b then println x else andthen (println l1) (andthen (println l2) (andthen (println l3)
       (andthen (println l4) (andthen (println l5) (andthen (println l6) (ignore (cmd_vault_list L beacon))))))))"
    for b x l1 l2 l3 l4 l5 l6
  proof (cases b)
    case True
    then show ?thesis by (simp add: asks_nothing cli_intros)
  next
    case False
    show ?thesis unfolding if_not_P [OF False]
      by (intro asks_andthen_after asks_ignore asks_vault_list cli_intros)
  qed
  then show ?thesis
    unfolding cmd_status_def by (intro asks_after [OF keeps_load_state keeps_load_state])
qed

lemma asks_letter_seal:
  "asks L (authed ''POST'' (beacon_url beacon (''/v1/vaults/'' @ v @ ''/letters'')))
     (cmd_letter_seal L beacon v title recipient a b d e)"
  unfolding cmd_letter_seal_def
  by (intro asks_after [OF sent_read_body idle_read_body] asks_bind asks_call keeps_intros cli_intros)


text \<open>The path of each command in full.\<close>

lemma fill_paths:
  "fill ''/v1/auth/signup'' x = ''/v1/auth/signup''"
  "fill ''/v1/vaults'' x = ''/v1/vaults''"
  "fill ''/v1/vaults/:id'' (Some v) = ''/v1/vaults/'' @ v"
  "fill ''/v1/vaults/:id/letters'' (Some v) = ''/v1/vaults/'' @ v @ ''/letters''"
  "fill ''/v1/vaults/:id/letters/multipart'' (Some v) = ''/v1/vaults/'' @ v @ ''/letters/multipart''"
  "fill ''/v1/vaults/:id/force-release'' (Some v) = ''/v1/vaults/'' @ v @ ''/force-release''"
  "fill ''/v1/vaults/:id/cancel'' (Some v) = ''/v1/vaults/'' @ v @ ''/cancel''"
  "fill ''/v1/vaults/:id/drills'' (Some v) = ''/v1/vaults/'' @ v @ ''/drills''"
  "fill ''/v1/heartbeats'' x = ''/v1/heartbeats''"
  "fill ''/v1/principals/me/buddies'' x = ''/v1/principals/me/buddies''"
  "fill ''/v1/buddies/confirm'' x = ''/v1/buddies/confirm''"
  "fill ''/v1/buddies/:id/responses'' (Some v) = ''/v1/buddies/'' @ v @ ''/responses''"
  "fill ''/v1/buddies/:id'' (Some v) = ''/v1/buddies/'' @ v"
  "fill ''/v1/principals/me/subscription'' x = ''/v1/principals/me/subscription''"
  "fill ''/v1/principals/me'' x = ''/v1/principals/me''"
  "fill ''/v1/principals/me/cancel-deletion'' x = ''/v1/principals/me/cancel-deletion''"
  "fill ''/v1/signals/microsoft/observe'' x = ''/v1/signals/microsoft/observe''"
  by (simp_all add: fill_simps)

lemma asks_vault_cmd: "asks L (cmd_asks beacon (VaultCmd c)) (run_vault_cmd L beacon c)"
  unfolding cmd_asks_def
  by (cases c) (simp_all del: append_Cons add: fill_paths asks_vault_list,
      (unfold cmd_vault_create_def cmd_vault_get_def, (intro asks_bind asks_call keeps_intros cli_intros)+))

lemma asks_letter_cmd: "asks L (cmd_asks beacon (LetterCmd c)) (run_letter_cmd L beacon c)"
  unfolding cmd_asks_def
  by (cases c) (simp_all del: append_Cons add: fill_paths asks_letter_seal asks_upload,
      (unfold cmd_letter_list_def, (intro asks_bind asks_call keeps_intros cli_intros)+))

lemma asks_buddy_cmd: "asks L (cmd_asks beacon (BuddyCmd c)) (run_buddy_cmd L beacon c)"
  unfolding cmd_asks_def
  by (cases c) (simp_all del: append_Cons add: fill_paths,
      (unfold cmd_buddy_invite_def cmd_buddy_list_def cmd_buddy_confirm_def cmd_buddy_respond_def
         cmd_buddy_revoke_def, (intro asks_bind asks_call asks_post_json keeps_intros cli_intros)+))

lemma asks_run_cmd: "asks L (cmd_asks beacon c) (run_cmd L beacon c)"
proof (cases c)
  case (Signup a b d)
  show ?thesis
    unfolding Signup cmd_asks_def
    by (simp del: append_Cons add: fill_paths)
      (unfold cmd_signup_def, intro asks_bind asks_post_json keeps_intros cli_intros)
next
  case (Subscription s)
  then show ?thesis
    by (cases s) (simp del: append_Cons add: cmd_asks_def fill_paths,
      unfold cmd_subscription_get_def, intro asks_bind asks_call keeps_intros cli_intros)
next
  case (AccountCmd s)
  then show ?thesis
    by (cases s) (simp_all del: append_Cons add: cmd_asks_def fill_paths,
      (unfold cmd_account_delete_def cmd_account_cancel_deletion_def,
       (intro asks_bind asks_call keeps_intros cli_intros)+))
qed (simp_all del: append_Cons add: asks_vault_cmd asks_letter_cmd asks_buddy_cmd,
  (simp_all del: append_Cons add: cmd_asks_def fill_paths asks_status,
   (unfold cmd_heartbeat_def cmd_force_release_def cmd_cancel_def cmd_drill_def
      cmd_microsoft_observe_def, (intro asks_bind asks_call keeps_intros cli_intros)+))?)

text \<open>Every route a command uses is a route of the server.\<close>

lemma routed:
  "\<exists>r. route r = (''POST'', ''/v1/auth/signup'')"
  "\<exists>r. route r = (''POST'', ''/v1/vaults'')"
  "\<exists>r. route r = (''GET'', ''/v1/vaults'')"
  "\<exists>r. route r = (''GET'', ''/v1/vaults/:id'')"
  "\<exists>r. route r = (''POST'', ''/v1/vaults/:id/letters'')"
  "\<exists>r. route r = (''POST'', ''/v1/vaults/:id/letters/multipart'')"
  "\<exists>r. route r = (''GET'', ''/v1/vaults/:id/letters'')"
  "\<exists>r. route r = (''POST'', ''/v1/heartbeats'')"
  "\<exists>r. route r = (''POST'', ''/v1/vaults/:id/force-release'')"
  "\<exists>r. route r = (''POST'', ''/v1/vaults/:id/cancel'')"
  "\<exists>r. route r = (''POST'', ''/v1/vaults/:id/drills'')"
  "\<exists>r. route r = (''POST'', ''/v1/principals/me/buddies'')"
  "\<exists>r. route r = (''GET'', ''/v1/principals/me/buddies'')"
  "\<exists>r. route r = (''POST'', ''/v1/buddies/confirm'')"
  "\<exists>r. route r = (''POST'', ''/v1/buddies/:id/responses'')"
  "\<exists>r. route r = (''DELETE'', ''/v1/buddies/:id'')"
  "\<exists>r. route r = (''GET'', ''/v1/principals/me/subscription'')"
  "\<exists>r. route r = (''DELETE'', ''/v1/principals/me'')"
  "\<exists>r. route r = (''POST'', ''/v1/principals/me/cancel-deletion'')"
  "\<exists>r. route r = (''POST'', ''/v1/signals/microsoft/observe'')"
  by (rule exI [of _ "AuthRequest (PostSignup undefined)"] exI [of _ "VaultRequest (PostVaults undefined)"]
      exI [of _ "VaultRequest GetVaults"] exI [of _ "VaultRequest (GetVault undefined)"]
      exI [of _ "LetterRequest (PostLetter undefined undefined)"] exI [of _ "LetterRequest (PostLetterMultipart undefined [])"]
      exI [of _ "LetterRequest (GetLetters undefined)"] exI [of _ "SignalRequest (PostHeartbeat None)"]
      exI [of _ "VaultRequest (PostForceRelease undefined)"] exI [of _ "VaultRequest (PostCancel undefined)"]
      exI [of _ "VaultRequest (PostDrills undefined)"] exI [of _ "PeopleRequest (PostBuddy undefined)"]
      exI [of _ "PeopleRequest GetBuddies"] exI [of _ "PeopleRequest (PostBuddyConfirm [])"]
      exI [of _ "PeopleRequest (PostBuddyResponse undefined [])"] exI [of _ "PeopleRequest (DeleteBuddy undefined)"]
      exI [of _ "AccountRequest GetSubscription"] exI [of _ "AccountRequest DeleteMe"]
      exI [of _ "AccountRequest PostCancelDeletion"] exI [of _ "SignalRequest (PostMicrosoftObserve undefined)"],
      simp; fail)+


section \<open>Uploads\<close>

text \<open>
  What the multipart encoding of reqwest and the decoding of axum preserve of a part: its name,
  its file name and type, its bytes, and the text of a text part.
\<close>

fun carries :: "form_part \<Rightarrow> mp_field \<Rightarrow> bool" where
  "carries (FormText name t) f \<longleftrightarrow> mf_name f = Some name \<and> mf_file_name f = None
     \<and> mf_text f = Inr t \<and> mf_bytes f = Inr (as_bytes t)"
| "carries (FormFile name filename mime bs) f \<longleftrightarrow> mf_name f = Some name
     \<and> mf_file_name f = Some filename \<and> mf_content_type f = Some mime \<and> mf_bytes f = Inr bs"

definition shown_name :: "string \<Rightarrow> string" where
  "shown_name path = unwrap_or ''file'' (case file_name path of Some n \<Rightarrow> to_str n | None \<Rightarrow> None)"

definition read_as :: "string \<Rightarrow> bytes \<Rightarrow> string \<times> string \<times> bytes" where
  "read_as path bs = (shown_name path, mime_guess_for (shown_name path), bs)"

lemma file_part_Ok:
  "file_part path w = (Ok part, w') \<longleftrightarrow> w' = w \<and> cw_fault w path = None
     \<and> (\<exists>bs. cw_files w path = Some bs
          \<and> part = FormFile ''file'' (shown_name path) (mime_guess_for (shown_name path)) bs)"
  by (auto simp: file_part_def Let_def bind_def with_context_def map_err_def fs_read_def
      shown_name_def [symmetric] split: option.splits)

lemma collect_parts:
  "collect file_part files w = (Ok ps, w') \<Longrightarrow>
     \<exists>bss. map (cw_files w) files = map Some bss
       \<and> ps = map2 (\<lambda>p bs. FormFile ''file'' (shown_name p) (mime_guess_for (shown_name p)) bs) files bss"
proof (induction files arbitrary: ps)
  case (Cons f files)
  from Cons.prems obtain part rest where p: "file_part f w = (Ok part, w)"
    and r: "collect file_part files w = (Ok rest, w')" and ps: "ps = part # rest"
    by (auto simp: bind_eq_Ok file_part_Ok)
  from p obtain bs where bs: "cw_files w f = Some bs"
    and part: "part = FormFile ''file'' (shown_name f) (mime_guess_for (shown_name f)) bs"
    by (auto simp: file_part_Ok)
  from Cons.IH [OF r] obtain bss where "map (cw_files w) files = map Some bss"
    and "rest = map2 (\<lambda>p bs. FormFile ''file'' (shown_name p) (mime_guess_for (shown_name p)) bs) files bss"
    by auto
  with bs part ps show ?case by (intro exI [of _ "bs # bss"]) simp
qed simp

lemma read_form_files:
  assumes "length bss = length files"
    and "list_all2 carries (map2 (\<lambda>p bs. FormFile ''file'' (shown_name p) (mime_guess_for (shown_name p)) bs) files bss) wired"
    and "\<forall>bs \<in> set bss. length bs \<le> max_upload_bytes A"
  shows "read_form A (map Inr wired) acc v =
    (Ok (acc\<lparr>mp_files := mp_files acc @ map2 read_as files bss\<rparr>), v)"
  using assms
proof (induction bss files arbitrary: wired acc rule: list_induct2)
  case (Cons bs bss f files)
  then obtain d ds where d: "wired = d # ds" by (cases wired) auto
  with Cons.prems have "mf_name d = Some ''file''" "mf_file_name d = Some (shown_name f)"
    "mf_content_type d = Some (mime_guess_for (shown_name f))" "mf_bytes d = Inr bs"
    "length bs \<le> max_upload_bytes A"
    by auto
  then have "read_field A d acc v = (Ok (acc\<lparr>mp_files := mp_files acc @ [read_as f bs]\<rparr>), v)"
    by (simp add: read_field_def unwrap_or_def or_bad_def read_as_def)
  moreover have "read_form A (map Inr ds) (acc\<lparr>mp_files := mp_files acc @ [read_as f bs]\<rparr>) v =
      (Ok (acc\<lparr>mp_files := (mp_files acc @ [read_as f bs]) @ map2 read_as files bss\<rparr>), v)"
    using Cons.IH [of ds "acc\<lparr>mp_files := mp_files acc @ [read_as f bs]\<rparr>"] Cons.prems d by simp
  ultimately show ?case by (simp add: d or_bad_def bind_def)
qed simp

text \<open>
  An upload of the client as the server reads it. When the files of the command could be
  read and none is over the limit, \<open>read_form\<close> gives back the title, the recipient, the body if
  one was given, and for every file, in the order of the command line, its name, its guessed
  type and its contents.
\<close>

theorem upload_is_read_back:
  assumes files: "collect file_part files w = (Ok file_parts, w')"
    and sizes: "list_all (\<lambda>p. case cw_files w p of Some bs \<Rightarrow> length bs \<le> max_upload_bytes A | None \<Rightarrow> True) files"
    and wire: "list_all2 carries (upload_form title recipient body file_parts) wired"
  shows "\<exists>bss. map (cw_files w) files = map Some bss
    \<and> read_form A (map Inr wired) empty_form v =
        (Ok (empty_form\<lparr>mp_title := Some title, mp_recipient_email := Some recipient, mp_body := body,
           mp_files := map2 read_as files bss\<rparr>), v)"
proof -
  from collect_parts [OF files] obtain bss where bss: "map (cw_files w) files = map Some bss"
    and ps: "file_parts = map2 (\<lambda>p bs. FormFile ''file'' (shown_name p) (mime_guess_for (shown_name p)) bs) files bss"
    by blast
  have len: "length bss = length files" using bss by (metis length_map)
  have "\<forall>bs \<in> set bss. length bs \<le> max_upload_bytes A"
  proof
    fix bs assume "bs \<in> set bss"
    with bss have "Some bs \<in> set (map (cw_files w) files)" by simp
    then obtain p where "p \<in> set files" "cw_files w p = Some bs" by auto
    with sizes show "length bs \<le> max_upload_bytes A" by (auto simp: list_all_iff)
  qed
  note rest = read_form_files [OF len _ this]
  obtain t r more where wired: "wired = t # r # more" and t: "carries (FormText ''title'' title) t"
    and r: "carries (FormText ''recipient_email'' recipient) r"
    and more: "list_all2 carries ((case body of Some b \<Rightarrow> [FormText ''body'' b] | None \<Rightarrow> []) @ file_parts) more"
    using wire by (auto simp: upload_form_def list_all2_Cons1)
  define acc where "acc = empty_form\<lparr>mp_title := Some title, mp_recipient_email := Some recipient\<rparr>"
  have head: "read_form A (map Inr wired) empty_form v = read_form A (map Inr more) acc v"
    using t r by (simp add: wired bind_def or_bad_def read_field_def unwrap_or_def acc_def)
  have "read_form A (map Inr more) acc v = (Ok (acc\<lparr>mp_body := body, mp_files := map2 read_as files bss\<rparr>), v)"
  proof (cases body)
    case None
    with more ps rest [of more acc v] show ?thesis by (simp add: acc_def empty_form_def)
  next
    case (Some b)
    with more obtain d ds where d: "more = d # ds" "carries (FormText ''body'' b) d" "list_all2 carries file_parts ds"
      by (auto simp: list_all2_Cons1)
    with ps rest [of ds "acc\<lparr>mp_body := Some b\<rparr>" v] Some show ?thesis
      by (simp add: bind_def or_bad_def read_field_def unwrap_or_def acc_def empty_form_def)
  qed
  with bss head show ?thesis by (auto simp: acc_def)
qed

definition sample_fields :: "mp_field list" where
  "sample_fields =
     [\<lparr>mf_name = Some ''title'', mf_file_name = None, mf_content_type = None,
        mf_text = Inr ''T'', mf_bytes = Inr (as_bytes ''T'')\<rparr>,
      \<lparr>mf_name = Some ''recipient_email'', mf_file_name = None, mf_content_type = None,
        mf_text = Inr ''r@x'', mf_bytes = Inr (as_bytes ''r@x'')\<rparr>,
      \<lparr>mf_name = Some ''file'', mf_file_name = Some ''a.TXT'', mf_content_type = Some ''text/plain'',
        mf_text = Inl ''unread'', mf_bytes = Inr [104, 105]\<rparr>]"

theorem upload_is_read_back_witness:
  "read_form sample_app (map Inr sample_fields) empty_form sample_world =
     (Ok (empty_form\<lparr>mp_title := Some ''T'', mp_recipient_email := Some ''r@x'', mp_body := None,
        mp_files := [(''a.TXT'', ''text/plain'', [104, 105])]\<rparr>), sample_world)"
proof -
  let ?w = "sample_machine [''/tmp/a.TXT'' \<mapsto> [104, 105]] ()"
  let ?ps = "[FormFile ''file'' ''a.TXT'' ''text/plain'' [104, 105]]"
  have n: "shown_name ''/tmp/a.TXT'' = ''a.TXT''" "mime_guess_for ''a.TXT'' = ''text/plain''"
    by code_simp+
  have "file_part ''/tmp/a.TXT'' ?w = (Ok (FormFile ''file'' ''a.TXT'' ''text/plain'' [104, 105]), ?w)"
    by (simp add: file_part_Ok n sample_machine_def)
  then have c: "collect file_part [''/tmp/a.TXT''] ?w = (Ok ?ps, ?w)"
    by (simp add: bind_def)
  have s: "list_all (\<lambda>p. case cw_files ?w p of Some bs \<Rightarrow> length bs \<le> max_upload_bytes sample_app | None \<Rightarrow> True)
      [''/tmp/a.TXT'']"
    by (simp add: sample_machine_def sample_app_def)
  have wire: "list_all2 carries (upload_form ''T'' ''r@x'' None ?ps) sample_fields"
    by (simp add: upload_form_def sample_fields_def)
  from upload_is_read_back [OF c s wire, of sample_world] obtain bss
    where m: "map (cw_files ?w) [''/tmp/a.TXT''] = map Some bss"
      and r: "read_form sample_app (map Inr sample_fields) empty_form sample_world =
        (Ok (empty_form\<lparr>mp_title := Some ''T'', mp_recipient_email := Some ''r@x'', mp_body := None,
          mp_files := map2 read_as [''/tmp/a.TXT''] bss\<rparr>), sample_world)"
    by blast
  from m have b: "bss = [[104, 105]]" by (auto simp: sample_machine_def)
  have f: "map2 read_as [''/tmp/a.TXT''] bss = [(''a.TXT'', ''text/plain'', [104, 105])]"
    by (simp add: b read_as_def n)
  show ?thesis using r unfolding f .
qed

section \<open>Signing up\<close>

text \<open>The status of the server's answer to a sign-up with this body; none when it drops the connection.\<close>

definition signup_status :: "app \<Rightarrow> json \<Rightarrow> world \<Rightarrow> nat option" where
  "signup_status A j w = (case signup_of_json j of
       None \<Rightarrow> Some 422
     | Some q \<Rightarrow> (case fst (answer (signup A q) w) of
           Success \<Rightarrow> Some 200
         | Failure p \<Rightarrow> Some (pb_status p)
         | Dropped \<Rightarrow> None))"

lemma client_signup_refused: "signup_status A (signup_body email d p) w = Some 400"
proof -
  have "signup_of_json (signup_body email d p) =
      Some \<lparr>sq_email = email, sq_display_name = d, sq_plan = Some p, sq_tos_accepted = None\<rparr>"
    by (simp add: signup_body_def opt_field_def opt_bool_field_def build_signup_def)
      (simp add: opt_string_def)
  then show ?thesis
    by (cases "contains_at email")
      (simp_all add: signup_status_def signup_def answer_def into_response_def andthen_def)
qed

text \<open>A program that ends without a value and without having changed anything.\<close>

definition gives_up :: "('r, 'a) cli_prog \<Rightarrow> 'r cli_world \<Rightarrow> bool" where
  "gives_up m w \<longleftrightarrow> (\<forall>x. fst (m w) \<noteq> Ok x)"

lemma gives_up_bind: "gives_up m w \<Longrightarrow> gives_up (bind m f) w"
  by (auto simp: gives_up_def bind_def split: prod.split outcome.split)

lemma gives_up_after:
  assumes "\<And>x. fst (m w) = Ok x \<Longrightarrow> gives_up (f x) (snd (m w))"
  shows "gives_up (bind m f) w"
  using assms by (cases "m w") (auto simp: gives_up_def bind_def split: outcome.split)

lemma gives_up_call:
  assumes "saved_token L w = None"
  shows "gives_up (call L beacon m p b) w" "gives_up (call_ctx L beacon m p b msg) w"
proof -
  obtain r where r: "load_state L w = (r, w)" using snd_load_state [of L w] by (cases "load_state L w") simp
  have "gives_up (andthen (http_client L) (bind (authed_request L st m u b) g)) w"
    if "r = Ok st" for st u and g :: "nat \<times> string \<Rightarrow> ('a, json) cli_prog"
    using assms r that
    by (simp add: gives_up_def saved_token_def authed_request_def http_client_def andthen_def bind_def)
  then show "gives_up (call L beacon m p b) w" "gives_up (call_ctx L beacon m p b msg) w"
    unfolding call_def call_ctx_def using r by (auto intro!: gives_up_after)
qed

lemma gives_up_seal:
  "saved_token L w = None \<Longrightarrow> gives_up (cmd_letter_seal L beacon v t r a b d e) w"
  unfolding cmd_letter_seal_def
  using keepsD [OF idle_read_body, of w w a b]
  by (intro gives_up_after gives_up_bind gives_up_call) (simp add: saved_token_idle)

lemma gives_up_upload:
  assumes "saved_token L w = None"
  shows "gives_up (cmd_letter_upload L beacon v t r b fs) w"
proof -
  obtain o1 where r: "load_state L w = (o1, w)" using snd_load_state [of L w] by (cases "load_state L w") simp
  show ?thesis
    using assms r unfolding cmd_letter_upload_def gives_up_def saved_token_def
    by (cases o1) (simp_all add: bind_def)
qed

lemma gives_up_run:
  assumes "saved_token L w = None" "needs_session c" "c \<noteq> Status"
  shows "gives_up (run_cmd L beacon c) w"
  using assms(2,3)
  by (cases c rule: cmd_route.cases)
    (simp_all add: cmd_vault_create_def cmd_vault_list_def cmd_vault_get_def cmd_letter_list_def
       cmd_heartbeat_def cmd_force_release_def cmd_cancel_def cmd_drill_def cmd_buddy_invite_def
       cmd_buddy_list_def cmd_buddy_revoke_def cmd_subscription_get_def cmd_account_delete_def
       cmd_account_cancel_deletion_def cmd_microsoft_observe_def gives_up_seal gives_up_upload
       gives_up_bind gives_up_call assms(1))

lemma idle_vault_list: "keeps (idle w0) (cmd_vault_list L beacon)"
  unfolding cmd_vault_list_def by (intro keeps_intros cli_intros)

lemma idle_status: "keeps (idle w0) (cmd_status L beacon)"
  unfolding cmd_status_def by (intro keeps_intros cli_intros idle_vault_list)

lemma idle_upload: "keeps (idle w0) (cmd_letter_upload L beacon v t r b fs)"
  unfolding cmd_letter_upload_def by (intro keeps_intros cli_intros)

lemma idle_vault_cmd: "keeps (idle w0) (run_vault_cmd L beacon c)"
  by (cases c) (simp_all add: cmd_vault_create_def cmd_vault_get_def idle_vault_list,
    (intro keeps_intros cli_intros)+)

lemma idle_letter_cmd: "keeps (idle w0) (run_letter_cmd L beacon c)"
  by (cases c) (simp_all add: cmd_letter_seal_def cmd_letter_list_def idle_upload,
    (intro keeps_intros cli_intros)+)

lemma idle_buddy_cmd: "keeps (idle w0) (run_buddy_cmd L beacon c)"
  by (cases c) (simp_all add: cmd_buddy_invite_def cmd_buddy_list_def cmd_buddy_confirm_def
      cmd_buddy_respond_def cmd_buddy_revoke_def, (intro keeps_intros cli_intros)+)

lemma idle_run:
  assumes "\<And>e d p. c \<noteq> Signup e d p"
  shows "keeps (idle w0) (run_cmd L beacon c)"
proof (cases c)
  case (Subscription s)
  then show ?thesis by (cases s) (simp add: cmd_subscription_get_def, intro keeps_intros cli_intros)
next
  case (AccountCmd a)
  then show ?thesis
    by (cases a) (simp_all add: cmd_account_delete_def cmd_account_cancel_deletion_def,
      (intro keeps_intros cli_intros)+)
qed (use assms in \<open>simp_all add: idle_vault_cmd idle_letter_cmd idle_buddy_cmd idle_status\<close>,
  (simp_all add: cmd_heartbeat_def cmd_force_release_def cmd_cancel_def cmd_drill_def
     cmd_microsoft_observe_def, (intro keeps_intros cli_intros)+)?)

text \<open>The network, as far as sign-ups go: whoever answers them answers as the server does.\<close>

definition answers_signups :: "app \<Rightarrow> string \<Rightarrow> world cli_lib \<Rightarrow> bool" where
  "answers_signups A beacon L \<longleftrightarrow> (\<forall>rq r j status msg.
     rq_url rq = beacon_url beacon ''/v1/auth/signup'' \<longrightarrow> rq_payload rq = JsonBody j \<longrightarrow>
     fst (cl_send L rq r) = Inr (status, msg) \<longrightarrow> signup_status A j r = Some status)"

lemma signup_fails:
  assumes "answers_signups A beacon L"
  shows "gives_up (cmd_signup L beacon e d p) w" "idle w (snd (cmd_signup L beacon e d p w))"
proof -
  define rq where "rq = \<lparr>rq_method = ''POST'', rq_url = beacon_url beacon ''/v1/auth/signup'',
    rq_bearer = None, rq_payload = JsonBody (signup_body e d p)\<rparr>"
  have u: "rq_url rq = beacon_url beacon ''/v1/auth/signup''" "rq_payload rq = JsonBody (signup_body e d p)"
    by (simp_all add: rq_def)
  have refused: "status = 400" if "fst (cl_send L rq r) = Inr (status, msg)" for r status msg
    using assms [unfolded answers_signups_def, rule_format, OF u that] client_signup_refused [of A e d p r]
    by simp
  have "cmd_signup L beacon e d p w = (if cl_builds L
      then (Err (case fst (cl_send L rq (cw_remote w)) of Inl msg \<Rightarrow> [msg]
               | Inr (status, msg) \<Rightarrow> [''signup failed'', dec_digits status @ '' '' @ cl_reason L status @ '': '' @ msg]),
            snd (send L rq w))
      else (Panic ''reqwest client builder'', w))"
    unfolding cmd_signup_def post_json_def rq_def [symmetric] http_client_def
    by (auto simp: bind_def andthen_def send_def Let_def with_context_def map_err_def
        ok_json_def is_success_def dest!: refused split: sum.split prod.split)
  moreover have "idle w (snd (send L rq w))" using keepsD [OF idle_send, of w w] by simp
  ultimately show "gives_up (cmd_signup L beacon e d p) w" "idle w (snd (cmd_signup L beacon e d p w))"
    by (simp_all add: gives_up_def)
qed

fun run_cmds :: "'r cli_lib \<Rightarrow> string \<Rightarrow> cmd list \<Rightarrow> 'r cli_world \<Rightarrow> (string list, unit) outcome list \<times> 'r cli_world" where
  "run_cmds L beacon [] w = ([], w)"
| "run_cmds L beacon (c # cs) w =
     (case run_cmd L beacon c w of (out, w') \<Rightarrow>
      case run_cmds L beacon cs w' of (outs, w'') \<Rightarrow> (out # outs, w''))"

text \<open>The commands that establish or need a session; \<open>status\<close> only reports that there is none.\<close>

fun must_fail :: "cmd \<Rightarrow> bool" where
  "must_fail (Signup _ _ _) \<longleftrightarrow> True"
| "must_fail c \<longleftrightarrow> needs_session c \<and> c \<noteq> Status"

lemma run_one:
  assumes "answers_signups A beacon L" "saved_token L w = None" "run_cmd L beacon c w = (out, w')"
  shows "idle w w'" and "\<exists>rqs. cw_sent w' = cw_sent w @ rqs \<and> list_all (\<lambda>rq. rq_bearer rq = None) rqs"
    and "must_fail c \<longrightarrow> out \<noteq> Ok ()"
proof -
  show "idle w w'"
  proof (cases "\<exists>e d p. c = Signup e d p")
    case True
    then show ?thesis using signup_fails(2) [OF assms(1)] assms(3) by (metis run_cmd.simps(1) snd_conv)
  next
    case False
    then show ?thesis using keepsD [OF idle_run, of c w w L beacon] assms(3) by auto
  qed
  have "asks L (cmd_asks beacon c) (run_cmd L beacon c)" by (rule asks_run_cmd)
  then show "\<exists>rqs. cw_sent w' = cw_sent w @ rqs \<and> list_all (\<lambda>rq. rq_bearer rq = None) rqs"
    using assms(2,3) unfolding asks_def cmd_asks_def
    by (auto simp: authed_def open_request_def dest!: spec [of _ w] split: if_splits
        intro: exI [of _ "[]"] exI [of _ "[_]"])
  show "must_fail c \<longrightarrow> out \<noteq> Ok ()"
  proof (cases "\<exists>e d p. c = Signup e d p")
    case True
    then show ?thesis using signup_fails(1) [OF assms(1)] assms(3) by (auto simp: gives_up_def) (metis fst_conv)
  next
    case False
    then show ?thesis using gives_up_run [OF assms(2), of c beacon] assms(3)
      by (cases c) (simp_all add: gives_up_def)
  qed
qed

text \<open>
  C38: Signing in from the client. The client never sends \<open>tos_accepted\<close>, which the server
  demands, so as long as the beacon answers sign-ups as the server does, a client without a
  saved session never gets one: in every sequence of commands each sign-up and each command that
  needs a session fails, no request carries a token, and no file is written.
\<close>

theorem cli_never_signs_in:
  assumes "answers_signups A beacon L" and "saved_token L w = None"
    and "run_cmds L beacon cs w = (outs, w')"
  shows "cw_files w' = cw_files w
    \<and> (\<exists>rqs. cw_sent w' = cw_sent w @ rqs \<and> list_all (\<lambda>rq. rq_bearer rq = None) rqs)
    \<and> list_all2 (\<lambda>c out. must_fail c \<longrightarrow> out \<noteq> Ok ()) cs outs"
  using assms(2,3)
proof (induction cs arbitrary: w outs)
  case Nil
  then show ?case by (auto intro: exI [of _ "[]"])
next
  case (Cons c cs)
  from Cons.prems(2) obtain out w1 os where one: "run_cmd L beacon c w = (out, w1)"
    and more: "run_cmds L beacon cs w1 = (os, w')" and outs: "outs = out # os"
    by (auto split: prod.splits)
  note r = run_one [OF assms(1) Cons.prems(1) one]
  have "saved_token L w1 = None" using r(1) Cons.prems(1) by (simp add: saved_token_idle)
  note ih = Cons.IH [OF this more]
  from ih obtain rqs' where f: "cw_files w' = cw_files w1" and s: "cw_sent w' = cw_sent w1 @ rqs'"
    and b: "list_all (\<lambda>rq. rq_bearer rq = None) rqs'"
    and l: "list_all2 (\<lambda>c out. must_fail c \<longrightarrow> out \<noteq> Ok ()) cs os"
    by blast
  from r(2) obtain rqs where s1: "cw_sent w1 = cw_sent w @ rqs"
    and b1: "list_all (\<lambda>rq. rq_bearer rq = None) rqs" by blast
  have "cw_sent w' = cw_sent w @ (rqs @ rqs')" "list_all (\<lambda>rq. rq_bearer rq = None) (rqs @ rqs')"
    using s s1 b b1 by simp_all
  moreover have "cw_files w' = cw_files w" using f r(1) by (simp add: idle_def)
  moreover have "list_all2 (\<lambda>c out. must_fail c \<longrightarrow> out \<noteq> Ok ()) (c # cs) outs"
    using l r(3) unfolding outs by (simp only: list_all2_Cons simp_thms)
  ultimately show ?case by blast
qed

text \<open>A network that hands sign-ups to the server and is otherwise unreachable.\<close>

definition sample_net :: "http_request \<Rightarrow> world \<Rightarrow> (string + nat \<times> string) \<times> world" where
  "sample_net rq r = (case rq_payload rq of
       JsonBody j \<Rightarrow> (case signup_status sample_app j r of
           Some status \<Rightarrow> (Inr (status, ''{}''), r) | None \<Rightarrow> (Inl ''connection closed'', r))
     | _ \<Rightarrow> (Inl ''unreachable'', r))"

theorem cli_never_signs_in_witness:
  "\<exists>outs w'. run_cmds (sample_lib sample_net) ''http://b'' [Signup ''a@b'' None ''monthly'', HeartbeatCmd]
      (sample_machine Map.empty sample_world) = (outs, w')
    \<and> list_all (\<lambda>out. out \<noteq> Ok ()) outs \<and> length outs = 2 \<and> cw_files w' = Map.empty"
proof -
  let ?w = "sample_machine Map.empty sample_world"
  obtain outs w' where r: "run_cmds (sample_lib sample_net) ''http://b''
      [Signup ''a@b'' None ''monthly'', HeartbeatCmd] ?w = (outs, w')" by fastforce
  have a: "answers_signups sample_app ''http://b'' (sample_lib sample_net)"
    by (auto simp: answers_signups_def sample_lib_def sample_net_def split: option.splits)
  have n: "saved_token (sample_lib sample_net) ?w = None"
    by (simp add: saved_token_def load_state_def bind_def state_path_eq sample_machine_def
        state_file_def default_state_def)
  from cli_never_signs_in [OF a n r] r show ?thesis
    by (auto simp: list_all2_Cons1 sample_machine_def)
qed

end
