(* ===== verification/Leader.thy ===== *)
theory Leader
  imports Prelude
begin

text \<open>
  The election of the replica that runs the background loops: \<open>spawn_all\<close>,
  \<open>leader_supervisor\<close>, \<open>acquire_leader_lock\<close> and \<open>keepalive\<close> of
  src/crates/beacon-api/src/scheduler.rs, as a step relation on the replicas of a deployment
  and the advisory lock of the database. The lock belongs to a database session: it is free
  again when the server closes the session, which the replica notices at its next keepalive.
  A step is labelled with the replica it concerns.
\<close>

section \<open>The deployment\<close>

definition SCHEDULER_LEADER_LOCK :: "64 word" where
  "SCHEDULER_LEADER_LOCK = 0x00C571175CED"

type_synonym replica = nat

text \<open>
  Where the supervisor of a replica stands: no process, in the loop of \<open>leader_supervisor\<close>, in
  \<open>keepalive\<close>, returned, or never started because the election is off.
\<close>

datatype phase = Down | Contending | Holding | Relinquished | Unsupervised

record deployment =
  dp_phase :: "replica \<Rightarrow> phase"
  dp_spawned :: "replica \<Rightarrow> nat"
  dp_lock :: "replica option"

definition initial :: deployment where
  "initial = \<lparr>dp_phase = (\<lambda>_. Down), dp_spawned = (\<lambda>_. 0), dp_lock = None\<rparr>"

text \<open>\<open>spawn_workers\<close>: the five loops of this process, from now on until it dies.\<close>

definition spawn_loops :: "replica \<Rightarrow> deployment \<Rightarrow> deployment" where
  "spawn_loops r s = s\<lparr>dp_spawned := (dp_spawned s)(r := dp_spawned s r + 1)\<rparr>"

definition set_phase :: "replica \<Rightarrow> phase \<Rightarrow> deployment \<Rightarrow> deployment" where
  "set_phase r p s = s\<lparr>dp_phase := (dp_phase s)(r := p)\<rparr>"

text \<open>\<open>spawn_all\<close>: contend when the election is on, else start the loops directly.\<close>

definition spawn_all :: "bool \<Rightarrow> replica \<Rightarrow> deployment \<Rightarrow> deployment" where
  "spawn_all election r s =
     (if election then set_phase r Contending s else spawn_loops r (set_phase r Unsupervised s))"

text \<open>
  \<open>acquire_leader_lock\<close>: whether the attempt got the lock, or an error of the pool or of the
  query, after which the loop sleeps like after a refusal.
\<close>

definition try_lock :: "replica \<Rightarrow> deployment \<Rightarrow> bool \<times> deployment" where
  "try_lock r s = (case dp_lock s of
       None \<Rightarrow> (True, s\<lparr>dp_lock := Some r\<rparr>)
     | Some _ \<Rightarrow> (False, s))"

text \<open>One round of the loop of \<open>leader_supervisor\<close> whose attempt reached the database.\<close>

definition contend :: "replica \<Rightarrow> deployment \<Rightarrow> deployment" where
  "contend r s = (case try_lock r s of
       (True, s') \<Rightarrow> spawn_loops r (set_phase r Holding s')
     | (False, s') \<Rightarrow> s')"

definition free_lock :: "replica \<Rightarrow> deployment \<Rightarrow> deployment" where
  "free_lock r s = (if dp_lock s = Some r then s\<lparr>dp_lock := None\<rparr> else s)"

section \<open>Steps\<close>

datatype event = Boot replica | Attempt replica | AttemptFails replica | SessionLost replica
  | KeepaliveFails replica | Crash replica

fun event_replica :: "event \<Rightarrow> replica" where
  "event_replica (Boot r) = r"
| "event_replica (Attempt r) = r"
| "event_replica (AttemptFails r) = r"
| "event_replica (SessionLost r) = r"
| "event_replica (KeepaliveFails r) = r"
| "event_replica (Crash r) = r"

inductive step :: "bool \<Rightarrow> deployment \<Rightarrow> event \<Rightarrow> deployment \<Rightarrow> bool" for election where
  boot: "dp_phase s r = Down \<Longrightarrow> step election s (Boot r) (spawn_all election r s)"
| attempt: "dp_phase s r = Contending \<Longrightarrow> step election s (Attempt r) (contend r s)"
| attempt_fails: "dp_phase s r = Contending \<Longrightarrow> step election s (AttemptFails r) s"
| session_lost: "dp_lock s = Some r \<Longrightarrow> step election s (SessionLost r) (free_lock r s)"
| keepalive_fails: "dp_phase s r = Holding \<Longrightarrow>
    step election s (KeepaliveFails r) (set_phase r Relinquished s)"
| crash: "dp_phase s r \<noteq> Down \<Longrightarrow>
    step election s (Crash r) (free_lock r (set_phase r Down s\<lparr>dp_spawned := (dp_spawned s)(r := 0)\<rparr>))"

inductive_cases step_BootE: "step election s (Boot r) t"
inductive_cases step_AttemptE: "step election s (Attempt r) t"
inductive_cases step_AttemptFailsE: "step election s (AttemptFails r) t"
inductive_cases step_SessionLostE: "step election s (SessionLost r) t"
inductive_cases step_KeepaliveFailsE: "step election s (KeepaliveFails r) t"
inductive_cases step_CrashE: "step election s (Crash r) t"

inductive steps :: "bool \<Rightarrow> deployment \<Rightarrow> event list \<Rightarrow> deployment \<Rightarrow> bool" for election where
  none: "steps election s [] s"
| more: "step election s e t \<Longrightarrow> steps election t es u \<Longrightarrow> steps election s (e # es) u"

text \<open>The loops run in a process that has started them.\<close>

definition runs_loops :: "deployment \<Rightarrow> replica \<Rightarrow> bool" where
  "runs_loops s r \<longleftrightarrow> 0 < dp_spawned s r"

text \<open>The relation computed: the state after an event that is possible.\<close>

fun apply_event :: "bool \<Rightarrow> event \<Rightarrow> deployment \<Rightarrow> deployment option" where
  "apply_event election (Boot r) s = (if dp_phase s r = Down then Some (spawn_all election r s) else None)"
| "apply_event election (Attempt r) s = (if dp_phase s r = Contending then Some (contend r s) else None)"
| "apply_event election (AttemptFails r) s = (if dp_phase s r = Contending then Some s else None)"
| "apply_event election (SessionLost r) s = (if dp_lock s = Some r then Some (free_lock r s) else None)"
| "apply_event election (KeepaliveFails r) s =
     (if dp_phase s r = Holding then Some (set_phase r Relinquished s) else None)"
| "apply_event election (Crash r) s = (if dp_phase s r \<noteq> Down
     then Some (free_lock r (set_phase r Down s\<lparr>dp_spawned := (dp_spawned s)(r := 0)\<rparr>)) else None)"

fun apply_events :: "bool \<Rightarrow> event list \<Rightarrow> deployment \<Rightarrow> deployment option" where
  "apply_events election [] s = Some s"
| "apply_events election (e # es) s =
     (case apply_event election e s of None \<Rightarrow> None | Some t \<Rightarrow> apply_events election es t)"

lemma step_iff: "step election s e t \<longleftrightarrow> apply_event election e s = Some t"
proof
  show "step election s e t \<Longrightarrow> apply_event election e s = Some t"
    by (induction rule: step.induct) simp_all
  show "apply_event election e s = Some t \<Longrightarrow> step election s e t"
    by (cases e) (auto intro: step.intros split: if_splits)
qed

inductive_simps steps_nil: "steps election s [] t"
inductive_simps steps_cons: "steps election s (e # es) t"

lemma steps_iff: "steps election s es t \<longleftrightarrow> apply_events election es s = Some t"
  by (induction es arbitrary: s) (auto simp: steps_nil steps_cons step_iff split: option.split)

end
