(* ===== verification/LeaderProps.thy ===== *)
theory LeaderProps
  imports Leader
begin

text \<open>
  The election of the scheduler: at most one replica runs the loops while no lock session is
  lost, and a replica that loses its session runs them on without ever contending again.
\<close>

lemmas deployment_defs = spawn_all_def spawn_loops_def set_phase_def try_lock_def contend_def
  free_lock_def runs_loops_def

section \<open>Invariants by rule induction\<close>

lemma steps_invariant:
  assumes "steps election s es t" "P s"
    and "\<And>s e t. step election s e t \<Longrightarrow> e \<in> set es \<Longrightarrow> P s \<Longrightarrow> P t"
  shows "P t"
  using assms by (induction rule: steps.induct) auto

text \<open>With the election on: who runs the loops, and who can hold the lock.\<close>

definition election_inv :: "deployment \<Rightarrow> bool" where
  "election_inv s \<longleftrightarrow> (\<forall>r. dp_spawned s r = (if dp_phase s r \<in> {Holding, Relinquished} then 1 else 0))
     \<and> (\<forall>r. dp_lock s = Some r \<longrightarrow> dp_phase s r \<in> {Holding, Relinquished})"

lemma election_inv_step: "step True s e t \<Longrightarrow> election_inv s \<Longrightarrow> election_inv t"
  by (induction rule: step.induct)
    (auto simp: election_inv_def deployment_defs split: option.splits if_splits)

lemma election_inv_initial: "election_inv initial"
  by (simp add: election_inv_def initial_def)

lemma election_inv_steps: "steps True initial es s \<Longrightarrow> election_inv s"
  using steps_invariant [of True initial es s election_inv] election_inv_step election_inv_initial by blast

text \<open>While no session is lost, the loops run exactly where the lock is.\<close>

fun session_kept :: "event \<Rightarrow> bool" where
  "session_kept (SessionLost r) \<longleftrightarrow> False"
| "session_kept (KeepaliveFails r) \<longleftrightarrow> False"
| "session_kept _ \<longleftrightarrow> True"

definition lock_inv :: "deployment \<Rightarrow> bool" where
  "lock_inv s \<longleftrightarrow> (\<forall>r. dp_spawned s r = (if dp_lock s = Some r then 1 else 0))
     \<and> (\<forall>r. dp_lock s = Some r \<longleftrightarrow> dp_phase s r = Holding) \<and> (\<forall>r. dp_phase s r \<noteq> Relinquished)"

lemma lock_inv_step: "step True s e t \<Longrightarrow> session_kept e \<Longrightarrow> lock_inv s \<Longrightarrow> lock_inv t"
  by (induction rule: step.induct)
    (auto simp: lock_inv_def deployment_defs split: option.splits if_splits, (metis option.inject)+)

lemma lock_inv_steps:
  assumes "steps True initial es s" "\<forall>e \<in> set es. session_kept e"
  shows "lock_inv s"
  by (rule steps_invariant [OF assms(1)])
    (use assms(2) lock_inv_step in \<open>auto simp: lock_inv_def initial_def\<close>)

text \<open>
  C32: One scheduler. With the election on, in whatever order replicas start, try, fail and die:
  a process starts its loops at most once, and only after it got the lock. As long as no lock
  session is lost under a living process, the loops run exactly in the process that holds the
  lock, so in at most one.
\<close>

theorem one_scheduler:
  assumes "steps True initial es s"
  shows "(\<forall>r. dp_spawned s r = (if dp_phase s r \<in> {Holding, Relinquished} then 1 else 0))
    \<and> ((\<forall>e \<in> set es. session_kept e) \<longrightarrow>
         (\<forall>r. runs_loops s r \<longleftrightarrow> dp_lock s = Some r)
         \<and> (\<forall>r r'. runs_loops s r \<and> runs_loops s r' \<longrightarrow> r = r'))"
proof (intro conjI impI)
  show "\<forall>r. dp_spawned s r = (if dp_phase s r \<in> {Holding, Relinquished} then 1 else 0)"
    using election_inv_steps [OF assms] unfolding election_inv_def by (rule conjunct1)
next
  assume "\<forall>e \<in> set es. session_kept e"
  from lock_inv_steps [OF assms this] have eq: "runs_loops s r \<longleftrightarrow> dp_lock s = Some r" for r
    by (simp add: lock_inv_def runs_loops_def)
  show "\<forall>r. runs_loops s r \<longleftrightarrow> dp_lock s = Some r" using eq by blast
  show "\<forall>r r'. runs_loops s r \<and> runs_loops s r' \<longrightarrow> r = r'" using eq by auto
qed

theorem one_scheduler_witness:
  "\<exists>s. steps True initial [Boot 0, Boot 1, Attempt 1, Attempt 0, Crash 1, Attempt 0] s
     \<and> runs_loops s 0 \<and> \<not> runs_loops s 1"
proof -
  obtain s where r: "steps True initial [Boot 0, Boot 1, Attempt 1, Attempt 0, Crash 1, Attempt 0] s"
    and l: "dp_lock s = Some 0"
    by (simp add: steps_iff deployment_defs initial_def)
  from one_scheduler [OF r] l show ?thesis using r by auto
qed

section \<open>Losing the lock\<close>

fun is_crash_of :: "replica \<Rightarrow> event \<Rightarrow> bool" where
  "is_crash_of r (Crash r') \<longleftrightarrow> r = r'"
| "is_crash_of r _ \<longleftrightarrow> False"

lemma relinquished_step:
  "step True s e t \<Longrightarrow> \<not> is_crash_of r e \<Longrightarrow> dp_phase s r = Relinquished \<and> dp_spawned s r = 1 \<Longrightarrow>
     dp_phase t r = Relinquished \<and> dp_spawned t r = 1"
  by (induction rule: step.induct)
    (auto simp: deployment_defs split: option.splits if_splits)

fun is_boot :: "event \<Rightarrow> bool" where
  "is_boot (Boot r) \<longleftrightarrow> True"
| "is_boot _ \<longleftrightarrow> False"

definition leaderless :: "deployment \<Rightarrow> bool" where
  "leaderless s \<longleftrightarrow> dp_lock s = None \<and> (\<forall>r. dp_phase s r = Down \<or> dp_phase s r = Relinquished)"

lemma leaderless_step: "step True s e t \<Longrightarrow> \<not> is_boot e \<Longrightarrow> leaderless s \<Longrightarrow> leaderless t"
  unfolding leaderless_def
proof (induction rule: step.induct)
  case (attempt s r)
  then have "dp_phase s r = Down \<or> dp_phase s r = Relinquished" by blast
  with attempt(1) show ?case by simp
next
  case (keepalive_fails s r)
  then have "dp_phase s r = Down \<or> dp_phase s r = Relinquished" by blast
  with keepalive_fails(1) show ?case by simp
qed (simp_all add: deployment_defs)

text \<open>
  C33: Losing the lock. A replica whose lock session was lost runs its loops on, beside those of
  every replica that took the lock after it, and never contends again: for as long as its
  process lives, whatever else happens, it is not the leader and its loops run. Once every
  process has lost a session the lock stays free until a process is restarted.
\<close>

theorem leadership_lost_for_good:
  assumes "steps True initial es s" and "steps True s es' t"
  shows "(dp_phase s r = Relinquished \<and> (\<forall>e \<in> set es'. \<not> is_crash_of r e) \<longrightarrow>
      dp_phase t r = Relinquished \<and> runs_loops t r)
    \<and> (leaderless s \<and> (\<forall>e \<in> set es'. \<not> is_boot e) \<longrightarrow> leaderless t)"
proof (intro conjI impI; elim conjE)
  assume p: "dp_phase s r = Relinquished" and e: "\<forall>e \<in> set es'. \<not> is_crash_of r e"
  have "dp_spawned s r = 1" using election_inv_steps [OF assms(1)] p by (simp add: election_inv_def)
  with p have "dp_phase t r = Relinquished \<and> dp_spawned t r = 1"
    using steps_invariant [OF assms(2), of "\<lambda>s. dp_phase s r = Relinquished \<and> dp_spawned s r = 1"]
      relinquished_step e by blast
  then show "dp_phase t r = Relinquished" "runs_loops t r" by (simp_all add: runs_loops_def)
next
  assume "leaderless s" and "\<forall>e \<in> set es'. \<not> is_boot e"
  then show "leaderless t" using steps_invariant [OF assms(2), of leaderless] leaderless_step by blast
qed

theorem leadership_lost_for_good_witness:
  "\<exists>s t. steps True initial [Boot 0, Boot 1, Attempt 0, SessionLost 0, Attempt 1, KeepaliveFails 0,
       SessionLost 1, KeepaliveFails 1] s \<and> steps True s [Crash 1] t
     \<and> runs_loops s 0 \<and> runs_loops s 1 \<and> runs_loops t 0 \<and> leaderless t"
proof -
  obtain s where r: "steps True initial [Boot 0, Boot 1, Attempt 0, SessionLost 0, Attempt 1,
      KeepaliveFails 0, SessionLost 1, KeepaliveFails 1] s"
    and s: "dp_phase s = (\<lambda>_. Down)(0 := Relinquished, 1 := Relinquished)" "dp_lock s = None"
      "runs_loops s 0" "runs_loops s 1"
    by (simp add: steps_iff deployment_defs initial_def fun_upd_twist)
  obtain t where t: "steps True s [Crash 1] t" by (simp add: steps_iff s)
  have "leaderless s" by (simp add: leaderless_def s)
  with leadership_lost_for_good [OF r t, of 0] r t s show ?thesis by auto
qed

end
