(* ===== verification/Kms.thy ===== *)
theory Kms
  imports Crypto Transform
begin

text \<open>
  The two key services of src/crates/crypto-stub as several callers see them at once. The AWS
  service of aws.rs loads its key through a once-cell; the file service of lib.rs generates its
  key at the first call, and a call is several file operations. Both are step relations over the
  states of the callers; the answers of AWS are parameters of a step.
\<close>

section \<open>Trimming\<close>

text \<open>\<open>str::trim\<close>: the encodings of the characters with the property White_Space.\<close>

definition white_space :: "string list" where
  "white_space =
     map (\<lambda>n. [char_of (n :: nat)]) [9, 10, 11, 12, 13, 32] @
     [[CHR 0xC2, CHR 0x85], [CHR 0xC2, CHR 0xA0], [CHR 0xE1, CHR 0x9A, CHR 0x80]] @
     map (\<lambda>n. [CHR 0xE2, CHR 0x80, char_of (n :: nat)]) ([128 ..< 139] @ [168, 169, 175]) @
     [[CHR 0xE2, CHR 0x81, CHR 0x9F], [CHR 0xE3, CHR 0x80, CHR 0x80]]"

fun strip_any :: "nat \<Rightarrow> string list \<Rightarrow> string \<Rightarrow> string" where
  "strip_any 0 ws s = s"
| "strip_any (Suc n) ws s = (case find (\<lambda>w. starts_with w s) ws of
       Some w \<Rightarrow> strip_any n ws (drop (length w) s)
     | None \<Rightarrow> s)"

text \<open>The bound of the recursion is the number of bytes, of which every round removes one or more.\<close>

definition trim :: "string \<Rightarrow> string" where
  "trim s = (let t = strip_any (length s) white_space s in
     rev (strip_any (length t) (map rev white_space) (rev t)))"

section \<open>The AWS service\<close>

text \<open>
  What AWS answers: the secret's text or an error, and the plaintext of a ciphertext or an error;
  an answer may lack the value. Decoding base64 is a parameter too.
\<close>

record aws_answers =
  aw_secret :: "string + string option"
  aw_decode :: "string \<Rightarrow> string + bytes"
  aw_decrypt :: "bytes \<Rightarrow> string + bytes option"

definition load_dek :: "aws_answers \<Rightarrow> crypto_error + bytes" where
  "load_dek W = (case aw_secret W of
       Inl e \<Rightarrow> Inl (Aead (''secretsmanager get: '' @ e))
     | Inr None \<Rightarrow> Inl (Aead ''wrapped DEK secret has no string value'')
     | Inr (Some b64) \<Rightarrow> (case aw_decode W (trim b64) of
           Inl e \<Rightarrow> Inl (Aead (''wrapped DEK base64: '' @ e))
         | Inr wrapped \<Rightarrow> (case aw_decrypt W wrapped of
               Inl e \<Rightarrow> Inl (Aead (''kms decrypt: '' @ e))
             | Inr None \<Rightarrow> Inl (Aead ''kms decrypt returned no plaintext'')
             | Inr (Some bs) \<Rightarrow> if length bs \<noteq> 32 then Inl (KmsKeyLength (length bs)) else Inr bs)))"

text \<open>
  \<open>OnceCell::get_or_try_init\<close>: one caller at a time runs the initialiser, the others wait for
  it; a failure leaves the cell empty and is the answer of that caller alone. A caller may be
  cancelled while it waits or initialises.
\<close>

type_synonym caller = nat

datatype call_state = Idle | Waiting | Loading | Answered "crypto_error + bytes"

record aws_kms =
  ak_cached :: "bytes option"
  ak_calls :: "caller \<Rightarrow> call_state"

definition new_aws_kms :: aws_kms where
  "new_aws_kms = \<lparr>ak_cached = None, ak_calls = (\<lambda>_. Idle)\<rparr>"

definition set_call :: "caller \<Rightarrow> call_state \<Rightarrow> aws_kms \<Rightarrow> aws_kms" where
  "set_call c x s = s\<lparr>ak_calls := (ak_calls s)(c := x)\<rparr>"

inductive aws_step :: "aws_kms \<Rightarrow> aws_kms \<Rightarrow> bool" where
  aws_call: "ak_calls s c \<notin> {Waiting, Loading} \<Longrightarrow> aws_step s (set_call c Waiting s)"
| aws_hit: "ak_calls s c = Waiting \<Longrightarrow> ak_cached s = Some k \<Longrightarrow>
    aws_step s (set_call c (Answered (Inr k)) s)"
| aws_init: "ak_calls s c = Waiting \<Longrightarrow> ak_cached s = None \<Longrightarrow> \<forall>d. ak_calls s d \<noteq> Loading \<Longrightarrow>
    aws_step s (set_call c Loading s)"
| aws_loaded: "ak_calls s c = Loading \<Longrightarrow> load_dek W = Inr k \<Longrightarrow>
    aws_step s (set_call c (Answered (Inr k)) s\<lparr>ak_cached := Some k\<rparr>)"
| aws_failed: "ak_calls s c = Loading \<Longrightarrow> load_dek W = Inl e \<Longrightarrow>
    aws_step s (set_call c (Answered (Inl e)) s)"
| aws_cancelled: "aws_step s (set_call c Idle s)"

abbreviation aws_steps :: "aws_kms \<Rightarrow> aws_kms \<Rightarrow> bool" where
  "aws_steps \<equiv> aws_step\<^sup>*\<^sup>*"

section \<open>The file service\<close>

text \<open>
  A call of \<open>LocalFileKms::data_key\<close>: it looks whether the file is there, then reads it, or
  draws a key, creates the file (which empties it) and writes the key.
\<close>

datatype file_call = FileIdle | Reading | Creating bytes | Writing bytes
  | FileAnswered "crypto_error + bytes"

record file_kms =
  fk_file :: "bytes option"
  fk_calls :: "caller \<Rightarrow> file_call"

definition new_file_kms :: "bytes option \<Rightarrow> file_kms" where
  "new_file_kms file = \<lparr>fk_file = file, fk_calls = (\<lambda>_. FileIdle)\<rparr>"

definition set_file_call :: "caller \<Rightarrow> file_call \<Rightarrow> file_kms \<Rightarrow> file_kms" where
  "set_file_call c x s = s\<lparr>fk_calls := (fk_calls s)(c := x)\<rparr>"

definition checked_key :: "bytes \<Rightarrow> crypto_error + bytes" where
  "checked_key buf = (if length buf \<noteq> 32 then Inl (KmsKeyLength (length buf)) else Inr buf)"

definition at_rest :: "file_call \<Rightarrow> bool" where
  "at_rest x \<longleftrightarrow> (case x of FileIdle \<Rightarrow> True | FileAnswered _ \<Rightarrow> True | _ \<Rightarrow> False)"

inductive file_step :: "file_kms \<Rightarrow> file_kms \<Rightarrow> bool" where
  found: "at_rest (fk_calls s c) \<Longrightarrow> fk_file s = Some buf \<Longrightarrow> file_step s (set_file_call c Reading s)"
| missing: "at_rest (fk_calls s c) \<Longrightarrow> fk_file s = None \<Longrightarrow> length key = 32 \<Longrightarrow>
    file_step s (set_file_call c (Creating key) s)"
| read_it: "fk_calls s c = Reading \<Longrightarrow> fk_file s = Some buf \<Longrightarrow>
    file_step s (set_file_call c (FileAnswered (checked_key buf)) s)"
| create_it: "fk_calls s c = Creating key \<Longrightarrow>
    file_step s (set_file_call c (Writing key) s\<lparr>fk_file := Some []\<rparr>)"
| write_it: "fk_calls s c = Writing key \<Longrightarrow>
    file_step s (set_file_call c (FileAnswered (Inr key)) s\<lparr>fk_file := Some key\<rparr>)"

abbreviation file_steps :: "file_kms \<Rightarrow> file_kms \<Rightarrow> bool" where
  "file_steps \<equiv> file_step\<^sup>*\<^sup>*"

text \<open>No call is about to create or write the file.\<close>

definition settled :: "file_kms \<Rightarrow> bool" where
  "settled s \<longleftrightarrow> (\<forall>c. case fk_calls s c of Creating _ \<Rightarrow> False | Writing _ \<Rightarrow> False | _ \<Rightarrow> True)"

end
