(* ===== verification/KmsProps.thy ===== *)
theory KmsProps
  imports Kms
begin

text \<open>
  Several callers of a key service: the AWS service hands out one key for the life of the
  process; the file service does so only once its file is written, and loses a key when two
  calls race for the first use.
\<close>

section \<open>A service with one key\<close>

text \<open>
  What both services promise once they have a key: it stays, and every new answer is that key.
\<close>

locale single_key =
  fixes step :: "'s \<Rightarrow> 's \<Rightarrow> bool"
    and answer :: "'s \<Rightarrow> caller \<Rightarrow> (crypto_error + bytes) option"
    and has_key :: "bytes \<Rightarrow> 's \<Rightarrow> bool"
  assumes key_stays: "step s t \<Longrightarrow> has_key k s \<Longrightarrow> has_key k t"
    and new_answer: "step s t \<Longrightarrow> has_key k s \<Longrightarrow> answer t c = Some r \<Longrightarrow> answer s c = Some r \<or> r = Inr k"
begin

lemma key_stays_run: "step\<^sup>*\<^sup>* s t \<Longrightarrow> has_key k s \<Longrightarrow> has_key k t"
  by (induction rule: rtranclp_induct) (auto intro: key_stays)

lemma new_answers:
  "step\<^sup>*\<^sup>* s t \<Longrightarrow> has_key k s \<Longrightarrow> answer t c = Some r \<Longrightarrow> answer s c = Some r \<or> r = Inr k"
proof (induction rule: rtranclp_induct)
  case (step t u)
  with key_stays_run [OF step.hyps(1) step.prems(1)] new_answer [OF step.hyps(2)] show ?case by blast
qed simp

end

section \<open>The AWS service\<close>

definition aws_inv :: "aws_kms \<Rightarrow> bool" where
  "aws_inv s \<longleftrightarrow> (\<forall>c k. ak_calls s c = Answered (Inr k) \<longrightarrow> ak_cached s = Some k)
     \<and> (\<forall>k. ak_cached s = Some k \<longrightarrow> length k = 32 \<and> (\<forall>c. ak_calls s c \<noteq> Loading))
     \<and> (\<forall>c d. ak_calls s c = Loading \<and> ak_calls s d = Loading \<longrightarrow> c = d)"

lemma load_dek_length: "load_dek W = Inr k \<Longrightarrow> length k = 32"
  by (auto simp: load_dek_def split: sum.splits option.splits if_splits)

lemma aws_inv_step: "aws_step s t \<Longrightarrow> aws_inv s \<Longrightarrow> aws_inv t"
proof (induction rule: aws_step.induct)
  case (aws_loaded s c W k)
  then have "ak_cached s = None" by (cases "ak_cached s") (auto simp: aws_inv_def)
  with aws_loaded load_dek_length [OF aws_loaded(2)] show ?case
    by (auto simp: aws_inv_def set_call_def)
qed (auto simp: aws_inv_def set_call_def)

lemma aws_inv_steps: "aws_steps s t \<Longrightarrow> aws_inv s \<Longrightarrow> aws_inv t"
  by (induction rule: rtranclp_induct) (auto intro: aws_inv_step)

definition aws_answer :: "aws_kms \<Rightarrow> caller \<Rightarrow> (crypto_error + bytes) option" where
  "aws_answer s c = (case ak_calls s c of Answered r \<Rightarrow> Some r | _ \<Rightarrow> None)"

definition aws_has_key :: "bytes \<Rightarrow> aws_kms \<Rightarrow> bool" where
  "aws_has_key k s \<longleftrightarrow> aws_inv s \<and> ak_cached s = Some k"

interpretation aws: single_key aws_step aws_answer aws_has_key
proof
  fix s t k c r
  assume step: "aws_step s t" and has: "aws_has_key k s"
  then have "ak_cached t = Some k"
    by (induction rule: aws_step.induct) (auto simp: aws_has_key_def aws_inv_def set_call_def)
  with step has show "aws_has_key k t" using aws_inv_step by (simp add: aws_has_key_def)
  show "aws_answer t c = Some r \<Longrightarrow> aws_answer s c = Some r \<or> r = Inr k"
    using step has by (induction rule: aws_step.induct)
      (auto simp: aws_has_key_def aws_inv_def set_call_def aws_answer_def split: if_splits)
qed

lemma aws_inv_new: "aws_inv new_aws_kms"
  by (simp add: aws_inv_def new_aws_kms_def)

text \<open>
  C34: One data key per process. Whatever AWS answers to the attempts, and however calls overlap,
  fail and are cancelled, every key any call is ever answered with is the same 32 bytes, and
  from the first successful answer on no call asks AWS again.
\<close>

theorem aws_key_is_one:
  assumes "aws_steps new_aws_kms s" and "aws_steps s t"
    and "ak_calls s c = Answered (Inr k)" and "ak_calls t d = Answered (Inr k')"
  shows "k = k' \<and> length k = 32 \<and> (\<forall>e. ak_calls t e \<noteq> Loading)"
proof -
  have s: "aws_inv s" by (rule aws_inv_steps [OF assms(1) aws_inv_new])
  then have "aws_has_key k s" using assms(3) by (simp add: aws_has_key_def aws_inv_def)
  from aws.key_stays_run [OF assms(2) this] have "aws_inv t" "ak_cached t = Some k"
    by (simp_all add: aws_has_key_def)
  with assms(4) show ?thesis by (auto simp: aws_inv_def)
qed

definition sample_answers :: aws_answers where
  "sample_answers = \<lparr>aw_secret = Inr (Some '' d3JhcHBlZA==''), aw_decode = (\<lambda>_. Inr [1, 2, 3]),
     aw_decrypt = (\<lambda>_. Inr (Some (replicate 32 7)))\<rparr>"

theorem aws_key_is_one_witness:
  "\<exists>s t. aws_steps new_aws_kms s \<and> aws_steps s t
     \<and> ak_calls s 0 = Answered (Inr (replicate 32 7)) \<and> ak_calls t 1 = Answered (Inr (replicate 32 7))
     \<and> ak_calls t 2 \<noteq> Loading"
proof -
  have k: "load_dek sample_answers = Inr (replicate 32 7)" by (simp add: load_dek_def sample_answers_def)
  define a where "a = set_call 1 Waiting (set_call 0 Loading (set_call 0 Waiting new_aws_kms))"
  define s where "s = set_call 0 (Answered (Inr (replicate 32 7))) a\<lparr>ak_cached := Some (replicate 32 7)\<rparr>"
  define t where "t = set_call 1 (Answered (Inr (replicate 32 7))) s"
  have "aws_steps new_aws_kms (set_call 0 Waiting new_aws_kms)"
    by (rule r_into_rtranclp, rule aws_call) (simp add: new_aws_kms_def)
  also have "aws_steps (set_call 0 Waiting new_aws_kms) (set_call 0 Loading (set_call 0 Waiting new_aws_kms))"
    by (rule r_into_rtranclp, rule aws_init) (simp_all add: new_aws_kms_def set_call_def)
  also have "aws_steps (set_call 0 Loading (set_call 0 Waiting new_aws_kms)) a"
    unfolding a_def by (rule r_into_rtranclp, rule aws_call) (simp add: new_aws_kms_def set_call_def)
  also have "aws_steps a s"
    unfolding s_def by (rule r_into_rtranclp, rule aws_loaded [OF _ k]) (simp add: a_def set_call_def)
  finally have 1: "aws_steps new_aws_kms s" .
  have 2: "aws_steps s t"
    unfolding t_def by (rule r_into_rtranclp, rule aws_hit) (simp_all add: s_def a_def set_call_def)
  have 3: "ak_calls s 0 = Answered (Inr (replicate 32 7))" "ak_calls t 1 = Answered (Inr (replicate 32 7))"
    by (simp_all add: s_def t_def set_call_def)
  from aws_key_is_one [OF 1 2 3] 1 2 3 show ?thesis by blast
qed

section \<open>The file service\<close>

definition keeps_key :: "bytes \<Rightarrow> file_kms \<Rightarrow> bool" where
  "keeps_key k s \<longleftrightarrow> fk_file s = Some k \<and> length k = 32 \<and> settled s"

definition file_answer :: "file_kms \<Rightarrow> caller \<Rightarrow> (crypto_error + bytes) option" where
  "file_answer s c = (case fk_calls s c of FileAnswered r \<Rightarrow> Some r | _ \<Rightarrow> None)"

interpretation key_file: single_key file_step file_answer keeps_key
proof
  fix s t k c r
  assume step: "file_step s t" and key: "keeps_key k s"
  then have buf: "fk_file s = Some k" and len: "length k = 32" and q: "fk_calls s d \<noteq> Writing x" for d x
    by (auto simp: keeps_key_def settled_def dest!: spec [of _ d])
  show "keeps_key k t"
    using step key by (induction rule: file_step.induct)
      (auto simp: keeps_key_def settled_def set_file_call_def split: file_call.splits)
  show "file_answer t c = Some r \<Longrightarrow> file_answer s c = Some r \<or> r = Inr k"
    using step by (cases rule: file_step.cases)
      (auto simp: set_file_call_def checked_key_def file_answer_def buf len q split: if_splits)
qed

text \<open>
  The key file once it is written. From a state in which the file holds 32 bytes and no call
  is creating it, the file never changes, and every call that is answered from then on is
  answered with its contents.
\<close>

theorem file_key_settles:
  assumes "fk_file s = Some k" and "length k = 32" and "settled s" and "file_steps s t"
  shows "fk_file t = Some k \<and> settled t
    \<and> (fk_calls t c = FileAnswered r \<longrightarrow> fk_calls s c = FileAnswered r \<or> r = Inr k)"
proof -
  have k: "keeps_key k s" using assms(1-3) by (simp add: keeps_key_def)
  from key_file.key_stays_run [OF assms(4) k] key_file.new_answers [OF assms(4) k, of c r]
  show ?thesis by (auto simp: keeps_key_def file_answer_def split: file_call.splits)
qed

theorem file_key_settles_witness:
  "\<exists>t. file_steps (new_file_kms (Some (replicate 32 7))) t \<and> fk_file t = Some (replicate 32 7)
     \<and> fk_calls t 0 = FileAnswered (Inr (replicate 32 7))"
proof -
  let ?s = "new_file_kms (Some (replicate 32 7))"
  define t where "t = set_file_call 0 (FileAnswered (checked_key (replicate 32 7))) (set_file_call 0 Reading ?s)"
  have "file_steps ?s (set_file_call 0 Reading ?s)"
    by (rule r_into_rtranclp, rule found) (simp_all add: new_file_kms_def at_rest_def)
  also have "file_steps (set_file_call 0 Reading ?s) t"
    unfolding t_def by (rule r_into_rtranclp, rule read_it) (simp_all add: new_file_kms_def set_file_call_def)
  finally have st: "file_steps ?s t" .
  have "fk_file ?s = Some (replicate 32 7)" "settled ?s" by (simp_all add: new_file_kms_def settled_def)
  from file_key_settles [OF this(1) _ this(2) st] have "fk_file t = Some (replicate 32 7)" by simp
  moreover have "fk_calls t 0 = FileAnswered (Inr (replicate 32 7))"
    by (simp add: t_def set_file_call_def checked_key_def)
  ultimately show ?thesis using st by blast
qed

text \<open>
  The first use of the key file. Two first calls can race: there is a run in which one call
  is answered with a key that the other then overwrites, so that what the first call sealed can
  never be opened again, while a third call that reads in between fails.
\<close>

theorem first_key_is_lost:
  assumes "length k = 32" and "length k' = 32"
  shows "\<exists>t. file_steps (new_file_kms None) t \<and> settled t
    \<and> fk_calls t 0 = FileAnswered (Inr k) \<and> fk_calls t 1 = FileAnswered (Inr k')
    \<and> fk_calls t 2 = FileAnswered (Inl (KmsKeyLength 0)) \<and> fk_file t = Some k'"
proof -
  let ?s0 = "new_file_kms None"
  define s1 where "s1 = set_file_call 0 (Creating k) ?s0"
  define s2 where "s2 = set_file_call 1 (Creating k') s1"
  define s3 where "s3 = set_file_call 0 (Writing k) s2\<lparr>fk_file := Some []\<rparr>"
  define s4 where "s4 = set_file_call 2 Reading s3"
  define s5 where "s5 = set_file_call 2 (FileAnswered (checked_key [])) s4"
  define s6 where "s6 = set_file_call 0 (FileAnswered (Inr k)) s5\<lparr>fk_file := Some k\<rparr>"
  define s7 where "s7 = set_file_call 1 (Writing k') s6\<lparr>fk_file := Some []\<rparr>"
  define s8 where "s8 = set_file_call 1 (FileAnswered (Inr k')) s7\<lparr>fk_file := Some k'\<rparr>"
  note defs = s1_def s2_def s3_def s4_def s5_def s6_def s7_def s8_def new_file_kms_def set_file_call_def
  have "file_step ?s0 s1" unfolding s1_def by (rule missing) (simp_all add: defs at_rest_def assms)
  moreover have "file_step s1 s2" unfolding s2_def by (rule missing) (simp_all add: defs at_rest_def assms)
  moreover have "file_step s2 s3" unfolding s3_def by (rule create_it) (simp add: defs)
  moreover have "file_step s3 s4" unfolding s4_def by (rule found) (simp_all add: defs at_rest_def)
  moreover have "file_step s4 s5" unfolding s5_def by (rule read_it) (simp_all add: defs)
  moreover have "file_step s5 s6" unfolding s6_def by (rule write_it) (simp add: defs)
  moreover have "file_step s6 s7" unfolding s7_def by (rule create_it) (simp add: defs)
  moreover have "file_step s7 s8" unfolding s8_def by (rule write_it) (simp add: defs)
  ultimately have "file_steps ?s0 s8" by (meson rtranclp.rtrancl_into_rtrancl rtranclp.rtrancl_refl)
  moreover have "settled s8" by (simp add: settled_def defs)
  ultimately show ?thesis
    by (intro exI [of _ s8] conjI) (simp_all add: defs checked_key_def)
qed

theorem first_key_is_lost_witness:
  "\<exists>t. file_steps (new_file_kms None) t \<and> fk_calls t 0 = FileAnswered (Inr (replicate 32 1))
     \<and> fk_file t = Some (replicate 32 2)"
  using first_key_is_lost [of "replicate 32 1" "replicate 32 2"] by auto

end
