(* ===== verification/Config.thy ===== *)
theory Config
  imports Kms Migrations
begin

text \<open>
  The start of the server: connecting to the database with retries (\<open>connect_with_retry\<close> of
  src/crates/beacon-db/src/lib.rs), the configuration and the back ends chosen from the
  environment (\<open>AppState::from_env\<close>, \<open>build_s3_backend\<close> of src/crates/beacon-api/src/state.rs)
  and the two modes of main.rs. An environment maps the variables that are set to a readable
  text. Connecting, running the SQL of a migration, making a directory and the checks of the
  mail, URL and WebAuthn libraries are parameters. Logging, the dotenv file and the shutdown
  signals are left out.
\<close>

type_synonym env = "string \<Rightarrow> string option"

section \<open>Reading numbers\<close>

definition is_digit :: "char \<Rightarrow> bool" where
  "is_digit c \<longleftrightarrow> 48 \<le> (of_char c :: nat) \<and> (of_char c :: nat) \<le> 57"

definition digits_value :: "string \<Rightarrow> int" where
  "digits_value s = foldl (\<lambda>n c. 10 * n + (of_char c - 48)) 0 s"

definition parse_digits :: "string \<Rightarrow> int option" where
  "parse_digits s = (if s \<noteq> [] \<and> list_all is_digit s then Some (digits_value s) else None)"

definition in_range :: "int \<Rightarrow> int \<Rightarrow> int option \<Rightarrow> int option" where
  "in_range lo hi x = (case x of Some n \<Rightarrow> if lo \<le> n \<and> n \<le> hi then Some n else None | None \<Rightarrow> None)"

text \<open>\<open>str::parse\<close> of the integer types: a sign, where the type has one, and digits in range.\<close>

definition parse_signed :: "nat \<Rightarrow> string \<Rightarrow> int option" where
  "parse_signed w s = in_range (- (2 ^ (w - 1))) (2 ^ (w - 1) - 1) (case s of
       [] \<Rightarrow> None
     | c # ds \<Rightarrow> if c = CHR ''-'' then map_option uminus (parse_digits ds)
         else if c = CHR ''+'' then parse_digits ds else parse_digits s)"

definition parse_unsigned :: "nat \<Rightarrow> string \<Rightarrow> int option" where
  "parse_unsigned w s = in_range 0 (2 ^ w - 1) (case s of
       [] \<Rightarrow> None
     | c # ds \<Rightarrow> if c = CHR ''+'' then parse_digits ds else parse_digits s)"

definition ascii_lower :: "string \<Rightarrow> string" where
  "ascii_lower = map (\<lambda>c. let n = (of_char c :: nat) in if 65 \<le> n \<and> n \<le> 90 then char_of (n + 32) else c)"

text \<open>
  \<open>f32::from_str\<close>: an optional sign, then an infinity, a NaN or a decimal with an optional
  exponent, rounded once.
\<close>

definition pow10 :: "int \<Rightarrow> rat" where
  "pow10 e = (if 0 \<le> e then 10 ^ nat e else 1 / 10 ^ nat (- e))"

definition parse_exponent :: "string \<Rightarrow> int option" where
  "parse_exponent s = (case s of
       [] \<Rightarrow> None
     | c # ds \<Rightarrow> if c = CHR ''-'' then map_option uminus (parse_digits ds)
         else if c = CHR ''+'' then parse_digits ds else parse_digits s)"

definition parse_decimal :: "string \<Rightarrow> rat option" where
  "parse_decimal s =
     (let mantissa = takeWhile (\<lambda>c. c \<noteq> CHR ''e'') s; tail = dropWhile (\<lambda>c. c \<noteq> CHR ''e'') s;
          whole = takeWhile (\<lambda>c. c \<noteq> CHR ''.'') mantissa;
          frac = drop 1 (dropWhile (\<lambda>c. c \<noteq> CHR ''.'') mantissa)
      in case (if tail = [] then Some 0 else parse_exponent (drop 1 tail)) of
           None \<Rightarrow> None
         | Some e \<Rightarrow> map_option (\<lambda>n. of_int n * pow10 (e - int (length frac))) (parse_digits (whole @ frac)))"

definition parse_magnitude :: "string \<Rightarrow> f32 option" where
  "parse_magnitude s =
     (if s = ''inf'' \<or> s = ''infinity'' then Some PInf
      else if s = ''nan'' then Some NaN
      else map_option f32_round (parse_decimal s))"

definition parse_f32 :: "string \<Rightarrow> f32 option" where
  "parse_f32 s = (case ascii_lower s of
       [] \<Rightarrow> None
     | c # r \<Rightarrow> if c = CHR ''-'' then map_option f32_neg (parse_magnitude r)
         else if c = CHR ''+'' then parse_magnitude r else parse_magnitude (c # r))"

section \<open>Variables with defaults\<close>

definition env_parse :: "(string \<Rightarrow> 'a option) \<Rightarrow> env \<Rightarrow> string \<Rightarrow> 'a \<Rightarrow> 'a" where
  "env_parse parse env name dflt = (case env name of
       None \<Rightarrow> dflt
     | Some s \<Rightarrow> (case parse s of None \<Rightarrow> dflt | Some x \<Rightarrow> x))"

definition env_i64 :: "env \<Rightarrow> string \<Rightarrow> int \<Rightarrow> int" where
  "env_i64 = env_parse (parse_signed 64)"

definition env_i32 :: "env \<Rightarrow> string \<Rightarrow> int \<Rightarrow> int" where
  "env_i32 = env_parse (parse_signed 32)"

definition env_u64 :: "env \<Rightarrow> string \<Rightarrow> int \<Rightarrow> int" where
  "env_u64 = env_parse (parse_unsigned 64)"

definition env_f32 :: "env \<Rightarrow> string \<Rightarrow> f32 \<Rightarrow> f32" where
  "env_f32 = env_parse parse_f32"

definition env_usize :: "env \<Rightarrow> string \<Rightarrow> int \<Rightarrow> int" where
  "env_usize = env_parse (parse_unsigned 64)"

definition env_u32 :: "env \<Rightarrow> string \<Rightarrow> int \<Rightarrow> int" where
  "env_u32 = env_parse (parse_unsigned 32)"

definition env_bool :: "env \<Rightarrow> string \<Rightarrow> bool \<Rightarrow> bool" where
  "env_bool env name dflt = (case env name of
       None \<Rightarrow> dflt
     | Some s \<Rightarrow> ascii_lower (trim s) \<in> {''1'', ''true'', ''yes'', ''on''})"

definition env_or :: "env \<Rightarrow> string \<Rightarrow> string \<Rightarrow> string" where
  "env_or env name dflt = unwrap_or dflt (env name)"

text \<open>\<open>usize\<close> is 64 bits wide on the platforms the program is built for.\<close>

record config =
  cf_public_base_url :: string
  cf_trial_days :: int
  cf_retention_days :: int
  cf_default_cooling_off_seconds :: int
  cf_max_upload_bytes :: int
  cf_max_request_bytes :: int
  cf_rate_limit_per_minute :: int
  cf_aggregator_tick_seconds :: int
  cf_scheduler_leader_election :: bool
  cf_recipient_change_hold_seconds :: int
  cf_trigger_threshold :: f32
  cf_min_independent_signals :: int
  cf_suspicious_dwell_seconds :: int
  cf_alert_dwell_seconds :: int
  cf_heartbeat_max_gap_seconds :: int

definition config_from_env :: "env \<Rightarrow> config" where
  "config_from_env env =
     \<lparr>cf_public_base_url = env_or env ''BEACON_PUBLIC_BASE_URL'' ''http://127.0.0.1:8080'',
      cf_trial_days = env_i64 env ''TRIAL_DAYS'' 30,
      cf_retention_days = env_i64 env ''RETENTION_DAYS'' 1095,
      cf_default_cooling_off_seconds = env_i32 env ''COOLING_OFF_SECONDS'' 15,
      cf_max_upload_bytes = env_usize env ''MAX_UPLOAD_BYTES'' (16 * 1024 * 1024),
      cf_max_request_bytes = env_usize env ''MAX_REQUEST_BYTES'' (32 * 1024 * 1024),
      cf_rate_limit_per_minute = env_u32 env ''RATE_LIMIT_PER_MINUTE'' 240,
      cf_aggregator_tick_seconds = env_u64 env ''AGGREGATOR_TICK_SECONDS'' 5,
      cf_scheduler_leader_election = env_bool env ''BEACON_SCHEDULER_LEADER_ELECTION'' True,
      cf_recipient_change_hold_seconds = env_i64 env ''RECIPIENT_CHANGE_HOLD_SECONDS'' 86400,
      cf_trigger_threshold = env_f32 env ''TRIGGER_THRESHOLD'' (f32_lit (7 / 10)),
      cf_min_independent_signals = env_usize env ''MIN_INDEPENDENT_SIGNALS'' 3,
      cf_suspicious_dwell_seconds = env_i64 env ''SUSPICIOUS_DWELL_SECONDS'' 10,
      cf_alert_dwell_seconds = env_i64 env ''ALERT_DWELL_SECONDS'' 10,
      cf_heartbeat_max_gap_seconds = env_i64 env ''HEARTBEAT_MAX_GAP_SECONDS'' 30\<rparr>"

text \<open>The settings of the handlers and workers.\<close>

definition configure :: "config \<Rightarrow> app \<Rightarrow> app" where
  "configure c A = A\<lparr>public_base_url := cf_public_base_url c,
     max_upload_bytes := nat (cf_max_upload_bytes c), trial_days := cf_trial_days c,
     retention_days := cf_retention_days c,
     default_cooling_off_seconds := cf_default_cooling_off_seconds c,
     recipient_change_hold_seconds := cf_recipient_change_hold_seconds c,
     trigger_threshold := cf_trigger_threshold c,
     min_independent_signals := nat (cf_min_independent_signals c),
     heartbeat_max_gap_seconds := cf_heartbeat_max_gap_seconds c\<rparr>"

section \<open>The dotenv file\<close>

text \<open>
  \<open>dotenv\<close> of src/crates/beacon-api/src/lib.rs: the lines of the file up to the first that is
  not UTF-8. \<open>set_var\<close> panics on an empty name and on a NUL.
\<close>

definition trim_quotes :: "string \<Rightarrow> string" where
  "trim_quotes s = rev (dropWhile (\<lambda>c. c = CHR 0x22) (rev (dropWhile (\<lambda>c. c = CHR 0x22) s)))"

definition set_var :: "string \<Rightarrow> string \<Rightarrow> (env, 'e, unit) prog" where
  "set_var k v = (if k = [] \<or> CHR 0x00 \<in> set k \<or> CHR 0x00 \<in> set v
     then panic ''failed to set environment variable'' else modify (\<lambda>env. env(k \<mapsto> v)))"

definition dotenv_line :: "string \<Rightarrow> (env, 'e, unit) prog" where
  "dotenv_line raw =
     (let line = trim raw in
      if line = [] \<or> hd line = CHR 0x23 then ret ()
      else case split_once CHR ''='' line of
          None \<Rightarrow> ret ()
        | Some (k, v) \<Rightarrow>
            bind (gets (\<lambda>env. env (trim k))) (\<lambda>present.
            if present = None then set_var (trim k) (trim_quotes (trim v)) else ret ()))"

definition dotenv :: "string list option \<Rightarrow> (env, string, unit) prog" where
  "dotenv file = (case file of
       None \<Rightarrow> throw ''No such file or directory (os error 2)''
     | Some ls \<Rightarrow> for_each dotenv_line (takeWhile (\<lambda>l. utf8_valid (as_bytes l)) ls))"

end
