(* ===== verification/Boot.thy ===== *)
theory Boot
  imports Config Leader RouteBase
begin

text \<open>
  The start of the server process: \<open>connect_with_retry\<close>, the migration mode, the choice of the
  key, notification and blob back ends, the WebAuthn setup (\<open>AppState::from_env\<close> of
  src/crates/beacon-api/src/state.rs) and the two modes of \<open>main\<close>. Every failure ends the start
  with a message; what was done before it stays.
\<close>

section \<open>The machine\<close>

text \<open>
  \<open>bl_connect n\<close>: how long the \<open>n\<close>-th attempt to connect takes, in milliseconds, and its error
  if it fails. The checks of the libraries give an error text or what they build.
\<close>

record 'w boot_lib =
  bl_connect :: "nat \<Rightarrow> nat \<times> db_error option"
  bl_run_sql :: "string \<Rightarrow> string list \<Rightarrow> db_error + string list"
  bl_create_dir :: "string \<Rightarrow> string option"
  bl_relay :: "string \<Rightarrow> string option"
  bl_starttls :: "string \<Rightarrow> string option"
  bl_url :: "string \<Rightarrow> string + string"
  bl_webauthn_new :: "string \<Rightarrow> string \<Rightarrow> string option"
  bl_webauthn_build :: "string \<Rightarrow> string list \<Rightarrow> string + 'w"
  bl_bind :: "string \<Rightarrow> string option"

record boot_world =
  bw_schema :: db_schema
  bw_elapsed :: nat
  bw_attempts :: nat
  bw_dirs :: "string list"

type_synonym 'a boot_prog = "(boot_world, string, 'a) prog"

section \<open>Connecting\<close>

text \<open>
  \<open>connect_with_retry\<close>: the time since its start and the number of attempts so far; the answer is
  the last error, if there is no connection, with the number of attempts and the time it took.
\<close>

function connect_loop :: "(nat \<Rightarrow> nat \<times> db_error option) \<Rightarrow> nat \<Rightarrow> nat \<Rightarrow> nat \<Rightarrow> db_error option \<times> nat \<times> nat" where
  "connect_loop net max_wait n since =
     (case net (Suc n) of
        (took, None) \<Rightarrow> (None, Suc n, since + took)
      | (took, Some e) \<Rightarrow>
          if max_wait \<le> since + took then (Some e, Suc n, since + took)
          else connect_loop net max_wait (Suc n) (since + took + 2000))"
  by pat_completeness auto

termination
  by (relation "measure (\<lambda>(net, max_wait, n, since). max_wait - since)") auto

declare connect_loop.simps [simp del]

definition quote_debug :: "string \<Rightarrow> string" where
  "quote_debug s = [CHR 0x27] @ s @ [CHR 0x27]"

fun domain_error_display :: "domain_error \<Rightarrow> string" where
  "domain_error_display (InvalidTransition a b) =
     ''invalid state transition: '' @ vault_state_debug a @ '' -> '' @ vault_state_debug b"
| "domain_error_display (SubscriptionForbids s) =
     ''Subscription state '' @ quote_debug (subscription_state_debug s) @ '' does not permit this action''"
| "domain_error_display (UnknownEnumValue t v) =
     ''unknown '' @ t @ '' enum value '' @ quote_debug v @ '' in DB''"

definition db_error_display :: "db_error \<Rightarrow> string" where
  "db_error_display e = (case e of
       Sqlx m \<Rightarrow> ''sqlx: '' @ m
     | Domain d \<Rightarrow> ''domain: '' @ domain_error_display d
     | DbNotFound \<Rightarrow> ''not found''
     | MigrationPending m \<Rightarrow> ''migration not applied: '' @ m @ '' (run the pre-deploy migration task)'')"

definition connect_with_retry :: "'w boot_lib \<Rightarrow> nat \<Rightarrow> unit boot_prog" where
  "connect_with_retry L max_wait = (\<lambda>w.
     case connect_loop (bl_connect L) max_wait 0 0 of (err, n, t) \<Rightarrow>
       let w' = w\<lparr>bw_elapsed := bw_elapsed w + t, bw_attempts := bw_attempts w + n\<rparr> in
       (case err of None \<Rightarrow> Ok () | Some e \<Rightarrow> Err (db_error_display e), w'))"

section \<open>Migrating\<close>

text \<open>A program on the schema.\<close>

definition on_schema :: "'a mig_prog \<Rightarrow> 'a boot_prog" where
  "on_schema m = (\<lambda>w. case m (bw_schema w) of
       (Ok x, s) \<Rightarrow> (Ok x, w\<lparr>bw_schema := s\<rparr>)
     | (Err e, s) \<Rightarrow> (Err (db_error_display e), w\<lparr>bw_schema := s\<rparr>)
     | (Panic p, s) \<Rightarrow> (Panic p, w\<lparr>bw_schema := s\<rparr>))"

definition env_required :: "env \<Rightarrow> string \<Rightarrow> string \<Rightarrow> string boot_prog" where
  "env_required env name msg = ok_or msg (env name)"

definition migrate_on_boot :: "'w boot_lib \<Rightarrow> env \<Rightarrow> unit boot_prog" where
  "migrate_on_boot L env =
     (let mode = ascii_lower (env_or env ''MIGRATE_ON_BOOT'' ''apply'') in
      if mode = ''verify'' then on_schema verify_migrations
      else if mode \<in> {''skip'', ''false'', ''off''} then ret ()
      else andthen (on_schema (migrate (bl_run_sql L))) (ret ()))"

section \<open>Back ends\<close>

datatype kms_backend = AwsKmsBackend string | LocalFileKmsBackend string

definition kms_from_env :: "env \<Rightarrow> kms_backend boot_prog" where
  "kms_from_env env =
     (if ascii_lower (env_or env ''KMS_BACKEND'' ''local'') = ''aws''
      then bind (env_required env ''KMS_WRAPPED_DEK_SECRET_ID''
             ''KMS_WRAPPED_DEK_SECRET_ID must be set when KMS_BACKEND=aws'') (\<lambda>secret_id. ret (AwsKmsBackend secret_id))
      else ret (LocalFileKmsBackend (env_or env ''BEACON_KMS_KEY_PATH'' ''./kms.key'')))"

datatype smtp_security = Implicit | NoTls | StartTls

record smtp_sink =
  sm_security :: smtp_security
  sm_host :: string
  sm_port :: "nat option"
  sm_credentials :: "(string \<times> string) option"
  sm_from :: string

datatype sink = StubSink string | ResendSink string string | SmtpSink smtp_sink

text \<open>\<open>SmtpNotifications::new\<close>.\<close>

definition smtp_new ::
  "'w boot_lib \<Rightarrow> string \<Rightarrow> nat option \<Rightarrow> string option \<Rightarrow> string option \<Rightarrow> string \<Rightarrow> string
     \<Rightarrow> string + smtp_sink" where
  "smtp_new L host port username password tls from_addr =
     (let security = (if tls = ''implicit'' then Implicit else if tls = ''none'' then NoTls else StartTls);
          bad = (case security of Implicit \<Rightarrow> bl_relay L host | NoTls \<Rightarrow> None | StartTls \<Rightarrow> bl_starttls L host)
      in case bad of
           Some e \<Rightarrow> Inl e
         | None \<Rightarrow> Inr \<lparr>sm_security = security, sm_host = host, sm_port = port,
             sm_credentials = (case (username, password) of (Some u, Some p) \<Rightarrow> Some (u, p) | _ \<Rightarrow> None),
             sm_from = from_addr\<rparr>)"

definition non_empty :: "string option \<Rightarrow> string option" where
  "non_empty x = (case x of Some s \<Rightarrow> if s = [] then None else Some s | None \<Rightarrow> None)"

definition notifications_from_env :: "'w boot_lib \<Rightarrow> env \<Rightarrow> sink" where
  "notifications_from_env L env =
     (let stub = StubSink (env_or env ''STUB_NOTIFICATIONS_LOG'' ''./logs/notifications.log'');
          email_from = env_or env ''EMAIL_FROM'' ''Paschal <noreply@localhost>'';
          backend = env_or env ''NOTIFICATIONS_BACKEND'' []
      in if backend = ''resend'' then
           (let api_key = env_or env ''RESEND_API_KEY'' [] in
            if starts_with ''re_'' api_key then ResendSink api_key email_from else stub)
         else if backend = ''smtp'' then
           (let host = env_or env ''SMTP_HOST'' [] in
            if host = [] then stub
            else case smtp_new L host
                  (case env ''SMTP_PORT'' of None \<Rightarrow> None | Some s \<Rightarrow> map_option nat (parse_unsigned 16 s))
                  (non_empty (env ''SMTP_USERNAME'')) (non_empty (env ''SMTP_PASSWORD''))
                  (env_or env ''SMTP_TLS'' ''starttls'') email_from of
                Inr s \<Rightarrow> SmtpSink s
              | Inl _ \<Rightarrow> stub)
         else stub)"

section \<open>Blobs\<close>

fun split_char :: "char \<Rightarrow> string \<Rightarrow> string list" where
  "split_char d [] = [[]]"
| "split_char d (c # s) = (if c = d then [] # split_char d s
     else case split_char d s of p # ps \<Rightarrow> (c # p) # ps | [] \<Rightarrow> [[c]])"

text \<open>A comma-separated variable: the trimmed entries that are not empty.\<close>

definition entries :: "string \<Rightarrow> string list" where
  "entries s = filter (\<lambda>e. e \<noteq> []) (map trim (split_char CHR '','' s))"

text \<open>
  The suffix of a region's variables: upper case, with \<open>_\<close> for \<open>-\<close>. Region codes are ASCII,
  where \<open>to_uppercase\<close> is this.
\<close>

definition region_suffix :: "string \<Rightarrow> string" where
  "region_suffix = map (\<lambda>c. let n = (of_char c :: nat) in
     if 97 \<le> n \<and> n \<le> 122 then char_of (n - 32) else if c = CHR ''-'' then CHR ''_'' else c)"

record s3_store =
  s3_region :: string
  s3_bucket :: string
  s3_prefix :: string
  s3_kms_key_id :: "string option"

datatype blob_choice = LocalBlobs string | SingleS3 s3_store | RoutedS3 "(string \<times> s3_store) list" string

definition blob_error_display :: "blob_error \<Rightarrow> string" where
  "blob_error_display e = (case e of
       BlobNotFound k \<Rightarrow> ''not found: '' @ k
     | Backend m \<Rightarrow> ''backend: '' @ m)"

definition region_store :: "env \<Rightarrow> string \<Rightarrow> string \<Rightarrow> (string \<times> s3_store) boot_prog" where
  "region_store env prefix region =
     (let suffix = region_suffix region in
      bind (env_required env (''BLOB_S3_BUCKET_'' @ suffix)
        (''BLOB_S3_BUCKET_'' @ suffix @ '' must be set (region '' @ region @ '' in BLOB_S3_REGIONS)'')) (\<lambda>bucket.
      ret (region, \<lparr>s3_region = region, s3_bucket = bucket, s3_prefix = prefix,
        s3_kms_key_id = env (''BLOB_S3_KMS_KEY_ID_'' @ suffix)\<rparr>)))"

definition build_s3_backend :: "env \<Rightarrow> blob_choice boot_prog" where
  "build_s3_backend env =
     (let prefix = env_or env ''BLOB_S3_PREFIX'' [] in
      case env ''BLOB_S3_REGIONS'' of
        Some listed \<Rightarrow>
          (let regions = entries listed in
           andthen (reject_if (regions = []) ''BLOB_S3_REGIONS is set but empty'')
           (let default_region = env_or env ''BLOB_S3_DEFAULT_REGION'' (hd regions) in
            bind (collect (region_store env prefix) regions) (\<lambda>stores.
            case region_router (map (\<lambda>(r, s). (r, s3_prefix s)) stores) default_region of
              Inl e \<Rightarrow> throw (''RegionRouter: '' @ blob_error_display e)
            | Inr _ \<Rightarrow> ret (RoutedS3 stores default_region))))
      | None \<Rightarrow>
          bind (env_required env ''BLOB_S3_BUCKET'' ''BLOB_S3_BUCKET must be set when BLOB_BACKEND=s3'') (\<lambda>bucket.
          let region = (case env ''BLOB_S3_REGION'' of
              Some r \<Rightarrow> r
            | None \<Rightarrow> env_or env ''AWS_REGION'' (region_as_aws_str ApSoutheast2)) in
          ret (SingleS3 \<lparr>s3_region = region, s3_bucket = bucket, s3_prefix = prefix,
            s3_kms_key_id = env ''BLOB_S3_KMS_KEY_ID''\<rparr>)))"

definition blobs_from_env :: "'w boot_lib \<Rightarrow> env \<Rightarrow> blob_choice boot_prog" where
  "blobs_from_env L env =
     (if ascii_lower (env_or env ''BLOB_BACKEND'' ''local'') = ''s3'' then build_s3_backend env
      else let root = env_or env ''BEACON_BLOB_ROOT'' ''./blobs'' in
        case bl_create_dir L root of
          Some e \<Rightarrow> throw (''create blob root: '' @ e)
        | None \<Rightarrow> andthen (modify (\<lambda>w. w\<lparr>bw_dirs := bw_dirs w @ [root]\<rparr>)) (ret (LocalBlobs root)))"

text \<open>The back end the handlers see.\<close>

fun backend_of :: "blob_choice \<Rightarrow> blob_backend" where
  "backend_of (LocalBlobs blob_root) = LocalFilesystemStore"
| "backend_of (SingleS3 s) = S3Store (s3_prefix s)"
| "backend_of (RoutedS3 stores d) = RegionRouter (map (\<lambda>(r, s). (r, s3_prefix s)) stores) d"

section \<open>WebAuthn\<close>

definition parse_origin :: "'w boot_lib \<Rightarrow> string \<Rightarrow> string boot_prog" where
  "parse_origin L s = (case bl_url L s of
       Inl e \<Rightarrow> throw (''WEBAUTHN_RP_ORIGIN '' @ quote_debug s @ '' invalid: '' @ e)
     | Inr u \<Rightarrow> ret u)"

definition webauthn_from_env :: "'w boot_lib \<Rightarrow> env \<Rightarrow> 'w boot_prog" where
  "webauthn_from_env L env =
     (let rp_id = env_or env ''WEBAUTHN_RP_ID'' ''localhost'';
          rp_origin = env_or env ''WEBAUTHN_RP_ORIGIN'' ''http://localhost:8080''
      in bind (collect (parse_origin L) (entries rp_origin)) (\<lambda>origins.
         case origins of
           [] \<Rightarrow> throw ''WEBAUTHN_RP_ORIGIN is empty''
         | primary # extra \<Rightarrow>
             (case bl_webauthn_new L rp_id primary of
                Some e \<Rightarrow> throw (''WebauthnBuilder: '' @ e)
              | None \<Rightarrow> (case bl_webauthn_build L rp_id (primary # extra) of
                    Inl e \<Rightarrow> throw (''Webauthn build: '' @ e)
                  | Inr x \<Rightarrow> ret x))))"

section \<open>The state and the process\<close>

record 'w app_state =
  as_kms :: kms_backend
  as_blobs :: blob_choice
  as_sink :: sink
  as_webauthn :: 'w
  as_config :: config

definition from_env :: "'w boot_lib \<Rightarrow> env \<Rightarrow> 'w app_state boot_prog" where
  "from_env L env =
     bind (env_required env ''DATABASE_URL'' ''DATABASE_URL must be set (see .env.example)'') (\<lambda>_.
     andthen (connect_with_retry L 30000)
     (andthen (migrate_on_boot L env)
     (bind (kms_from_env env) (\<lambda>kms.
      let cfg = config_from_env env; notifications = notifications_from_env L env in
      bind (blobs_from_env L env) (\<lambda>blob_store.
      bind (webauthn_from_env L env) (\<lambda>webauthn.
      ret \<lparr>as_kms = kms, as_blobs = blob_store, as_sink = notifications, as_webauthn = webauthn,
        as_config = cfg\<rparr>))))))"

text \<open>What a process becomes: a finished migration, or a server with the deployment's supervisor.\<close>

datatype 'w process = MigrationDone nat | Serving "'w app_state"

definition migrate_task :: "'w boot_lib \<Rightarrow> env \<Rightarrow> 'w process boot_prog" where
  "migrate_task L env =
     bind (env_required env ''DATABASE_URL'' ''DATABASE_URL must be set'') (\<lambda>_.
     andthen (connect_with_retry L 30000)
     (bind (on_schema (migrate (bl_run_sql L))) (\<lambda>n. ret (MigrationDone n))))"

definition serve_task :: "'w boot_lib \<Rightarrow> env \<Rightarrow> 'w process boot_prog" where
  "serve_task L env =
     bind (case bl_bind L (env_or env ''BEACON_BIND'' ''127.0.0.1:8080'') of
             Some e \<Rightarrow> throw e | None \<Rightarrow> ret ()) (\<lambda>_.
     bind (from_env L env) (\<lambda>st. ret (Serving st)))"

definition main :: "'w boot_lib \<Rightarrow> string list \<Rightarrow> env \<Rightarrow> 'w process boot_prog" where
  "main L args env = (case args of
       _ # a # _ \<Rightarrow> if a = ''migrate'' then migrate_task L env else serve_task L env
     | _ \<Rightarrow> serve_task L env)"

text \<open>A process that serves joins the election with its setting.\<close>

definition joins :: "'w process \<Rightarrow> replica \<Rightarrow> deployment \<Rightarrow> deployment" where
  "joins p r s = (case p of
       MigrationDone _ \<Rightarrow> s
     | Serving st \<Rightarrow> spawn_all (cf_scheduler_leader_election (as_config st)) r s)"

end
