(* ===== verification/BootProps.thy ===== *)
theory BootProps
  imports Boot Scoring Samples
begin

text \<open>
  The start of the server: the retry loop ends and its bounds, the migration modes of a
  blue/green deployment, and what a bad threshold in the environment does.
\<close>

section \<open>The retry loop\<close>

text \<open>The loop from any point: it answers with the last attempt, after failures only.\<close>

lemma connect_loop_spec:
  assumes "connect_loop net max_wait n since = (err, m, t)"
  shows "n < m \<and> err = snd (net m) \<and> (\<forall>i. n < i \<and> i < m \<longrightarrow> snd (net i) \<noteq> None)
    \<and> (err \<noteq> None \<longrightarrow> max_wait \<le> t) \<and> since + 2000 * (m - n - 1) + fst (net m) \<le> t
    \<and> (m = Suc n \<and> t = since + fst (net m) \<or> t < max_wait + 2000 + fst (net m))
    \<and> (m = Suc n \<or> since + 2000 * (m - n - 2) < max_wait)"
  using assms
proof (induction net max_wait n since rule: connect_loop.induct)
  case (1 net max_wait n since)
  obtain took r where net: "net (Suc n) = (took, r)" by fastforce
  show ?case
  proof (cases r)
    case None
    with net 1(2) show ?thesis by (auto simp: connect_loop.simps [of net max_wait n])
  next
    case (Some e)
    show ?thesis
    proof (cases "max_wait \<le> since + took")
      case True
      with Some net 1(2) show ?thesis by (auto simp: connect_loop.simps [of net max_wait n])
    next
      case False
      with Some net 1(2) have "connect_loop net max_wait (Suc n) (since + took + 2000) = (err, m, t)"
        by (simp add: connect_loop.simps [of net max_wait n])
      from 1(1) [OF net [symmetric] Some False this] have ih:
        "Suc n < m" "err = snd (net m)" "\<forall>i. Suc n < i \<and> i < m \<longrightarrow> snd (net i) \<noteq> None"
        "err \<noteq> None \<longrightarrow> max_wait \<le> t"
        "since + took + 2000 + 2000 * (m - Suc n - 1) + fst (net m) \<le> t"
        "m = Suc (Suc n) \<and> t = since + took + 2000 + fst (net m) \<or> t < max_wait + 2000 + fst (net m)"
        "m = Suc (Suc n) \<or> since + took + 2000 + 2000 * (m - Suc n - 2) < max_wait"
        by auto
      have "snd (net i) \<noteq> None" if "n < i" "i < m" for i
        using that ih(3) net Some by (cases "i = Suc n") auto
      moreover have "since + 2000 * (m - n - 1) + fst (net m) \<le> t" using ih(1,5) by simp
      moreover have "t < max_wait + 2000 + fst (net m)" using ih(6) False by auto
      moreover have "since + 2000 * (m - n - 2) < max_wait" using ih(1,7) False by auto
      ultimately show ?thesis using ih(1,2,4) by auto
    qed
  qed
qed

text \<open>
  C37: Connecting at the start. The loop always ends: after \<open>n\<close> attempts with
  \<open>2 n < max_wait + 4\<close> (in seconds), at most the time of one attempt and two seconds after the
  limit. It answers with the outcome of the last attempt, every attempt before it failed, and it
  gives up only once the limit has passed. The pauses are two seconds each: there is no backoff.
\<close>

theorem connect_ends:
  "case connect_loop net max_wait 0 0 of (err, n, t) \<Rightarrow>
     0 < n \<and> 2000 * n < max_wait + 4000 \<and> err = snd (net n)
     \<and> list_all (\<lambda>i. snd (net i) \<noteq> None) [1 ..< n]
     \<and> (err = None \<or> max_wait \<le> t)
     \<and> 2000 * (n - 1) + fst (net n) \<le> t \<and> t < max_wait + 2001 + fst (net n)"
proof -
  obtain err n t where c: "connect_loop net max_wait 0 0 = (err, n, t)" by (metis prod_cases3)
  note s = connect_loop_spec [OF c]
  have "2000 * n < max_wait + 4000"
  proof (cases "n = 1")
    case False
    with s have "2000 * (n - 2) < max_wait" "2 \<le> n" by auto
    then show ?thesis by arith
  qed simp
  moreover have "t < max_wait + 2001 + fst (net n)" using s by auto
  ultimately show ?thesis using s by (auto simp: c list_all_iff)
qed

section \<open>Migration modes\<close>

definition schema_same :: "boot_world \<Rightarrow> boot_world \<Rightarrow> bool" where
  "schema_same w w' \<longleftrightarrow> bw_schema w' = bw_schema w"

lemma same_modify: "(\<And>v. bw_schema (f v) = bw_schema v) \<Longrightarrow> keeps (schema_same w) (modify f)"
  by (simp add: keeps_def schema_same_def)

lemma same_connect [keeps_intros]: "keeps (schema_same w) (connect_with_retry L n)"
  by (simp add: keeps_def schema_same_def connect_with_retry_def Let_def split: prod.split)

lemma same_required [keeps_intros]: "keeps (schema_same w) (env_required env n m)"
  by (simp add: env_required_def)

lemma verify_same: "snd (verify_migrations s) = s"
proof -
  have "snd (for_each (\<lambda>name. reject_if (name \<notin> X) (MigrationPending name)) ns s) = s" for X ns
    by (induction ns) (auto simp: andthen_def bind_def reject_if_def split: prod.splits outcome.splits)
  then show ?thesis by (simp add: verify_migrations_def split: option.split)
qed

lemma same_verify [keeps_intros]: "keeps (schema_same w) (on_schema verify_migrations)"
  using verify_same by (auto simp: keeps_def schema_same_def on_schema_def split: prod.splits outcome.splits)
    (metis snd_conv)+

lemma same_kms [keeps_intros]: "keeps (schema_same w) (kms_from_env env)"
  unfolding kms_from_env_def by (intro keeps_intros)

lemma same_blobs [keeps_intros]: "keeps (schema_same w) (blobs_from_env L env)"
  unfolding blobs_from_env_def build_s3_backend_def region_store_def
  by (intro keeps_intros same_modify) (simp_all add: schema_same_def)

lemma same_webauthn [keeps_intros]: "keeps (schema_same w) (webauthn_from_env L env)"
  unfolding webauthn_from_env_def parse_origin_def
  by (intro keeps_intros) (auto intro!: keeps_intros split: list.split option.split sum.split)

text \<open>The modes in which a start does not migrate.\<close>

definition hands_off :: "env \<Rightarrow> bool" where
  "hands_off env \<longleftrightarrow> ascii_lower (env_or env ''MIGRATE_ON_BOOT'' ''apply'') \<in> {''verify'', ''skip'', ''false'', ''off''}"

lemma on_schema_migrated:
  assumes "migrate run_sql s = (Ok n, bw_schema u)"
  shows "on_schema verify_migrations u = (Ok (), u)" "on_schema (migrate run_sql') u = (Ok 0, u)"
  using migrated_is_verified [OF assms] by (simp_all add: on_schema_def)

lemma boot_after_migration:
  assumes "migrate run_sql s = (Ok n, bw_schema u)"
  shows "migrate_on_boot L env u = (Ok (), u)"
  by (simp add: migrate_on_boot_def on_schema_migrated [OF assms] andthen_def bind_def Let_def)

lemma migrate_task_schema:
  assumes "migrate_task L env w = (Ok x, w')"
  obtains n s where "x = MigrationDone n" "migrate (bl_run_sql L) s = (Ok n, bw_schema w')"
proof -
  from assms obtain v n where "on_schema (migrate (bl_run_sql L)) v = (Ok n, w')" and x: "x = MigrationDone n"
    by (auto simp: migrate_task_def bind_eq_Ok andthen_eq_Ok)
  then have "migrate (bl_run_sql L) (bw_schema v) = (Ok n, bw_schema w')"
    by (auto simp: on_schema_def split: prod.splits outcome.splits)
  with that x show ?thesis by blast
qed

lemma serve_schema:
  assumes "\<And>v. bw_schema v = bw_schema u \<Longrightarrow> bw_schema (snd (migrate_on_boot L env v)) = bw_schema u"
  shows "bw_schema (snd (serve_task L env u)) = bw_schema u"
proof -
  have "keeps (schema_same u) (migrate_on_boot L env)"
    using assms by (simp add: keeps_def schema_same_def)
  then have "keeps (schema_same u) (serve_task L env)"
    unfolding serve_task_def from_env_def Let_def
    by (intro keeps_intros) (auto intro!: keeps_intros split: option.split)
  then show ?thesis using keepsD [of "schema_same u" _ u] by (simp add: schema_same_def)
qed

text \<open>
  C36: Migrations in a blue/green deployment. After a migration task that succeeded, a server
  starting on that schema gets past the migration step in every mode, \<open>verify\<close> included, and
  leaves the schema as it is. A server in the modes \<open>verify\<close>, \<open>skip\<close>, \<open>false\<close> or \<open>off\<close> never
  changes the schema, whatever it finds and wherever its start fails.
\<close>

theorem blue_green_boot:
  assumes "main L [prog, ''migrate''] env w = (Ok p, w')" and "bw_schema u = bw_schema w'"
  shows "(\<exists>n. p = MigrationDone n)
    \<and> migrate_on_boot L' env' u = (Ok (), u)
    \<and> bw_schema (snd (main L' [prog'] env' u)) = bw_schema u
    \<and> (hands_off env'' \<longrightarrow> bw_schema (snd (main L'' [prog'] env'' v)) = bw_schema v)"
proof -
  from assms(1) have "migrate_task L env w = (Ok p, w')" by (simp add: main_def)
  then obtain n s where p: "p = MigrationDone n" and m: "migrate (bl_run_sql L) s = (Ok n, bw_schema w')"
    by (rule migrate_task_schema)
  have step: "migrate_on_boot L' env' v = (Ok (), v)" if "bw_schema v = bw_schema w'" for v
    using m that boot_after_migration [of "bl_run_sql L" s n v L' env'] by simp
  have "bw_schema (snd (serve_task L' env' u)) = bw_schema u"
    by (rule serve_schema) (use step assms(2) in simp)
  moreover have "bw_schema (snd (serve_task L'' env'' v)) = bw_schema v" if "hands_off env''"
  proof (rule serve_schema)
    fix x :: boot_world
    assume x: "bw_schema x = bw_schema v"
    have "keeps (schema_same x) (migrate_on_boot L'' env'')"
      using that unfolding migrate_on_boot_def hands_off_def Let_def by (intro keeps_intros) auto
    from keepsD [OF this, of x] x show "bw_schema (snd (migrate_on_boot L'' env'' x)) = bw_schema v"
      by (simp add: schema_same_def)
  qed
  ultimately show ?thesis using p step [OF assms(2)] by (simp add: main_def)
qed

definition sample_boot :: "unit boot_lib" where
  "sample_boot = \<lparr>bl_connect = (\<lambda>n. (100, if n < 3 then Some (Sqlx ''connection refused'') else None)),
     bl_run_sql = sample_run_sql, bl_create_dir = (\<lambda>_. None), bl_relay = (\<lambda>_. None),
     bl_starttls = (\<lambda>_. None), bl_url = Inr, bl_webauthn_new = (\<lambda>_ _. None),
     bl_webauthn_build = (\<lambda>_ _. Inr ()), bl_bind = (\<lambda>_. None)\<rparr>"

definition fresh_boot :: boot_world where
  "fresh_boot = \<lparr>bw_schema = \<lparr>tables = [], schema_migrations = None\<rparr>, bw_elapsed = 0, bw_attempts = 0,
     bw_dirs = []\<rparr>"

lemma sample_connects: "connect_with_retry sample_boot 30000 fresh_boot = (Ok (), fresh_boot\<lparr>bw_elapsed := 4300, bw_attempts := 3\<rparr>)"
  by (simp add: connect_with_retry_def sample_boot_def connect_loop.simps fresh_boot_def)

theorem blue_green_boot_witness:
  "\<exists>n w'. main sample_boot [''beacon'', ''migrate''] [''DATABASE_URL'' \<mapsto> ''postgres://db''] fresh_boot
       = (Ok (MigrationDone n), w')
     \<and> migrate_on_boot sample_boot [''MIGRATE_ON_BOOT'' \<mapsto> ''verify''] w' = (Ok (), w')"
proof -
  let ?e = "[''DATABASE_URL'' \<mapsto> ''postgres://db'']"
  obtain n s where "migrate sample_run_sql \<lparr>tables = [], schema_migrations = None\<rparr> = (Ok n, s)"
    using migrate_then_verified_witness by blast
  then have "\<exists>p w'. main sample_boot [''beacon'', ''migrate''] ?e fresh_boot = (Ok p, w')"
    by (simp add: main_def migrate_task_def env_required_def andthen_def bind_def sample_connects
        on_schema_def) (simp add: sample_boot_def fresh_boot_def)
  then obtain p w' where r: "main sample_boot [''beacon'', ''migrate''] ?e fresh_boot = (Ok p, w')" by blast
  note b = blue_green_boot [OF r refl, of sample_boot "[''MIGRATE_ON_BOOT'' \<mapsto> ''verify'']"]
  from b [THEN conjunct1] b [THEN conjunct2, THEN conjunct1] r show ?thesis by auto
qed

section \<open>The threshold\<close>

lemma score_at_most_one: "f32_lt (Fin 1) (ts_score (score obs)) \<Longrightarrow> False"
proof -
  have "f32_lt (Fin 1) (f32_clamp (Fin 0) (Fin 1) x) \<Longrightarrow> False" for x
    by (cases x) (auto simp: f32_clamp_def Let_def split: if_splits)
  then show "f32_lt (Fin 1) (ts_score (score obs)) \<Longrightarrow> False"
    by (simp add: score_def split: prod.splits)
qed

lemma unreachable_threshold:
  assumes "t = NaN \<or> f32_lt (Fin 1) t"
  shows "\<not> should_alert (score obs) t m"
proof
  assume "should_alert (score obs) t m"
  then have le: "f32_le t (ts_score (score obs))" by (simp add: should_alert_def)
  have "f32_lt (Fin 1) (ts_score (score obs))"
    using assms le by (cases t; cases "ts_score (score obs)") (auto simp: f32_le_def)
  then show False by (rule score_at_most_one)
qed

text \<open>
  A threshold that cannot be reached. \<open>TRIGGER_THRESHOLD\<close> is taken as any \<open>f32\<close> text, also
  \<open>nan\<close>, an infinity and values above one, without a word. With such a threshold no
  observations ever raise an alert or start a cooling-off: whatever the aggregator evaluates, a
  vault that is not already in ALERT or COOLING_OFF never gets there.
\<close>

theorem unreachable_threshold_disarms:
  assumes "env ''TRIGGER_THRESHOLD'' = Some s" and "parse_f32 s = Some t"
    and "t = NaN \<or> f32_lt (Fin 1) t" and "c \<noteq> Alert" and "c \<noteq> CoolingOff"
  shows "trigger_threshold (configure (config_from_env env) A) = t
    \<and> evaluate c (score obs) (trigger_threshold (configure (config_from_env env) A)) m \<noteq> Alert
    \<and> evaluate c (score obs) (trigger_threshold (configure (config_from_env env) A)) m \<noteq> CoolingOff"
proof -
  have t: "trigger_threshold (configure (config_from_env env) A) = t"
    using assms(1,2) by (simp add: configure_def config_from_env_def env_f32_def env_parse_def)
  with unreachable_threshold [OF assms(3), of obs m] assms(4,5) show ?thesis
    by (cases c) (auto simp: evaluate_def Let_def)
qed

theorem unreachable_threshold_disarms_witness:
  "trigger_threshold (configure (config_from_env [''TRIGGER_THRESHOLD'' \<mapsto> ''NaN'']) sample_app) = NaN
   \<and> evaluate Active (score []) NaN 0 \<noteq> Alert
   \<and> trigger_threshold (configure (config_from_env [''TRIGGER_THRESHOLD'' \<mapsto> ''70'']) sample_app) = Fin 70"
proof -
  have n: "parse_f32 ''NaN'' = Some NaN" and h: "parse_f32 ''70'' = Some (Fin 70)" by code_simp+
  from unreachable_threshold_disarms [OF _ n, of "[''TRIGGER_THRESHOLD'' \<mapsto> ''NaN'']" Active sample_app "[]" 0]
    unreachable_threshold_disarms [OF _ h, of "[''TRIGGER_THRESHOLD'' \<mapsto> ''70'']" Active sample_app "[]" 0]
  show ?thesis by auto
qed

end
