(* ===== verification/NotifyProps.thy ===== *)
theory NotifyProps
  imports Notify Samples
begin

text \<open>The HTML of the messages: what the texts of users can and cannot put into it.\<close>

section \<open>Escaping\<close>

text \<open>The characters that open or close a tag or an attribute value.\<close>

definition is_markup :: "char \<Rightarrow> bool" where
  "is_markup c \<longleftrightarrow> c = CHR ''<'' \<or> c = CHR ''>'' \<or> c = CHR 0x22"

definition markup :: "string \<Rightarrow> string" where
  "markup s = filter is_markup s"

lemma markup_append: "markup (a @ b) = markup a @ markup b"
  by (simp add: markup_def)

lemma replace_char_append: "replace_char c r (a @ b) = replace_char c r a @ replace_char c r b"
  by (simp add: replace_char_def)

lemma esc_append: "esc (a @ b) = esc a @ esc b"
  by (simp add: esc_def replace_char_append)

lemma esc_specials: "esc ''&'' = ''&amp;''" "esc ''<'' = ''&lt;''" "esc ''>'' = ''&gt;''" "esc [CHR 0x22] = ''&quot;''"
  by code_simp+

lemma esc_other: "x \<noteq> CHR ''&'' \<Longrightarrow> \<not> is_markup x \<Longrightarrow> esc [x] = [x]"
  by (simp add: esc_def replace_char_def is_markup_def)

lemma markup_esc_char: "markup (esc [x]) = []"
proof (cases "x = CHR ''&'' \<or> is_markup x")
  case True
  then have "x = CHR ''&'' \<or> x = CHR ''<'' \<or> x = CHR ''>'' \<or> x = CHR 0x22" by (auto simp: is_markup_def)
  then show ?thesis by (elim disjE) (simp_all only: esc_specials, code_simp+)
next
  case False
  then show ?thesis by (simp add: esc_other markup_def)
qed

lemma markup_esc: "markup (esc s) = []"
proof (induction s)
  case (Cons x s)
  have "esc (x # s) = esc [x] @ esc s" using esc_append [of "[x]" s] by simp
  with Cons show ?case by (simp only: markup_append markup_esc_char append_Nil)
qed (simp add: esc_def replace_char_def markup_def)

section \<open>The messages\<close>

text \<open>A notice of the same kind with every text empty, and as many attachments.\<close>

fun blank :: "notice \<Rightarrow> notice" where
  "blank (Welcome _ t) = Welcome [] 0"
| "blank (MagicLink _ _) = MagicLink [] []"
| "blank (CoolingOffStarted _ _ t) = CoolingOffStarted [] [] 0"
| "blank (CoolingOffCancelled _) = CoolingOffCancelled []"
| "blank (ReleaseNotice _ _ _ is_drill atts) = ReleaseNotice [] [] [] is_drill (map (\<lambda>_. ([], [])) atts)"
| "blank (BuddyInvite _ _ _) = BuddyInvite [] [] []"
| "blank (RecipientChangeRequested _ _ t) = RecipientChangeRequested [] [] 0"
| "blank (CoStewardInvite _ _ _) = CoStewardInvite [] [] []"
| "blank (HeirShare _ _) = HeirShare [] []"
| "blank (AccountDeletionRequested _ t) = AccountDeletionRequested [] 0"
| "blank (DuressAlert _) = DuressAlert []"

lemma markup_html: "markup (html_email a) = markup (html_email b)" if "markup a = markup b"
  unfolding html_email_def by (simp only: markup_append that)

lemma markup_item: "markup (attachment_item a) = markup (attachment_item ([], []))"
  unfolding attachment_item_def by (simp only: markup_append markup_esc split: prod.split) blast

lemma markup_items: "markup (concat (map attachment_item atts)) =
    markup (concat (map attachment_item (map (\<lambda>_. ([], [])) atts)))"
proof (induction atts)
  case (Cons a atts)
  have "markup (attachment_item a @ concat (map attachment_item atts)) =
      markup (attachment_item ([], []) @ concat (map attachment_item (map (\<lambda>_. ([], [])) atts)))"
    by (simp only: markup_append Cons markup_item [of a])
  then show ?case by (simp only: list.map concat.simps)
qed simp

lemma markup_attachments: "markup (attachments_html atts) = markup (attachments_html (map (\<lambda>_. ([], [])) atts))"
  unfolding attachments_html_def using markup_items [of atts]
  by (cases atts) (simp_all only: markup_append list.map list.distinct if_True if_False simp_thms)

text \<open>
  C35: No injected markup. The tags and attributes of a message depend on its kind and the number
  of its attachments alone: whatever texts users choose as names, titles, addresses, file names
  and links, the HTML has the same angle brackets and quotes, in the same order, as with empty
  texts.
\<close>

theorem no_injected_markup:
  "map_option markup (om_html (render A n)) = map_option markup (om_html (render A (blank n)))"
proof (cases n)
  case (ReleaseNotice recipient title url is_drill atts)
  show ?thesis
    unfolding ReleaseNotice render.simps blank.simps tx_release_notification_with_attachments_def
      outbound_message.simps option.map
    by (intro arg_cong [where f = Some] markup_html)
      (simp only: markup_append markup_esc heading_def cta_button_def markup_attachments [of atts])
qed (simp_all only: render.simps blank.simps tx_welcome_def tx_magic_link_def tx_cooling_off_started_def
  tx_cooling_off_cancelled_def tx_buddy_invite_def tx_recipient_change_requested_def
  tx_co_steward_invite_def tx_heir_share_def tx_account_deletion_requested_def tx_duress_alert_def
  outbound_message.simps option.map option.inject html_email_def heading_def cta_button_def
  markup_append markup_esc)

end
