(* ===== verification/Sinks.thy ===== *)
theory Sinks
  imports Boot Notify
begin

text \<open>
  The three notification sinks of src/crates/beacon-api/src/notifications.rs as they hand a
  message over: the log file of the stub, the request to Resend, the mail given to the SMTP
  transport. Sending is fire-and-forget: nothing a transport answers reaches the caller. The
  transports and the parser of mail addresses are parameters; tracing is left out.
\<close>

section \<open>What leaves the process\<close>

datatype mail_body = Plain string | Alternative string string

record mail =
  ml_from :: string
  ml_to :: string
  ml_subject :: string
  ml_body :: mail_body

record wire =
  wr_log :: "string \<Rightarrow> string option"
  wr_dirs :: "string list"
  wr_resend :: "(string \<times> resend_payload) list"
  wr_smtp :: "mail list"

text \<open>
  The transports: whether a path can be opened for appending, whether a text is a mailbox, and
  whether a message can be built.
\<close>

record transports =
  tp_opens :: "string \<Rightarrow> bool"
  tp_mailbox :: "string \<Rightarrow> bool"
  tp_builds :: "mail \<Rightarrow> bool"

section \<open>Sending\<close>

definition parent_dir :: "string \<Rightarrow> string option" where
  "parent_dir p = (if CHR ''/'' \<in> set p
     then Some (rev (drop 1 (dropWhile (\<lambda>c. c \<noteq> CHR ''/'') (rev p)))) else if p = [] then None else Some [])"

definition stub_send :: "transports \<Rightarrow> string \<Rightarrow> string \<Rightarrow> outbound_message \<Rightarrow> wire \<Rightarrow> wire" where
  "stub_send T path ts msg w =
     (let w1 = (case parent_dir path of Some d \<Rightarrow> w\<lparr>wr_dirs := wr_dirs w @ [d]\<rparr> | None \<Rightarrow> w);
          line = stub_line ts msg
      in if tp_opens T path
         then w1\<lparr>wr_log := (wr_log w1)(path \<mapsto> unwrap_or [] (wr_log w1 path) @ line)\<rparr>
         else w1)"

definition resend_sink_send :: "string \<Rightarrow> string \<Rightarrow> outbound_message \<Rightarrow> wire \<Rightarrow> wire" where
  "resend_sink_send api_key from_addr msg w = (case resend_send from_addr msg of
       None \<Rightarrow> w
     | Some p \<Rightarrow> w\<lparr>wr_resend := wr_resend w @ [(api_key, p)]\<rparr>)"

definition smtp_mail :: "string \<Rightarrow> outbound_message \<Rightarrow> mail" where
  "smtp_mail from_addr msg =
     \<lparr>ml_from = from_addr, ml_to = om_to msg, ml_subject = unwrap_or [] (om_subject msg),
      ml_body = (case om_html msg of Some html \<Rightarrow> Alternative (om_body msg) html | None \<Rightarrow> Plain (om_body msg))\<rparr>"

definition smtp_send :: "transports \<Rightarrow> smtp_sink \<Rightarrow> outbound_message \<Rightarrow> wire \<Rightarrow> wire" where
  "smtp_send T s msg w =
     (if om_channel msg \<noteq> ChEmail then w
      else if \<not> tp_mailbox T (sm_from s) then w
      else if \<not> tp_mailbox T (om_to msg) then w
      else let m = smtp_mail (sm_from s) msg in
        if \<not> tp_builds T m then w else w\<lparr>wr_smtp := wr_smtp w @ [m]\<rparr>)"

definition sink_send :: "transports \<Rightarrow> sink \<Rightarrow> string \<Rightarrow> outbound_message \<Rightarrow> wire \<Rightarrow> wire" where
  "sink_send T s ts msg = (case s of
       StubSink path \<Rightarrow> stub_send T path ts msg
     | ResendSink api_key from_addr \<Rightarrow> resend_sink_send api_key from_addr msg
     | SmtpSink smtp \<Rightarrow> smtp_send T smtp msg)"

section \<open>What each sink lets through\<close>

text \<open>The external effect of a sink is at most one message, and e-mail only.\<close>

lemma sink_sends_one:
  "wr_resend (sink_send T s ts msg w) = wr_resend w
     \<or> (\<exists>k f. s = ResendSink k f \<and> om_channel msg = ChEmail
          \<and> wr_resend (sink_send T s ts msg w) = wr_resend w @ [(k, resend_payload_of f msg)])"
  "wr_smtp (sink_send T s ts msg w) = wr_smtp w
     \<or> (\<exists>m. s = SmtpSink m \<and> om_channel msg = ChEmail
          \<and> wr_smtp (sink_send T s ts msg w) = wr_smtp w @ [smtp_mail (sm_from m) msg])"
  by (auto simp: sink_send_def stub_send_def resend_sink_send_def resend_send_def smtp_send_def Let_def
      split: sink.split option.split)

end
