(* ===== verification/SignalProps.thy ===== *)
theory SignalProps
  imports LivenessProps
begin

text \<open>
  The Apple Shortcut ping: exactly which requests are accepted, with the 64-bit arithmetic of
  the drift check and the constant-time comparison.
\<close>

section \<open>The comparison\<close>

lemma difference_zero:
  "length a = length b \<Longrightarrow>
   foldl (\<lambda>diff (x, y). Bit_Operations.or diff (Bit_Operations.xor x y)) d (zip a b) = (0 :: byte)
     \<longleftrightarrow> d = 0 \<and> a = b"
proof (induction a b arbitrary: d rule: list_induct2)
  case (Cons x xs y ys)
  have "Bit_Operations.xor x y = 0 \<longleftrightarrow> x = y"
    using xor.assoc [of x y y] by auto
  then show ?case by (simp only: zip_Cons_Cons foldl.simps prod.case Cons.IH or_zero_iff list.inject) blast
qed simp

lemma constant_time_eq_iff: "constant_time_eq a b \<longleftrightarrow> a = b"
  by (auto simp: constant_time_eq_def difference_zero)

section \<open>The drift\<close>

text \<open>In a release build the subtraction and the negation wrap around.\<close>

definition drift :: "int \<Rightarrow> 64 word \<Rightarrow> 64 word" where
  "drift t ts = (let d = word_of_int t - ts in if sint d < 0 then - d else d)"

lemma sint_range64: "- (2 ^ 63) \<le> sint (x :: 64 word)" "sint (x :: 64 word) < 2 ^ 63"
  using sint_range_size [of x] by (simp_all add: word_size)

lemma sint_wrap:
  assumes "- (2 ^ 63) \<le> i" "i < 2 ^ 63"
  shows "sint (word_of_int i :: 64 word) = i"
  unfolding sint_sbintrunc' using assms by (intro signed_take_bit_int_eq_self) simp_all

lemma sint_wrapped:
  assumes "2 ^ 63 \<le> i" "i < 2 ^ 63 + 2 ^ 63"
  shows "sint (word_of_int i :: 64 word) = i - 2 ^ 64"
proof -
  have "(word_of_int i :: 64 word) = word_of_int (i - 2 ^ 64)"
    by (rule word_of_int_eq_iff [THEN iffD2]) (simp add: take_bit_eq_mod)
  also have "sint (word_of_int (i - 2 ^ 64) :: 64 word) = i - 2 ^ 64"
    by (rule sint_wrap) (use assms in simp_all)
  finally show ?thesis .
qed

lemma drift_cases:
  fixes t :: int and ts :: "64 word"
  defines "d \<equiv> t - sint ts"
  assumes "0 \<le> t" "t < 2 ^ 62"
  shows "sint (drift t ts) = (if d = 2 ^ 63 then - (2 ^ 63) else if d < 2 ^ 63 then \<bar>d\<bar> else 2 ^ 64 - d)"
proof -
  have w: "word_of_int t - ts = word_of_int d" by (simp add: d_def)
  have n: "- (word_of_int i :: 64 word) = word_of_int (- i)" for i by simp
  have r: "- (2 ^ 63) < d" "d < 2 ^ 63 + 2 ^ 62 + 1" using sint_range64 [of ts] assms(2,3) by (simp_all add: d_def)
  have unf: "drift t ts = (if sint (word_of_int d :: 64 word) < 0 then word_of_int (- d) else word_of_int d)"
    unfolding drift_def Let_def w n ..
  consider "d < 0" | "0 \<le> d" "d < 2 ^ 63" | "d = 2 ^ 63" | "2 ^ 63 < d" by linarith
  then show ?thesis
  proof cases
    case 1
    have "sint (word_of_int d :: 64 word) = d" by (rule sint_wrap) (use r 1 in simp_all)
    moreover have "sint (word_of_int (- d) :: 64 word) = - d" by (rule sint_wrap) (use r 1 in simp_all)
    ultimately show ?thesis using 1 by (simp only: unf if_True) simp
  next
    case 2
    have "sint (word_of_int d :: 64 word) = d" by (rule sint_wrap) (use r 2 in simp_all)
    then show ?thesis using 2 by (simp only: unf) (simp only: if_False not_less if_not_P, simp)
  next
    case 3
    have "sint (word_of_int d :: 64 word) = d - 2 ^ 64" by (rule sint_wrapped) (use r 3 in simp_all)
    moreover have "sint (word_of_int (- d) :: 64 word) = - d" by (rule sint_wrap) (use 3 in simp_all)
    ultimately show ?thesis using 3 by (simp only: unf) simp
  next
    case 4
    have "sint (word_of_int d :: 64 word) = d - 2 ^ 64" by (rule sint_wrapped) (use r 4 in simp_all)
    moreover have "sint (word_of_int (- d) :: 64 word) = 2 ^ 64 - d"
    proof -
      have "(word_of_int (- d) :: 64 word) = word_of_int (2 ^ 64 - d)"
        by (rule word_of_int_eq_iff [THEN iffD2]) (simp add: take_bit_eq_mod mod_simps flip: mod_diff_left_eq)
      also have "sint (word_of_int (2 ^ 64 - d) :: 64 word) = 2 ^ 64 - d"
        by (rule sint_wrap) (use r 4 in simp_all)
      finally show ?thesis .
    qed
    ultimately show ?thesis using r 4 by (simp only: unf if_True) simp
  qed
qed

text \<open>The window of five minutes, and the one instant that is exactly \<open>2 ^ 63\<close> seconds away.\<close>

lemma drift_small_iff:
  assumes "0 \<le> t" "t < 2 ^ 62"
  shows "sint (drift t ts) \<le> 300 \<longleftrightarrow> \<bar>t - sint ts\<bar> \<le> 300 \<or> t - sint ts = 2 ^ 63"
proof -
  have "t - sint ts < 2 ^ 63 + 2 ^ 62 + 1" using sint_range64 [of ts] assms by simp
  then show ?thesis unfolding drift_cases [OF assms] by auto
qed

section \<open>Recording a signal\<close>

lemma list_vaults_Ok: "vaults_ok w \<Longrightarrow> \<exists>vs. db_list_vaults i w = (Ok vs, w)"
proof -
  assume ok: "vaults_ok w"
  have "\<exists>vs. collect (row_to_vault vault_columns) rs w = (Ok vs, w)" if "\<forall>r \<in> set rs. vault_row_ok r" for rs
    using that by (induction rs) (auto simp: run row_to_vault_ok)
  moreover have "\<forall>r \<in> set (order_by va_created_at (sql_select (\<lambda>r. va_principal_id r = i) (vaults w))). vault_row_ok r"
    using ok by (auto simp: vaults_ok_def)
  ultimately show ?thesis by (simp add: db_list_vaults_def)
qed

lemma record_signals_Ok: "\<exists>w'. (for_each (\<lambda>vault. ignore (db_record_signal (v_id vault) source c)) vs :: unit api_prog) w = (Ok (), w')
    \<and> clock w' = clock w"
proof (induction vs arbitrary: w)
  case (Cons v vs)
  obtain w1 where "(ignore (db_record_signal (v_id v) source c) :: unit api_prog) w = (Ok (), w1)" "clock w1 = clock w"
    by (cases "v_id v \<in> va_id ` set (vaults w)") (simp_all add: db_record_signal_def run)
  with Cons [of w1] show ?case by (auto simp: andthen_step)
qed simp

lemma record_on_vaults_Ok:
  assumes "vaults_ok w"
  shows "\<exists>n w'. record_on_vaults pid source c w = (Ok n, w') \<and> clock w' = clock w"
proof -
  obtain vs where "db_list_vaults pid w = (Ok vs, w)" using list_vaults_Ok [OF assms] by blast
  moreover obtain w' where "(for_each (\<lambda>vault. ignore (db_record_signal (v_id vault) source c)) vs :: unit api_prog) w = (Ok (), w')"
    "clock w' = clock w" using record_signals_Ok by blast
  ultimately show ?thesis by (simp add: record_on_vaults_def run api_step)
qed

section \<open>The ping\<close>

definition signed_by :: "app \<Rightarrow> apple_ping_req \<Rightarrow> apple_row \<Rightarrow> bool" where
  "signed_by A body r \<longleftrightarrow> b64std_decode A (apq_signature body) =
     Some (hmac_sha256 A (ap_secret_hmac_key r) (ping_message (apq_installation_id body) (apq_timestamp body)))"

definition acceptable :: "app \<Rightarrow> apple_ping_req \<Rightarrow> world \<Rightarrow> bool" where
  "acceptable A body w \<longleftrightarrow>
      (let d = clock w div 1000000 - sint (apq_timestamp body) in \<bar>d\<bar> \<le> 300 \<or> d = 2 ^ 63)
    \<and> (case sql_first (\<lambda>r. ap_installation_id r = apq_installation_id body) (apple_subs w) of
         None \<Rightarrow> False | Some r \<Rightarrow> signed_by A body r)"

lemma ping_steps:
  assumes "\<not> debug_assertions A"
  shows "apple_icloud_ping A body w =
    (let d = drift (clock w div 1000000) (apq_timestamp body) in
     if 300 < sint d then (Err (BadRequest (''timestamp drift '' @ dec (sint d) @ ''s outside acceptable window'')), w)
     else case sql_first (\<lambda>r. ap_installation_id r = apq_installation_id body) (apple_subs w) of
       None \<Rightarrow> (Err NotFound, w)
     | Some r \<Rightarrow> (case b64std_decode A (apq_signature body) of
         None \<Rightarrow> (Err (BadRequest ''signature must be base64''), w)
       | Some _ \<Rightarrow> if \<not> signed_by A body r then (Err Unauthorised, w)
           else andthen (api (db_touch_apple_shortcut_sub (apq_installation_id body)))
             (andthen (metrics_inc ApplePingsTotal)
             (bind (record_on_vaults (ap_principal_id r) AppleIcloudShortcut (f32_lit 0)) (\<lambda>_. now))) w))"
proof -
  have i: "i64_sub A a b = ret (a - b)" "i64_abs A a = ret (if sint a < 0 then - a else a)" for a b
    using assms by (simp_all add: i64_sub_def i64_abs_def)
  show ?thesis
    by (simp add: apple_icloud_ping_def i drift_def Let_def run api_step db_fetch_apple_shortcut_sub_def ok_or_def
        reject_if_def constant_time_eq_iff signed_by_def split: option.split)
qed

text \<open>
  C24: Which pings are accepted. In a release build a ping succeeds exactly when its timestamp is
  within five minutes of the clock, or exactly \<open>2 ^ 63\<close> seconds before it (there the subtraction
  wraps to the least 64-bit integer, whose \<open>abs\<close> is itself and so not above 300), and its
  installation is enrolled, and its signature decodes to the HMAC of the message under the
  secret of that installation. Every other ping changes nothing.
\<close>

theorem ping_accepted_iff:
  assumes "consistent w" and "\<not> debug_assertions A" and "0 \<le> clock w" and "clock w div 1000000 < 2 ^ 62"
  shows "(fst (apple_icloud_ping A body w) = Ok (clock w) \<longleftrightarrow> acceptable A body w)
    \<and> (acceptable A body w \<or> (\<exists>e. apple_icloud_ping A body w = (Err e, w)))"
proof -
  have pos: "0 \<le> clock w div 1000000" using assms(3) by (simp add: pos_imp_zdiv_nonneg_iff)
  have small: "300 < sint (drift (clock w div 1000000) (apq_timestamp body)) \<longleftrightarrow>
      \<not> (let d = clock w div 1000000 - sint (apq_timestamp body) in \<bar>d\<bar> \<le> 300 \<or> d = 2 ^ 63)"
    unfolding Let_def not_le [symmetric] drift_small_iff [OF pos assms(4)] ..
  have Ok: "fst (andthen (api (db_touch_apple_shortcut_sub i)) (andthen (metrics_inc ApplePingsTotal)
      (bind (record_on_vaults pid AppleIcloudShortcut c) (\<lambda>_. now))) w) = Ok (clock w)" for i pid c
  proof -
    define w1 where "w1 = snd (metrics_inc ApplePingsTotal (snd (db_touch_apple_shortcut_sub i w)) :: (db_error, unit) outcome \<times> world)"
    have "vaults w1 = vaults w" "clock w1 = clock w" by (simp_all add: w1_def db_touch_apple_shortcut_sub_def run)
    then obtain n w' where "record_on_vaults pid AppleIcloudShortcut c w1 = (Ok n, w')" "clock w' = clock w"
      using record_on_vaults_Ok [of w1 pid AppleIcloudShortcut c] consistent_vaults_ok [OF assms(1)] by (auto simp: vaults_ok_def)
    then show ?thesis by (simp add: w1_def db_touch_apple_shortcut_sub_def run api_step)
  qed
  show ?thesis
    unfolding ping_steps [OF assms(2)] Let_def [of "drift _ _"] small acceptable_def
    using Ok by (auto simp: signed_by_def Let_def split: option.split)
qed

section \<open>Witness\<close>

definition phone :: apple_row where
  "phone = \<lparr>ap_principal_id = PrincipalId 0, ap_installation_id = ''i'', ap_secret_hmac_key = [1], ap_last_ping_at = None\<rparr>"

definition with_phone :: world where
  "with_phone = sample_world\<lparr>apple_subs := [phone]\<rparr>"

text \<open>A ping whose timestamp is \<open>2 ^ 63\<close> seconds in the past.\<close>

definition far_ping :: apple_ping_req where
  "far_ping = \<lparr>apq_installation_id = ''i'', apq_timestamp = word_of_int (- (2 ^ 63)),
     apq_signature = map (\<lambda>b. char_of (unat b)) (hmac_sha256 sample_app [1] (ping_message ''i'' (word_of_int (- (2 ^ 63)))))\<rparr>"

lemma byte_of_char: "of_char (char_of (unat b)) = (b :: byte)"
proof -
  have "of_char (char_of (unat b)) = (of_nat (of_char (char_of (unat b))) :: byte)" by (rule of_nat_of_char [symmetric])
  also have "... = b" using unsigned_less [where ?'a = nat, of b] by simp
  finally show ?thesis .
qed

theorem ping_accepted_iff_witness: "fst (apple_icloud_ping sample_app far_ping with_phone) = Ok 5"
proof -
  have c: "consistent with_phone"
    using sample_consistent
    by (simp add: with_phone_def consistent_def keys_ok_def refs_ok_def enums_ok_def sample_defs)
  have "signed_by sample_app far_ping phone"
    by (simp add: signed_by_def far_ping_def phone_def sample_app_def comp_def byte_of_char)
  then have a: "acceptable sample_app far_ping with_phone"
    by (simp add: acceptable_def with_phone_def phone_def far_ping_def sample_world_def Let_def)
  have "clock with_phone = 5" by (simp add: with_phone_def sample_world_def)
  then have t: "0 \<le> clock with_phone" "clock with_phone div 1000000 < 2 ^ 62" by simp_all
  have d: "\<not> debug_assertions sample_app" by (simp add: sample_app_def)
  from ping_accepted_iff [OF c d t, of far_ping] a \<open>clock with_phone = 5\<close> show ?thesis by metis
qed

end
