(* ===== verification/TransformProps.thy ===== *)
theory TransformProps
  imports Transform Samples
begin

text \<open>
  The text normalisation of the upload pipeline against a reference definition: one pass over
  the bytes that remembers whether the last byte was a carriage return.
\<close>

section \<open>The reference\<close>

fun normalise :: "bool \<Rightarrow> bytes \<Rightarrow> bytes" where
  "normalise after_cr [] = []"
| "normalise after_cr (x # xs) =
     (if x = 10 \<and> after_cr then normalise False xs
      else if x = 13 then 10 # normalise True xs
      else x # normalise False xs)"

lemma replaced_is_normalised: "replace_cr (replace_crlf xs) = normalise False xs"
proof (induction xs rule: replace_crlf.induct)
  case (3 x y xs)
  show ?case
  proof (cases "x = 13")
    case True
    have "normalise True (y # xs) = normalise False (y # xs)" if "y \<noteq> 10"
      using that by simp
    moreover have "normalise False (13 # zs) = 10 # normalise True zs"
      "normalise True (10 # zs) = normalise False zs" for zs by simp_all
    ultimately show ?thesis using True 3
      by (cases "y = 10") (simp_all add: replace_cr_def del: normalise.simps(2))
  next
    case False
    with 3 show ?thesis by (auto simp: replace_cr_def)
  qed
qed (simp_all add: replace_cr_def)

lemma no_cr: "13 \<notin> set (normalise b xs)"
  by (induction xs arbitrary: b) auto

lemma normalise_id: "13 \<notin> set xs \<Longrightarrow> normalise False xs = xs"
  by (induction xs) auto

text \<open>
  C23: Text normalisation. The two replacements of the code (first the pairs, then the single
  carriage returns) give what one pass over the bytes gives that turns each of CR LF, CR and LF
  into one LF. The result has no carriage return, is valid UTF-8 again, and normalising it once
  more changes nothing, unless the input began with two byte order marks.
\<close>

theorem text_is_normalised:
  assumes "transform_text A input mime = Inr t"
  shows "tr_bytes t = normalise False (strip_bom input) \<and> 13 \<notin> set (tr_bytes t)
    \<and> utf8_valid (tr_bytes t)
    \<and> (starts_with bom (tr_bytes t) \<or> transform_text A (tr_bytes t) mime = Inr t)"
proof -
  from assms have v: "utf8_valid input"
    and t: "t = new_transformed A (normalise False (strip_bom input)) mime
      [''Stripped UTF-8 BOM if present'', ''Normalised line endings to LF'']"
    by (auto simp: transform_text_def replaced_is_normalised split: if_splits)
  let ?n = "normalise False (strip_bom input)"
  have u: "utf8_valid ?n" unfolding replaced_is_normalised [symmetric]
    by (rule utf8_cr [OF utf8_crlf [OF utf8_strip_bom [OF v]]])
  have n: "normalise False ?n = ?n" by (rule normalise_id [OF no_cr])
  have b: "tr_bytes t = ?n" by (simp add: t new_transformed_def)
  have "transform_text A ?n mime = Inr t" if "\<not> starts_with bom ?n"
  proof -
    have "strip_bom ?n = ?n" using that by (simp only: strip_bom_def if_False)
    then show ?thesis unfolding transform_text_def replaced_is_normalised by (simp only: n u t) simp
  qed
  with u no_cr b show ?thesis by auto
qed

theorem text_is_normalised_witness:
  "\<exists>t. transform_text sample_app [0xEF, 0xBB, 0xBF, 97, 13, 10, 13, 98] ''text/plain'' = Inr t
    \<and> tr_bytes t = [97, 10, 10, 98]"
proof -
  let ?i = "[0xEF, 0xBB, 0xBF, 97, 13, 10, 13, 98] :: bytes"
  have "utf8_valid ?i" by code_simp
  then obtain t where t: "transform_text sample_app ?i ''text/plain'' = Inr t"
    by (auto simp: transform_text_def)
  have "normalise False (strip_bom ?i) = [97, 10, 10, 98]" by code_simp
  with text_is_normalised [OF t] t show ?thesis by auto
qed

end
