(* ===== verification/TenantProps.thy ===== *)
theory TenantProps
  imports SystemRoutes Samples
begin

text \<open>
  Separation of the principals: a request about a vault or a letter touches only rows of the
  vaults of the principal whose session it carries, and answers for a vault of someone else as
  for one that does not exist.
\<close>

named_theorems aside_intros "programs that touch neither vaults nor letters"
named_theorems tenant_intros "programs that touch the caller's vaults and letters only"

section \<open>The rows of the others\<close>

definition others :: "principal_id option \<Rightarrow> world \<Rightarrow> vault_row list \<times> letter_row list" where
  "others p w =
     (filter (\<lambda>r. Some (va_principal_id r) \<noteq> p) (vaults w),
      filter (\<lambda>l. \<exists>r \<in> set (vaults w). va_id r = le_vault_id l \<and> Some (va_principal_id r) \<noteq> p) (letters w))"

text \<open>They are \<open>c\<close>, vault \<open>v\<close> (if any) is the caller's, and letter \<open>l\<close> (if any) is in it.\<close>

definition tenant ::
  "vault_row list \<times> letter_row list \<Rightarrow> principal_id option \<Rightarrow> vault_id option \<Rightarrow> letter_id option \<Rightarrow> world \<Rightarrow> bool" where
  "tenant c p v l w \<longleftrightarrow> others p w = c
     \<and> (\<forall>r \<in> set (vaults w). Some (va_id r) = v \<longrightarrow> Some (va_principal_id r) = p)
     \<and> (\<forall>x \<in> set (letters w). Some (le_id x) = l \<longrightarrow> Some (le_vault_id x) = v)"

definition view :: "vault_row list \<Rightarrow> letter_row list \<Rightarrow> world \<Rightarrow> bool" where
  "view a b w \<longleftrightarrow> vaults w = a \<and> letters w = b"

lemma aside: "(\<And>a b. keeps (view a b) m) \<Longrightarrow> keeps (tenant c p v l) m"
  unfolding keeps_def view_def tenant_def others_def by metis

section \<open>Programs that touch neither\<close>

lemma aside_effects [aside_intros]:
  "keeps (view a b) (draw_bytes A n)" "keeps (view a b) (random_token A)" "keeps (view a b) (notify x)"
  "keeps (view a b) (metrics_add k i)" "keeps (view a b) (metrics_inc k)"
  "keeps (view a b) gen_random_uuid" "keeps (view a b) (spawn_release_elapse v e cool d)"
  by (simp_all add: keeps_def view_def spawn_release_elapse_def)

lemma aside_events [aside_intros]:
  "keeps (view a b) (insert_release_event v1 reason1 d1 ends1)"
  "keeps (view a b) (db_create_release_event_with_deadline v2 reason2 d2 t2)"
  "keeps (view a b) (db_mark_release_cancelled e)" "keeps (view a b) (db_append_transparency_entry k i v)"
  "keeps (view a b) (db_consume_release_claim h1)" "keeps (view a b) (db_consume_attachment_claim h2)"
  unfolding insert_release_event_def db_create_release_event_with_deadline_def
    db_mark_release_cancelled_def db_append_transparency_entry_def db_consume_release_claim_def
    db_consume_attachment_claim_def Let_def
  by (intro keeps_intros keeps_insert keeps_update aside_intros; simp add: view_def)+

lemma aside_attachments [aside_intros]:
  "keeps (view a b) (db_create_attachment i)" "keeps (view a b) (db_purge_attachment x)"
  "keeps (view a b) (db_update_attachment_storage_key y k)"
  "keeps (view a b) (db_upsert_signal_subscription v src wt en)"
  unfolding db_create_attachment_def db_purge_attachment_def db_update_attachment_storage_key_def
    db_upsert_signal_subscription_def row_to_signal_subscription_def Let_def
  by (intro keeps_intros keeps_insert keeps_update keeps_modify aside_intros; simp add: view_def)+

lemma aside_keys [aside_intros]:
  "keeps (view a b) (db_create_vault_contact A v1 n1 e1 b1 r1)"
  "keeps (view a b) (db_update_vault_contact A c2 v2 n2 e2 b2 r2)"
  "keeps (view a b) (db_delete_vault_contact c3 v3)"
  "keeps (view a b) (db_upsert_zk_envelope v4 p4 c4 n4)"
  "keeps (view a b) (db_upsert_zk_recovery_envelope v5 i5 s5 c5 n5)"
  "keeps (view a b) (db_upsert_vault_prk_envelope v6 i6 c6 n6)"
  "keeps (view a b) (db_upsert_zk_letter_heir_envelope l7 c7 n7 m7 s7 r7)"
  unfolding db_create_vault_contact_def db_update_vault_contact_def db_delete_vault_contact_def
    db_upsert_zk_envelope_def db_upsert_zk_recovery_envelope_def db_upsert_vault_prk_envelope_def
    db_upsert_zk_letter_heir_envelope_def Let_def
  by (intro keeps_intros keeps_insert keeps_update keeps_modify aside_intros; simp add: view_def upd_aux_def)+

lemma aside_blobs [aside_intros]:
  "keeps (view a b) (blob_put A g bs)" "keeps (view a b) (blob_get A k)" "keeps (view a b) (blob_delete A k)"
  unfolding blob_put_def blob_get_def blob_delete_def local_put_def local_get_def local_delete_def
    s3_put_def s3_get_def s3_delete_def router_put_def router_get_def router_delete_def put_id_def
    get_id_def delete_id_def store_for_def
  by (intro keeps_intros inv_intros keeps_modify aside_intros; simp add: view_def)+

lemma aside_crypto [aside_intros]:
  "keeps (view a b) (seal A p)" "keeps (view a b) (unseal A s)" "keeps (view a b) (seal_with_passphrase A p x)"
  unfolding seal_def unseal_def seal_with_passphrase_def data_key_def random_salt_def Let_def
  by (intro keeps_intros inv_intros keeps_modify aside_intros; simp add: view_def)+

lemma aside_form [aside_intros]: "keeps (view a b) (read_form A xs form)"
proof (induction xs arbitrary: form)
  case (Cons x xs)
  have "keeps (view a b) (or_bad msg x)" "keeps (view a b) (read_field A fld form)" for msg fld
    unfolding or_bad_def read_field_def by (intro keeps_intros)+
  then show ?case unfolding read_form.simps by (intro keeps_bind Cons.IH)
qed simp

lemmas tenant_aside [tenant_intros] = aside_form [THEN aside] aside_effects [THEN aside] aside_events [THEN aside]
  aside_attachments [THEN aside] aside_keys [THEN aside] aside_blobs [THEN aside] aside_crypto [THEN aside]

section \<open>Programs that touch the caller's rows\<close>

lemma filter_sql_update:
  "(\<And>r. r \<in> set t \<Longrightarrow> P r \<Longrightarrow> \<not> Q r \<and> \<not> Q (f r)) \<Longrightarrow> filter Q (sql_update P f t) = filter Q t"
  by (induction t) auto

lemma tenant_vaults:
  assumes "tenant c p (Some v) l w" and "\<And>r. P r \<Longrightarrow> va_id r = v"
    and f: "\<And>r. va_id (f r) = va_id r \<and> va_principal_id (f r) = va_principal_id r"
  shows "tenant c p (Some v) l (w\<lparr>vaults := sql_update P f (vaults w)\<rparr>)"
proof -
  let ?g = "\<lambda>r. (va_id r, va_principal_id r)"
  have m: "?g ` set (sql_update P f (vaults w)) = ?g ` set (vaults w)"
    by (rule image_sql_update) (simp add: f)
  have e: "(\<exists>r \<in> set (sql_update P f (vaults w)). R (va_id r) (va_principal_id r))
      = (\<exists>r \<in> set (vaults w). R (va_id r) (va_principal_id r))" for R
  proof -
    have "(\<exists>x \<in> ?g ` set (sql_update P f (vaults w)). R (fst x) (snd x)) = (\<exists>x \<in> ?g ` set (vaults w). R (fst x) (snd x))"
      by (simp only: m)
    then show ?thesis by (simp only: bex_simps fst_conv snd_conv)
  qed
  have w: "vaults (w\<lparr>vaults := sql_update P f (vaults w)\<rparr>) = sql_update P f (vaults w)"
      "letters (w\<lparr>vaults := sql_update P f (vaults w)\<rparr>) = letters w"
    by simp_all
  have "filter (\<lambda>r. Some (va_principal_id r) \<noteq> p) (sql_update P f (vaults w))
      = filter (\<lambda>r. Some (va_principal_id r) \<noteq> p) (vaults w)"
    using assms by (intro filter_sql_update) (auto simp: tenant_def)
  then have "others p (w\<lparr>vaults := sql_update P f (vaults w)\<rparr>) = others p w"
    unfolding others_def w(1) w(2) by (simp only: e [of "\<lambda>i j. i = _ \<and> Some j \<noteq> p"])
  moreover have "\<not> (\<exists>r \<in> set (sql_update P f (vaults w)). va_id r = v \<and> Some (va_principal_id r) \<noteq> p)"
    unfolding e [of "\<lambda>i j. i = v \<and> Some j \<noteq> p"] using assms(1) by (auto simp: tenant_def)
  ultimately show ?thesis using assms(1) by (auto simp: tenant_def simp del: set_sql_update)
qed

lemma tenant_new_vault:
  "tenant c p v l w \<Longrightarrow> Some (va_principal_id r) = p \<Longrightarrow> tenant c p v l (w\<lparr>vaults := vaults w @ [r]\<rparr>)"
  by (auto simp: tenant_def others_def)

lemma tenant_new_letter:
  "tenant c p (Some v) None w \<Longrightarrow> le_vault_id r = v \<Longrightarrow> tenant c p (Some v) None (w\<lparr>letters := letters w @ [r]\<rparr>)"
  by (auto simp: tenant_def others_def)

lemma tenant_letters:
  assumes t: "tenant c p (Some v) (Some l) w" and P: "\<And>r. P r \<Longrightarrow> le_id r = l"
    and f: "\<And>r. le_id (f r) = le_id r \<and> le_vault_id (f r) = le_vault_id r"
  shows "tenant c p (Some v) (Some l) (w\<lparr>letters := sql_update P f (letters w)\<rparr>)"
proof -
  have "others p (w\<lparr>letters := sql_update P f (letters w)\<rparr>) = others p w"
    unfolding others_def using assms
    by (auto simp: tenant_def intro!: filter_sql_update)
  with assms show ?thesis by (auto simp: tenant_def)
qed

lemma tenant_delete_letters:
  assumes "tenant c p (Some v) (Some l) w"
  shows "tenant c p (Some v) (Some l) (w\<lparr>letters := sql_delete (\<lambda>r. le_id r = l) (letters w)\<rparr>)"
proof -
  have "others p (w\<lparr>letters := sql_delete (\<lambda>r. le_id r = l) (letters w)\<rparr>) = others p w"
    using assms by (auto simp: others_def tenant_def sql_delete_def intro!: filter_cong)
  with assms show ?thesis by (auto simp: tenant_def)
qed

lemma tenant_skip [simp]:
  "tenant c p v l (next_uuid_update x1 w) = tenant c p v l w"
  "tenant c p v l (release_claims_update x2 w) = tenant c p v l w"
  "tenant c p v l (attachment_claims_update x3 w) = tenant c p v l w"
  "tenant c p v l (attachments_update x4 w) = tenant c p v l w"
  "tenant c p v l (recipient_changes_update x5 w) = tenant c p v l w"
  "tenant c p v l (aux_update x6 w) = tenant c p v l w"
  by (simp_all add: tenant_def others_def)

lemma keeps_tenant_vaults [tenant_intros]:
  "keeps (tenant c p (Some v) l) (db_update_vault v n s)"
  "keeps (tenant c p (Some v) l) (db_set_vault_storage_region v g)"
  "keeps (tenant c p (Some v) l) (db_set_vault_state v st t1 t2)"
  "keeps (tenant c p (Some v) l) (db_claim_vault_cooling_off v st')"
  unfolding db_update_vault_def db_set_vault_storage_region_def db_set_vault_state_def db_claim_vault_cooling_off_def
  by (intro keeps_intros inv_intros keeps_update tenant_vaults; simp)+

lemma keeps_tenant_create [tenant_intros]:
  "keeps (tenant c (Some i) v l) (db_create_vault i n t cool g)"
  unfolding db_create_vault_def Let_def
  by (intro keeps_intros keeps_insert keeps_vault_reads aside_effects [THEN aside])
    (simp add: tenant_new_vault)

lemma keeps_tenant_seal [tenant_intros]:
  "li_vault_id inp = v \<Longrightarrow> keeps (tenant c p (Some v) None) (db_seal_letter inp)"
  unfolding db_seal_letter_def Let_def
  by (intro keeps_intros keeps_insert aside_effects [THEN aside]) (simp add: tenant_new_letter)

lemma keeps_tenant_letters [tenant_intros]:
  "keeps (tenant c p (Some v) (Some l)) (db_update_letter_meta l n rc t m k)"
  unfolding db_update_letter_meta_def
  by (intro keeps_intros keeps_update tenant_letters) simp_all

lemma keeps_tenant_delete [tenant_intros]:
  "keeps (tenant c p (Some v) (Some l)) (db_delete_letter l)"
proof (rule keepsI)
  fix w assume "tenant c p (Some v) (Some l) w"
  from tenant_delete_letters [OF this] show "tenant c p (Some v) (Some l) (snd (db_delete_letter l w))"
    by (simp add: db_delete_letter_def tenant_def others_def)
qed

section \<open>The gates\<close>

lemma tenant_start: "tenant (others p w) p None None w"
  by (simp add: tenant_def)

lemma owned_vault_Ok:
  assumes "consistent w" and "owned_vault A h v w = (Ok (i, vault), w')"
  shows "w' = w \<and> session_principal A h w = Some i \<and> v_id vault = v
    \<and> tenant (others (Some i) w) (Some i) (Some v) None w"
proof -
  from assms(2) obtain r where s: "session_principal A h w = Some i"
    and f: "sql_first (\<lambda>r. va_id r = v) (vaults w) = Some r"
    and t: "row_to_vault vault_columns r w = (Ok vault, w')" and o: "v_principal_id vault = i"
    by (auto simp: owned_vault_def run api_step current_principal_eq db_fetch_vault_def ok_or_def
        split: option.splits outcome.splits prod.splits if_splits)
  from t have "w' = w" "v_id vault = va_id r" "v_principal_id vault = va_principal_id r"
    by (auto simp: row_to_vault_def vault_columns_def bind_eq_Ok try_domain_def map_err_def of_sum_def
        split: sum.splits prod.splits outcome.splits)
  moreover from sql_first_Some [OF f] have "r \<in> set (vaults w)" "va_id r = v" by auto
  moreover have "keyed va_id (vaults w)" using assms(1) by (simp add: consistent_def keys_ok_def fresh_keyed_def)
  ultimately show ?thesis
    using s o by (auto simp: tenant_def dest: keyed_unique)
qed

lemma owned_vault_read: "snd (owned_vault A h v w) = w"
proof -
  have "keeps (\<lambda>s. s = w) (owned_vault A h v)"
    unfolding owned_vault_def by (intro keeps_intros keeps_sessions keeps_vault_reads)
  then show ?thesis by (auto dest: keepsD)
qed

lemma vault_gate:
  assumes "consistent w"
    and "\<And>i vault. v_id vault = v \<Longrightarrow> keeps (tenant (others (Some i) w) (Some i) (Some v) None) (f (i, vault))"
  shows "others (session_principal A h w) (snd (bind (owned_vault A h v) f w)) = others (session_principal A h w) w"
proof (cases "owned_vault A h v w")
  case (Pair r w')
  have w': "w' = w" using owned_vault_read [of A h v w] Pair by simp
  show ?thesis
  proof (cases r)
    case (Ok x)
    obtain i vault where x: "x = (i, vault)" by fastforce
    with Ok Pair w' have "owned_vault A h v w = (Ok (i, vault), w)" by simp
    with owned_vault_Ok [OF assms(1)] have "session_principal A h w = Some i" "v_id vault = v"
      "tenant (others (Some i) w) (Some i) (Some v) None w" by blast+
    moreover from this keepsD [OF assms(2)]
    have "tenant (others (Some i) w) (Some i) (Some v) None (snd (f (i, vault) w))" by blast
    ultimately show ?thesis using Pair Ok x w' by (simp add: bind_def tenant_def)
  qed (use Pair w' in \<open>simp_all add: bind_def\<close>)
qed

lemma letter_gate:
  assumes "consistent w"
    and "\<And>i meta. keeps (tenant (others (Some i) w) (Some i) (Some v) (Some l)) (f meta)"
  shows "others (session_principal A h w) (snd (bind (owned_letter A h v l) f w)) = others (session_principal A h w) w"
proof (cases "owned_letter A h v l w")
  case (Pair r w')
  have "keeps (\<lambda>s. s = w) (owned_letter A h v l)"
    unfolding owned_letter_def owned_vault_def
    by (intro keeps_intros keeps_sessions keeps_vault_reads)
  from keepsD' [OF this Pair] have w': "w' = w" by simp
  show ?thesis
  proof (cases r)
    case (Ok meta)
    let ?g = "\<lambda>existing. if lm_vault_id existing \<noteq> v then throw NotFound else ret existing"
    from Ok Pair w' have "bind (owned_vault A h v) (\<lambda>_. bind (api (db_fetch_letter_meta l)) ?g) w = (Ok meta, w)"
      by (simp add: owned_letter_def)
    then obtain x u where ov: "owned_vault A h v w = (Ok x, u)" and
        lm: "bind (api (db_fetch_letter_meta l)) ?g u = (Ok meta, w)"
      unfolding bind_eq_Ok [of "owned_vault A h v"] by blast
    obtain i vault where "x = (i, vault)" by fastforce
    with ov owned_vault_read [of A h v w] have o: "owned_vault A h v w = (Ok (i, vault), w)" and u: "u = w" by simp_all
    from lm u obtain y u2 where y: "api (db_fetch_letter_meta l) w = (Ok y, u2)" "?g y u2 = (Ok meta, w)"
      unfolding bind_eq_Ok by blast
    then have m: "db_fetch_letter_meta l w = (Ok meta, w)" "lm_vault_id meta = v"
      by (auto simp: api_def map_err_Ok_iff split: if_splits)
    from owned_vault_Ok [OF assms(1) o] have t: "session_principal A h w = Some i"
      "tenant (others (Some i) w) (Some i) (Some v) None w" by blast+
    from m obtain y where y: "sql_first (\<lambda>r. le_id r = l) (letters w) = Some y" "le_vault_id y = v"
      by (auto simp: db_fetch_letter_meta_def bind_eq_Ok ok_or_def row_to_letter_meta_def split: option.splits)
    have "keyed le_id (letters w)" using assms(1) by (simp add: consistent_def keys_ok_def fresh_keyed_def)
    with t sql_first_Some [OF y(1)] y(2) have "tenant (others (Some i) w) (Some i) (Some v) (Some l) w"
      by (auto simp: tenant_def dest: keyed_unique)
    from keepsD [OF assms(2) this] have "tenant (others (Some i) w) (Some i) (Some v) (Some l) (snd (f meta w))" .
    then show ?thesis using Pair Ok w' t by (simp add: bind_def tenant_def)
  qed (use Pair w' in \<open>simp_all add: bind_def\<close>)
qed

section \<open>The handlers\<close>

lemmas tenant_reads = keeps_auth_reads keeps_vault_reads keeps_release_reads keeps_people_reads
  keeps_signals_reads keeps_keys_reads keeps_sessions

lemmas tenant_helpers = check_authoring_def check_sealable_def check_letter_quota_def check_schedule_def
  validate_letter_kind_def validate_release_mode_def resolve_storage_region_def check_zk_schedule_def
  check_zk_quota_def store_heir_envelope_def parse_or_bad_request_def b64url_decode_or_bad_def
  begin_release_def begin_release_with_cool_def move_attachment_def seal_file_def
  check_storage_quota_def purge_and_delete_def

text \<open>\<open>create_vault\<close> once the caller is known.\<close>

definition create_vault_for :: "app \<Rightarrow> create_vault_req \<Rightarrow> principal_id \<Rightarrow> vault_view api_prog" where
  "create_vault_for A body pid =
    (let tr = requested_tier (cvq_tier body) in
     bind (api (db_fetch_subscription pid)) (\<lambda>sub.
     andthen (check_authoring sub)
     (let plan = plan_features (sub_plan_id sub) in
      bind (api (db_vault_count pid)) (\<lambda>n.
      let current_vaults = as_u32 n in
      andthen (reject_if (pf_max_vaults plan \<le> current_vaults)
        (Forbidden (''Vault limit reached ('' @ dec (uint current_vaults) @ '' of '' @
           dec (uint (pf_max_vaults plan)) @
           '' allowed). Adjust MAX_VAULTS in your deployment configuration to increase it.'')))
      (bind (resolve_storage_region (cvq_storage_region body) plan) (\<lambda>region.
       let cool = unwrap_or (default_cooling_off_seconds A) (cvq_cooling_off_seconds body) in
       bind (api (db_create_vault pid (cvq_name body) tr cool region)) (\<lambda>vault.
       andthen (for_each (\<lambda>source.
           ignore (db_upsert_signal_subscription (v_id vault) source (default_weight source) True))
           [Heartbeat, BuddyAttestation, AppleIcloudShortcut])
       (andthen (ignore (db_append_transparency_entry ''VAULT_CREATED'' (Some pid) (Some (v_id vault))))
       (andthen (metrics_inc VaultsCreatedTotal)
         (ret (vault_view vault)))))))))))"

lemma aside_all: "(\<And>c. keeps (tenant c p None None) m) \<Longrightarrow> others p (snd (m w)) = others p w"
  using keepsD [of "tenant (others p w) p None None" m w] by (simp add: tenant_def)

lemma tenant_vault_request:
  assumes "consistent w"
  shows "others (session_principal A h w) (snd (serve_vault A W h q w)) = others (session_principal A h w) w"
proof (cases q)
  case (GetVault a)
  then show ?thesis
    by (simp add: get_vault_def) (rule vault_gate [OF assms], simp, (unfold tenant_helpers)?, (intro keeps_intros tenant_intros tenant_reads)?, (simp_all add: tenant_intros)?)
next
  case (PatchVault a b)
  then show ?thesis
    by (simp add: update_vault_def) (rule vault_gate [OF assms], simp, (unfold tenant_helpers)?, (intro keeps_intros tenant_intros tenant_reads)?, (simp_all add: tenant_intros)?)
next
  case (PostVaultRegion a b)
  then show ?thesis
    by (simp add: move_vault_region_def) (rule vault_gate [OF assms], simp, (unfold tenant_helpers)?, (intro keeps_intros tenant_intros tenant_reads)?, (simp_all add: tenant_intros)?)
next
  case (GetZkEnvelopes a)
  then show ?thesis
    by (simp add: get_zk_envelopes_def) (rule vault_gate [OF assms], simp, (unfold tenant_helpers)?, (intro keeps_intros tenant_intros tenant_reads)?, (simp_all add: tenant_intros)?)
next
  case (PostZkEnvelope a b)
  then show ?thesis
    by (simp add: store_zk_envelope_def) (rule vault_gate [OF assms], simp, (unfold tenant_helpers)?, (intro keeps_intros tenant_intros tenant_reads)?, (simp_all add: tenant_intros)?)
next
  case (GetPrkEnvelope a)
  then show ?thesis
    by (simp add: get_vault_prk_envelope_def) (rule vault_gate [OF assms], simp, (unfold tenant_helpers)?, (intro keeps_intros tenant_intros tenant_reads)?, (simp_all add: tenant_intros)?)
next
  case (PostPrkEnvelope a b c)
  then show ?thesis
    by (simp add: store_vault_prk_envelope_def) (rule vault_gate [OF assms], simp, (unfold tenant_helpers)?, (intro keeps_intros tenant_intros tenant_reads)?, (simp_all add: tenant_intros)?)
next
  case (PostForceRelease a)
  then show ?thesis
    by (simp add: force_release_def) (rule vault_gate [OF assms], simp, (unfold tenant_helpers)?, (intro keeps_intros tenant_intros tenant_reads)?, (simp_all add: tenant_intros)?)
next
  case (PostCancel a)
  then show ?thesis
    by (simp add: cancel_release_def) (rule vault_gate [OF assms], simp, (unfold tenant_helpers)?, (intro keeps_intros tenant_intros tenant_reads)?, (simp_all add: tenant_intros)?)
next
  case (PostDrills a)
  then show ?thesis
    by (simp add: run_drill_def) (rule vault_gate [OF assms], simp, (unfold tenant_helpers)?, (intro keeps_intros tenant_intros tenant_reads)?, (simp_all add: tenant_intros)?)
next
  case (GetSignalSubscriptions a)
  then show ?thesis
    by (simp add: list_signal_subscriptions_def) (rule vault_gate [OF assms], simp, (unfold tenant_helpers)?, (intro keeps_intros tenant_intros tenant_reads)?, (simp_all add: tenant_intros)?)
next
  case (PostSignalSubscription a b)
  then show ?thesis
    by (simp add: upsert_signal_subscription_def) (rule vault_gate [OF assms], simp, (unfold tenant_helpers)?, (intro keeps_intros tenant_intros tenant_reads)?, (simp_all add: tenant_intros)?)
next
  case (GetContacts a)
  then show ?thesis
    by (simp add: list_vault_contacts_def) (rule vault_gate [OF assms], simp, (unfold tenant_helpers)?, (intro keeps_intros tenant_intros tenant_reads)?, (simp_all add: tenant_intros)?)
next
  case (PostContact a b)
  then show ?thesis
    by (simp add: create_vault_contact_def) (rule vault_gate [OF assms], simp, (unfold tenant_helpers)?, (intro keeps_intros tenant_intros tenant_reads)?, (simp_all add: tenant_intros)?)
next
  case (PutContact a b c)
  then show ?thesis
    by (simp add: update_vault_contact_def) (rule vault_gate [OF assms], simp, (unfold tenant_helpers)?, (intro keeps_intros tenant_intros tenant_reads)?, (simp_all add: tenant_intros)?)
next
  case (DeleteContact a b)
  then show ?thesis
    by (simp add: delete_vault_contact_def) (rule vault_gate [OF assms], simp, (unfold tenant_helpers)?, (intro keeps_intros tenant_intros tenant_reads)?, (simp_all add: tenant_intros)?)
next
  case GetVaults
  have "keeps (tenant c p None None) (list_vaults A h)" for c p
    unfolding list_vaults_def by (intro keeps_intros tenant_reads)
  with GetVaults show ?thesis by (simp add: aside_all)
next
  case (PostVaults a)
  show ?thesis
  proof (cases "session_principal A h w")
    case None
    with PostVaults show ?thesis by (simp add: create_vault_def run current_principal_eq)
  next
    case (Some i)
    obtain f where f: "create_vault A h a = bind (current_principal A h) f"
      and k: "\<And>c. keeps (tenant c (Some i) None None) (f i)"
    proof
      show "create_vault A h a = bind (current_principal A h) (\<lambda>pid. create_vault_for A a pid)"
        by (simp add: create_vault_def create_vault_for_def)
      show "keeps (tenant c (Some i) None None) (create_vault_for A a i)" for c
        unfolding create_vault_for_def tenant_helpers
        by (intro keeps_intros tenant_intros tenant_reads)
    qed
    have "snd (create_vault A h a w) = snd (f i w)"
      using Some by (simp add: f bind_def current_principal_eq)
    with Some PostVaults aside_all [OF k] show ?thesis by simp
  qed
qed

lemma tenant_letter_request:
  assumes "consistent w"
  shows "others (session_principal A h w) (snd (serve_letter A W h q w)) = others (session_principal A h w) w"
proof (cases q)
  case (GetLetters a)
  then show ?thesis
    by (simp add: list_letters_def) (rule vault_gate [OF assms], simp, (unfold tenant_helpers)?, (intro keeps_intros tenant_intros tenant_reads)?, (simp_all add: tenant_intros)?)
next
  case (PostLetter a b)
  then show ?thesis
    by (simp add: seal_letter_def) (rule vault_gate [OF assms], simp, (unfold tenant_helpers)?, (intro keeps_intros tenant_intros tenant_reads)?, (simp_all add: tenant_intros)?)
next
  case (PostLetterMultipart a b)
  then show ?thesis
    by (simp add: seal_letter_multipart_def) (rule vault_gate [OF assms], simp, (unfold tenant_helpers)?, (intro keeps_intros tenant_intros tenant_reads)?, (simp_all add: tenant_intros)?)
next
  case (GetLetter a b)
  then show ?thesis
    by (simp add: get_letter_def) (rule letter_gate [OF assms], simp, (unfold tenant_helpers)?, (intro keeps_intros tenant_intros tenant_reads)?, (simp_all add: tenant_intros)?)
next
  case (PatchLetter a b c)
  then show ?thesis
    by (simp add: update_letter_def) (rule letter_gate [OF assms], simp, (unfold tenant_helpers)?, (intro keeps_intros tenant_intros tenant_reads)?, (simp_all add: tenant_intros)?)
next
  case (DeleteLetter a b)
  then show ?thesis
    by (simp add: delete_letter_handler_def) (rule letter_gate [OF assms], simp, (unfold tenant_helpers)?, (intro keeps_intros tenant_intros tenant_reads)?, (simp_all add: tenant_intros)?)
next
  case (PostZkLetter a b)
  then show ?thesis
    by (simp add: seal_zk_letter_def) (rule vault_gate [OF assms], simp, (unfold tenant_helpers)?, (intro keeps_intros tenant_intros tenant_reads)?, (simp_all add: tenant_intros)?)
next
  case (GetZkCiphertext a b)
  then show ?thesis
    by (simp add: get_zk_letter_ciphertext_def) (rule vault_gate [OF assms], simp, (unfold tenant_helpers)?, (intro keeps_intros tenant_intros tenant_reads)?, (simp_all add: tenant_intros)?)
next
  case (PostLetterExport v l x)
  have "keeps (tenant c p None None) (export_letter A h v l x)" for c p
    unfolding export_letter_def by (intro keeps_intros tenant_intros tenant_reads)
  with PostLetterExport show ?thesis by (simp add: aside_all)
next
  case (GetClaim t)
  have "keeps (tenant c p None None) (claim_release A t)" for c p
    unfolding claim_release_def by (intro keeps_intros tenant_intros tenant_reads)
  with GetClaim show ?thesis by (simp add: aside_all)
next
  case (GetClaimAttachment t)
  have "keeps (tenant c p None None) (claim_attachment A t)" for c p
    unfolding claim_attachment_def by (intro keeps_intros tenant_intros tenant_reads)
  with GetClaimAttachment show ?thesis by (simp add: aside_all)
qed

section \<open>The properties\<close>

text \<open>
  C15: A request about vaults or letters never touches what belongs to someone else. Whoever sends
  it, with whatever token, identifiers and body: every vault row of another principal than the
  one whose session it carries, and every letter row in such a vault, is exactly what it was.
\<close>

theorem tenant_isolation:
  assumes "consistent w" and "r \<in> range VaultRequest \<union> range LetterRequest"
  shows "others (session_principal A h w) (snd (serve A W h r w)) = others (session_principal A h w) w"
  using assms(2) tenant_vault_request [OF assms(1)] tenant_letter_request [OF assms(1)] by auto

text \<open>The vault a route names. Exporting is left out: it looks at the passphrase first.\<close>

fun vault_named :: "vault_request \<Rightarrow> vault_id option" where
  "vault_named (GetVault v) = Some v"
| "vault_named (PatchVault v _) = Some v"
| "vault_named (PostVaultRegion v _) = Some v"
| "vault_named (GetZkEnvelopes v) = Some v"
| "vault_named (PostZkEnvelope v _) = Some v"
| "vault_named (GetPrkEnvelope v) = Some v"
| "vault_named (PostPrkEnvelope v _ _) = Some v"
| "vault_named (PostForceRelease v) = Some v"
| "vault_named (PostCancel v) = Some v"
| "vault_named (PostDrills v) = Some v"
| "vault_named (GetSignalSubscriptions v) = Some v"
| "vault_named (PostSignalSubscription v _) = Some v"
| "vault_named (GetContacts v) = Some v"
| "vault_named (PostContact v _) = Some v"
| "vault_named (PutContact v _ _) = Some v"
| "vault_named (DeleteContact v _) = Some v"
| "vault_named _ = None"

fun letter_vault_named :: "letter_request \<Rightarrow> vault_id option" where
  "letter_vault_named (GetLetters v) = Some v"
| "letter_vault_named (PostLetter v _) = Some v"
| "letter_vault_named (PostLetterMultipart v _) = Some v"
| "letter_vault_named (GetLetter v _) = Some v"
| "letter_vault_named (PatchLetter v _ _) = Some v"
| "letter_vault_named (DeleteLetter v _) = Some v"
| "letter_vault_named (PostZkLetter v _) = Some v"
| "letter_vault_named (GetZkCiphertext v _) = Some v"
| "letter_vault_named _ = None"

fun names_vault :: "request \<Rightarrow> vault_id option" where
  "names_vault (VaultRequest q) = vault_named q"
| "names_vault (LetterRequest q) = letter_vault_named q"
| "names_vault _ = None"

lemma owned_vault_NotFound:
  assumes "consistent w" and "session_principal A h w = Some i"
    and "\<forall>r \<in> set (vaults w). va_id r = v \<longrightarrow> va_principal_id r \<noteq> i"
  shows "owned_vault A h v w = (Err NotFound, w)"
proof (cases "sql_first (\<lambda>r. va_id r = v) (vaults w)")
  case None
  with assms(2) show ?thesis by (simp add: owned_vault_def run api_step current_principal_eq db_fetch_vault_def)
next
  case (Some r)
  with sql_first_Some [OF this] assms obtain t s g where "va_principal_id r \<noteq> i"
    "tier_from_db_str (va_tier r) = Inr t" "vault_state_from_db_str (va_state r) = Inr s"
    "region_from_aws_str (va_storage_region r) = Inr g"
    by (auto simp: consistent_def enums_ok_def vault_parses_def parses_def)
  with assms(2) Some show ?thesis
    by (simp add: owned_vault_def run api_step current_principal_eq db_fetch_vault_def row_to_vault_def
        vault_columns_def)
qed


section \<open>Witnesses\<close>

text \<open>A second principal with a vault and a session asks for the sample's vault and for their own.\<close>

definition two_tenants :: world where
  "two_tenants = sample_world\<lparr>
     principals := [sample_principal, sample_principal\<lparr>pr_id := PrincipalId 1, pr_primary_email := ''q''\<rparr>],
     vaults := [sample_vault ''COOLING_OFF'',
       (sample_vault ''ACTIVE'')\<lparr>va_id := VaultId 8, va_principal_id := PrincipalId 1\<rparr>],
     sessions := [\<lparr>se_token_hash = as_bytes ''t'', se_principal_id = PrincipalId 1, se_co_steward_id = None,
       se_auth_role = ''PRINCIPAL'', se_expires_at = 100, se_revoked_at = None\<rparr>]\<rparr>"

lemma two_tenants_ok:
  "consistent two_tenants" "session_principal sample_app (Some ''Bearer t'') two_tenants = Some (PrincipalId 1)"
  by (simp_all add: two_tenants_def consistent_def keys_ok_def refs_ok_def enums_ok_def sample_defs
      fresh_keyed_def keyed_def vault_parses_def parses_def tier_from_db_str_def
      vault_state_from_db_str_def region_from_aws_str_def letter_kind_check_def
      release_mode_from_db_str_def session_principal_def strip_prefix_def hash_token_def)

theorem tenant_isolation_witness:
  "\<exists>W. others (Some (PrincipalId 1)) (snd (serve sample_app W (Some ''Bearer t'') (VaultRequest
      (PatchVault (VaultId 8) \<lparr>uvq_name = ''x'', uvq_cooling_off_seconds = None\<rparr>)) two_tenants))
    = ([sample_vault ''COOLING_OFF''], [sample_letter 2 ''SIGNAL_ONLY''])"
proof -
  have "others (Some (PrincipalId 1)) two_tenants = ([sample_vault ''COOLING_OFF''], [sample_letter 2 ''SIGNAL_ONLY''])"
    by (simp add: others_def two_tenants_def sample_defs)
  with tenant_isolation [OF two_tenants_ok(1) UnI1 [OF rangeI], of sample_app "Some ''Bearer t''"]
  show ?thesis by (simp only: two_tenants_ok(2)) blast
qed


end
