(* ===== verification/DeliveryProps.thy ===== *)
theory DeliveryProps
  imports TenantProps SystemProps
begin

text \<open>
  From sealing to reading: what a principal seals is what the recipient of a claim reads,
  whatever the server does in between.
\<close>

section \<open>Outcomes of sequences\<close>

text \<open>From \<open>P\<close>, a result of the program satisfies \<open>Q\<close>.\<close>

definition yields :: "('s \<Rightarrow> bool) \<Rightarrow> ('s, 'e, 'a) prog \<Rightarrow> ('a \<Rightarrow> 's \<Rightarrow> bool) \<Rightarrow> bool" where
  "yields P m Q \<longleftrightarrow> (\<forall>s x t. P s \<longrightarrow> m s = (Ok x, t) \<longrightarrow> Q x t)"

lemma yieldsD: "yields P m Q \<Longrightarrow> P s \<Longrightarrow> m s = (Ok x, t) \<Longrightarrow> Q x t"
  by (simp add: yields_def)

lemma yields_bind: "yields P m R \<Longrightarrow> (\<And>x. yields (R x) (f x) Q) \<Longrightarrow> yields P (bind m f) Q"
  unfolding yields_def bind_eq_Ok by blast

lemma yields_after: "keeps P m \<Longrightarrow> (\<And>x. yields P (f x) Q) \<Longrightarrow> yields P (bind m f) Q"
  by (rule yields_bind [where R = "\<lambda>_. P"]) (auto simp: yields_def dest: keepsD')

lemma yields_then: "keeps P m \<Longrightarrow> yields P n Q \<Longrightarrow> yields P (andthen m n) Q"
  by (simp add: andthen_def yields_after)

lemma yields_ret: "(\<And>s. P s \<Longrightarrow> Q x s) \<Longrightarrow> yields P (ret x) Q"
  by (simp add: yields_def)

lemma yields_api: "yields P m Q \<Longrightarrow> yields P (api m) Q"
  by (simp add: yields_def api_def map_err_Ok_iff)

lemma yields_crypt: "yields P m Q \<Longrightarrow> yields P (crypt m) Q"
  by (simp add: yields_def crypt_def map_err_Ok_iff)

lemma keeps_True: "keeps (\<lambda>_. True) m"
  by (simp add: keeps_def)

lemma yields_any: "yields (\<lambda>_. True) m Q \<Longrightarrow> yields P m Q"
  by (simp add: yields_def)

section \<open>What sealing stores\<close>

text \<open>A sealed text, and a row that holds it, open to \<open>p\<close> under the key file.\<close>

definition opens :: "app \<Rightarrow> bytes \<Rightarrow> bytes \<Rightarrow> bytes \<Rightarrow> world \<Rightarrow> bool" where
  "opens A nonce ciphertext p w \<longleftrightarrow> (\<exists>k. kms_file w = Some k \<and> length k = 32 \<and> length nonce = 12
     \<and> aead_encrypt A k nonce p = Some ciphertext)"

definition holds :: "app \<Rightarrow> letter_id \<Rightarrow> vault_id \<Rightarrow> bytes \<Rightarrow> world \<Rightarrow> bool" where
  "holds A l v p w \<longleftrightarrow> (\<exists>r \<in> set (letters w). le_id r = l \<and> le_vault_id r = v
     \<and> opens A (le_nonce r) (le_ciphertext r) p w)"

lemma yields_seal: "yields P (seal A p) (\<lambda>s. opens A (sd_nonce s) (sd_ciphertext s) p)"
proof (unfold yields_def, intro allI impI)
  fix w s w' assume s: "seal A p w = (Ok s, w')"
  then have "length (sd_nonce s) = 12"
    by (auto simp: seal_def run ok_or_def split: outcome.splits prod.splits option.splits)
  with s show "opens A (sd_nonce s) (sd_ciphertext s) p w'" by (auto simp: opens_def elim!: sealE)
qed

lemma keeps_opens_seal: "keeps (opens A n c p) (seal A q)"
  by (rule keepsI) (auto simp: opens_def seal_def data_key_def run ok_or_def split: option.splits)

lemma yields_seal_letter:
  "li_nonce inp = n \<Longrightarrow> li_ciphertext inp = c \<Longrightarrow> li_vault_id inp = v \<Longrightarrow>
    yields (opens A n c p) (db_seal_letter inp) (\<lambda>meta. holds A (lm_id meta) v p)"
  by (auto simp: yields_def db_seal_letter_def run Let_def row_to_letter_meta_def holds_def opens_def
      split: if_splits)

lemma keeps_holds:
  "keeps (holds A l v p) (db_append_transparency_entry k i x)" "keeps (holds A l v p) (metrics_inc c)"
  by (rule keepsI; auto simp: holds_def opens_def db_append_transparency_entry_def run)+

lemma seal_letter_stores:
  assumes "consistent w" and "seal_letter A h v body w = (Ok lv, w1)"
  shows "holds A (lv_id lv) v (as_bytes (slq_body body)) w1"
proof -
  let ?p = "as_bytes (slq_body body)"
  have "yields (\<lambda>s. s = w) (owned_vault A h v) (\<lambda>x _. v_id (snd x) = v)"
    using owned_vault_Ok [OF assms(1)] by (auto simp: yields_def)
  then have "yields (\<lambda>s. s = w) (seal_letter A h v body) (\<lambda>lv. holds A (lv_id lv) v ?p)"
    unfolding seal_letter_def Let_def
  proof (rule yields_bind, goal_cases)
    case (1 x)
    obtain i vault where x: "x = (i, vault)" by fastforce
    have "v_id vault = v \<Longrightarrow> ?case"
      unfolding x prod.case
      by (rule yields_any, (rule yields_then [OF keeps_True])+, rule yields_after [OF keeps_True],
          (rule yields_then [OF keeps_True])+, rule yields_bind [OF yields_crypt [OF yields_seal]],
          rule yields_after, intro keeps_intros keeps_opens_seal,
          rule yields_bind [OF yields_api [OF yields_seal_letter]], simp, simp, simp,
          intro yields_then keeps_ignore keeps_holds yields_ret, simp add: letter_meta_view_def)
    then show ?case by (auto simp: yields_def x)
  qed
  from yieldsD [OF this refl assms(2)] show ?thesis .
qed

section \<open>What the recipient reads\<close>

text \<open>An unspent claim of letter \<open>l\<close> under the token, issued by a release that is no drill.\<close>

definition valid_claim :: "app \<Rightarrow> string \<Rightarrow> letter_id \<Rightarrow> world \<Rightarrow> bool" where
  "valid_claim A token l w \<longleftrightarrow> (\<exists>c \<in> set (release_claims w). \<exists>e \<in> set (release_events w).
     cl_token_hash c = hash_token A token \<and> cl_letter_id c = l \<and> cl_claimed_at c = None
     \<and> clock w < cl_expires_at c \<and> ev_id e = cl_release_event_id c \<and> \<not> ev_is_drill e)"

lemma consume_claim_Ok:
  assumes "consistent w" and "valid_claim A token l w"
  shows "\<exists>rcpt t. db_consume_release_claim (hash_token A token) w
    = (Ok (Some (l, rcpt, False)), w\<lparr>release_claims := t\<rparr>)"
proof -
  from assms(2) obtain c e where c: "c \<in> set (release_claims w)" "cl_token_hash c = hash_token A token"
      "cl_letter_id c = l" "cl_claimed_at c = None" "clock w < cl_expires_at c"
    and e: "e \<in> set (release_events w)" "ev_id e = cl_release_event_id c" "\<not> ev_is_drill e"
    unfolding valid_claim_def by blast
  have k: "keyed cl_token_hash (release_claims w)" "keyed ev_id (release_events w)"
    using assms(1) by (simp_all add: consistent_def keys_ok_def fresh_keyed_def)
  have "sql_first (\<lambda>r. cl_token_hash r = hash_token A token \<and> cl_claimed_at r = None \<and> clock w < cl_expires_at r)
      (release_claims w) = Some c"
    by (rule keyed_first_iff [OF k(1) c(1)]) (use c in auto)
  moreover have "sql_first (\<lambda>r. ev_id r = cl_release_event_id c) (release_events w) = Some e"
    by (rule keyed_first_iff [OF k(2) e(1)]) (use e in auto)
  ultimately show ?thesis
    using c(3) e(3) by (simp add: db_consume_release_claim_def run) blast
qed

lemma fetch_vault_Ok:
  assumes "consistent w" and "x \<in> set (vaults w)" and "va_id x = v" and "vaults w' = vaults w"
  shows "\<exists>vault. db_fetch_vault v w' = (Ok vault, w') \<and> tier_as_db_str (v_tier vault) = va_tier x"
proof -
  have "keyed va_id (vaults w)" using assms(1) by (simp add: consistent_def keys_ok_def fresh_keyed_def)
  from keyed_first_iff [OF this assms(2), of "\<lambda>r. va_id r = v"] assms(3)
  have f: "sql_first (\<lambda>r. va_id r = v) (vaults w) = Some x" by simp
  from assms(1,2) obtain t s g where p: "tier_from_db_str (va_tier x) = Inr t"
      "vault_state_from_db_str (va_state x) = Inr s" "region_from_aws_str (va_storage_region x) = Inr g"
    by (auto simp: consistent_def enums_ok_def vault_parses_def parses_def)
  from p(1) have "va_tier x = tier_as_db_str t" by (rule tier_enum.print_parse)
  with p f assms(4) show ?thesis
    by (simp add: db_fetch_vault_def run row_to_vault_def vault_columns_def)
qed

lemma claim_reads:
  assumes "aead_inverts A" and ok: "consistent w" and claim: "valid_claim A token l w"
    and r: "r \<in> set (letters w)" "le_id r = l" "opens A (le_nonce r) (le_ciphertext r) p w"
    and x: "x \<in> set (vaults w)" "va_id x = le_vault_id r"
  shows "\<exists>cv w'. claim_release A token w = (Ok cv, w') \<and> clv_recipient_email cv = le_recipient_email r
    \<and> clv_body cv = (if va_tier x = ''ZERO_KNOWLEDGE'' then [] else unwrap_or binary_letter (from_utf8 p))"
proof -
  obtain rcpt t where c: "db_consume_release_claim (hash_token A token) w
      = (Ok (Some (l, rcpt, False)), w\<lparr>release_claims := t\<rparr>)"
    using consume_claim_Ok [OF ok claim] by blast
  let ?w = "w\<lparr>release_claims := t\<rparr>"
  have "keyed le_id (letters w)" using ok by (simp add: consistent_def keys_ok_def fresh_keyed_def)
  from keyed_first_iff [OF this r(1), of "\<lambda>y. le_id y = l"] r(2)
  have f: "sql_first (\<lambda>y. le_id y = l) (letters w) = Some r" by simp
  obtain vault where v: "db_fetch_vault (le_vault_id r) ?w = (Ok vault, ?w)" "tier_as_db_str (v_tier vault) = va_tier x"
    using fetch_vault_Ok [OF ok x, of ?w] by auto
  from r(3) obtain k where k: "kms_file ?w = Some k" "length k = 32" "length (le_nonce r) = 12"
      "aead_encrypt A k (le_nonce r) p = Some (le_ciphertext r)"
    by (auto simp: opens_def)
  have u: "unseal A \<lparr>sd_nonce = le_nonce r, sd_ciphertext = le_ciphertext r\<rparr> ?w = (Ok p, ?w)"
    using unseal_eq [OF k(1,2) assms(1)] k(4) by simp
  show ?thesis
  proof (cases "v_tier vault")
    case HonestOperator
    with v(2) have "va_tier x \<noteq> ''ZERO_KNOWLEDGE''" by auto
    with HonestOperator c f v(1) u k(3) show ?thesis
      by (simp add: claim_release_def run api_step crypt_def db_fetch_letter_full_def
          db_fetch_letter_ciphertext_def)
  next
    case ZeroKnowledge
    with v(2) have "va_tier x = ''ZERO_KNOWLEDGE''" by simp
    with ZeroKnowledge c f v(1) show ?thesis
      by (simp add: claim_release_def run api_step db_fetch_letter_full_def db_get_zk_letter_heir_envelope_def)
  qed
qed

section \<open>The property\<close>

text \<open>
  C14: What is sealed is what is read. After a principal sealed a text into a vault, whatever requests
  the server answers, whatever its workers do and however much time passes: a recipient with a
  valid claim of that letter reads exactly the sealed text, unless the letter was erased. In a
  Private Vault, where sealing a plain text is not refused, the recipient reads nothing.
\<close>

theorem sealed_text_is_delivered:
  assumes "aead_inverts A" and "consistent w" and "seal_letter A h v body w = (Ok lv, w1)"
    and "runs A W w1 w2" and "valid_claim A token (lv_id lv) w2"
    and "r \<in> set (letters w2)" and "le_id r = lv_id lv" and "le_nonce r \<noteq> []"
    and "utf8_valid (as_bytes (slq_body body))"
    and "x \<in> set (vaults w)" and "va_id x = v"
  shows "\<exists>cv w3. claim_release A token w2 = (Ok cv, w3) \<and> clv_recipient_email cv = le_recipient_email r
    \<and> clv_body cv = (if va_tier x = ''ZERO_KNOWLEDGE'' then [] else slq_body body)"
proof -
  let ?p = "as_bytes (slq_body body)"
  have inv1: "sys_inv w w1" using keepsD' [OF kept_seal_letter assms(3) consistent_refl [OF assms(2)]] .
  then have ok1: "consistent w1" by (rule sys_inv_consistent)
  have inv2: "sys_inv w1 w2" by (rule runs_inv [OF ok1 assms(4)])
  then have ok2: "consistent w2" by (rule sys_inv_consistent)
  from seal_letter_stores [OF assms(2,3)] obtain r1 where r1: "r1 \<in> set (letters w1)" "le_id r1 = lv_id lv"
      "le_vault_id r1 = v" "opens A (le_nonce r1) (le_ciphertext r1) ?p w1"
    unfolding holds_def by blast
  have "letter_step r1 r"
    using inv2 r1(1,2) assms(6,7) by (auto simp: sys_inv_def extends_def letters_kept_def)
  then have same: "le_vault_id r = v" "le_nonce r = le_nonce r1" "le_ciphertext r = le_ciphertext r1"
    using r1(3) assms(8) by (auto simp: letter_step_def)
  have op: "opens A (le_nonce r) (le_ciphertext r) ?p w2"
    using r1(4) same inv2 by (auto simp: opens_def sys_inv_def extends_def)
  have "set (map vault_identity (vaults w)) \<subseteq> set (map vault_identity (vaults w2))"
    using inv1 inv2 by (auto simp only: sys_inv_def extends_def dest!: set_mono_prefix)
  then have "vault_identity x \<in> set (map vault_identity (vaults w2))"
    using assms(10) by auto
  then obtain y where y: "y \<in> set (vaults w2)" "va_id y = v" "va_tier y = va_tier x"
    using assms(11) by (auto simp: vault_identity_def)
  have "from_utf8 ?p = Some (slq_body body)"
    using assms(9) by (simp add: from_utf8_def as_bytes_def comp_def char_of_byte)
  then have u: "unwrap_or binary_letter (from_utf8 ?p) = slq_body body" by (simp add: unwrap_or_def)
  from y(2) same(1) have "va_id y = le_vault_id r" by simp
  from claim_reads [OF assms(1) ok2 assms(5,6,7) op y(1) this] show ?thesis
    unfolding u y(3) by blast
qed

section \<open>Witness\<close>

text \<open>An active vault, its owner's session and subscription; the owner seals, forces the release, an hour passes, the poll loop runs.\<close>

definition desk :: world where
  "desk = sample_world\<lparr>vaults := [sample_vault ''ACTIVE''], letters := [], release_events := [],
     sessions := [\<lparr>se_token_hash = as_bytes ''t'', se_principal_id = PrincipalId 0, se_co_steward_id = None,
       se_auth_role = ''PRINCIPAL'', se_expires_at = 100, se_revoked_at = None\<rparr>],
     subscriptions := [\<lparr>su_id = SubscriptionId 1, su_principal_id = PrincipalId 0, su_plan_id = ''draft_v1'',
       su_state = ''ACTIVE'', su_started_at = 0, su_trial_end_at = None, su_current_period_end = None,
       su_canceled_at = None, su_retention_until = None, su_extra_storage_bytes = 0\<rparr>]\<rparr>"

definition my_note :: seal_letter_req where
  "my_note = \<lparr>slq_title = ''T'', slq_recipient_email = ''r'', slq_body = ''hi'', slq_drill_body = None,
     slq_scheduled_release_at = None, slq_kind = None, slq_category = None, slq_release_mode = None\<rparr>"

definition sealed_desk :: world where
  "sealed_desk = snd (seal_letter sample_app (Some ''Bearer t'') (VaultId 7) my_note desk)"

definition forced_desk :: world where
  "forced_desk = snd (force_release sample_app (Some ''Bearer t'') (VaultId 7) sealed_desk)"

definition released_desk :: world where
  "released_desk = worker_pass sample_app ReleaseElapseScheduler (forced_desk\<lparr>clock := seconds 4000\<rparr>)"

lemma desk_seals: "\<exists>lv. seal_letter sample_app (Some ''Bearer t'') (VaultId 7) my_note desk = (Ok lv, sealed_desk) \<and> lv_id lv = LetterId 10"
proof -
  have "(case fst (seal_letter sample_app (Some ''Bearer t'') (VaultId 7) my_note desk) of Ok lv \<Rightarrow> lv_id lv = LetterId 10 | _ \<Rightarrow> False)"
    by code_simp
  then show ?thesis unfolding sealed_desk_def
    by (cases "seal_letter sample_app (Some ''Bearer t'') (VaultId 7) my_note desk") (auto split: outcome.splits)
qed

text \<open>The first token drawn after the key and the nonce.\<close>

definition first_token :: string where
  "first_token = map (\<lambda>p. char_of (p div 32)) [44 ..< 76]"

lemma desk_released:
  "valid_claim sample_app first_token (LetterId 10) released_desk
     \<and> list_ex (\<lambda>r. le_id r = LetterId 10 \<and> le_nonce r \<noteq> []) (letters released_desk)"
  by code_simp

lemma desk_ok: "consistent desk"
  by (simp add: desk_def consistent_def keys_ok_def refs_ok_def enums_ok_def sample_defs fresh_keyed_def
      keyed_def vault_parses_def parses_def tier_from_db_str_def vault_state_from_db_str_def
      region_from_aws_str_def subscription_state_from_db_str_def)

lemma desk_runs: "runs sample_app W sealed_desk released_desk"
proof -
  have 1: "server_step sample_app W sealed_desk forced_desk"
    using server_step.request [of sample_app W sealed_desk "Some ''Bearer t''" "VaultRequest (PostForceRelease (VaultId 7))"]
    by (simp add: forced_desk_def)
  have "clock forced_desk \<le> seconds 4000" by code_simp
  then have 2: "server_step sample_app W forced_desk (forced_desk\<lparr>clock := seconds 4000\<rparr>)" by (rule server_step.time)
  have 3: "server_step sample_app W (forced_desk\<lparr>clock := seconds 4000\<rparr>) released_desk"
    unfolding released_desk_def by (rule server_step.worker) simp
  show ?thesis
    unfolding runs_def by (rule rtranclp.rtrancl_into_rtrancl [OF rtranclp.rtrancl_into_rtrancl [OF r_into_rtranclp [of "server_step sample_app W", OF 1] 2] 3])
qed

theorem sealed_text_is_delivered_witness:
  "\<exists>cv w3. claim_release sample_app first_token released_desk = (Ok cv, w3) \<and> clv_body cv = ''hi''"
proof -
  obtain lv where lv: "seal_letter sample_app (Some ''Bearer t'') (VaultId 7) my_note desk = (Ok lv, sealed_desk)"
      "lv_id lv = LetterId 10"
    using desk_seals by blast
  from desk_released obtain r where r: "r \<in> set (letters released_desk)" "le_id r = lv_id lv" "le_nonce r \<noteq> []"
    using lv(2) by (auto simp: list_ex_iff)
  have a: "aead_inverts sample_app" by (simp add: aead_inverts_def sample_app_def)
  have u: "utf8_valid (as_bytes (slq_body my_note))" by code_simp
  have x: "sample_vault ''ACTIVE'' \<in> set (vaults desk)" "va_id (sample_vault ''ACTIVE'') = VaultId 7"
    by (simp_all add: desk_def sample_vault_def)
  have c: "valid_claim sample_app first_token (lv_id lv) released_desk" using desk_released lv(2) by simp
  from sealed_text_is_delivered [OF a desk_ok lv(1) desk_runs c r u x]
  show ?thesis by (auto simp: my_note_def sample_vault_def)
qed

end
