(* ===== verification/Spec2Isabelle.thy ===== *)
theory Spec2Isabelle
  imports GatewayProps ErasureProps DuressProps Retention AggregatorProps LetterProps BlobContract DbKeys Migrations ServiceProps
    RateLimitProps RouteAccount App AccountProps LivenessProps WebProps CliProps LeaderProps KmsProps BootProps NotifyProps Sinks SignalProps TransformProps SystemProps TenantProps DeliveryProps RouteVault RouteUpload RouteZk RouteRelease RouteSignals RoutePeople Passkey Notify
begin

text \<open>
  A verification development of the Paschal Beacon: a server on which principals keep vaults of
  letters that are delivered to their recipients when the principal stops giving signs of life,
  with its workers, its key and blob stores, and its command-line client. The code is the Rust
  workspace under src/crates; its SQL migrations are under src/migrations.

  \<^bold>\<open>How the program is modelled.\<close> A Rust function that returns a \<open>Result\<close> and acts on the outside is
  a program \<open>'s \<Rightarrow> ('e, 'a) outcome \<times> 's\<close> (theory Prelude): \<open>Ok\<close>, \<open>Err\<close> with the error value, or
  \<open>Panic\<close>. There is no transaction around a handler in the code, so what was done before an early
  return stays. The state of the server is the record \<open>world\<close> (World): one list of rows per table
  of the schema, in insertion order, the clock, the random bytes, the blobs, the key file, the
  timers started by requests, the messages handed to the notification sink and the counters. An
  SQL statement is a function on these lists with its WHERE clause written out; the constraints of
  the schema that the code can run into (unique keys, foreign keys, cascades, the CHECK on
  plans) are errors of the statement. Enum columns are text and are parsed when a row is read, as in
  the code. Integers keep their width where it matters: \<open>u64\<close> counters and storage sums are
  \<open>64 word\<close> and wrap, \<open>i64\<close> differences wrap in a release build and panic in a debug build, and
  \<open>f32\<close> is computed with one rounding per operation (F32), so scores and token buckets have the
  values the program computes. Times are microseconds. Texts are lists of UTF-8 bytes.

  \<^bold>\<open>Parameters.\<close> Third-party code is a parameter: the record \<open>app\<close> holds the hash, the AEAD, base64, the
  image codecs and the date formats beside the configuration; \<open>webauthn\<close> holds the ceremonies
  of webauthn-rs; \<open>cli_lib\<close> the JSON library and the network of the client; \<open>boot_lib\<close> the
  database connection, the SQL of a migration, URL parsing and mail hosts; \<open>aws_answers\<close> what AWS
  answers; \<open>transports\<close> the mail transports. What a property assumes of a parameter is a hypothesis
  of it: decryption inverts encryption, the JSON reader reads back the document that was written,
  the multipart encoding preserves the parts of a form.

  \<^bold>\<open>The theories, by component.\<close>

  \<^item> beacon-core: Core (identifiers, enums and their column texts, entities, plans, the table of
    state transitions), Scoring with F32 (the trigger score and the decision of the aggregator).
  \<^item> beacon-db: Schema and World (tables), DbAuth, DbVault, DbRelease, DbPeople, DbSignals, DbKeys
    (one definition \<open>db_f\<close> per function \<open>f\<close>), Migrations (the runner and the boot check).
  \<^item> crypto-stub: Crypto (sealing, passphrase bundles, the key file seen by one caller), Kms (the file
    service and the AWS service seen by several callers at once, as step relations).
  \<^item> blob-store: Blob (local directory, S3 bucket, region router), BlobContract (the contract of the
    trait as the locale \<open>object_store\<close>, interpreted for the store of the process).
  \<^item> paschal-transform: Transform (the normalisation of texts, images, media, the pipeline).
  \<^item> beacon-api: ApiErrors (problems, bearer tokens, the two session guards), RouteBase, RouteAccount,
    RouteVault, RouteLetter, RouteZk, RouteUpload, RouteRelease, RouteSignals, RoutePeople (routes.rs),
    Passkey (passkey.rs), Pipeline, Aggregator, Retention (scheduler.rs), Leader (the election of
    scheduler.rs), RateLimit (rate_limit.rs), Notify and Sinks (notifications.rs), Web (metrics.rs,
    spa.rs, security_headers.rs), Config and Boot (state.rs, main.rs, the connection loop of
    beacon-db), App (the routes of app.rs with the handler of each, and the passes of the workers), Gateway (the
    whole of app.rs: the route table, the pages, the layers of middleware in their order).
  \<^item> paschal-cli: Cli (main.rs: the session file, every command, its request and its output).

  A handler \<open>h\<close> of the code is the definition of the same name; it takes the configuration, the
  bearer header and its decoded request. \<open>serve\<close> in App maps a request of the route table to its handler,
  \<open>worker_pass\<close> is one pass of a worker, and \<open>runs\<close> is any interleaving of requests,
  passes, due timers and the clock moving forward, in which each handler and pass is one step.
  \<open>http_serve\<close> in Gateway puts the layers around \<open>serve\<close>, and \<open>http_runs\<close> is the same for the
  service with its limiter; GatewayProps shows that it refines \<open>runs\<close>, so that what holds of every
  run of the server holds of the service. Interleavings inside a step are modelled where the code relies on a conditional UPDATE (the claims
  of a release, of tokens and of changes: OneShot states their contract as the locales \<open>one_shot\<close> and
  \<open>stamping\<close>, interpreted for the five statements), for the key services and for the election.

  \<^bold>\<open>What the groups of lemmas show.\<close>

  \<^item> OneShot, PipelineFacts, ReleaseProps, LetterProps, LivenessProps: releases. A vault is claimed by
    one worker; a release delivers to exactly the recipients it should; deadlines and holds are
    respected; a failed delivery is stuck; the timer of an old request releases too early; time capsules
    are lost; a due release is taken by the next pass of the poll loop.
  \<^item> SystemFacts, SystemDb, SystemRoutes, SystemProps: an invariant of the database and a relation to an
    earlier database that every statement, hence every handler and every pass, preserves. From them
    follow the consistency of the database, its history, and that every stored row can be read.
  \<^item> TenantProps, AccountProps, SignalProps, DeliveryProps: who may do what. A request only touches the
    vaults of its principal; a session stands for its principal until it ends; a signed ping is accepted
    exactly when it is genuine and fresh; a sealed text reaches the reader of its claim.
  \<^item> DuressProps, ErasureProps: the covert signal freezes the switch or starts the release of the
    vaults, whichever its principal chose; the deletion of an account erases the contents of its letters
    and nothing of others.
  \<^item> NoPanic: which programs can panic, one rule per combinator and one lemma per statement and handler.
  \<^item> AggregatorProps, Scoring: the score and what the aggregator decides.
  \<^item> ServiceProps, TransformProps, RateLimitProps, NotifyProps, WebProps, KmsProps: the services.
  \<^item> GatewayProps: the service refines the server and its limiter; a burst is cut off as if requests were
    counted; every request is answered, with the headers of its path; the routes are those handled.
  \<^item> LeaderProps, BootProps, CliProps: the election, the start of the process and the client.

  \<^bold>\<open>Termination and bounds.\<close> Every definition is total. The connection loop ends because each round adds
  two seconds to the time that has passed (BootProps bounds its rounds). Loops over rows and files are
  recursions on lists. \<open>strip_any\<close> removes at least one byte per round, of which there are as many as
  its bound. \<open>isqrt\<close> finds the bits of a square root below \<open>4 ^ 25\<close>, which is above every scaled \<open>f32\<close>
  mantissa. The rate limiter's properties take budgets below \<open>2 ^ 24\<close>, up to which counts are exact in
  \<open>f32\<close>. The endless loops of the workers are modelled by their passes.

  \<^bold>\<open>Not modelled.\<close> The web applications under src/apps (TypeScript and Svelte). Logging and tracing, the
  signal handlers, and the layer that cuts a request off after sixty seconds; what the other layers of
  tower, the router and the extractors of axum do is the parameter \<open>framework\<close>. The decoding of JSON request bodies by serde, except for the sign-up of the client:
  a handler takes its decoded request, and answers carry the fields of the response types but not
  their JSON. The parsing of command-line arguments by clap. The connection pool, the transactions of
  Postgres beyond single statements, and lock waits. The sleeps of the workers and of the election.
\<close>

end
